(* ===== verification/Prelude.thy ===== *)
theory Prelude
  imports Main "HOL-Library.Multiset" "HOL-Library.Sublist" "HOL-Library.State_Monad"
begin

text \<open>
  Shared vocabulary of the development: the lemma collections the component theories fill, the
  64-bit wrap-around of Go's \<open>int\<close>, Go's \<open>range\<close> over a map (an iteration in an order the
  language leaves open), bounded logs, and the reasoning rules for code that threads a state
  through calls (the state monad of the library, with relations between the state before and
  after a computation).
\<close>

named_theorems go_defs \<open>definitions of the modelled Go library functions\<close>
named_theorems sess_defs \<open>definitions of the session operations\<close>
named_theorems mgr_defs \<open>definitions of the manager operations\<close>
named_theorems hnd_defs \<open>definitions of the request handlers\<close>

section \<open>Machine integers\<close>

text \<open>Go's \<open>int\<close> on the supported platforms: 64 bits, two's complement, silent wrap-around.\<close>

type_synonym go_int = int

definition wrap64 :: "int \<Rightarrow> go_int" where
  "wrap64 x = (x + 2 ^ 63) mod 2 ^ 64 - 2 ^ 63"

definition in_int64 :: "int \<Rightarrow> bool" where
  "in_int64 x \<longleftrightarrow> - (2 ^ 63) \<le> x \<and> x < 2 ^ 63"

section \<open>Go's iteration over a map\<close>

text \<open>
  A Go map is an association list here, and \<open>for k, v := range m\<close> visits its entries in an
  order the language does not fix. The order is an argument: \<open>ord n\<close> is the order in which
  the \<open>n\<close> entries are visited. An argument that is no order of \<open>0..<n\<close> counts as the
  identity, so every value of the argument is a legal iteration.
\<close>

type_synonym range_order = "nat \<Rightarrow> nat list"

definition go_range :: "range_order \<Rightarrow> 'a list \<Rightarrow> 'a list" where
  "go_range ord xs =
     (let is = ord (length xs)
      in if mset is = mset [0..<length xs] then map ((!) xs) is else xs)"

definition map_put :: "'k \<Rightarrow> 'v \<Rightarrow> ('k \<times> 'v) list \<Rightarrow> ('k \<times> 'v) list" where
  "map_put k v m =
     (if k \<in> fst ` set m then map (\<lambda>(k', v'). if k' = k then (k', v) else (k', v')) m
      else m @ [(k, v)])"

definition map_del :: "'k \<Rightarrow> ('k \<times> 'v) list \<Rightarrow> ('k \<times> 'v) list" where
  "map_del k m = filter (\<lambda>(k', v). k' \<noteq> k) m"

definition map_upd :: "'k \<Rightarrow> ('v \<Rightarrow> 'v) \<Rightarrow> ('k \<times> 'v) list \<Rightarrow> ('k \<times> 'v) list" where
  "map_upd k f m = map (\<lambda>(k', v). if k' = k then (k', f v) else (k', v)) m"

section \<open>Slices\<close>

text \<open>The last \<open>n\<close> elements: \<open>xs[len(xs)-n:]\<close> where the list is long enough.\<close>

definition last_n :: "nat \<Rightarrow> 'a list \<Rightarrow> 'a list" where
  "last_n n xs = drop (length xs - n) xs"

text \<open>Remove the first element that satisfies the predicate: \<open>append(xs[:i], xs[i+1:]...)\<close>.\<close>

fun remove_first :: "('a \<Rightarrow> bool) \<Rightarrow> 'a list \<Rightarrow> 'a list" where
  "remove_first p [] = []"
| "remove_first p (x # xs) = (if p x then xs else x # remove_first p xs)"

text \<open>Change the first element that satisfies the predicate.\<close>

fun update_first :: "('a \<Rightarrow> bool) \<Rightarrow> ('a \<Rightarrow> 'a) \<Rightarrow> 'a list \<Rightarrow> 'a list" where
  "update_first p f [] = []"
| "update_first p f (x # xs) = (if p x then f x # xs else x # update_first p f xs)"

section \<open>Lemmas on integers, maps and slices\<close>

lemma wrap64_id [simp]: "in_int64 x \<Longrightarrow> wrap64 x = x"
  by (simp add: wrap64_def in_int64_def)

lemma wrap64_in_range [simp]: "in_int64 (wrap64 x)"
  by (simp add: wrap64_def in_int64_def)

lemma mset_go_range [simp]: "mset (go_range ord xs) = mset xs"
proof (cases "mset (ord (length xs)) = mset [0..<length xs]")
  case True
  then have "mset (map ((!) xs) (ord (length xs))) = image_mset ((!) xs) (mset [0..<length xs])"
    by simp
  also have "\<dots> = mset (map ((!) xs) [0..<length xs])" by simp
  also have "\<dots> = mset xs" by (simp add: map_nth)
  finally show ?thesis using True by (simp add: go_range_def)
next
  case False
  then show ?thesis by (simp add: go_range_def Let_def)
qed

lemma set_go_range [simp]: "set (go_range ord xs) = set xs"
  by (metis mset_go_range set_mset_mset)

lemma length_go_range [simp]: "length (go_range ord xs) = length xs"
  by (metis mset_go_range size_mset)

lemma distinct_go_range [simp]: "distinct (go_range ord xs) = distinct xs"
  by (metis mset_go_range mset_eq_imp_distinct_iff)

lemma go_range_Nil [simp]: "go_range ord [] = []"
  using set_go_range [of ord "[]"] by (metis set_empty)

lemma map_of_put [simp]: "map_of (map_put k v m) = (map_of m)(k \<mapsto> v)"
proof -
  have upd: "map_of (map (\<lambda>(k', v'). if k' = k then (k', v) else (k', v')) m) k' =
      (if k' = k then (if k \<in> fst ` set m then Some v else None) else map_of m k')" for k'
    by (induction m) (auto simp: image_iff rev_bexI)
  have new: "k \<notin> fst ` set m \<Longrightarrow> map_of (m @ [(k, v)]) = (map_of m)(k \<mapsto> v)"
    by (induction m) (auto simp: fun_eq_iff)
  show ?thesis
    by (cases "k \<in> fst ` set m") (auto simp: map_put_def upd new fun_eq_iff simp del: map_of_append)
qed

lemma map_of_del [simp]: "map_of (map_del k m) = (map_of m)(k := None)"
  by (induction m) (auto simp: map_del_def)

lemma map_of_upd: "map_of (map_upd k f m) = (map_of m)(k := map_option f (map_of m k))"
  by (induction m) (auto simp: map_upd_def)

lemma keys_put [simp]: "fst ` set (map_put k v m) = insert k (fst ` set m)"
  by (force simp: map_put_def split: if_splits)

lemma keys_del [simp]: "fst ` set (map_del k m) = fst ` set m - {k}"
  by (force simp: map_del_def)

lemma keys_upd [simp]: "map fst (map_upd k f m) = map fst m"
  by (simp add: map_upd_def case_prod_beta comp_def if_distrib cong: if_cong)

lemma distinct_keys_put [simp]: "distinct (map fst m) \<Longrightarrow> distinct (map fst (map_put k v m))"
proof -
  assume d: "distinct (map fst m)"
  have "map fst (map (\<lambda>(k', v'). if k' = k then (k', v) else (k', v')) m) = map fst m"
    by (simp add: case_prod_beta comp_def if_distrib cong: if_cong)
  with d show ?thesis by (auto simp: map_put_def image_iff simp del: map_map)
qed

lemma distinct_keys_del [simp]: "distinct (map fst m) \<Longrightarrow> distinct (map fst (map_del k m))"
  by (auto simp: map_del_def distinct_map intro: inj_on_subset)

lemma length_put: "length (map_put k v m) = (if k \<in> fst ` set m then length m else Suc (length m))"
  by (simp add: map_put_def)

lemma length_del_le: "length (map_del k m) \<le> length m"
  by (simp add: map_del_def)

lemma length_last_n [simp]: "length (last_n n xs) = min n (length xs)"
  by (simp add: last_n_def)

lemma last_n_all [simp]: "length xs \<le> n \<Longrightarrow> last_n n xs = xs"
  by (simp add: last_n_def)

lemma last_n_append_last_n [simp]: "last_n n (last_n n xs @ ys) = last_n n (xs @ ys)"
  by (cases "n \<le> length xs") (auto simp: last_n_def add.commute)

lemma suffix_last_n [simp]: "suffix (last_n n xs) xs"
  by (simp add: last_n_def suffix_drop)

lemma set_remove_first_subset: "set (remove_first p xs) \<subseteq> set xs"
  by (induction xs) auto

lemma remove_first_unique:
  "distinct (map f xs) \<Longrightarrow> remove_first (\<lambda>x. f x = k) xs = filter (\<lambda>x. f x \<noteq> k) xs"
proof (induction xs)
  case (Cons x xs)
  then have "f x = k \<Longrightarrow> filter (\<lambda>y. f y \<noteq> k) xs = xs"
    by (intro filter_True) (auto simp: image_iff)
  with Cons show ?case by auto
qed simp

lemma map_update_first: "(\<And>x. f (g x) = f x) \<Longrightarrow> map f (update_first p g xs) = map f xs"
  by (induction xs) auto

section \<open>Relations between the states before and after a computation\<close>

text \<open>
  \<open>state_io_rel R m\<close> of the library says that \<open>R\<close> relates the state before \<open>m\<close> and the state
  after it. For a reflexive and transitive \<open>R\<close> it is compositional; the two uses here are
  "an invariant is kept" and "only requests of these kinds were sent".
\<close>

locale io_relation =
  fixes R :: "'s \<Rightarrow> 's \<Rightarrow> bool"
  assumes R_refl: "R s s"
    and R_trans: "R s t \<Longrightarrow> R t u \<Longrightarrow> R s u"
begin

lemma io_return [intro]: "state_io_rel R (State_Monad.return a)"
  by (simp add: state_io_rel_def R_refl)

lemma io_get [intro]: "state_io_rel R State_Monad.get"
  by (simp add: state_io_rel_def R_refl)

lemma io_bind [intro]:
  assumes "state_io_rel R m" and "\<And>a. state_io_rel R (f a)"
  shows "state_io_rel R (State_Monad.bind m f)"
  using assms unfolding state_io_rel_def
  by (auto simp: split_beta intro: R_trans)

lemma io_if: "(b \<Longrightarrow> state_io_rel R m) \<Longrightarrow> (\<not> b \<Longrightarrow> state_io_rel R n) \<Longrightarrow>
    state_io_rel R (if b then m else n)"
  by simp

lemma io_option: "(x = None \<Longrightarrow> state_io_rel R m) \<Longrightarrow> (\<And>y. x = Some y \<Longrightarrow> state_io_rel R (f y)) \<Longrightarrow>
    state_io_rel R (case x of None \<Rightarrow> m | Some y \<Rightarrow> f y)"
  by (cases x) auto

lemma io_sum: "(\<And>y. x = Inl y \<Longrightarrow> state_io_rel R (g y)) \<Longrightarrow> (\<And>y. x = Inr y \<Longrightarrow> state_io_rel R (f y)) \<Longrightarrow>
    state_io_rel R (case x of Inl y \<Rightarrow> g y | Inr y \<Rightarrow> f y)"
  by (cases x) auto

lemma io_prod: "(\<And>a b. x = (a, b) \<Longrightarrow> state_io_rel R (f a b)) \<Longrightarrow>
    state_io_rel R (case x of (a, b) \<Rightarrow> f a b)"
  by (cases x) auto

lemma io_list: "(x = [] \<Longrightarrow> state_io_rel R m) \<Longrightarrow> (\<And>y ys. x = y # ys \<Longrightarrow> state_io_rel R (f y ys)) \<Longrightarrow>
    state_io_rel R (case x of [] \<Rightarrow> m | y # ys \<Rightarrow> f y ys)"
  by (cases x) auto

lemma io_traverse: "(\<And>x. state_io_rel R (f x)) \<Longrightarrow> state_io_rel R (State_Monad.traverse_list f xs)"
  by (induction xs) (auto intro!: io_return io_bind)

lemmas io_rules = io_return io_get io_bind io_if io_option io_sum io_prod io_list io_traverse

end

end
