(* ===== verification/Json.thy ===== *)
theory Json
  imports Go_Strings
begin

text \<open>
  JSON values and the decoding of \<open>encoding/json\<close> into Go structs, as far as the program uses it:
  a struct is decoded by a table of its fields (JSON name, how to store the value). An object
  member is matched to a field by its exact name, else ignoring case; \<open>null\<close> leaves the field as
  it is; members without a field are skipped; a value of the wrong type is skipped, decoding goes
  on, and the first such error is reported at the end. Callers that drop the error
  (\<open>_ = unmarshalArgs(...)\<close>) therefore see the fields that did decode.
\<close>

section \<open>Values\<close>

text \<open>Numbers are exact decimals: an integer literal, or \<open>JDec m e\<close> for \<open>m / 10^e\<close>.\<close>

datatype json =
    JNull
  | JBool bool
  | JInt int
  | JDec int nat
  | JStr string
  | JArr "json list"
  | JObj "(string \<times> json) list"

text \<open>A \<open>json.RawMessage\<close>: absent, not JSON (with the decoder's message), or a value.\<close>

datatype raw = RawEmpty | RawBad string | RawJson json

text \<open>A \<open>float64\<close> field that holds a number of seconds.\<close>

datatype decimal = Dec int nat

definition dec_zero :: decimal where
  "dec_zero = Dec 0 0"

fun dec_pos :: "decimal \<Rightarrow> bool" where
  "dec_pos (Dec m e) \<longleftrightarrow> 0 < m"

text \<open>\<open>time.Duration(sec * float64(time.Second))\<close>, in nanoseconds; used for positive values only.\<close>

fun dec_nanos :: "decimal \<Rightarrow> int" where
  "dec_nanos (Dec m e) = m * 10 ^ 9 div 10 ^ e"

section \<open>Decoding a struct\<close>

type_synonym 'r field_dec = "json \<Rightarrow> 'r \<Rightarrow> 'r \<times> string option"
type_synonym 'r fields = "(string \<times> 'r field_dec) list"

definition find_field :: "string \<Rightarrow> 'r fields \<Rightarrow> 'r field_dec option" where
  "find_field k fs =
     (case map_of fs k of Some d \<Rightarrow> Some d
      | None \<Rightarrow> map_option snd (find (\<lambda>(n, _). equal_fold n k) fs))"

definition first_error :: "string option \<Rightarrow> string option \<Rightarrow> string option" where
  "first_error e e' = (case e of None \<Rightarrow> e' | Some _ \<Rightarrow> e)"

fun decode_members :: "'r fields \<Rightarrow> (string \<times> json) list \<Rightarrow> 'r \<times> string option \<Rightarrow> 'r \<times> string option" where
  "decode_members fs [] acc = acc"
| "decode_members fs ((k, v) # kvs) (r, e) =
     (case find_field k fs of
        None \<Rightarrow> decode_members fs kvs (r, e)
      | Some d \<Rightarrow> (let (r', e') = d v r in decode_members fs kvs (r', first_error e e')))"

definition type_error :: "string \<Rightarrow> string option" where
  "type_error what = Some (''json: cannot unmarshal into Go value of type '' @ what)"

definition unmarshal_struct :: "'r fields \<Rightarrow> 'r \<Rightarrow> json \<Rightarrow> 'r \<times> string option" where
  "unmarshal_struct fs r j =
     (case j of JObj kvs \<Rightarrow> decode_members fs kvs (r, None) | JNull \<Rightarrow> (r, None) | _ \<Rightarrow> (r, type_error ''struct''))"

section \<open>Decoders of the field types\<close>

definition dec_str :: "(string \<Rightarrow> 'r \<Rightarrow> 'r) \<Rightarrow> 'r field_dec" where
  "dec_str upd j r = (case j of JStr s \<Rightarrow> (upd s r, None) | JNull \<Rightarrow> (r, None) | _ \<Rightarrow> (r, type_error ''string''))"

definition dec_bool :: "(bool \<Rightarrow> 'r \<Rightarrow> 'r) \<Rightarrow> 'r field_dec" where
  "dec_bool upd j r = (case j of JBool b \<Rightarrow> (upd b r, None) | JNull \<Rightarrow> (r, None) | _ \<Rightarrow> (r, type_error ''bool''))"

definition dec_int :: "(int \<Rightarrow> 'r \<Rightarrow> 'r) \<Rightarrow> 'r field_dec" where
  "dec_int upd j r =
     (case j of JInt i \<Rightarrow> (if in_int64 i then (upd i r, None) else (r, type_error ''int''))
      | JNull \<Rightarrow> (r, None) | _ \<Rightarrow> (r, type_error ''int''))"

definition dec_float :: "(decimal \<Rightarrow> 'r \<Rightarrow> 'r) \<Rightarrow> 'r field_dec" where
  "dec_float upd j r =
     (case j of JInt i \<Rightarrow> (upd (Dec i 0) r, None) | JDec m e \<Rightarrow> (upd (Dec m e) r, None)
      | JNull \<Rightarrow> (r, None) | _ \<Rightarrow> (r, type_error ''float64''))"

definition elem_str :: "json \<Rightarrow> string \<times> string option" where
  "elem_str j = dec_str (\<lambda>s _. s) j []"

definition elem_int :: "json \<Rightarrow> int \<times> string option" where
  "elem_int j = dec_int (\<lambda>i _. i) j 0"

definition dec_list :: "(json \<Rightarrow> 'a \<times> string option) \<Rightarrow> ('a list \<Rightarrow> 'r \<Rightarrow> 'r) \<Rightarrow> 'r field_dec" where
  "dec_list el upd j r =
     (case j of
        JArr js \<Rightarrow> (upd (map (fst \<circ> el) js) r, foldl first_error None (map (snd \<circ> el) js))
      | JNull \<Rightarrow> (upd [] r, None)
      | _ \<Rightarrow> (r, type_error ''slice''))"

abbreviation dec_strs :: "(string list \<Rightarrow> 'r \<Rightarrow> 'r) \<Rightarrow> 'r field_dec" where
  "dec_strs \<equiv> dec_list elem_str"

abbreviation dec_ints :: "(int list \<Rightarrow> 'r \<Rightarrow> 'r) \<Rightarrow> 'r field_dec" where
  "dec_ints \<equiv> dec_list elem_int"

text \<open>\<open>unmarshalArgs\<close> of the daemon: nothing to decode leaves the zero value.\<close>

definition unmarshalArgs :: "'r fields \<Rightarrow> 'r \<Rightarrow> raw \<Rightarrow> 'r \<times> string option" where
  "unmarshalArgs fs zero r =
     (case r of RawEmpty \<Rightarrow> (zero, None) | RawBad e \<Rightarrow> (zero, Some e) | RawJson j \<Rightarrow> unmarshal_struct fs zero j)"

section \<open>Lemmas\<close>

lemma unmarshal_null [simp]: "unmarshal_struct fs r JNull = (r, None)"
  by (simp add: unmarshal_struct_def)

lemma unmarshal_empty_object [simp]: "unmarshal_struct fs r (JObj []) = (r, None)"
  by (simp add: unmarshal_struct_def)

lemma find_field_exact: "map_of fs k = Some d \<Longrightarrow> find_field k fs = Some d"
  by (simp add: find_field_def)

lemma decode_unknown_members:
  "\<forall>k \<in> fst ` set kvs. find_field k fs = None \<Longrightarrow> decode_members fs kvs (r, e) = (r, e)"
  by (induction kvs) auto

text \<open>An error once seen is the one reported, whatever follows.\<close>

lemma decode_members_keeps_error: "snd (decode_members fs kvs (r, Some e)) = Some e"
proof (induction kvs arbitrary: r)
  case (Cons kv kvs)
  then show ?case by (cases kv) (auto simp: first_error_def split: option.splits prod.splits)
qed simp

end
