(* ===== verification/Proto.thy ===== *)
theory Proto
  imports Json
begin

text \<open>
  The wire types of \<open>internal/proto\<close>: the request and its argument structs, each with its zero
  value and the table that decodes it from JSON, and the result structs the handlers return. A
  response is the handler's result before it is encoded: data, an error, or the crash of the
  daemon (a Go run-time panic in a handler, which nothing recovers).
\<close>

section \<open>Requests and their arguments\<close>

record request =
  rq_ID :: go_int
  rq_Cmd :: string
  rq_Sess :: string
  rq_Args :: raw

record print_args =
  pa_Expression :: string
  pa_Ref :: go_int
  pa_Frame :: go_int
  pa_Depth :: go_int
  pa_MaxItems :: go_int
  pa_TimeoutSec :: decimal
  pa_ShowSpecial :: bool

definition print_args_zero :: print_args where
  "print_args_zero = \<lparr>pa_Expression = [], pa_Ref = 0, pa_Frame = 0, pa_Depth = 0, pa_MaxItems = 0, pa_TimeoutSec = dec_zero, pa_ShowSpecial = False\<rparr>"

definition print_args_fields :: "print_args fields" where
  "print_args_fields =
     [(''expression'', dec_str (\<lambda>v r. r\<lparr>pa_Expression := v\<rparr>)),
      (''ref'', dec_int (\<lambda>v r. r\<lparr>pa_Ref := v\<rparr>)),
      (''frame'', dec_int (\<lambda>v r. r\<lparr>pa_Frame := v\<rparr>)),
      (''depth'', dec_int (\<lambda>v r. r\<lparr>pa_Depth := v\<rparr>)),
      (''maxItems'', dec_int (\<lambda>v r. r\<lparr>pa_MaxItems := v\<rparr>)),
      (''timeoutSec'', dec_float (\<lambda>v r. r\<lparr>pa_TimeoutSec := v\<rparr>)),
      (''showSpecial'', dec_bool (\<lambda>v r. r\<lparr>pa_ShowSpecial := v\<rparr>))]"

record watch_args =
  wa_Action :: string
  wa_Expression :: string
  wa_ID :: go_int
  wa_Frame :: go_int
  wa_All :: bool

definition watch_args_zero :: watch_args where
  "watch_args_zero = \<lparr>wa_Action = [], wa_Expression = [], wa_ID = 0, wa_Frame = 0, wa_All = False\<rparr>"

definition watch_args_fields :: "watch_args fields" where
  "watch_args_fields =
     [(''action'', dec_str (\<lambda>v r. r\<lparr>wa_Action := v\<rparr>)),
      (''expression'', dec_str (\<lambda>v r. r\<lparr>wa_Expression := v\<rparr>)),
      (''id'', dec_int (\<lambda>v r. r\<lparr>wa_ID := v\<rparr>)),
      (''frame'', dec_int (\<lambda>v r. r\<lparr>wa_Frame := v\<rparr>)),
      (''all'', dec_bool (\<lambda>v r. r\<lparr>wa_All := v\<rparr>))]"

record break_fn_args =
  bfa_Function :: string
  bfa_Condition :: string
  bfa_Hit :: go_int

definition break_fn_args_zero :: break_fn_args where
  "break_fn_args_zero = \<lparr>bfa_Function = [], bfa_Condition = [], bfa_Hit = 0\<rparr>"

definition break_fn_args_fields :: "break_fn_args fields" where
  "break_fn_args_fields =
     [(''function'', dec_str (\<lambda>v r. r\<lparr>bfa_Function := v\<rparr>)),
      (''condition'', dec_str (\<lambda>v r. r\<lparr>bfa_Condition := v\<rparr>)),
      (''hit'', dec_int (\<lambda>v r. r\<lparr>bfa_Hit := v\<rparr>))]"

record break_ex_args =
  bxa_Filters :: "string list"

definition break_ex_args_zero :: break_ex_args where
  "break_ex_args_zero = \<lparr>bxa_Filters = []\<rparr>"

definition break_ex_args_fields :: "break_ex_args fields" where
  "break_ex_args_fields =
     [(''filters'', dec_strs (\<lambda>v r. r\<lparr>bxa_Filters := v\<rparr>))]"

record fields_args =
  fa_Ref :: go_int
  fa_ShowSpecial :: bool

definition fields_args_zero :: fields_args where
  "fields_args_zero = \<lparr>fa_Ref = 0, fa_ShowSpecial = False\<rparr>"

definition fields_args_fields :: "fields_args fields" where
  "fields_args_fields =
     [(''ref'', dec_int (\<lambda>v r. r\<lparr>fa_Ref := v\<rparr>)),
      (''showSpecial'', dec_bool (\<lambda>v r. r\<lparr>fa_ShowSpecial := v\<rparr>))]"

record globals_args =
  ga_Frame :: go_int

definition globals_args_zero :: globals_args where
  "globals_args_zero = \<lparr>ga_Frame = 0\<rparr>"

definition globals_args_fields :: "globals_args fields" where
  "globals_args_fields =
     [(''frame'', dec_int (\<lambda>v r. r\<lparr>ga_Frame := v\<rparr>))]"

record source_args =
  sra_File :: string
  sra_Line :: go_int
  sra_Around :: go_int
  sra_Ref :: go_int

definition source_args_zero :: source_args where
  "source_args_zero = \<lparr>sra_File = [], sra_Line = 0, sra_Around = 0, sra_Ref = 0\<rparr>"

definition source_args_fields :: "source_args fields" where
  "source_args_fields =
     [(''file'', dec_str (\<lambda>v r. r\<lparr>sra_File := v\<rparr>)),
      (''line'', dec_int (\<lambda>v r. r\<lparr>sra_Line := v\<rparr>)),
      (''around'', dec_int (\<lambda>v r. r\<lparr>sra_Around := v\<rparr>)),
      (''sourceRef'', dec_int (\<lambda>v r. r\<lparr>sra_Ref := v\<rparr>))]"

record output_args =
  oa_Since :: string
  oa_Tail :: go_int

definition output_args_zero :: output_args where
  "output_args_zero = \<lparr>oa_Since = [], oa_Tail = 0\<rparr>"

definition output_args_fields :: "output_args fields" where
  "output_args_fields =
     [(''since'', dec_str (\<lambda>v r. r\<lparr>oa_Since := v\<rparr>)),
      (''tail'', dec_int (\<lambda>v r. r\<lparr>oa_Tail := v\<rparr>))]"

record events_args =
  ea_Since :: string
  ea_Tail :: go_int

definition events_args_zero :: events_args where
  "events_args_zero = \<lparr>ea_Since = [], ea_Tail = 0\<rparr>"

definition events_args_fields :: "events_args fields" where
  "events_args_fields =
     [(''since'', dec_str (\<lambda>v r. r\<lparr>ea_Since := v\<rparr>)),
      (''tail'', dec_int (\<lambda>v r. r\<lparr>ea_Tail := v\<rparr>))]"

record listen_args =
  la_TimeoutSec :: decimal

definition listen_args_zero :: listen_args where
  "listen_args_zero = \<lparr>la_TimeoutSec = dec_zero\<rparr>"

definition listen_args_fields :: "listen_args fields" where
  "listen_args_fields =
     [(''timeoutSec'', dec_float (\<lambda>v r. r\<lparr>la_TimeoutSec := v\<rparr>))]"

record until_args =
  ua_Line :: go_int
  ua_Thread :: go_int
  ua_TimeoutSec :: decimal

definition until_args_zero :: until_args where
  "until_args_zero = \<lparr>ua_Line = 0, ua_Thread = 0, ua_TimeoutSec = dec_zero\<rparr>"

definition until_args_fields :: "until_args fields" where
  "until_args_fields =
     [(''line'', dec_int (\<lambda>v r. r\<lparr>ua_Line := v\<rparr>)),
      (''thread'', dec_int (\<lambda>v r. r\<lparr>ua_Thread := v\<rparr>)),
      (''timeoutSec'', dec_float (\<lambda>v r. r\<lparr>ua_TimeoutSec := v\<rparr>))]"

record start_args =
  sa_Lang :: string
  sa_Name :: string
  sa_Program :: string
  sa_Args :: "string list"
  sa_Cwd :: string
  sa_Env :: "string list"
  sa_StopOnEntry :: bool
  sa_ReadOnly :: bool
  sa_MainClass :: string
  sa_Classpath :: string
  sa_SourceRoots :: "string list"

definition start_args_zero :: start_args where
  "start_args_zero = \<lparr>sa_Lang = [], sa_Name = [], sa_Program = [], sa_Args = [], sa_Cwd = [], sa_Env = [], sa_StopOnEntry = False, sa_ReadOnly = False, sa_MainClass = [], sa_Classpath = [], sa_SourceRoots = []\<rparr>"

definition start_args_fields :: "start_args fields" where
  "start_args_fields =
     [(''lang'', dec_str (\<lambda>v r. r\<lparr>sa_Lang := v\<rparr>)),
      (''name'', dec_str (\<lambda>v r. r\<lparr>sa_Name := v\<rparr>)),
      (''program'', dec_str (\<lambda>v r. r\<lparr>sa_Program := v\<rparr>)),
      (''args'', dec_strs (\<lambda>v r. r\<lparr>sa_Args := v\<rparr>)),
      (''cwd'', dec_str (\<lambda>v r. r\<lparr>sa_Cwd := v\<rparr>)),
      (''env'', dec_strs (\<lambda>v r. r\<lparr>sa_Env := v\<rparr>)),
      (''stopOnEntry'', dec_bool (\<lambda>v r. r\<lparr>sa_StopOnEntry := v\<rparr>)),
      (''readOnly'', dec_bool (\<lambda>v r. r\<lparr>sa_ReadOnly := v\<rparr>)),
      (''mainClass'', dec_str (\<lambda>v r. r\<lparr>sa_MainClass := v\<rparr>)),
      (''classpath'', dec_str (\<lambda>v r. r\<lparr>sa_Classpath := v\<rparr>)),
      (''sourceRoots'', dec_strs (\<lambda>v r. r\<lparr>sa_SourceRoots := v\<rparr>))]"

record attach_args =
  aa_Lang :: string
  aa_Name :: string
  aa_Host :: string
  aa_Port :: go_int
  aa_PID :: go_int
  aa_ReadOnly :: bool
  aa_SourceRoots :: "string list"

definition attach_args_zero :: attach_args where
  "attach_args_zero = \<lparr>aa_Lang = [], aa_Name = [], aa_Host = [], aa_Port = 0, aa_PID = 0, aa_ReadOnly = False, aa_SourceRoots = []\<rparr>"

definition attach_args_fields :: "attach_args fields" where
  "attach_args_fields =
     [(''lang'', dec_str (\<lambda>v r. r\<lparr>aa_Lang := v\<rparr>)),
      (''name'', dec_str (\<lambda>v r. r\<lparr>aa_Name := v\<rparr>)),
      (''host'', dec_str (\<lambda>v r. r\<lparr>aa_Host := v\<rparr>)),
      (''port'', dec_int (\<lambda>v r. r\<lparr>aa_Port := v\<rparr>)),
      (''pid'', dec_int (\<lambda>v r. r\<lparr>aa_PID := v\<rparr>)),
      (''readOnly'', dec_bool (\<lambda>v r. r\<lparr>aa_ReadOnly := v\<rparr>)),
      (''sourceRoots'', dec_strs (\<lambda>v r. r\<lparr>aa_SourceRoots := v\<rparr>))]"

record break_args =
  ba_Location :: string
  ba_Condition :: string
  ba_Hit :: go_int
  ba_LogMsg :: string
  ba_Once :: bool

definition break_args_zero :: break_args where
  "break_args_zero = \<lparr>ba_Location = [], ba_Condition = [], ba_Hit = 0, ba_LogMsg = [], ba_Once = False\<rparr>"

definition break_args_fields :: "break_args fields" where
  "break_args_fields =
     [(''location'', dec_str (\<lambda>v r. r\<lparr>ba_Location := v\<rparr>)),
      (''condition'', dec_str (\<lambda>v r. r\<lparr>ba_Condition := v\<rparr>)),
      (''hit'', dec_int (\<lambda>v r. r\<lparr>ba_Hit := v\<rparr>)),
      (''logMsg'', dec_str (\<lambda>v r. r\<lparr>ba_LogMsg := v\<rparr>)),
      (''once'', dec_bool (\<lambda>v r. r\<lparr>ba_Once := v\<rparr>))]"

record unbreak_args =
  uba_IDs :: "go_int list"
  uba_All :: bool

definition unbreak_args_zero :: unbreak_args where
  "unbreak_args_zero = \<lparr>uba_IDs = [], uba_All = False\<rparr>"

definition unbreak_args_fields :: "unbreak_args fields" where
  "unbreak_args_fields =
     [(''ids'', dec_ints (\<lambda>v r. r\<lparr>uba_IDs := v\<rparr>)),
      (''all'', dec_bool (\<lambda>v r. r\<lparr>uba_All := v\<rparr>))]"

record continue_args =
  ca_Thread :: go_int
  ca_TimeoutSec :: decimal
  ca_SingleThread :: bool

definition continue_args_zero :: continue_args where
  "continue_args_zero = \<lparr>ca_Thread = 0, ca_TimeoutSec = dec_zero, ca_SingleThread = False\<rparr>"

definition continue_args_fields :: "continue_args fields" where
  "continue_args_fields =
     [(''thread'', dec_int (\<lambda>v r. r\<lparr>ca_Thread := v\<rparr>)),
      (''timeoutSec'', dec_float (\<lambda>v r. r\<lparr>ca_TimeoutSec := v\<rparr>)),
      (''singleThread'', dec_bool (\<lambda>v r. r\<lparr>ca_SingleThread := v\<rparr>))]"

record stack_args =
  ska_Thread :: go_int
  ska_Limit :: go_int

definition stack_args_zero :: stack_args where
  "stack_args_zero = \<lparr>ska_Thread = 0, ska_Limit = 0\<rparr>"

definition stack_args_fields :: "stack_args fields" where
  "stack_args_fields =
     [(''thread'', dec_int (\<lambda>v r. r\<lparr>ska_Thread := v\<rparr>)),
      (''limit'', dec_int (\<lambda>v r. r\<lparr>ska_Limit := v\<rparr>))]"

record locals_args =
  lca_Frame :: go_int

definition locals_args_zero :: locals_args where
  "locals_args_zero = \<lparr>lca_Frame = 0\<rparr>"

definition locals_args_fields :: "locals_args fields" where
  "locals_args_fields =
     [(''frame'', dec_int (\<lambda>v r. r\<lparr>lca_Frame := v\<rparr>))]"

record eval_args =
  eva_Expression :: string
  eva_Frame :: go_int
  eva_TimeoutSec :: decimal

definition eval_args_zero :: eval_args where
  "eval_args_zero = \<lparr>eva_Expression = [], eva_Frame = 0, eva_TimeoutSec = dec_zero\<rparr>"

definition eval_args_fields :: "eval_args fields" where
  "eval_args_fields =
     [(''expression'', dec_str (\<lambda>v r. r\<lparr>eva_Expression := v\<rparr>)),
      (''frame'', dec_int (\<lambda>v r. r\<lparr>eva_Frame := v\<rparr>)),
      (''timeoutSec'', dec_float (\<lambda>v r. r\<lparr>eva_TimeoutSec := v\<rparr>))]"

record set_var_args =
  sva_Name :: string
  sva_Value :: string
  sva_Frame :: go_int

definition set_var_args_zero :: set_var_args where
  "set_var_args_zero = \<lparr>sva_Name = [], sva_Value = [], sva_Frame = 0\<rparr>"

definition set_var_args_fields :: "set_var_args fields" where
  "set_var_args_fields =
     [(''name'', dec_str (\<lambda>v r. r\<lparr>sva_Name := v\<rparr>)),
      (''value'', dec_str (\<lambda>v r. r\<lparr>sva_Value := v\<rparr>)),
      (''frame'', dec_int (\<lambda>v r. r\<lparr>sva_Frame := v\<rparr>))]"

record use_args =
  usa_ID :: string

definition use_args_zero :: use_args where
  "use_args_zero = \<lparr>usa_ID = []\<rparr>"

definition use_args_fields :: "use_args fields" where
  "use_args_fields =
     [(''id'', dec_str (\<lambda>v r. r\<lparr>usa_ID := v\<rparr>))]"

section \<open>Results\<close>

record loc =
  loc_File :: string
  loc_Line :: go_int
  loc_Column :: go_int
  loc_Function :: string

record pause_info =
  pi_State :: string
  pi_Reason :: string
  pi_Thread :: go_int
  pi_Location :: "loc option"
  pi_HitBP :: go_int
  pi_ExitCode :: "go_int option"
  pi_Signal :: string
  pi_Message :: string

definition pause_info_zero :: pause_info where
  "pause_info_zero = \<lparr>pi_State = [], pi_Reason = [], pi_Thread = 0, pi_Location = None, pi_HitBP = 0,
     pi_ExitCode = None, pi_Signal = [], pi_Message = []\<rparr>"

record session_result =
  sr_SessionID :: string
  sr_Lang :: string
  sr_State :: string
  sr_Reason :: string
  sr_Location :: "loc option"
  sr_ExitCode :: "go_int option"
  sr_Stdout :: string
  sr_Stderr :: string

definition session_result_zero :: session_result where
  "session_result_zero = \<lparr>sr_SessionID = [], sr_Lang = [], sr_State = [], sr_Reason = [], sr_Location = None,
     sr_ExitCode = None, sr_Stdout = [], sr_Stderr = []\<rparr>"

record break_result =
  br_ID :: go_int
  br_Verified :: bool
  br_File :: string
  br_Line :: go_int
  br_Function :: string
  br_Condition :: string
  br_Reason :: string
  br_Hits :: go_int

definition break_result_zero :: break_result where
  "break_result_zero = \<lparr>br_ID = 0, br_Verified = False, br_File = [], br_Line = 0, br_Function = [],
     br_Condition = [], br_Reason = [], br_Hits = 0\<rparr>"

record frame =
  fr_ID :: go_int
  fr_Name :: string
  fr_File :: string
  fr_Line :: go_int
  fr_Column :: go_int
  fr_Function :: string

record var =
  v_Name :: string
  v_Value :: string
  v_Type :: string
  v_Ref :: go_int
  v_Expandable :: bool

record locals_result =
  lr_Scope :: string
  lr_Vars :: "var list"
  lr_Hint :: string

record eval_result =
  er_Result :: string
  er_Type :: string
  er_Ref :: go_int

record watch_entry =
  we_ID :: go_int
  we_Expression :: string
  we_Result :: string
  we_Type :: string
  we_Error :: string

record source_result =
  so_File :: string
  so_Start :: go_int
  so_Lines :: "string list"
  so_Current :: go_int

record session_info =
  si_ID :: string
  si_Lang :: string
  si_State :: string
  si_Program :: string
  si_Attached :: string
  si_Default :: bool

record snapshot_result =
  sn_State :: string
  sn_Location :: "loc option"
  sn_Thread :: go_int
  sn_Frames :: "frame list"
  sn_Locals :: "var list"
  sn_Globals :: "var list"

record adapter_info =
  ai_Lang :: string
  ai_Installed :: bool
  ai_Path :: string
  ai_Hint :: string

datatype print_node =
  PrintNode (pn_Name: string) (pn_Value: string) (pn_Type: string) (pn_Ref: go_int)
    (pn_Truncated: bool) (pn_Children: "print_node list")

text \<open>Timestamps are nanoseconds; \<open>Format(RFC3339Nano)\<close> is left to the encoder.\<close>

type_synonym timestamp = int

record output_entry =
  oe_TS :: timestamp
  oe_Category :: string
  oe_Output :: string

record logged_event =
  le_TS :: timestamp
  le_Type :: string
  le_Body :: "(string \<times> json) list"

section \<open>Responses\<close>

datatype resp_data =
    DMap "(string \<times> json) list"
  | DSession session_result
  | DSessions "session_info list"
  | DPause pause_info
  | DBreak break_result
  | DBreaks "break_result list"
  | DStack "frame list"
  | DLocals locals_result
  | DEval eval_result
  | DSnapshot snapshot_result
  | DWatches "watch_entry list"
  | DSource source_result
  | DOutput "output_entry list"
  | DEvents "logged_event list"
  | DPrint print_node
  | DAdapters "adapter_info list"

datatype response =
    OkResp resp_data
  | ErrResp (re_Code: string) (re_Message: string) (re_Hint: string)
  | PanicResp string

definition is_ok :: "response \<Rightarrow> bool" where
  "is_ok r \<longleftrightarrow> (case r of OkResp _ \<Rightarrow> True | _ \<Rightarrow> False)"

definition has_code :: "string \<Rightarrow> response \<Rightarrow> bool" where
  "has_code code r \<longleftrightarrow> (case r of ErrResp c _ _ \<Rightarrow> c = code | _ \<Rightarrow> False)"

lemma is_ok_simps [simp]: "is_ok (OkResp d)" "\<not> is_ok (ErrResp c m h)" "\<not> is_ok (PanicResp p)"
  by (simp_all add: is_ok_def)

lemma has_code_simps [simp]: "\<not> has_code k (OkResp d)" "has_code k (ErrResp c m h) \<longleftrightarrow> c = k" "\<not> has_code k (PanicResp p)"
  by (simp_all add: has_code_def)

end
