(* ===== verification/Dap_Types.thy ===== *)
theory Dap_Types
  imports Proto
begin

text \<open>
  The part of the Debug Adapter Protocol the program uses, as \<open>github.com/google/go-dap\<close> types it:
  the events an adapter sends, the requests \<open>internal/dap/client.go\<close> builds (one constructor per
  convenience wrapper), and the bodies of the answers. A constructor holds exactly the arguments
  the wrapper fills in.
\<close>

datatype dap_event =
    InitializedEvent
  | OutputEvent string string
  | StoppedEvent string go_int "go_int list"
  | ContinuedEvent go_int
  | ExitedEvent go_int
  | TerminatedEvent
  | ThreadEvent string go_int
  | BreakpointEvent string
  | OtherEvent string
  | NonEvent

record source_bp =
  sb_Line :: go_int
  sb_Condition :: string
  sb_HitCondition :: string
  sb_LogMessage :: string

record function_bp =
  fb_Name :: string
  fb_Condition :: string
  fb_HitCondition :: string

datatype dap_request =
    ReqInitialize string
  | ReqLaunch json
  | ReqAttach json
  | ReqConfigurationDone
  | ReqSetBreakpoints string "source_bp list"
  | ReqContinue go_int bool
  | ReqNext go_int bool
  | ReqStepIn go_int bool
  | ReqStepOut go_int bool
  | ReqPause go_int
  | ReqStackTrace go_int go_int
  | ReqScopes go_int
  | ReqVariables go_int
  | ReqEvaluate string go_int string
  | ReqSetVariable go_int string string
  | ReqThreads
  | ReqDisconnect bool
  | ReqSetFunctionBreakpoints "function_bp list"
  | ReqSetExceptionBreakpoints "string list"
  | ReqSource string go_int
  | ReqRestart
  | ReqExceptionInfo go_int

record dap_bp =
  db_Id :: go_int
  db_Verified :: bool
  db_Message :: string
  db_Line :: go_int

record dap_frame =
  df_Id :: go_int
  df_Name :: string
  df_Source :: "string option"
  df_Line :: go_int
  df_Column :: go_int

record dap_var =
  dv_Name :: string
  dv_Value :: string
  dv_Type :: string
  dv_Ref :: go_int

record capabilities =
  SupportsRestartRequest :: bool
  SupportsFunctionBreakpoints :: bool
  SupportsLoadedSourcesRequest :: bool
  ExceptionBreakpointFilters :: "(string \<times> string) list"

definition caps_zero :: capabilities where
  "caps_zero = \<lparr>SupportsRestartRequest = False, SupportsFunctionBreakpoints = False,
     SupportsLoadedSourcesRequest = False, ExceptionBreakpointFilters = []\<rparr>"

datatype dap_reply =
    RepEmpty
  | RepCaps capabilities
  | RepBreakpoints "dap_bp list"
  | RepFrames "dap_frame list"
  | RepScopes "(string \<times> go_int) list"
  | RepVariables "dap_var list"
  | RepEvaluate string string go_int
  | RepSetVariable string string
  | RepThreads "(go_int \<times> string) list"
  | RepSource string

text \<open>The command name of each wrapper and the time it waits for the answer, in seconds.\<close>

fun dap_command :: "dap_request \<Rightarrow> string" where
  "dap_command (ReqInitialize _) = ''initialize''"
| "dap_command (ReqLaunch _) = ''launch''"
| "dap_command (ReqAttach _) = ''attach''"
| "dap_command ReqConfigurationDone = ''configurationDone''"
| "dap_command (ReqSetBreakpoints _ _) = ''setBreakpoints''"
| "dap_command (ReqContinue _ _) = ''continue''"
| "dap_command (ReqNext _ _) = ''next''"
| "dap_command (ReqStepIn _ _) = ''stepIn''"
| "dap_command (ReqStepOut _ _) = ''stepOut''"
| "dap_command (ReqPause _) = ''pause''"
| "dap_command (ReqStackTrace _ _) = ''stackTrace''"
| "dap_command (ReqScopes _) = ''scopes''"
| "dap_command (ReqVariables _) = ''variables''"
| "dap_command (ReqEvaluate _ _ _) = ''evaluate''"
| "dap_command (ReqSetVariable _ _ _) = ''setVariable''"
| "dap_command ReqThreads = ''threads''"
| "dap_command (ReqDisconnect _) = ''disconnect''"
| "dap_command (ReqSetFunctionBreakpoints _) = ''setFunctionBreakpoints''"
| "dap_command (ReqSetExceptionBreakpoints _) = ''setExceptionBreakpoints''"
| "dap_command (ReqSource _ _) = ''source''"
| "dap_command ReqRestart = ''restart''"
| "dap_command (ReqExceptionInfo _) = ''exceptionInfo''"

text \<open>
  What a request does to the debuggee: it lets the program run or steers it, it executes or writes
  in it, it changes the adapter's breakpoints, or it only looks.
\<close>

fun resumes :: "dap_request \<Rightarrow> bool" where
  "resumes ReqConfigurationDone = True"
| "resumes (ReqContinue _ _) = True"
| "resumes (ReqNext _ _) = True"
| "resumes (ReqStepIn _ _) = True"
| "resumes (ReqStepOut _ _) = True"
| "resumes ReqRestart = True"
| "resumes _ = False"

fun executes :: "dap_request \<Rightarrow> bool" where
  "executes (ReqEvaluate _ _ _) = True"
| "executes (ReqSetVariable _ _ _) = True"
| "executes _ = False"

fun sets_breakpoints :: "dap_request \<Rightarrow> bool" where
  "sets_breakpoints (ReqSetBreakpoints _ _) = True"
| "sets_breakpoints (ReqSetFunctionBreakpoints _) = True"
| "sets_breakpoints (ReqSetExceptionBreakpoints _) = True"
| "sets_breakpoints _ = False"

definition only_inspects :: "dap_request \<Rightarrow> bool" where
  "only_inspects r \<longleftrightarrow> \<not> resumes r \<and> \<not> executes r \<and> \<not> sets_breakpoints r"

text \<open>Requests that carry an expression to evaluate, breakpoint conditions included (log messages apart).\<close>

fun carries_code :: "dap_request \<Rightarrow> bool" where
  "carries_code (ReqEvaluate _ _ _) = True"
| "carries_code (ReqSetVariable _ _ _) = True"
| "carries_code (ReqSetBreakpoints _ bs) = list_ex (\<lambda>b. sb_Condition b \<noteq> []) bs"
| "carries_code (ReqSetFunctionBreakpoints bs) = list_ex (\<lambda>b. fb_Condition b \<noteq> []) bs"
| "carries_code _ = False"

end
