(* ===== verification/Session.thy ===== *)
theory Session
  imports Dap_Types
begin

text \<open>
  One debug session (\<open>internal/session/session.go\<close>): its state record and the operations on it. The
  fields are those of the Go struct; the mutexes are gone because every operation here is one
  critical section of the code. Channels of waiters are numbers; \<open>s_chans\<close> holds the event in the
  one-slot buffer of a channel that was sent to. \<open>s_cli\<close> is the DAP client of the session; no two sessions
  share one, so it also serves as the address of the session object. \<open>s_onceQ\<close> holds the goroutines
  \<open>go s.clearOnceBPs(ids)\<close> that were started and have not run yet.
\<close>

section \<open>State\<close>

datatype sstate = StateInitializing | StatePaused | StateRunning | StateExited | StateTerminated

fun state_str :: "sstate \<Rightarrow> string" where
  "state_str StateInitializing = ''initializing''"
| "state_str StatePaused = ''paused''"
| "state_str StateRunning = ''running''"
| "state_str StateExited = ''exited''"
| "state_str StateTerminated = ''terminated''"

record stop_event =
  se_reason :: string
  se_threadID :: go_int
  se_location :: "loc option"
  se_hitBP :: go_int
  se_exited :: "go_int option"
  se_terminated :: bool
  se_signal :: string

definition stop_event_zero :: stop_event where
  "stop_event_zero = \<lparr>se_reason = [], se_threadID = 0, se_location = None, se_hitBP = 0,
     se_exited = None, se_terminated = False, se_signal = []\<rparr>"

record watch =
  w_ID :: go_int
  w_Expression :: string

record func_bp =
  fbp_LocalID :: go_int
  fbp_Name :: string
  fbp_Condition :: string
  fbp_HitCond :: string
  fbp_DAPID :: go_int
  fbp_Verified :: bool
  fbp_Hits :: go_int

record bp =
  bp_LocalID :: go_int
  bp_File :: string
  bp_Line :: go_int
  bp_Condition :: string
  bp_HitCond :: string
  bp_LogMsg :: string
  bp_Once :: bool
  bp_DAPID :: go_int
  bp_Verified :: bool
  bp_Hits :: go_int

record session =
  s_cli :: nat
  s_ID :: string
  s_Lang :: string
  s_Program :: string
  s_Cwd :: string
  s_SourceRoots :: "string list"
  s_Attached :: string
  s_ReadOnly :: bool
  s_state :: sstate
  s_currentThread :: go_int
  s_lastPauseReason :: string
  s_lastLocation :: "loc option"
  s_lastHitBP :: go_int
  s_exitCode :: "go_int option"
  s_bpNextLocalID :: go_int
  s_bpsByID :: "(go_int \<times> bp) list"
  s_lastTerminal :: "stop_event option"
  s_caps :: capabilities
  s_pendingConfigDone :: bool
  s_waiters :: "nat list"
  s_chans :: "(nat \<times> stop_event) list"
  s_nextChan :: nat
  s_outputs :: "output_entry list"
  s_evlog :: "logged_event list"
  s_watches :: "watch list"
  s_watchNextID :: go_int
  s_excFilters :: "string list"
  s_funcBPs :: "func_bp list"
  s_onceQ :: "go_int list list"

definition newSession :: "nat \<Rightarrow> string \<Rightarrow> string \<Rightarrow> session" where
  "newSession cli sid lang = \<lparr>
     s_cli = cli, s_ID = sid, s_Lang = lang, s_Program = [], s_Cwd = [], s_SourceRoots = [], s_Attached = [],
     s_ReadOnly = False, s_state = StateInitializing, s_currentThread = 0, s_lastPauseReason = [],
     s_lastLocation = None, s_lastHitBP = 0, s_exitCode = None, s_bpNextLocalID = 1, s_bpsByID = [],
     s_lastTerminal = None, s_caps = caps_zero, s_pendingConfigDone = False, s_waiters = [],
     s_chans = [], s_nextChan = 0, s_outputs = [], s_evlog = [], s_watches = [], s_watchNextID = 0,
     s_excFilters = [], s_funcBPs = [], s_onceQ = []\<rparr>"

section \<open>Waiters\<close>

text \<open>A non-blocking send into the one-slot buffer of each waiting channel.\<close>

fun send_all :: "stop_event \<Rightarrow> nat list \<Rightarrow> (nat \<times> stop_event) list \<Rightarrow> (nat \<times> stop_event) list" where
  "send_all ev [] chans = chans"
| "send_all ev (ch # chs) chans =
     send_all ev chs (if map_of chans ch = None then map_put ch ev chans else chans)"

definition notifyWaiters :: "stop_event \<Rightarrow> session \<Rightarrow> session" where
  "notifyWaiters ev s = s\<lparr>s_waiters := [], s_chans := send_all ev (s_waiters s) (s_chans s)\<rparr>"

definition installStateWaiter :: "bool \<Rightarrow> session \<Rightarrow> nat \<times> session" where
  "installStateWaiter replayPause s =
     (let ch = s_nextChan s; s1 = s\<lparr>s_nextChan := Suc ch\<rparr> in
      case s_lastTerminal s of
        Some ev \<Rightarrow> (ch, s1\<lparr>s_chans := map_put ch ev (s_chans s)\<rparr>)
      | None \<Rightarrow>
          if replayPause \<and> s_state s = StatePaused then
            (ch, s1\<lparr>s_chans := map_put ch
               (stop_event_zero\<lparr>se_reason := s_lastPauseReason s, se_threadID := s_currentThread s,
                  se_location := s_lastLocation s, se_hitBP := s_lastHitBP s\<rparr>) (s_chans s)\<rparr>)
          else (ch, s1\<lparr>s_waiters := s_waiters s @ [ch]\<rparr>))"

definition InstallWaiter :: "session \<Rightarrow> nat \<times> session" where
  "InstallWaiter s = installStateWaiter False s"

text \<open>The receive of \<open>Wait\<close> and \<open>WaitForStop\<close>, and the deferred removal of a waiter.\<close>

definition recv :: "nat \<Rightarrow> session \<Rightarrow> stop_event option" where
  "recv ch s = map_of (s_chans s) ch"

definition dropWaiter :: "nat \<Rightarrow> session \<Rightarrow> session" where
  "dropWaiter ch s = s\<lparr>s_waiters := remove_first (\<lambda>c. c = ch) (s_waiters s)\<rparr>"

definition pause_of_event :: "stop_event \<Rightarrow> pause_info" where
  "pause_of_event ev =
     (let pi = pause_info_zero\<lparr>pi_Reason := se_reason ev, pi_Thread := se_threadID ev,
                 pi_HitBP := se_hitBP ev, pi_Signal := se_signal ev\<rparr> in
      case se_exited ev of
        Some ec \<Rightarrow> pi\<lparr>pi_State := state_str StateExited, pi_ExitCode := Some ec\<rparr>
      | None \<Rightarrow> if se_terminated ev then pi\<lparr>pi_State := state_str StateTerminated\<rparr>
                else pi\<lparr>pi_State := state_str StatePaused\<rparr>)"

definition pause_timeout :: pause_info where
  "pause_timeout = pause_info_zero\<lparr>pi_State := state_str StateRunning, pi_Reason := ''timeout''\<rparr>"

section \<open>Output and event logs\<close>

definition maxOutputEntries :: nat where
  "maxOutputEntries = 4096"

definition maxEventEntries :: nat where
  "maxEventEntries = 1024"

definition push_output :: "output_entry \<Rightarrow> session \<Rightarrow> session" where
  "push_output e s = s\<lparr>s_outputs := last_n maxOutputEntries (s_outputs s @ [e])\<rparr>"

definition push_event :: "logged_event \<Rightarrow> session \<Rightarrow> session" where
  "push_event e s = s\<lparr>s_evlog := last_n maxEventEntries (s_evlog s @ [e])\<rparr>"

definition recordOutput :: "timestamp \<Rightarrow> string \<Rightarrow> string \<Rightarrow> session \<Rightarrow> session" where
  "recordOutput ts category output s =
     push_output \<lparr>oe_TS = ts, oe_Category = (if category = [] then ''console'' else category), oe_Output = output\<rparr> s"

fun event_name :: "dap_event \<Rightarrow> string" where
  "event_name InitializedEvent = ''initialized''"
| "event_name (OutputEvent _ _) = ''output''"
| "event_name (StoppedEvent _ _ _) = ''stopped''"
| "event_name (ContinuedEvent _) = ''continued''"
| "event_name (ExitedEvent _) = ''exited''"
| "event_name TerminatedEvent = ''terminated''"
| "event_name (ThreadEvent _ _) = ''thread''"
| "event_name (BreakpointEvent _) = ''breakpoint''"
| "event_name (OtherEvent n) = n"
| "event_name NonEvent = []"

fun event_body :: "dap_event \<Rightarrow> (string \<times> json) list" where
  "event_body (StoppedEvent r t ids) = [(''reason'', JStr r), (''threadId'', JInt t), (''hitBreakpointIds'', JArr (map JInt ids))]"
| "event_body (ContinuedEvent t) = [(''threadId'', JInt t)]"
| "event_body (ExitedEvent c) = [(''exitCode'', JInt c)]"
| "event_body (OutputEvent c t) = [(''category'', JStr c), (''output'', JStr t)]"
| "event_body (ThreadEvent r t) = [(''reason'', JStr r), (''threadId'', JInt t)]"
| "event_body (BreakpointEvent r) = [(''reason'', JStr r)]"
| "event_body _ = []"

definition recordEvent :: "timestamp \<Rightarrow> dap_event \<Rightarrow> session \<Rightarrow> session" where
  "recordEvent ts ev s =
     (if ev = NonEvent then s
      else push_event \<lparr>le_TS = ts, le_Type = event_name ev, le_Body = event_body ev\<rparr> s)"

text \<open>
  The filter of \<open>Outputs\<close> and \<open>Events\<close>: entries after \<open>since\<close> (\<open>None\<close> is the zero time), then the
  last \<open>tail\<close> of them.
\<close>

definition log_query :: "('e \<Rightarrow> timestamp) \<Rightarrow> timestamp option \<Rightarrow> go_int \<Rightarrow> 'e list \<Rightarrow> 'e list" where
  "log_query ts since tailn xs =
     (let out = filter (\<lambda>e. case since of None \<Rightarrow> True | Some t \<Rightarrow> t < ts e) xs
      in if 0 < tailn \<and> tailn < int (length out) then last_n (nat tailn) out else out)"

definition Outputs :: "timestamp option \<Rightarrow> go_int \<Rightarrow> session \<Rightarrow> output_entry list" where
  "Outputs since tailn s = log_query oe_TS since tailn (s_outputs s)"

definition Events :: "timestamp option \<Rightarrow> go_int \<Rightarrow> session \<Rightarrow> logged_event list" where
  "Events since tailn s = log_query le_TS since tailn (s_evlog s)"

text \<open>The loop of \<open>tailByCategory\<close>, over the entries newest first.\<close>

fun tail_loop :: "int \<Rightarrow> string \<Rightarrow> output_entry list \<Rightarrow> string \<Rightarrow> string" where
  "tail_loop maxBytes want [] b = b"
| "tail_loop maxBytes want (e # es) b =
     (let cat = (if oe_Category e = ''console'' then ''stderr'' else oe_Category e) in
      if cat \<noteq> want then tail_loop maxBytes want es b
      else if maxBytes < int (length b + length (oe_Output e)) \<and> b \<noteq> [] then b
      else let b' = oe_Output e @ b in
        if maxBytes \<le> int (length b') then b' else tail_loop maxBytes want es b')"

definition tailByCategory :: "int \<Rightarrow> string \<Rightarrow> session \<Rightarrow> string" where
  "tailByCategory maxBytes want s = tail_loop maxBytes want (rev (s_outputs s)) []"

definition RecentStderrTail :: "int \<Rightarrow> session \<Rightarrow> string" where
  "RecentStderrTail maxBytes s = tailByCategory maxBytes ''stderr'' s"

definition RecentStdoutTail :: "int \<Rightarrow> session \<Rightarrow> string" where
  "RecentStdoutTail maxBytes s = tailByCategory maxBytes ''stdout'' s"

section \<open>Breakpoints\<close>

definition AllocBP :: "session \<Rightarrow> go_int \<times> session" where
  "AllocBP s = (s_bpNextLocalID s, s\<lparr>s_bpNextLocalID := s_bpNextLocalID s + 1\<rparr>)"

definition PutBP :: "bp \<Rightarrow> session \<Rightarrow> session" where
  "PutBP b s = s\<lparr>s_bpsByID := map_put (bp_LocalID b) b (s_bpsByID s)\<rparr>"

definition AllBPs :: "range_order \<Rightarrow> session \<Rightarrow> bp list" where
  "AllBPs ord s = map snd (go_range ord (s_bpsByID s))"

definition RemoveBP :: "go_int \<Rightarrow> session \<Rightarrow> bp option \<times> session" where
  "RemoveBP i s = (map_of (s_bpsByID s) i, s\<lparr>s_bpsByID := map_del i (s_bpsByID s)\<rparr>)"

definition BPsForFile :: "range_order \<Rightarrow> string \<Rightarrow> session \<Rightarrow> bp list" where
  "BPsForFile ord file s = filter (\<lambda>b. bp_File b = file) (AllBPs ord s)"

text \<open>\<open>existing[i].DAPID = ...; existing[i].Verified = ...\<close> through the shared pointer.\<close>

definition SetBPReply :: "go_int \<Rightarrow> go_int \<Rightarrow> bool \<Rightarrow> session \<Rightarrow> session" where
  "SetBPReply i dapid verified s =
     s\<lparr>s_bpsByID := map_upd i (\<lambda>b. b\<lparr>bp_DAPID := dapid, bp_Verified := verified\<rparr>) (s_bpsByID s)\<rparr>"

definition source_bp_of :: "bp \<Rightarrow> source_bp" where
  "source_bp_of b = \<lparr>sb_Line = bp_Line b, sb_Condition = bp_Condition b,
     sb_HitCondition = bp_HitCond b, sb_LogMessage = bp_LogMsg b\<rparr>"

definition PutFuncBP :: "func_bp \<Rightarrow> session \<Rightarrow> session" where
  "PutFuncBP b s = s\<lparr>s_funcBPs := s_funcBPs s @ [b]\<rparr>"

definition UpdateFuncBP :: "go_int \<Rightarrow> go_int \<Rightarrow> bool \<Rightarrow> session \<Rightarrow> session" where
  "UpdateFuncBP localID dapID verified s =
     s\<lparr>s_funcBPs := update_first (\<lambda>b. fbp_LocalID b = localID)
        (\<lambda>b. b\<lparr>fbp_DAPID := dapID, fbp_Verified := verified\<rparr>) (s_funcBPs s)\<rparr>"

definition RemoveFuncBPByID :: "go_int \<Rightarrow> session \<Rightarrow> bool \<times> session" where
  "RemoveFuncBPByID i s =
     (list_ex (\<lambda>b. fbp_LocalID b = i) (s_funcBPs s),
      s\<lparr>s_funcBPs := remove_first (\<lambda>b. fbp_LocalID b = i) (s_funcBPs s)\<rparr>)"

definition SetExcFilters :: "string list \<Rightarrow> session \<Rightarrow> session" where
  "SetExcFilters fs s = s\<lparr>s_excFilters := fs\<rparr>"

text \<open>
  \<open>clearOnceBPs\<close>: remove the breakpoints, then one \<open>setBreakpoints\<close> per file that lost one, with
  the breakpoints that are left. The requests are returned; the errors of the calls are ignored.
\<close>

fun removeBPs :: "go_int list \<Rightarrow> session \<Rightarrow> string list \<times> session" where
  "removeBPs [] s = ([], s)"
| "removeBPs (i # is) s =
     (let (b, s1) = RemoveBP i s; (fs, s2) = removeBPs is s1
      in (case b of None \<Rightarrow> fs | Some b \<Rightarrow> List.insert (bp_File b) fs, s2))"

definition clearOnceBPs :: "range_order \<Rightarrow> go_int list \<Rightarrow> session \<Rightarrow> dap_request list \<times> session" where
  "clearOnceBPs ord ids s =
     (let (files, s1) = removeBPs ids s
      in (map (\<lambda>f. ReqSetBreakpoints f (map source_bp_of (BPsForFile ord f s1))) (go_range ord files), s1))"

section \<open>Watches\<close>

definition AddWatch :: "string \<Rightarrow> session \<Rightarrow> session" where
  "AddWatch expr s =
     s\<lparr>s_watchNextID := s_watchNextID s + 1,
       s_watches := s_watches s @ [\<lparr>w_ID = s_watchNextID s + 1, w_Expression = expr\<rparr>]\<rparr>"

definition RemoveWatch :: "go_int \<Rightarrow> session \<Rightarrow> bool \<times> session" where
  "RemoveWatch i s =
     (list_ex (\<lambda>w. w_ID w = i) (s_watches s),
      s\<lparr>s_watches := remove_first (\<lambda>w. w_ID w = i) (s_watches s)\<rparr>)"

definition ClearWatches :: "session \<Rightarrow> session" where
  "ClearWatches s = s\<lparr>s_watches := []\<rparr>"

section \<open>Events\<close>

definition bump_bps :: "go_int \<Rightarrow> (go_int \<times> bp) list \<Rightarrow> (go_int \<times> bp) list" where
  "bump_bps hid bps = map (\<lambda>(k, b). if bp_DAPID b = hid then (k, b\<lparr>bp_Hits := bp_Hits b + 1\<rparr>) else (k, b)) bps"

definition bump_funcs :: "go_int \<Rightarrow> func_bp list \<Rightarrow> func_bp list" where
  "bump_funcs hid fbs = map (\<lambda>b. if fbp_DAPID b = hid then b\<lparr>fbp_Hits := fbp_Hits b + 1\<rparr> else b) fbs"

definition once_hit :: "range_order \<Rightarrow> go_int \<Rightarrow> (go_int \<times> bp) list \<Rightarrow> go_int list" where
  "once_hit ord hid bps =
     map bp_LocalID (filter (\<lambda>b. bp_DAPID b = hid \<and> bp_Once b) (map snd (go_range ord bps)))"

text \<open>The loop over \<open>HitBreakpointIds\<close>; the result is the list of one-shot breakpoints to remove.\<close>

fun hit_loop :: "range_order \<Rightarrow> go_int list \<Rightarrow> session \<Rightarrow> go_int list \<times> session" where
  "hit_loop ord [] s = ([], s)"
| "hit_loop ord (hid # hids) s =
     (let rm = once_hit ord hid (s_bpsByID s);
          s1 = s\<lparr>s_bpsByID := bump_bps hid (s_bpsByID s), s_funcBPs := bump_funcs hid (s_funcBPs s)\<rparr>;
          (rms, s2) = hit_loop ord hids s1
      in (rm @ rms, s2))"

definition handleStopped :: "range_order \<Rightarrow> string \<Rightarrow> go_int \<Rightarrow> go_int list \<Rightarrow> session \<Rightarrow> session" where
  "handleStopped ord reason tid hids s =
     (let hit = (case hids of [] \<Rightarrow> 0 | h # _ \<Rightarrow> h);
          s1 = s\<lparr>s_state := StatePaused, s_currentThread := tid, s_lastPauseReason := reason,
                 s_lastHitBP := hit, s_lastLocation := None\<rparr>;
          (toRemove, s2) = hit_loop ord hids s1;
          s3 = notifyWaiters (stop_event_zero\<lparr>se_reason := reason, se_threadID := tid, se_hitBP := hit\<rparr>) s2
      in if toRemove = [] then s3 else s3\<lparr>s_onceQ := s_onceQ s3 @ [toRemove]\<rparr>)"

definition handleExited :: "go_int \<Rightarrow> session \<Rightarrow> session" where
  "handleExited ec s =
     (let ev = stop_event_zero\<lparr>se_reason := ''exited'', se_exited := Some ec\<rparr>
      in notifyWaiters ev (s\<lparr>s_state := StateExited, s_exitCode := Some ec, s_lastTerminal := Some ev\<rparr>))"

definition handleTerminated :: "session \<Rightarrow> session" where
  "handleTerminated s =
     (let ev = stop_event_zero\<lparr>se_reason := ''terminated'', se_terminated := True\<rparr>;
          s1 = (if s_state s \<noteq> StateExited then s\<lparr>s_state := StateTerminated\<rparr> else s);
          s2 = (if s_lastTerminal s1 = None then s1\<lparr>s_lastTerminal := Some ev\<rparr> else s1)
      in notifyWaiters ev s2)"

definition handleEvent :: "range_order \<Rightarrow> timestamp \<Rightarrow> dap_event \<Rightarrow> session \<Rightarrow> session" where
  "handleEvent ord ts msg s0 =
     (let s = recordEvent ts msg s0 in
      case msg of
        OutputEvent category output \<Rightarrow> recordOutput ts category output s
      | StoppedEvent reason tid hids \<Rightarrow> handleStopped ord reason tid hids s
      | ContinuedEvent _ \<Rightarrow> s\<lparr>s_state := StateRunning\<rparr>
      | ExitedEvent ec \<Rightarrow> handleExited ec s
      | TerminatedEvent \<Rightarrow> handleTerminated s
      | _ \<Rightarrow> s)"

text \<open>How the adapter process ended, as \<open>proc.Wait\<close> reports it.\<close>

datatype adapter_exit = AExited go_int | ASignaled go_int string | AWaitError

definition watchAdapterExit :: "adapter_exit \<Rightarrow> session \<Rightarrow> session" where
  "watchAdapterExit st s =
     (if s_state s = StateExited \<or> s_state s = StateTerminated then s
      else
        let (exitCode, signalName) =
              (case st of AExited c \<Rightarrow> (c, []) | ASignaled sig name \<Rightarrow> (128 + sig, name) | AWaitError \<Rightarrow> (0, []));
            reason = (if signalName \<noteq> [] then ''signal'' else ''adapter-exited'');
            ev = stop_event_zero\<lparr>se_reason := reason, se_terminated := True, se_exited := Some exitCode,
                   se_signal := signalName\<rparr>
        in notifyWaiters ev
             (s\<lparr>s_state := StateTerminated, s_exitCode := Some exitCode, s_lastTerminal := Some ev\<rparr>))"

section \<open>Accessors and Close\<close>

definition CurrentThread :: "session \<Rightarrow> go_int" where
  "CurrentThread s = (if s_currentThread s = 0 then 1 else s_currentThread s)"

definition LastPause :: "session \<Rightarrow> string \<times> go_int \<times> loc option" where
  "LastPause s = (s_lastPauseReason s, s_lastHitBP s, s_lastLocation s)"

definition LastTerminal :: "session \<Rightarrow> (string \<times> go_int option \<times> string) option" where
  "LastTerminal s = map_option (\<lambda>ev. (se_reason ev, se_exited ev, se_signal ev)) (s_lastTerminal s)"

definition SetLastLocation :: "loc \<Rightarrow> session \<Rightarrow> session" where
  "SetLastLocation l s = s\<lparr>s_lastLocation := Some l\<rparr>"

definition CloseSession :: "session \<Rightarrow> session" where
  "CloseSession s = s\<lparr>s_evlog := [], s_outputs := [], s_bpsByID := [], s_funcBPs := [],
     s_watches := [], s_lastLocation := None\<rparr>"

end
