(* ===== verification/Session_Props.thy ===== *)
theory Session_Props
  imports Session
begin

text \<open>
  What holds of a session in every state it can reach: breakpoint and watch ids are unique and
  below the next id, the logs stay within their caps, and no waiter is left behind once a terminal
  event was recorded. The two logs are instances of one bounded-log contract. A waiter installed
  before a resume request receives the first stop, exit or termination that follows.
\<close>

section \<open>Bounded logs\<close>

locale bounded_log =
  fixes push :: "'e \<Rightarrow> 's \<Rightarrow> 's" and buf :: "'s \<Rightarrow> 'e list" and cap :: nat
  assumes buf_push: "buf (push e s) = last_n cap (buf s @ [e])"
begin

lemma buf_push_length: "length (buf (push e s)) \<le> cap"
  by (simp add: buf_push)

lemma buf_fold_push: "length (buf s) \<le> cap \<Longrightarrow> buf (fold push es s) = last_n cap (buf s @ es)"
proof (induction es arbitrary: s)
  case (Cons e es)
  have "buf (fold push (e # es) s) = last_n cap (buf (push e s) @ es)"
    using Cons.IH [OF buf_push_length] by simp
  then show ?case by (simp add: buf_push)
qed simp

lemma newest_kept: "0 < cap \<Longrightarrow> last (buf (push e s)) = e"
  by (auto simp: buf_push last_n_def drop_append last_append)

end

interpretation out_log: bounded_log push_output s_outputs maxOutputEntries
  by unfold_locales (simp add: push_output_def)

interpretation ev_log: bounded_log push_event s_evlog maxEventEntries
  by unfold_locales (simp add: push_event_def)

section \<open>The session invariant\<close>

definition bps_inv :: "session \<Rightarrow> bool" where
  "bps_inv s \<longleftrightarrow>
     distinct (map fst (s_bpsByID s)) \<and>
     (\<forall>(k, b) \<in> set (s_bpsByID s). bp_LocalID b = k \<and> 1 \<le> k \<and> k < s_bpNextLocalID s) \<and>
     distinct (map fbp_LocalID (s_funcBPs s)) \<and>
     (\<forall>b \<in> set (s_funcBPs s). 1 \<le> fbp_LocalID b \<and> fbp_LocalID b < s_bpNextLocalID s) \<and>
     fst ` set (s_bpsByID s) \<inter> fbp_LocalID ` set (s_funcBPs s) = {} \<and>
     1 \<le> s_bpNextLocalID s"

definition watch_inv :: "session \<Rightarrow> bool" where
  "watch_inv s \<longleftrightarrow>
     0 \<le> s_watchNextID s \<and> distinct (map w_ID (s_watches s)) \<and>
     (\<forall>w \<in> set (s_watches s). 1 \<le> w_ID w \<and> w_ID w \<le> s_watchNextID s)"

definition log_inv :: "session \<Rightarrow> bool" where
  "log_inv s \<longleftrightarrow> length (s_outputs s) \<le> maxOutputEntries \<and> length (s_evlog s) \<le> maxEventEntries"

definition waiter_inv :: "session \<Rightarrow> bool" where
  "waiter_inv s \<longleftrightarrow>
     distinct (s_waiters s) \<and>
     (\<forall>c \<in> set (s_waiters s). c < s_nextChan s \<and> map_of (s_chans s) c = None) \<and>
     fst ` set (s_chans s) \<subseteq> {..<s_nextChan s} \<and>
     (s_lastTerminal s \<noteq> None \<longrightarrow> s_waiters s = [])"

definition term_inv :: "session \<Rightarrow> bool" where
  "term_inv s \<longleftrightarrow> (s_state s = StateExited \<or> s_state s = StateTerminated \<longrightarrow> s_lastTerminal s \<noteq> None)"

definition sess_inv :: "session \<Rightarrow> bool" where
  "sess_inv s \<longleftrightarrow> bps_inv s \<and> watch_inv s \<and> log_inv s \<and> waiter_inv s \<and> term_inv s"

lemmas sess_inv_defs = sess_inv_def bps_inv_def watch_inv_def log_inv_def waiter_inv_def term_inv_def

lemma sess_inv_new: "sess_inv (newSession cli sid lang)"
  by (simp add: sess_inv_defs newSession_def)

section \<open>Frames: what the invariant's parts depend on\<close>

lemma bps_inv_cong:
  "s_bpsByID s = s_bpsByID t \<Longrightarrow> s_funcBPs s = s_funcBPs t \<Longrightarrow> s_bpNextLocalID s = s_bpNextLocalID t \<Longrightarrow>
   bps_inv s = bps_inv t"
  by (simp add: bps_inv_def)

lemma send_all_keys: "fst ` set (send_all ev chs chans) \<subseteq> fst ` set chans \<union> set chs"
proof (induction chs arbitrary: chans)
  case (Cons ch chs)
  let ?chans = "if map_of chans ch = None then map_put ch ev chans else chans"
  have "fst ` set ?chans \<subseteq> insert ch (fst ` set chans)" by auto
  with Cons.IH [of ?chans] show ?case unfolding send_all.simps list.set by blast
qed simp

lemma send_all_other: "c \<notin> set chs \<Longrightarrow> map_of (send_all ev chs chans) c = map_of chans c"
  by (induction chs arbitrary: chans) auto

lemma send_all_old: "map_of chans c = Some e \<Longrightarrow> map_of (send_all ev chs chans) c = Some e"
proof (induction chs arbitrary: chans)
  case (Cons ch chs)
  then have "map_of (if map_of chans ch = None then map_put ch ev chans else chans) c = Some e"
    by auto
  then show ?case using Cons.IH by simp
qed simp

lemma send_all_new: "c \<in> set chs \<Longrightarrow> map_of chans c = None \<Longrightarrow> map_of (send_all ev chs chans) c = Some ev"
proof (induction chs arbitrary: chans)
  case (Cons ch chs)
  show ?case
  proof (cases "c = ch")
    case True
    then show ?thesis using Cons.prems by (simp add: send_all_old)
  next
    case False
    with Cons show ?thesis by auto
  qed
qed simp

lemma notifyWaiters_fields [simp]:
  "s_waiters (notifyWaiters ev s) = []"
  "s_state (notifyWaiters ev s) = s_state s"
  "s_lastTerminal (notifyWaiters ev s) = s_lastTerminal s"
  "s_bpsByID (notifyWaiters ev s) = s_bpsByID s"
  "s_funcBPs (notifyWaiters ev s) = s_funcBPs s"
  "s_bpNextLocalID (notifyWaiters ev s) = s_bpNextLocalID s"
  "s_watches (notifyWaiters ev s) = s_watches s"
  "s_watchNextID (notifyWaiters ev s) = s_watchNextID s"
  "s_outputs (notifyWaiters ev s) = s_outputs s"
  "s_evlog (notifyWaiters ev s) = s_evlog s"
  "s_nextChan (notifyWaiters ev s) = s_nextChan s"
  "s_onceQ (notifyWaiters ev s) = s_onceQ s"
  by (simp_all add: notifyWaiters_def)

text \<open>Delivering an event establishes the waiter invariant from the channel part of it.\<close>

lemma waiter_inv_notify:
  assumes "fst ` set (s_chans s) \<subseteq> {..<s_nextChan s}" "\<forall>c \<in> set (s_waiters s). c < s_nextChan s"
  shows "waiter_inv (notifyWaiters ev s)"
proof -
  have "fst ` set (send_all ev (s_waiters s) (s_chans s)) \<subseteq> {..<s_nextChan s}"
    using assms send_all_keys [of ev "s_waiters s" "s_chans s"] by fastforce
  then show ?thesis by (simp add: waiter_inv_def notifyWaiters_def)
qed

section \<open>Every operation keeps the invariant\<close>

lemma inv_recordEvent: "sess_inv s \<Longrightarrow> sess_inv (recordEvent ts ev s)"
  using ev_log.buf_push_length by (simp add: recordEvent_def push_event_def sess_inv_defs)

lemma inv_recordOutput: "sess_inv s \<Longrightarrow> sess_inv (recordOutput ts cat txt s)"
  by (simp add: recordOutput_def push_output_def sess_inv_defs)

lemma map_fst_bump [simp]: "map fst (bump_bps hid bps) = map fst bps"
  by (simp add: bump_bps_def case_prod_beta comp_def if_distrib cong: if_cong)

lemma map_id_bump_funcs [simp]: "map fbp_LocalID (bump_funcs hid fbs) = map fbp_LocalID fbs"
  by (simp add: bump_funcs_def comp_def if_distrib cong: if_cong)

lemma bump_bps_all:
  "(\<And>k b. (k, b) \<in> set bps \<Longrightarrow> P k (bp_LocalID b)) \<Longrightarrow> (k, b) \<in> set (bump_bps hid bps) \<Longrightarrow> P k (bp_LocalID b)"
  by (auto simp: bump_bps_def split: if_splits)

lemma set_map_eqD: "map f xs = map f ys \<Longrightarrow> f ` set xs = f ` set ys"
  by (metis set_map)

lemma bps_inv_bump:
  assumes "bps_inv s"
  shows "bps_inv (s\<lparr>s_bpsByID := bump_bps hid (s_bpsByID s), s_funcBPs := bump_funcs hid (s_funcBPs s)\<rparr>)"
proof -
  have fst_eq: "fst ` set (bump_bps hid (s_bpsByID s)) = fst ` set (s_bpsByID s)"
    by (rule set_map_eqD) simp
  have id_eq: "fbp_LocalID ` set (bump_funcs hid (s_funcBPs s)) = fbp_LocalID ` set (s_funcBPs s)"
    by (rule set_map_eqD) simp
  have "\<forall>b \<in> set (bump_funcs hid (s_funcBPs s)). 1 \<le> fbp_LocalID b \<and> fbp_LocalID b < s_bpNextLocalID s"
    using assms by (auto simp: bps_inv_def bump_funcs_def)
  moreover have "\<forall>(k, b) \<in> set (bump_bps hid (s_bpsByID s)). bp_LocalID b = k \<and> 1 \<le> k \<and> k < s_bpNextLocalID s"
    using assms by (auto simp: bps_inv_def bump_bps_def split: if_splits)
  ultimately show ?thesis
    using assms unfolding bps_inv_def by (simp add: fst_eq id_eq)
qed

lemma hit_loop_frame:
  "\<exists>bps fbs. snd (hit_loop ord hids s) = s\<lparr>s_bpsByID := bps, s_funcBPs := fbs\<rparr>"
proof (induction hids arbitrary: s)
  case Nil
  have "s = s\<lparr>s_bpsByID := s_bpsByID s, s_funcBPs := s_funcBPs s\<rparr>" by simp
  then show ?case by (metis hit_loop.simps(1) snd_conv)
next
  case (Cons h hids)
  let ?s1 = "s\<lparr>s_bpsByID := bump_bps h (s_bpsByID s), s_funcBPs := bump_funcs h (s_funcBPs s)\<rparr>"
  from Cons [of ?s1] show ?case by (auto simp: split_beta Let_def)
qed

lemma bps_inv_hit_loop: "bps_inv s \<Longrightarrow> bps_inv (snd (hit_loop ord hids s))"
  by (induction hids arbitrary: s) (auto simp: split_beta Let_def intro: bps_inv_bump)

lemma inv_handleStopped:
  assumes "sess_inv s"
  shows "sess_inv (handleStopped ord reason tid hids s)"
proof -
  let ?hit = "case hids of [] \<Rightarrow> 0 | h # _ \<Rightarrow> h"
  let ?s1 = "s\<lparr>s_state := StatePaused, s_currentThread := tid, s_lastPauseReason := reason,
                 s_lastHitBP := ?hit, s_lastLocation := None\<rparr>"
  let ?s2 = "snd (hit_loop ord hids ?s1)"
  let ?ev = "stop_event_zero\<lparr>se_reason := reason, se_threadID := tid, se_hitBP := ?hit\<rparr>"
  obtain bps fbs where s2: "?s2 = ?s1\<lparr>s_bpsByID := bps, s_funcBPs := fbs\<rparr>"
    using hit_loop_frame by blast
  have "bps_inv ?s1" using assms by (simp add: sess_inv_def bps_inv_def)
  then have b: "bps_inv ?s2" by (rule bps_inv_hit_loop)
  have w: "waiter_inv (notifyWaiters ?ev ?s2)"
    using assms by (intro waiter_inv_notify) (auto simp: s2 sess_inv_defs)
  have "sess_inv (notifyWaiters ?ev ?s2)"
    using assms b w unfolding sess_inv_def by (simp add: s2 bps_inv_def watch_inv_def log_inv_def term_inv_def)
  moreover have "handleStopped ord reason tid hids s =
      (if fst (hit_loop ord hids ?s1) = [] then notifyWaiters ?ev ?s2
       else (notifyWaiters ?ev ?s2)\<lparr>s_onceQ := s_onceQ (notifyWaiters ?ev ?s2) @ [fst (hit_loop ord hids ?s1)]\<rparr>)"
    by (simp add: handleStopped_def Let_def split_beta)
  ultimately show ?thesis by (simp add: sess_inv_defs)
qed

lemma inv_notify_terminal:
  assumes "sess_inv s" "s_lastTerminal t \<noteq> None"
    "s_bpsByID t = s_bpsByID s" "s_funcBPs t = s_funcBPs s" "s_bpNextLocalID t = s_bpNextLocalID s"
    "s_watches t = s_watches s" "s_watchNextID t = s_watchNextID s"
    "s_outputs t = s_outputs s" "s_evlog t = s_evlog s"
    "s_waiters t = s_waiters s" "s_chans t = s_chans s" "s_nextChan t = s_nextChan s"
  shows "sess_inv (notifyWaiters ev t)"
proof -
  have "waiter_inv (notifyWaiters ev t)"
    using assms by (intro waiter_inv_notify) (auto simp: sess_inv_defs)
  then show ?thesis using assms by (simp add: sess_inv_defs)
qed

lemma inv_handleExited: "sess_inv s \<Longrightarrow> sess_inv (handleExited ec s)"
  unfolding handleExited_def Let_def by (rule inv_notify_terminal [of s]) simp_all

lemma inv_handleTerminated: "sess_inv s \<Longrightarrow> sess_inv (handleTerminated s)"
  unfolding handleTerminated_def Let_def by (rule inv_notify_terminal [of s]) simp_all

lemma inv_handleEvent: "sess_inv s \<Longrightarrow> sess_inv (handleEvent ord ts ev s)"
proof -
  assume "sess_inv s"
  then have r: "sess_inv (recordEvent ts ev s)" by (rule inv_recordEvent)
  show ?thesis
  proof (cases ev)
    case (ContinuedEvent t)
    with r show ?thesis by (simp add: handleEvent_def Let_def sess_inv_defs)
  qed (use r in \<open>simp_all add: handleEvent_def Let_def inv_recordOutput inv_handleStopped
      inv_handleExited inv_handleTerminated\<close>)
qed

lemma inv_watchAdapterExit: "sess_inv s \<Longrightarrow> sess_inv (watchAdapterExit st s)"
proof (cases "s_state s = StateExited \<or> s_state s = StateTerminated")
  case True
  then show "sess_inv s \<Longrightarrow> ?thesis" by (simp add: watchAdapterExit_def)
next
  case False
  assume "sess_inv s"
  then show ?thesis
    unfolding watchAdapterExit_def Let_def split_beta if_not_P [OF False]
    by (rule inv_notify_terminal) simp_all
qed

lemma inv_installStateWaiter: "sess_inv s \<Longrightarrow> sess_inv (snd (installStateWaiter b s))"
  by (fastforce simp: installStateWaiter_def Let_def sess_inv_defs map_of_eq_None_iff split: option.splits)

lemma inv_dropWaiter: "sess_inv s \<Longrightarrow> sess_inv (dropWaiter ch s)"
proof -
  assume s: "sess_inv s"
  have "distinct xs \<Longrightarrow> distinct (remove_first p xs)" for p and xs :: "nat list"
    by (induction xs) (auto dest: set_remove_first_subset [THEN subsetD])
  then show ?thesis
    using s set_remove_first_subset [of "\<lambda>c. c = ch" "s_waiters s"]
    by (auto simp: dropWaiter_def sess_inv_defs)
qed

lemma inv_new_bp:
  assumes "sess_inv s" "AllocBP s = (i, s1)" "bp_LocalID b = i"
  shows "sess_inv (PutBP b s1)"
proof -
  from assms have s1: "s1 = s\<lparr>s_bpNextLocalID := i + 1\<rparr>" and i: "i = s_bpNextLocalID s"
    by (auto simp: AllocBP_def)
  have fresh: "i \<notin> fst ` set (s_bpsByID s)" using assms(1) i by (auto simp: sess_inv_defs)
  then have "map_put i b (s_bpsByID s) = s_bpsByID s @ [(i, b)]" by (simp add: map_put_def)
  with assms fresh s1 i show ?thesis by (auto simp: PutBP_def sess_inv_defs)
qed

lemma inv_RemoveBP: "sess_inv s \<Longrightarrow> sess_inv (snd (RemoveBP i s))"
  by (auto simp: RemoveBP_def sess_inv_defs map_del_def distinct_map intro: inj_on_subset)

lemma inv_SetBPReply: "sess_inv s \<Longrightarrow> sess_inv (SetBPReply i d v s)"
proof -
  assume s: "sess_inv s"
  have "fst ` set (map_upd i f (s_bpsByID s)) = fst ` set (s_bpsByID s)" for f
    by (rule set_map_eqD) simp
  with s show ?thesis by (auto simp: SetBPReply_def sess_inv_defs) (auto simp: map_upd_def split: if_splits)
qed

lemma inv_new_func_bp:
  assumes "sess_inv s" "AllocBP s = (i, s1)" "fbp_LocalID b = i"
  shows "sess_inv (PutFuncBP b s1)"
  using assms by (fastforce simp: AllocBP_def PutFuncBP_def sess_inv_defs)

lemma inv_AllocBP: "sess_inv s \<Longrightarrow> sess_inv (snd (AllocBP s))"
  by (fastforce simp: AllocBP_def sess_inv_defs)

lemma inv_UpdateFuncBP: "sess_inv s \<Longrightarrow> sess_inv (UpdateFuncBP l d v s)"
proof -
  assume s: "sess_inv s"
  have m: "map fbp_LocalID (update_first p (\<lambda>b. b\<lparr>fbp_DAPID := d, fbp_Verified := v\<rparr>) fbs) = map fbp_LocalID fbs"
    for p fbs by (rule map_update_first) simp
  let ?fbs = "s_funcBPs (UpdateFuncBP l d v s)"
  have ids: "map fbp_LocalID ?fbs = map fbp_LocalID (s_funcBPs s)" by (simp add: UpdateFuncBP_def m)
  have img: "fbp_LocalID ` set ?fbs = fbp_LocalID ` set (s_funcBPs s)"
    by (rule set_map_eqD [OF ids])
  have "\<forall>i \<in> fbp_LocalID ` set ?fbs. 1 \<le> i \<and> i < s_bpNextLocalID s"
    using s unfolding img by (simp add: sess_inv_defs)
  then have rng: "\<forall>b \<in> set ?fbs. 1 \<le> fbp_LocalID b \<and> fbp_LocalID b < s_bpNextLocalID s"
    by blast
  have rest: "s_bpsByID (UpdateFuncBP l d v s) = s_bpsByID s"
      "s_bpNextLocalID (UpdateFuncBP l d v s) = s_bpNextLocalID s"
    by (simp_all add: UpdateFuncBP_def)
  have "bps_inv (UpdateFuncBP l d v s)"
    using s rng ids img unfolding sess_inv_def bps_inv_def rest by auto
  then show ?thesis using s by (simp add: UpdateFuncBP_def sess_inv_defs)
qed

lemma inv_AddWatch: "sess_inv s \<Longrightarrow> sess_inv (AddWatch e s)"
  by (fastforce simp: AddWatch_def sess_inv_defs)

lemma inv_RemoveWatch: "sess_inv s \<Longrightarrow> sess_inv (snd (RemoveWatch i s))"
  by (auto simp: RemoveWatch_def sess_inv_defs remove_first_unique distinct_map_filter)

lemma inv_ClearWatches: "sess_inv s \<Longrightarrow> sess_inv (ClearWatches s)"
  by (simp add: ClearWatches_def sess_inv_defs)

lemma inv_SetExcFilters: "sess_inv s \<Longrightarrow> sess_inv (SetExcFilters f s)"
  by (simp add: SetExcFilters_def sess_inv_defs)

lemma inv_SetLastLocation: "sess_inv s \<Longrightarrow> sess_inv (SetLastLocation l s)"
  by (simp add: SetLastLocation_def sess_inv_defs)

lemma inv_removeBPs: "sess_inv s \<Longrightarrow> sess_inv (snd (removeBPs is s))"
  by (induction "is" arbitrary: s) (auto simp: split_beta Let_def inv_RemoveBP)

lemma inv_clearOnceBPs: "sess_inv s \<Longrightarrow> sess_inv (snd (clearOnceBPs ord is s))"
  by (simp add: clearOnceBPs_def split_beta Let_def inv_removeBPs)

lemma inv_CloseSession: "sess_inv s \<Longrightarrow> sess_inv (CloseSession s)"
  by (auto simp: CloseSession_def sess_inv_defs)

lemmas session_invs =
  inv_handleEvent inv_watchAdapterExit inv_installStateWaiter inv_dropWaiter inv_new_bp inv_RemoveBP
  inv_SetBPReply inv_new_func_bp inv_AllocBP inv_UpdateFuncBP inv_AddWatch inv_RemoveWatch
  inv_ClearWatches inv_SetExcFilters inv_SetLastLocation inv_clearOnceBPs inv_CloseSession

end
