(* ===== verification/Go_Path.thy ===== *)
theory Go_Path
  imports Go_Strings
begin

text \<open>
  Go's package \<open>path/filepath\<close> on Unix: \<open>Clean\<close>, \<open>Abs\<close>, \<open>Join\<close>, \<open>Dir\<close>, \<open>Base\<close> and \<open>Match\<close>, and the
  contract of a path guard, which the daemon's session roots, the daemon-wide source allowlist and
  the MCP working-directory allowlist all implement: a path is let through exactly when its
  components extend the components of one of the configured roots.
\<close>

section \<open>Paths\<close>

definition is_abs :: "string \<Rightarrow> bool" where
  "is_abs p \<longleftrightarrow> has_prefix p ''/''"

fun clean_step :: "bool \<Rightarrow> string list \<Rightarrow> string \<Rightarrow> string list" where
  "clean_step rooted acc c =
     (if c = [] \<or> c = ''.'' then acc
      else if c = ''..'' then
        (if acc = [] then (if rooted then [] else [''..''])
         else if last acc = ''..'' then acc @ [''..''] else butlast acc)
      else acc @ [c])"

declare clean_step.simps [simp del]

definition clean_comps :: "bool \<Rightarrow> string \<Rightarrow> string list" where
  "clean_comps rooted p = foldl (clean_step rooted) [] (split_on CHR ''/'' p)"

definition rooted_str :: "string list \<Rightarrow> string" where
  "rooted_str cs = CHR ''/'' # join_with ''/'' cs"

definition clean :: "string \<Rightarrow> string" where
  "clean p =
     (if is_abs p then rooted_str (clean_comps True p)
      else case clean_comps False p of [] \<Rightarrow> ''.'' | cs \<Rightarrow> join_with ''/'' cs)"

definition path_join :: "string \<Rightarrow> string \<Rightarrow> string" where
  "path_join a b = (if a \<noteq> [] then clean (a @ ''/'' @ b) else if b \<noteq> [] then clean b else [])"

text \<open>The working directory is \<open>None\<close> where \<open>os.Getwd\<close> fails.\<close>

definition abs_path :: "string option \<Rightarrow> string \<Rightarrow> string option" where
  "abs_path cwd p = (if is_abs p then Some (clean p) else map_option (\<lambda>wd. path_join wd p) cwd)"

definition dir_of :: "string \<Rightarrow> string" where
  "dir_of p = (case last_index_byte CHR ''/'' p of None \<Rightarrow> clean [] | Some i \<Rightarrow> clean (take (Suc i) p))"

definition base_of :: "string \<Rightarrow> string" where
  "base_of p =
     (if p = [] then ''.''
      else let q = trim_right_f (\<lambda>c. c = CHR ''/'') p;
               r = (case last_index_byte CHR ''/'' q of None \<Rightarrow> q | Some i \<Rightarrow> drop (Suc i) q)
           in if r = [] then ''/'' else r)"

text \<open>\<open>abs == root || strings.HasPrefix(abs, root + "/")\<close>, the test the three guards share.\<close>

definition under_root :: "string \<Rightarrow> string \<Rightarrow> bool" where
  "under_root a r \<longleftrightarrow> a = r \<or> has_prefix a (r @ ''/'')"

section \<open>Shell patterns: filepath.Match\<close>

text \<open>\<open>None\<close> stands for \<open>ErrBadPattern\<close>.\<close>

definition get_esc :: "string \<Rightarrow> (char \<times> string) option" where
  "get_esc chunk =
     (case chunk of [] \<Rightarrow> None
      | c # cs \<Rightarrow>
          if c = CHR ''-'' \<or> c = CHR '']'' then None
          else if c = CHR 0x5C then (case cs of [] \<Rightarrow> None | d # ds \<Rightarrow> if ds = [] then None else Some (d, ds))
          else if cs = [] then None else Some (c, cs))"

lemma get_esc_shorter: "get_esc chunk = Some (c, rest) \<Longrightarrow> length rest < length chunk"
  by (auto simp: get_esc_def split: list.splits if_splits)

function parse_class :: "nat \<Rightarrow> bool \<Rightarrow> bool \<Rightarrow> string \<Rightarrow> (bool \<times> string) option" where
  "parse_class r m first chunk =
     (if chunk \<noteq> [] \<and> hd chunk = CHR '']'' \<and> \<not> first then Some (m, tl chunk)
      else case get_esc chunk of
          None \<Rightarrow> None
        | Some (lo, c1) \<Rightarrow>
            if hd c1 = CHR ''-'' then
              (case get_esc (tl c1) of
                 None \<Rightarrow> None
               | Some (hi, c2) \<Rightarrow> parse_class r (m \<or> char_code lo \<le> r \<and> r \<le> char_code hi) False c2)
            else parse_class r (m \<or> char_code lo = r) False c1)"
  by pat_completeness auto
termination
proof (relation "measure (\<lambda>(r, m, first, chunk). length chunk)", goal_cases)
  case (2 r m first chunk x lo c1 y hi c2)
  then have "length c1 < length chunk" and "length c2 < length (tl c1)"
    by (auto dest: get_esc_shorter)
  then show ?case by simp
qed (auto dest: get_esc_shorter)

declare parse_class.simps [simp del]

text \<open>
  The result is \<open>None\<close> for a bad pattern, \<open>Some None\<close> for no match, and \<open>Some (Some rest)\<close> with
  what is left of the name. After a mismatch (\<open>failed\<close>) the chunk is still scanned for errors.
\<close>

lemma parse_class_shorter: "parse_class r m first chunk = Some (m', rest) \<Longrightarrow> length rest < length chunk"
proof (induction r m first chunk rule: parse_class.induct)
  case (1 r m first chunk)
  show ?case
    using "1.prems" "1.IH"
    by (subst (asm) parse_class.simps)
      (fastforce split: if_splits option.splits prod.splits dest: get_esc_shorter)
qed

function match_chunk :: "bool \<Rightarrow> string \<Rightarrow> string \<Rightarrow> string option option" where
  "match_chunk failed [] s = Some (if failed then None else Some s)"
| "match_chunk failed (c # cs) s =
     (let failed = failed \<or> s = [] in
      if c = CHR ''['' then
        (let r = (if failed then 0 else char_code (hd s));
             s' = (if failed then s else tl s);
             negated = (cs \<noteq> [] \<and> hd cs = CHR ''^'');
             body = (if negated then tl cs else cs)
         in case parse_class r False True body of
              None \<Rightarrow> None
            | Some (m, rest) \<Rightarrow> match_chunk (failed \<or> m = negated) rest s')
      else if c = CHR ''?'' then
        match_chunk (failed \<or> hd s = CHR ''/'') cs (if failed then s else tl s)
      else if c = CHR 0x5C then
        (case cs of [] \<Rightarrow> None
         | d # ds \<Rightarrow> match_chunk (failed \<or> d \<noteq> hd s) ds (if failed then s else tl s))
      else match_chunk (failed \<or> c \<noteq> hd s) cs (if failed then s else tl s))"
  by pat_completeness auto
termination
  by (relation "measure (\<lambda>(failed, chunk, s). length chunk)")
    (auto dest!: parse_class_shorter split: if_splits)

fun scan_chunk_body :: "bool \<Rightarrow> string \<Rightarrow> string \<times> string" where
  "scan_chunk_body inrange [] = ([], [])"
| "scan_chunk_body inrange (c # cs) =
     (if c = CHR 0x5C \<and> cs \<noteq> [] then
        (let (a, b) = scan_chunk_body inrange (tl cs) in (c # hd cs # a, b))
      else if c = CHR ''*'' \<and> \<not> inrange then ([], c # cs)
      else
        (let (a, b) = scan_chunk_body (if c = CHR ''['' then True else if c = CHR '']'' then False else inrange) cs
         in (c # a, b)))"

definition scan_chunk :: "string \<Rightarrow> bool \<times> string \<times> string" where
  "scan_chunk pat =
     (let body = dropWhile (\<lambda>c. c = CHR ''*'') pat
      in (pat \<noteq> [] \<and> hd pat = CHR ''*'', scan_chunk_body False body))"

text \<open>Skip 1, 2, \ldots bytes of the name, none of them a separator, until the chunk matches.\<close>

fun star_search :: "bool \<Rightarrow> string \<Rightarrow> string \<Rightarrow> string option option" where
  "star_search is_last chunk [] = Some None"
| "star_search is_last chunk (c # name) =
     (if c = CHR ''/'' then Some None
      else case match_chunk False chunk name of
             None \<Rightarrow> None
           | Some (Some t) \<Rightarrow> if is_last \<and> t \<noteq> [] then star_search is_last chunk name else Some (Some t)
           | Some None \<Rightarrow> star_search is_last chunk name)"

lemma scan_chunk_body_length: "length (snd (scan_chunk_body b p)) \<le> length p"
proof (induction b p rule: scan_chunk_body.induct)
  case (2 inrange c cs)
  show ?case
  proof (cases "c = CHR 0x5C \<and> cs \<noteq> []")
    case True
    with "2.IH"(1) have "length (snd (scan_chunk_body inrange (tl cs))) \<le> length (tl cs)" by blast
    with True show ?thesis by (auto simp: split_beta)
  next
    case False
    with "2.IH"(2) show ?thesis by (auto simp: split_beta le_SucI)
  qed
qed simp

lemma scan_chunk_shorter:
  assumes "pat \<noteq> []"
  shows "length (snd (snd (scan_chunk pat))) < length pat"
proof (cases "hd pat = CHR ''*''")
  case True
  with assms have "length (dropWhile (\<lambda>c. c = CHR ''*'') pat) < length pat"
    by (cases pat) (auto simp: le_imp_less_Suc length_dropWhile_le)
  then show ?thesis
    using scan_chunk_body_length [of False "dropWhile (\<lambda>c. c = CHR ''*'') pat"]
    by (simp add: scan_chunk_def)
next
  case False
  with assms obtain c cs where pat: "pat = c # cs" and c: "c \<noteq> CHR ''*''" by (cases pat) auto
  have "length (snd (scan_chunk_body b (tl cs))) \<le> length cs" for b
    using scan_chunk_body_length [of b "tl cs"] by simp
  then show ?thesis using pat c scan_chunk_body_length
    by (auto simp: scan_chunk_def split_beta le_imp_less_Suc)
qed

text \<open>
  The loop over the chunks of the pattern. A bad pattern and a mismatch are both \<open>False\<close>: the
  callers drop the error (\<open>ok, _ := filepath.Match(...)\<close>).
\<close>

function path_match :: "string \<Rightarrow> string \<Rightarrow> bool" where
  "path_match pat name =
     (if pat = [] then name = []
      else let (star, chunk, rest) = scan_chunk pat in
        if star \<and> chunk = [] then CHR ''/'' \<notin> set name
        else case match_chunk False chunk name of
               None \<Rightarrow> False
             | Some t \<Rightarrow>
                 if t \<noteq> None \<and> (the t = [] \<or> rest \<noteq> []) then path_match rest (the t)
                 else if star then
                   (case star_search (rest = []) chunk name of
                      Some (Some t') \<Rightarrow> path_match rest t' | _ \<Rightarrow> False)
                 else False)"
  by pat_completeness auto
termination
proof (relation "measure (\<lambda>(pat, name). length pat)", goal_cases)
  case (2 pat name x star y chunk rest t)
  then have "snd (snd (scan_chunk pat)) = rest" by (metis snd_conv)
  with 2 show ?case using scan_chunk_shorter [of pat] by simp
next
  case (3 pat name x star y chunk rest t a b)
  then have "snd (snd (scan_chunk pat)) = rest" by (metis snd_conv)
  with 3 show ?case using scan_chunk_shorter [of pat] by simp
qed simp

declare path_match.simps [simp del]

section \<open>Cleaned paths are their components\<close>

definition good_comp :: "string \<Rightarrow> bool" where
  "good_comp c \<longleftrightarrow> c \<noteq> [] \<and> c \<noteq> ''.'' \<and> CHR ''/'' \<notin> set c"

lemma clean_step_good:
  "\<lbrakk>list_all (\<lambda>c. good_comp c \<and> (rooted \<longrightarrow> c \<noteq> ''..'')) acc; CHR ''/'' \<notin> set c\<rbrakk> \<Longrightarrow>
   list_all (\<lambda>c. good_comp c \<and> (rooted \<longrightarrow> c \<noteq> ''..'')) (clean_step rooted acc c)"
  by (auto simp: clean_step.simps good_comp_def list_all_iff dest: in_set_butlastD last_in_set)

lemma clean_comps_good:
  "list_all (\<lambda>c. good_comp c \<and> (rooted \<longrightarrow> c \<noteq> ''..'')) (clean_comps rooted p)"
proof -
  have "list_all (\<lambda>c. good_comp c \<and> (rooted \<longrightarrow> c \<noteq> ''..'')) (foldl (clean_step rooted) acc cs)"
    if "list_all (\<lambda>c. good_comp c \<and> (rooted \<longrightarrow> c \<noteq> ''..'')) acc" "\<forall>c \<in> set cs. CHR ''/'' \<notin> set c"
    for acc cs
    using that by (induction cs arbitrary: acc) (auto intro!: clean_step_good)
  then show ?thesis by (simp add: clean_comps_def split_on_no_sep)
qed

lemma clean_step_plain: "good_comp c \<Longrightarrow> c \<noteq> ''..'' \<Longrightarrow> clean_step rooted acc c = acc @ [c]"
  by (simp add: clean_step.simps good_comp_def)

lemma foldl_clean_plain:
  "list_all (\<lambda>c. good_comp c \<and> c \<noteq> ''..'') cs \<Longrightarrow> foldl (clean_step rooted) acc cs = acc @ cs"
  by (induction cs arbitrary: acc) (auto simp: clean_step_plain)

lemma clean_comps_rooted_str:
  assumes "list_all (\<lambda>c. good_comp c \<and> c \<noteq> ''..'') cs"
  shows "clean_comps True (rooted_str cs) = cs"
proof (cases "cs = []")
  case True
  then show ?thesis by (simp add: clean_comps_def rooted_str_def clean_step.simps)
next
  case False
  with assms have "split_on CHR ''/'' (join_with ''/'' cs) = cs"
    by (intro split_join) (auto simp: list_all_iff good_comp_def)
  with assms show ?thesis
    by (simp add: clean_comps_def rooted_str_def clean_step.simps foldl_clean_plain)
qed

lemma is_abs_rooted_str [simp]: "is_abs (rooted_str cs)"
  by (simp add: is_abs_def has_prefix_def rooted_str_def)

lemma clean_rooted_idem: "is_abs p \<Longrightarrow> clean (clean p) = clean p"
  using clean_comps_good [of True p] by (simp add: clean_def clean_comps_rooted_str)

text \<open>Abs gives a rooted string of the path's components.\<close>

definition abs_comps :: "string option \<Rightarrow> string \<Rightarrow> string list option" where
  "abs_comps cwd p =
     (if is_abs p then Some (clean_comps True p)
      else map_option (\<lambda>wd. clean_comps True (wd @ ''/'' @ p)) cwd)"

definition cwd_ok :: "string option \<Rightarrow> bool" where
  "cwd_ok cwd \<longleftrightarrow> (case cwd of None \<Rightarrow> True | Some wd \<Rightarrow> is_abs wd)"

lemma is_abs_append: "is_abs p \<Longrightarrow> is_abs (p @ q)"
  by (auto simp: is_abs_def has_prefix_def)

lemma abs_path_comps: "cwd_ok cwd \<Longrightarrow> abs_path cwd p = map_option rooted_str (abs_comps cwd p)"
proof (cases "is_abs p")
  case False
  assume ok: "cwd_ok cwd"
  then show ?thesis
  proof (cases cwd)
    case (Some wd)
    with ok have "is_abs wd" by (simp add: cwd_ok_def)
    then have "wd \<noteq> []" and "is_abs (wd @ ''/'' @ p)"
      by (auto simp: is_abs_def has_prefix_def)
    with False Some show ?thesis by (simp add: abs_path_def abs_comps_def path_join_def clean_def)
  qed (simp add: abs_path_def abs_comps_def False)
qed (simp add: abs_path_def abs_comps_def clean_def)

lemma abs_comps_good: "abs_comps cwd p = Some cs \<Longrightarrow> list_all (\<lambda>c. good_comp c \<and> c \<noteq> ''..'') cs"
  using clean_comps_good [of True] by (auto simp: abs_comps_def split: if_splits)

lemma rooted_str_inj:
  assumes "list_all (\<lambda>c. good_comp c \<and> c \<noteq> ''..'') cs" "list_all (\<lambda>c. good_comp c \<and> c \<noteq> ''..'') ds"
  shows "rooted_str cs = rooted_str ds \<longleftrightarrow> cs = ds"
  using assms clean_comps_rooted_str by metis

lemma join_good_hd:
  "list_all (\<lambda>c. good_comp c \<and> c \<noteq> ''..'') cs \<Longrightarrow> \<not> prefix ''/'' (join_with ''/'' cs)"
  by (cases cs; cases "tl cs"; cases "hd cs") (auto simp: good_comp_def join_with_Cons)

lemma under_root_comps:
  assumes cs: "list_all (\<lambda>c. good_comp c \<and> c \<noteq> ''..'') cs"
    and rs: "list_all (\<lambda>c. good_comp c \<and> c \<noteq> ''..'') rs"
  shows "under_root (rooted_str cs) (rooted_str rs) \<longleftrightarrow> (if rs = [] then cs = [] else prefix rs cs)"
proof (cases "rs = []")
  case True
  then show ?thesis
    using cs join_good_hd [OF cs] rooted_str_inj [OF cs, of "[]"]
    by (auto simp: under_root_def has_prefix_def rooted_str_def)
next
  case False
  have "has_prefix (rooted_str cs) (rooted_str rs @ ''/'') \<longleftrightarrow> strict_prefix rs cs"
  proof
    assume "has_prefix (rooted_str cs) (rooted_str rs @ ''/'')"
    then obtain t where t: "join_with ''/'' cs = join_with ''/'' rs @ CHR ''/'' # t"
      by (auto simp: has_prefix_def rooted_str_def prefix_def)
    then have ne: "cs \<noteq> []" by auto
    have "cs = split_on CHR ''/'' (join_with ''/'' cs)"
      using cs ne by (subst split_join) (auto simp: list_all_iff good_comp_def)
    also have "\<dots> = split_on CHR ''/'' (join_with ''/'' rs) @ split_on CHR ''/'' t"
      unfolding t by (rule split_on_append)
    also have "split_on CHR ''/'' (join_with ''/'' rs) = rs"
      using rs False by (subst split_join) (auto simp: list_all_iff good_comp_def)
    finally show "strict_prefix rs cs"
      by (metis append_self_conv prefixI split_on_not_Nil strict_prefixI)
  next
    assume "strict_prefix rs cs"
    then obtain ds where "cs = rs @ ds" "ds \<noteq> []" by (auto elim: strict_prefixE')
    then show "has_prefix (rooted_str cs) (rooted_str rs @ ''/'')"
      using False by (auto simp: has_prefix_def rooted_str_def join_with_append)
  qed
  with False show ?thesis
    using rooted_str_inj [OF cs rs] by (auto simp: under_root_def strict_prefix_def)
qed

section \<open>The contract of a path guard\<close>

text \<open>
  \<open>within cs rs\<close>: the path with components \<open>cs\<close> is the directory \<open>rs\<close> or lies below it. The file
  system root is special: the guards compare with \<open>"/" + "/"\<close>, which no cleaned path starts with,
  so a root of \<open>"/"\<close> lets nothing through but itself.
\<close>

definition within :: "string list \<Rightarrow> string list \<Rightarrow> bool" where
  "within cs rs \<longleftrightarrow> (if rs = [] then cs = [] else prefix rs cs)"

locale path_guard =
  fixes accepts :: "string option \<Rightarrow> string list \<Rightarrow> string \<Rightarrow> bool"
  assumes accepts_iff: "cwd_ok cwd \<Longrightarrow> accepts cwd roots p \<longleftrightarrow>
      (\<exists>cs. abs_comps cwd p = Some cs \<and> (\<exists>r \<in> set roots. \<exists>rs. abs_comps cwd r = Some rs \<and> within cs rs))"
begin

lemma guard_mono: "cwd_ok cwd \<Longrightarrow> set roots \<subseteq> set roots' \<Longrightarrow> accepts cwd roots p \<Longrightarrow> accepts cwd roots' p"
  by (auto simp: accepts_iff)

lemma guard_empty: "cwd_ok cwd \<Longrightarrow> \<not> accepts cwd [] p"
  by (simp add: accepts_iff)

lemma guard_no_sibling:
  assumes "cwd_ok cwd" "accepts cwd [r] p" "abs_comps cwd r = Some rs" "rs \<noteq> []"
  shows "\<exists>cs. abs_comps cwd p = Some (rs @ cs)"
  using assms by (auto simp: accepts_iff within_def prefix_def)

lemma guard_no_dotdot:
  assumes "cwd_ok cwd" "accepts cwd roots p" "abs_comps cwd p = Some cs"
  shows "''..'' \<notin> set cs"
  using abs_comps_good [OF assms(3)] by (auto simp: list_all_iff)

end

lemma under_root_within:
  assumes "cwd_ok cwd" "abs_path cwd p = Some a" "abs_path cwd r = Some b"
  shows "\<exists>cs rs. abs_comps cwd p = Some cs \<and> abs_comps cwd r = Some rs \<and>
    (under_root a b \<longleftrightarrow> within cs rs)"
proof -
  from assms obtain cs rs where "abs_comps cwd p = Some cs" "a = rooted_str cs"
      "abs_comps cwd r = Some rs" "b = rooted_str rs"
    by (auto simp: abs_path_comps)
  then show ?thesis
    using under_root_comps [OF abs_comps_good abs_comps_good] by (auto simp: within_def)
qed

lemma clean_abs_path: "cwd_ok cwd \<Longrightarrow> abs_path cwd p = Some a \<Longrightarrow> clean a = a \<and> abs_path cwd a = Some a"
proof -
  assume ok: "cwd_ok cwd" and a: "abs_path cwd p = Some a"
  then obtain cs where cs: "abs_comps cwd p = Some cs" "a = rooted_str cs"
    by (auto simp: abs_path_comps)
  then show ?thesis
    using abs_comps_good [OF cs(1)] by (simp add: clean_def clean_comps_rooted_str abs_path_def)
qed

section \<open>Patterns without special characters\<close>

definition literal :: "string \<Rightarrow> bool" where
  "literal s \<longleftrightarrow> (\<forall>c \<in> set s. c \<notin> {CHR ''*'', CHR ''?'', CHR ''['', CHR '']'', CHR 0x5C})"

lemma scan_chunk_body_literal:
  "literal p \<Longrightarrow> scan_chunk_body b (p @ q) = (if q = [] \<or> hd q = CHR ''*'' \<and> \<not> b then (p, q) else (p @ fst (scan_chunk_body b q), snd (scan_chunk_body b q)))"
proof (induction p arbitrary: b)
  case Nil
  then show ?case by (cases q) auto
next
  case (Cons c p)
  then show ?case by (auto simp: literal_def)
qed

lemma match_chunk_failed: "literal p \<Longrightarrow> match_chunk True p s = Some None"
  by (induction p arbitrary: s) (auto simp: literal_def)

lemma match_chunk_literal:
  "literal p \<Longrightarrow> match_chunk False p s = Some (if prefix p s then Some (drop (length p) s) else None)"
proof (induction p arbitrary: s)
  case (Cons c p)
  then have lit: "literal p"
    and c: "c \<noteq> CHR ''?''" "c \<noteq> CHR ''[''" "c \<noteq> CHR 0x5C"
    by (simp_all add: literal_def)
  show ?case
  proof (cases s)
    case Nil
    with c show ?thesis by (simp add: match_chunk_failed [OF lit])
  next
    case s: (Cons d t)
    with c Cons.IH [OF lit] show ?thesis
      by (cases "c = d") (simp_all add: match_chunk_failed [OF lit])
  qed
qed simp

lemma scan_chunk_literal: "literal p \<Longrightarrow> p \<noteq> [] \<Longrightarrow> scan_chunk p = (False, p, [])"
proof -
  assume lit: "literal p" and ne: "p \<noteq> []"
  then have "hd p \<noteq> CHR ''*''" by (cases p) (auto simp: literal_def)
  with lit ne show ?thesis
    using scan_chunk_body_literal [of p False "[]"] by (simp add: scan_chunk_def dropWhile_id)
qed

lemma path_match_Nil [simp]: "path_match [] name \<longleftrightarrow> name = []"
  by (subst path_match.simps) simp

text \<open>One chunk without a leading star, followed by more pattern or by nothing.\<close>

lemma path_match_chunk:
  assumes "pat \<noteq> []" "scan_chunk pat = (False, chunk, rest)" "literal chunk"
  shows "path_match pat name \<longleftrightarrow>
    prefix chunk name \<and> (drop (length chunk) name = [] \<or> rest \<noteq> []) \<and> path_match rest (drop (length chunk) name)"
proof -
  have m: "match_chunk False chunk name = Some (if prefix chunk name then Some (drop (length chunk) name) else None)"
    by (rule match_chunk_literal [OF assms(3)])
  show ?thesis
    unfolding path_match.simps [of pat name] Let_def assms(2) prod.case m option.case
    using assms(1) by auto
qed

lemma path_match_literal: "literal p \<Longrightarrow> path_match p name \<longleftrightarrow> name = p"
proof (cases "p = []")
  case False
  assume lit: "literal p"
  have "path_match p name \<longleftrightarrow> prefix p name \<and> drop (length p) name = []"
    using path_match_chunk [OF False scan_chunk_literal [OF lit False] lit] by simp
  also have "\<dots> \<longleftrightarrow> name = p" by (auto simp: prefix_def)
  finally show ?thesis .
qed simp

lemma scan_chunk_star [simp]: "scan_chunk ''*'' = (True, [], [])"
  by (simp add: scan_chunk_def)

lemma path_match_star: "path_match ''*'' name \<longleftrightarrow> CHR ''/'' \<notin> set name"
  by (simp add: path_match.simps [of "''*''" name])

text \<open>A trailing star stays inside one directory.\<close>

lemma path_match_dir_star:
  assumes "literal d" "d \<noteq> []"
  shows "path_match (d @ ''*'') name \<longleftrightarrow> (\<exists>x. name = d @ x \<and> CHR ''/'' \<notin> set x)"
proof -
  from assms have hd: "hd d \<noteq> CHR ''*''" by (cases d) (auto simp: literal_def)
  then have dw: "dropWhile (\<lambda>c. c = CHR ''*'') (d @ ''*'') = d @ ''*''"
    using assms by (cases d) auto
  have "scan_chunk (d @ ''*'') = (False, d, ''*'')"
    using hd assms scan_chunk_body_literal [of d False "''*''"] by (simp add: scan_chunk_def dw)
  then have "path_match (d @ ''*'') name \<longleftrightarrow> prefix d name \<and> CHR ''/'' \<notin> set (drop (length d) name)"
    using path_match_chunk [of "d @ ''*''" d "''*''" name] assms by (simp add: path_match_star)
  then show ?thesis by (auto simp: prefix_def)
qed

end
