(* ===== verification/Policy.thy ===== *)
theory Policy
  imports Go_Path
begin

text \<open>
  The daemon's security policy (\<open>internal/daemon/policy.go\<close>): how it is read from the environment
  and from the policy file that \<open>sl-dbg mcp --safe\<close> leaves behind, and its gates for programs,
  source paths and expressions. The process environment is an association list; a file is what
  \<open>os.ReadFile\<close> returns for its path (\<open>None\<close> for an error). An error value is \<open>Some message\<close>.
  The per-session source roots test \<open>pathUnderRoots\<close> of \<open>handlers_v2.go\<close> is here too, because it
  is a second implementation of the same path guard.
\<close>

section \<open>Definitions\<close>

type_synonym environ = "(string \<times> string) list"
type_synonym files = "string \<Rightarrow> string option"

record policy =
  AllowProgram :: "string list"
  AllowSourceRoot :: "string list"
  MaxSessions :: go_int
  AuditLogPath :: string
  AllowEval :: bool
  DenyEvalPatterns :: "string list"

definition policy_zero :: policy where
  "policy_zero = \<lparr>AllowProgram = [], AllowSourceRoot = [], MaxSessions = 0, AuditLogPath = [],
     AllowEval = False, DenyEvalPatterns = []\<rparr>"

definition getenv :: "environ \<Rightarrow> string \<Rightarrow> string" where
  "getenv env k = (case map_of env k of None \<Rightarrow> [] | Some v \<Rightarrow> v)"

text \<open>\<open>os.Setenv\<close> refuses a key that is empty or has \<open>=\<close>, and NUL bytes in key or value.\<close>

definition setenv :: "string \<Rightarrow> string \<Rightarrow> environ \<Rightarrow> environ" where
  "setenv k v env =
     (if k = [] \<or> CHR ''='' \<in> set k \<or> CHR 0x00 \<in> set k \<or> CHR 0x00 \<in> set v then env
      else map_put k v env)"

definition user_home_dir :: "environ \<Rightarrow> string option" where
  "user_home_dir env = (if getenv env ''HOME'' = [] then None else Some (getenv env ''HOME''))"

definition temp_dir :: "environ \<Rightarrow> string" where
  "temp_dir env = (if getenv env ''TMPDIR'' = [] then ''/tmp'' else getenv env ''TMPDIR'')"

definition parseBoolEnv :: "string \<Rightarrow> bool" where
  "parseBoolEnv s \<longleftrightarrow> to_lower (trim_space s) \<in> set [''1'', ''true'', ''yes'', ''on'']"

definition splitColonList :: "string \<Rightarrow> string list" where
  "splitColonList s =
     (let t = trim_space s in
      if t = [] then [] else filter (\<lambda>p. p \<noteq> []) (map trim_space (split_on CHR '':'' t)))"

definition cleanAbs :: "string option \<Rightarrow> string list \<Rightarrow> string list" where
  "cleanAbs cwd ps = map clean (List.map_filter (abs_path cwd) ps)"

definition safePolicyFilePath :: "environ \<Rightarrow> string" where
  "safePolicyFilePath env =
     (let v = trim_space (getenv env ''XDG_STATE_HOME'') in
      if v \<noteq> [] then path_join v ''sl-dbg/safe-policy.env''
      else case user_home_dir env of
             Some home \<Rightarrow> path_join home ''.local/state/sl-dbg/safe-policy.env''
           | None \<Rightarrow> path_join (temp_dir env) ''sl-dbg-safe-policy.env'')"

text \<open>One line of the policy file.\<close>

definition load_policy_line :: "environ \<Rightarrow> string \<Rightarrow> environ" where
  "load_policy_line env ln =
     (let l = trim_space ln in
      if l = [] \<or> has_prefix l ''#'' then env
      else case index_byte CHR ''='' l of
          None \<Rightarrow> env
        | Some eq \<Rightarrow>
            if eq = 0 then env
            else let key = trim_space (take eq l); val = drop (Suc eq) l in
              if \<not> has_prefix key ''SL_DBG_'' then env
              else if map_of env key \<noteq> None then env
              else setenv key val env)"

definition loadSafePolicyFile :: "files \<Rightarrow> environ \<Rightarrow> environ" where
  "loadSafePolicyFile fs env =
     (case fs (safePolicyFilePath env) of
        None \<Rightarrow> env
      | Some data \<Rightarrow> foldl load_policy_line env (split_on CHR 0x0A data))"

definition default_deny_patterns :: "string list" where
  "default_deny_patterns =
     [''FileOutputStream'', ''FileWriter'', ''RandomAccessFile'',
      ''ProcessBuilder'', ''Runtime.getRuntime'', ''java.lang.Runtime'',
      ''java.nio.file.Files'', ''java.io.File.delete'', ''createTempFile'',
      ''System.exit'', ''System.load'', ''URLClassLoader'']"

definition LoadPolicyFromEnv :: "files \<Rightarrow> string option \<Rightarrow> environ \<Rightarrow> policy" where
  "LoadPolicyFromEnv fs cwd env0 =
     (let env = loadSafePolicyFile fs env0;
          v = trim_space (getenv env ''SL_DBG_MAX_SESSIONS'');
          raw = getenv env ''SL_DBG_DENY_EVAL_PATTERNS''
      in \<lparr>AllowProgram = splitColonList (getenv env ''SL_DBG_ALLOW_PROGRAM''),
          AllowSourceRoot = cleanAbs cwd (splitColonList (getenv env ''SL_DBG_ALLOW_SOURCE_ROOT'')),
          MaxSessions =
            (if v = [] then 0
             else case atoi v of Inr n \<Rightarrow> if 0 \<le> n then n else 0 | Inl _ \<Rightarrow> 0),
          AuditLogPath = trim_space (getenv env ''SL_DBG_AUDIT_LOG''),
          AllowEval = parseBoolEnv (getenv env ''SL_DBG_ALLOW_EVAL''),
          DenyEvalPatterns =
            (if raw = [] then default_deny_patterns
             else if raw = ''-'' then []
             else splitColonList raw)\<rparr>)"

definition ProgramAllowed :: "policy \<Rightarrow> string \<Rightarrow> string option" where
  "ProgramAllowed p program =
     (if AllowProgram p = [] then None
      else if program = [] then None
      else let base = base_of program in
        if list_ex (\<lambda>glob. path_match glob program \<or> path_match glob base) (AllowProgram p) then None
        else Some (''program '' @ quote program @ '' is not in SL_DBG_ALLOW_PROGRAM allowlist''))"

definition SourcePathAllowed :: "policy \<Rightarrow> string option \<Rightarrow> string \<Rightarrow> string option" where
  "SourcePathAllowed p cwd path =
     (if AllowSourceRoot p = [] then
        Some (''path '' @ quote path @
          '' is outside the session's source roots and SL_DBG_ALLOW_SOURCE_ROOT is unset'')
      else case abs_path cwd path of
          None \<Rightarrow> Some ''cannot resolve path: getwd failed''
        | Some a \<Rightarrow>
            if list_ex (\<lambda>root. under_root (clean a) root) (AllowSourceRoot p) then None
            else Some (''path '' @ quote path @ '' is outside SL_DBG_ALLOW_SOURCE_ROOT allowlist''))"

definition EvalEnabled :: "policy \<Rightarrow> string option" where
  "EvalEnabled p = (if AllowEval p then None else Some ''eval is disabled for this daemon'')"

definition EvalAllowed :: "policy \<Rightarrow> string \<Rightarrow> string option" where
  "EvalAllowed p expr =
     map_option (\<lambda>needle. ''expression contains deny-listed token '' @ quote needle @
         '' (set SL_DBG_DENY_EVAL_PATTERNS=- to disable)'')
       (find (\<lambda>needle. contains expr needle) (DenyEvalPatterns p))"

definition pathUnderRoots :: "string option \<Rightarrow> string \<Rightarrow> string list \<Rightarrow> bool" where
  "pathUnderRoots cwd path roots =
     (case abs_path cwd path of
        None \<Rightarrow> False
      | Some a \<Rightarrow>
          list_ex (\<lambda>r. case abs_path cwd r of None \<Rightarrow> False | Some ra \<Rightarrow> under_root (clean a) (clean ra)) roots)"

text \<open>\<open>hasDotDotSegment\<close>; \<open>filepath.ToSlash\<close> is the identity on Unix.\<close>

definition hasDotDotSegment :: "string \<Rightarrow> bool" where
  "hasDotDotSegment p \<longleftrightarrow> list_ex (\<lambda>seg. seg = ''..'') (split_on CHR ''/'' p)"

section \<open>Reading the policy file\<close>

lemma setenv_map_of: "map_of (setenv k v env) = map_of env \<or> map_of (setenv k v env) = (map_of env)(k \<mapsto> v)"
  by (simp add: setenv_def)

lemma load_policy_line_cases:
  "map_of (load_policy_line env ln) = map_of env \<or>
   (\<exists>k v. has_prefix k ''SL_DBG_'' \<and> map_of env k = None \<and> map_of (load_policy_line env ln) = (map_of env)(k \<mapsto> v))"
proof (cases "index_byte CHR ''='' (trim_space ln)")
  case None
  then show ?thesis by (simp add: load_policy_line_def Let_def)
next
  case (Some eq)
  let ?k = "trim_space (take eq (trim_space ln))" and ?v = "drop (Suc eq) (trim_space ln)"
  have "load_policy_line env ln = env \<or>
      has_prefix ?k ''SL_DBG_'' \<and> map_of env ?k = None \<and> load_policy_line env ln = setenv ?k ?v env"
    using Some by (simp add: load_policy_line_def Let_def)
  then show ?thesis using setenv_map_of [of ?k ?v env] by metis
qed

lemma load_policy_line_keeps: "map_of env k = Some v \<Longrightarrow> map_of (load_policy_line env ln) k = Some v"
  using load_policy_line_cases [of env ln] by auto

lemma load_policy_lines_keep:
  "map_of env k = Some v \<Longrightarrow> map_of (foldl load_policy_line env ls) k = Some v"
  by (induction ls arbitrary: env) (auto simp: load_policy_line_keeps)

lemma load_policy_lines_foreign:
  "\<not> has_prefix k ''SL_DBG_'' \<Longrightarrow> map_of (foldl load_policy_line env ls) k = map_of env k"
proof (induction ls arbitrary: env)
  case (Cons l ls)
  then show ?case using load_policy_line_cases [of env l] by auto
qed simp

section \<open>The path guards\<close>

lemma set_map_filter: "set (List.map_filter f xs) = {y. \<exists>x \<in> set xs. f x = Some y}"
  by (induction xs) (auto split: option.splits)

lemma cleanAbs_set: "cwd_ok cwd \<Longrightarrow> set (cleanAbs cwd ps) = {a. \<exists>p \<in> set ps. abs_path cwd p = Some a}"
  by (auto simp: cleanAbs_def set_map_filter clean_abs_path image_iff) (metis clean_abs_path)

interpretation session_roots: path_guard "\<lambda>cwd roots p. pathUnderRoots cwd p roots"
proof
  fix cwd roots p
  assume ok: "cwd_ok cwd"
  show "pathUnderRoots cwd p roots \<longleftrightarrow>
      (\<exists>cs. abs_comps cwd p = Some cs \<and> (\<exists>r \<in> set roots. \<exists>rs. abs_comps cwd r = Some rs \<and> within cs rs))"
  proof (cases "abs_path cwd p")
    case None
    then have "abs_comps cwd p = None" using ok by (simp add: abs_path_comps)
    with None show ?thesis by (simp add: pathUnderRoots_def)
  next
    case (Some a)
    then have ca: "clean a = a" using ok clean_abs_path by blast
    have "(case abs_path cwd r of None \<Rightarrow> False | Some ra \<Rightarrow> under_root a (clean ra)) \<longleftrightarrow>
        (\<exists>cs rs. abs_comps cwd p = Some cs \<and> abs_comps cwd r = Some rs \<and> within cs rs)" for r
    proof (cases "abs_path cwd r")
      case None
      then show ?thesis using ok by (simp add: abs_path_comps)
    next
      case r: (Some ra)
      then show ?thesis
        using under_root_within [OF ok Some r] clean_abs_path [OF ok r] by auto
    qed
    then have "pathUnderRoots cwd p roots \<longleftrightarrow> (\<exists>r \<in> set roots. \<exists>cs rs.
        abs_comps cwd p = Some cs \<and> abs_comps cwd r = Some rs \<and> within cs rs)"
      unfolding pathUnderRoots_def Some option.case ca list_ex_iff by simp
    then show ?thesis by blast
  qed
qed

interpretation source_roots: path_guard
  "\<lambda>cwd roots p. SourcePathAllowed (policy_zero\<lparr>AllowSourceRoot := cleanAbs cwd roots\<rparr>) cwd p = None"
proof
  fix cwd roots p
  assume ok: "cwd_ok cwd"
  have "SourcePathAllowed (policy_zero\<lparr>AllowSourceRoot := cleanAbs cwd roots\<rparr>) cwd p = None \<longleftrightarrow>
      pathUnderRoots cwd p roots"
  proof (cases "abs_path cwd p")
    case (Some a)
    have "(\<exists>root \<in> set (cleanAbs cwd roots). under_root (clean a) root) \<longleftrightarrow>
        (\<exists>r \<in> set roots. case abs_path cwd r of None \<Rightarrow> False | Some ra \<Rightarrow> under_root (clean a) (clean ra))"
      using clean_abs_path [OF ok] by (fastforce simp: cleanAbs_set [OF ok] split: option.splits)
    then show ?thesis
      using Some by (auto simp: SourcePathAllowed_def pathUnderRoots_def list_ex_iff)
  qed (auto simp: SourcePathAllowed_def pathUnderRoots_def)
  then show "SourcePathAllowed (policy_zero\<lparr>AllowSourceRoot := cleanAbs cwd roots\<rparr>) cwd p = None \<longleftrightarrow>
      (\<exists>cs. abs_comps cwd p = Some cs \<and> (\<exists>r \<in> set roots. \<exists>rs. abs_comps cwd r = Some rs \<and> within cs rs))"
    using session_roots.accepts_iff [OF ok] by simp
qed

lemma SourcePathAllowed_frame:
  "AllowSourceRoot p = AllowSourceRoot q \<Longrightarrow> SourcePathAllowed p cwd path = SourcePathAllowed q cwd path"
  by (simp add: SourcePathAllowed_def split: option.split)

section \<open>Gates\<close>

lemma EvalAllowed_None: "EvalAllowed p e = None \<longleftrightarrow> (\<forall>needle \<in> set (DenyEvalPatterns p). \<not> contains e needle)"
  by (auto simp: EvalAllowed_def find_None_iff)

lemma ProgramAllowed_literal:
  assumes "AllowProgram p \<noteq> []" "\<forall>g \<in> set (AllowProgram p). literal g" "program \<noteq> []"
  shows "ProgramAllowed p program = None \<longleftrightarrow>
    program \<in> set (AllowProgram p) \<or> base_of program \<in> set (AllowProgram p)"
  using assms by (auto simp: ProgramAllowed_def Let_def list_ex_iff path_match_literal)

lemma splitColonList_clean: "x \<in> set (splitColonList s) \<Longrightarrow> x \<noteq> [] \<and> trim_space x = x \<and> CHR '':'' \<notin> set x"
  using trim_space_subset split_on_no_sep by (fastforce simp: splitColonList_def Let_def split: if_splits)

end
