(* ===== verification/Manager.thy ===== *)
theory Manager
  imports Session_Props Policy
begin

text \<open>
  The session manager of the daemon (\<open>Manager\<close> of \<open>session.go\<close>) and the store of watch expressions
  that survives a session (\<open>watches_store.go\<close>). The session table is an association list keyed by
  session id; \<open>List\<close> and the choice of a new default session visit it in an order that is an
  argument. The hash that names a watch file (the first 16 bytes of SHA-256, in hexadecimal) is an
  argument too. A stored watch file is the list of expressions it encodes, or bytes that do not
  decode.
\<close>

section \<open>The watch store\<close>

datatype watch_file = WatchFile "string list" | CorruptFile

type_synonym watch_store = "(string \<times> watch_file) list"

definition watchStoreDir :: "environ \<Rightarrow> string" where
  "watchStoreDir env =
     (let d = getenv env ''XDG_STATE_HOME'' in
      if d \<noteq> [] then path_join d ''sl-dbg''
      else case user_home_dir env of Some h \<Rightarrow> path_join h ''.local/state/sl-dbg'' | None \<Rightarrow> [])"

definition watchKey :: "(string \<Rightarrow> string) \<Rightarrow> string \<Rightarrow> string \<Rightarrow> string \<Rightarrow> string" where
  "watchKey hash lang program cwd =
     (if program = [] then [] else hash (lang @ [CHR 0x00] @ program @ [CHR 0x00] @ cwd))"

definition watchFilePath :: "environ \<Rightarrow> string \<Rightarrow> string" where
  "watchFilePath env key =
     (let d = watchStoreDir env in
      if d = [] \<or> key = [] then [] else path_join d (''watches-'' @ key @ ''.json''))"

definition watch_path :: "(string \<Rightarrow> string) \<Rightarrow> environ \<Rightarrow> session \<Rightarrow> string" where
  "watch_path hash env s = watchFilePath env (watchKey hash (s_Lang s) (s_Program s) (s_Cwd s))"

text \<open>The argument \<open>writable\<close> says whether the directory can be made and the file written.\<close>

definition SaveWatches :: "(string \<Rightarrow> string) \<Rightarrow> environ \<Rightarrow> bool \<Rightarrow> session \<Rightarrow> watch_store \<Rightarrow> watch_store" where
  "SaveWatches hash env writable s store =
     (let path = watch_path hash env s in
      if path = [] then store
      else if s_watches s = [] then map_del path store
      else if \<not> writable then store
      else map_put path (WatchFile (map w_Expression (s_watches s))) store)"

fun add_watches :: "string list \<Rightarrow> session \<Rightarrow> session" where
  "add_watches [] s = s"
| "add_watches (e # es) s = add_watches es (if e \<noteq> [] then AddWatch e s else s)"

definition LoadWatches :: "(string \<Rightarrow> string) \<Rightarrow> environ \<Rightarrow> watch_store \<Rightarrow> session \<Rightarrow> session \<times> watch_store" where
  "LoadWatches hash env store s =
     (let path = watch_path hash env s in
      if path = [] then (s, store)
      else case map_of store path of
          None \<Rightarrow> (s, store)
        | Some CorruptFile \<Rightarrow> (s, map_del path store)
        | Some (WatchFile es) \<Rightarrow> (add_watches es s, store))"

section \<open>The manager\<close>

record manager =
  m_sessions :: "(string \<times> session) list"
  m_defID :: string
  m_maxSessions :: go_int

definition NewManager :: manager where
  "NewManager = \<lparr>m_sessions = [], m_defID = [], m_maxSessions = 0\<rparr>"

definition SetMaxSessions :: "go_int \<Rightarrow> manager \<Rightarrow> manager" where
  "SetMaxSessions n m = m\<lparr>m_maxSessions := n\<rparr>"

definition Reserve :: "manager \<Rightarrow> string option" where
  "Reserve m =
     (if 0 < m_maxSessions m \<and> m_maxSessions m \<le> int (length (m_sessions m))
      then Some ''max session limit reached'' else None)"

definition List_sessions :: "range_order \<Rightarrow> manager \<Rightarrow> session list" where
  "List_sessions ord m = map snd (go_range ord (m_sessions m))"

definition Get_key :: "manager \<Rightarrow> string \<Rightarrow> string" where
  "Get_key m sid = (if sid = [] then m_defID m else sid)"

definition Get :: "manager \<Rightarrow> string \<Rightarrow> string + session" where
  "Get m sid =
     (case map_of (m_sessions m) (Get_key m sid) of
        None \<Rightarrow> Inl (''session not found: '' @ quote (Get_key m sid))
      | Some s \<Rightarrow> Inr s)"

definition SetDefault :: "string \<Rightarrow> manager \<Rightarrow> string option \<times> manager" where
  "SetDefault sid m =
     (if sid \<in> fst ` set (m_sessions m) then (None, m\<lparr>m_defID := sid\<rparr>)
      else (Some (''session not found: '' @ quote sid), m))"

text \<open>
  \<open>Remove\<close>, without the watch file and the adapter, which the daemon state owns: the session is
  dropped and, if it was the default, any remaining session becomes the default.
\<close>

definition Remove :: "range_order \<Rightarrow> string \<Rightarrow> manager \<Rightarrow> manager" where
  "Remove ord sid m =
     (if sid \<in> fst ` set (m_sessions m) then
        let rest = map_del sid (m_sessions m) in
        m\<lparr>m_sessions := rest,
          m_defID := (if m_defID m = sid then (case map fst (go_range ord rest) of [] \<Rightarrow> [] | k # _ \<Rightarrow> k)
                      else m_defID m)\<rparr>
      else m)"

definition register :: "session \<Rightarrow> manager \<Rightarrow> manager" where
  "register s m = m\<lparr>m_sessions := map_put (s_ID s) s (m_sessions m), m_defID := s_ID s\<rparr>"

definition name_char :: "char \<Rightarrow> bool" where
  "name_char c \<longleftrightarrow> is_letter c \<or> is_digit c \<or> c = CHR ''-'' \<or> c = CHR ''_''"

definition validateName :: "manager \<Rightarrow> string \<Rightarrow> string option" where
  "validateName m name =
     (if \<not> list_all name_char name then Some (''session name must be [A-Za-z0-9_-]; got '' @ quote name)
      else if name = [] \<or> 64 < length name then Some ''session name must be 1..64 chars''
      else if name \<in> fst ` set (m_sessions m) then Some (''session name '' @ quote name @ '' already in use'')
      else None)"

text \<open>An update of the session object with client \<open>c\<close>, wherever the table holds it.\<close>

definition put_obj :: "nat \<Rightarrow> (session \<Rightarrow> session) \<Rightarrow> manager \<Rightarrow> manager" where
  "put_obj c f m = m\<lparr>m_sessions := map (\<lambda>(k, s). (k, if s_cli s = c then f s else s)) (m_sessions m)\<rparr>"

definition find_obj :: "nat \<Rightarrow> manager \<Rightarrow> session option" where
  "find_obj c m = find (\<lambda>s. s_cli s = c) (map snd (m_sessions m))"

section \<open>The manager's invariant\<close>

text \<open>
  Ids are unique and name the session they are stored under, every session keeps its own
  invariant, and the default is a stored session, or nothing when there is none.
\<close>

definition mgr_inv :: "manager \<Rightarrow> bool" where
  "mgr_inv m \<longleftrightarrow>
     distinct (map fst (m_sessions m)) \<and>
     (\<forall>(k, s) \<in> set (m_sessions m). s_ID s = k \<and> sess_inv s) \<and>
     (m_defID m \<in> fst ` set (m_sessions m) \<or> m_defID m = [] \<and> m_sessions m = [])"

lemma mgr_inv_new: "mgr_inv NewManager"
  by (simp add: mgr_inv_def NewManager_def)

lemma mgr_inv_register: "mgr_inv m \<Longrightarrow> sess_inv s \<Longrightarrow> mgr_inv (register s m)"
  unfolding mgr_inv_def register_def
  by (auto simp: image_iff) (auto simp: map_put_def split: if_splits)

lemma mgr_inv_SetDefault: "mgr_inv m \<Longrightarrow> mgr_inv (snd (SetDefault sid m))"
  by (auto simp: SetDefault_def mgr_inv_def)

lemma mgr_inv_Remove:
  assumes "mgr_inv m"
  shows "mgr_inv (Remove ord sid m)"
proof (cases "sid \<in> fst ` set (m_sessions m)")
  case True
  let ?rest = "map_del sid (m_sessions m)"
  have d: "distinct (map fst ?rest)" and all: "\<forall>(k, s) \<in> set ?rest. s_ID s = k \<and> sess_inv s"
    using assms by (auto simp: mgr_inv_def) (auto simp: map_del_def)
  have def_in: "m_defID (Remove ord sid m) \<in> fst ` set ?rest \<or> m_defID (Remove ord sid m) = [] \<and> ?rest = []"
  proof (cases "m_defID m = sid")
    case eq: True
    show ?thesis
    proof (cases "go_range ord ?rest")
      case Nil
      then have "?rest = []" by (metis length_0_conv length_go_range)
      with Nil True eq show ?thesis by (simp add: Remove_def Let_def)
    next
      case (Cons kv kvs)
      then have "kv \<in> set ?rest" by (metis list.set_intros(1) set_go_range)
      then have "fst kv \<in> fst ` set ?rest" by blast
      moreover have "m_defID (Remove ord sid m) = fst kv"
        using Cons True eq by (simp add: Remove_def Let_def)
      ultimately show ?thesis by metis
    qed
  next
    case False
    with assms True show ?thesis by (auto simp: mgr_inv_def Remove_def Let_def image_iff)
  qed
  then show ?thesis
    using d all True unfolding mgr_inv_def by (auto simp: Remove_def Let_def)
next
  case False
  with assms show ?thesis by (simp add: Remove_def)
qed

text \<open>What every operation on a session object keeps: the session's invariant and its identity.\<close>

definition keeps :: "(session \<Rightarrow> session) \<Rightarrow> bool" where
  "keeps f \<longleftrightarrow> (\<forall>s. (sess_inv s \<longrightarrow> sess_inv (f s)) \<and> s_ID (f s) = s_ID s \<and> s_cli (f s) = s_cli s)"

lemma keepsI [intro?]:
  "(\<And>s. sess_inv s \<Longrightarrow> sess_inv (f s)) \<Longrightarrow> (\<And>s. s_ID (f s) = s_ID s) \<Longrightarrow> (\<And>s. s_cli (f s) = s_cli s) \<Longrightarrow> keeps f"
  by (simp add: keeps_def)

lemma keeps_comp: "keeps f \<Longrightarrow> keeps g \<Longrightarrow> keeps (\<lambda>s. f (g s))"
  by (simp add: keeps_def)

lemma keys_put_obj [simp]: "map fst (m_sessions (put_obj c f m)) = map fst (m_sessions m)"
  by (simp add: put_obj_def case_prod_beta comp_def)

lemma put_obj_fields [simp]:
  "m_defID (put_obj c f m) = m_defID m" "m_maxSessions (put_obj c f m) = m_maxSessions m"
  "length (m_sessions (put_obj c f m)) = length (m_sessions m)"
  by (simp_all add: put_obj_def)

lemma clis_put_obj: "keeps f \<Longrightarrow> map (s_cli \<circ> snd) (m_sessions (put_obj c f m)) = map (s_cli \<circ> snd) (m_sessions m)"
  by (simp add: put_obj_def keeps_def case_prod_beta comp_def)

lemma mgr_inv_put_obj:
  assumes "mgr_inv m" "keeps f"
  shows "mgr_inv (put_obj c f m)"
proof -
  have keys: "fst ` set (m_sessions (put_obj c f m)) = fst ` set (m_sessions m)"
    by (rule set_map_eqD) simp
  have "s_ID s = k \<and> sess_inv s" if "(k, s) \<in> set (m_sessions (put_obj c f m))" for k s
    using that assms by (auto simp: put_obj_def mgr_inv_def keeps_def split: if_splits)
  moreover have "m_sessions (put_obj c f m) = [] \<longleftrightarrow> m_sessions m = []"
    by (simp add: put_obj_def)
  ultimately show ?thesis using assms(1) keys by (auto simp: mgr_inv_def)
qed

lemma ident_notify [simp]: "s_ID (notifyWaiters ev s) = s_ID s" "s_cli (notifyWaiters ev s) = s_cli s"
  by (simp_all add: notifyWaiters_def)

lemma ident_hit_loop [simp]: "s_ID (snd (hit_loop ord hids s)) = s_ID s" "s_cli (snd (hit_loop ord hids s)) = s_cli s"
  by (induction hids arbitrary: s) (simp_all add: split_beta Let_def)

lemma ident_handleStopped [simp]:
  "s_ID (handleStopped ord reason tid hids s) = s_ID s" "s_cli (handleStopped ord reason tid hids s) = s_cli s"
  by (simp_all add: handleStopped_def split_beta Let_def)

lemma ident_record [simp]:
  "s_ID (recordEvent ts ev s) = s_ID s" "s_cli (recordEvent ts ev s) = s_cli s"
  "s_ID (recordOutput ts c txt s) = s_ID s" "s_cli (recordOutput ts c txt s) = s_cli s"
  by (simp_all add: recordEvent_def push_event_def recordOutput_def push_output_def)

lemma ident_removeBPs [simp]: "s_ID (snd (removeBPs is s)) = s_ID s" "s_cli (snd (removeBPs is s)) = s_cli s"
  by (induction "is" arbitrary: s) (simp_all add: split_beta Let_def RemoveBP_def)

lemma keeps_handleEvent: "keeps (handleEvent ord ts ev)"
  by (rule keepsI, erule inv_handleEvent)
     (cases ev; simp add: handleEvent_def handleExited_def handleTerminated_def Let_def)+

lemma keeps_watchAdapterExit: "keeps (watchAdapterExit st)"
  by (rule keepsI, erule inv_watchAdapterExit) (simp_all add: watchAdapterExit_def split_beta Let_def)

lemma keeps_installStateWaiter: "keeps (\<lambda>s. snd (installStateWaiter b s))"
  by (rule keepsI, erule inv_installStateWaiter)
     (simp_all add: installStateWaiter_def Let_def split: option.split)

lemma keeps_new_bp:
  "(\<And>i. bp_LocalID (mk i) = i) \<Longrightarrow> keeps (\<lambda>s. PutBP (mk (fst (AllocBP s))) (snd (AllocBP s)))"
  by (rule keepsI, rule inv_new_bp, assumption) (simp_all add: AllocBP_def PutBP_def)

lemma keeps_new_func_bp:
  "(\<And>i. fbp_LocalID (mk i) = i) \<Longrightarrow> keeps (\<lambda>s. PutFuncBP (mk (fst (AllocBP s))) (snd (AllocBP s)))"
  by (rule keepsI, rule inv_new_func_bp, assumption) (simp_all add: AllocBP_def PutFuncBP_def)

lemma keeps_RemoveBP: "keeps (\<lambda>s. snd (RemoveBP i s))"
  by (rule keepsI, erule inv_RemoveBP) (simp_all add: RemoveBP_def)

lemma keeps_SetBPReply: "keeps (SetBPReply i d v)"
  by (rule keepsI, erule inv_SetBPReply) (simp_all add: SetBPReply_def)

lemma keeps_UpdateFuncBP: "keeps (UpdateFuncBP i d v)"
  by (rule keepsI, erule inv_UpdateFuncBP) (simp_all add: UpdateFuncBP_def)

lemma keeps_AddWatch: "keeps (AddWatch e)"
  by (rule keepsI, erule inv_AddWatch) (simp_all add: AddWatch_def)

lemma keeps_RemoveWatch: "keeps (\<lambda>s. snd (RemoveWatch i s))"
  by (rule keepsI, erule inv_RemoveWatch) (simp_all add: RemoveWatch_def)

lemma keeps_ClearWatches: "keeps ClearWatches"
  by (rule keepsI, erule inv_ClearWatches) (simp_all add: ClearWatches_def)

lemma keeps_clearOnce: "keeps (\<lambda>s. snd (clearOnceBPs ord is s))"
  by (rule keepsI, erule inv_clearOnceBPs) (simp_all add: clearOnceBPs_def split_beta Let_def)

lemma keeps_dropWaiter: "keeps (dropWaiter ch)"
  by (rule keepsI, erule inv_dropWaiter) (simp_all add: dropWaiter_def)

lemma keeps_CloseSession: "keeps CloseSession"
  by (rule keepsI, erule inv_CloseSession) (simp_all add: CloseSession_def)

lemma keeps_fields:
  "keeps (SetExcFilters fs)" "keeps (SetLastLocation l)" "keeps (\<lambda>s. s\<lparr>s_pendingConfigDone := b\<rparr>)"
  "keeps (\<lambda>s. s\<lparr>s_caps := caps\<rparr>)" "keeps (\<lambda>s. s\<lparr>s_onceQ := q s\<rparr>)"
  by (simp_all add: keeps_def sess_inv_defs SetExcFilters_def SetLastLocation_def)

lemmas keeps_ops [intro] =
  keeps_handleEvent keeps_watchAdapterExit keeps_installStateWaiter keeps_new_bp keeps_new_func_bp
  keeps_RemoveBP keeps_SetBPReply keeps_UpdateFuncBP keeps_AddWatch keeps_RemoveWatch
  keeps_ClearWatches keeps_clearOnce keeps_dropWaiter keeps_CloseSession keeps_fields

lemma Get_Inr: "mgr_inv m \<Longrightarrow> Get m sid = Inr s \<Longrightarrow> s_ID s = Get_key m sid \<and> sess_inv s \<and> map_of (m_sessions m) (s_ID s) = Some s"
  by (auto simp: Get_def mgr_inv_def split: option.splits dest!: map_of_SomeD)

lemma Get_register [simp]: "Get (register s m) (s_ID s) = Inr s"
  by (simp add: Get_def Get_key_def register_def)

lemma Get_register_default: "Get (register s m) [] = Inr s"
  by (simp add: Get_def Get_key_def register_def)

lemma Get_Remove: "sid \<noteq> [] \<Longrightarrow> \<exists>e. Get (Remove ord sid m) sid = Inl e"
proof -
  assume "sid \<noteq> []"
  have "map_of (m_sessions (Remove ord sid m)) sid = None"
    by (auto simp: Remove_def Let_def map_of_eq_None_iff)
  with \<open>sid \<noteq> []\<close> show ?thesis by (simp add: Get_def Get_key_def)
qed

lemma Get_Remove_other:
  "mgr_inv m \<Longrightarrow> k \<noteq> sid \<Longrightarrow> k \<noteq> [] \<Longrightarrow> Get (Remove ord sid m) k = Get m k"
  by (auto simp: Get_def Get_key_def Remove_def Let_def split: option.splits)

section \<open>Restoring watches\<close>

lemma add_watches_exprs:
  "\<forall>e \<in> set es. e \<noteq> [] \<Longrightarrow>
   map w_Expression (s_watches (add_watches es s)) = map w_Expression (s_watches s) @ es"
  by (induction es arbitrary: s) (auto simp: AddWatch_def)

lemma inv_add_watches: "sess_inv s \<Longrightarrow> sess_inv (add_watches es s)"
  by (induction es arbitrary: s) (auto intro: inv_AddWatch)

lemma s_ID_add_watches [simp]: "s_ID (add_watches es s) = s_ID s"
  by (induction es arbitrary: s) (auto simp: AddWatch_def)

end
