(* ===== verification/Adapter.thy ===== *)
theory Adapter
  imports Policy Json
begin

text \<open>
  The registry of language adapters (\<open>internal/adapter\<close>): where the adapter of a language is found,
  the command line that starts it, and the arguments of the DAP \<open>launch\<close> and \<open>attach\<close> requests. What
  the code asks the operating system (program search, file status, whether an interpreter can import
  debugpy, the entries of a jar, the output of \<open>go env\<close>) is the record \<open>host\<close>.
\<close>

section \<open>Definitions\<close>

record host =
  h_env :: environ
  h_cwd :: "string option"
  h_exe :: "string option"
  h_lookpath :: "string \<Rightarrow> string option"
  h_isdir :: "string \<Rightarrow> bool option"
  h_debugpy :: "string \<Rightarrow> bool"
  h_jar :: "string \<Rightarrow> string + (string \<times> nat) list"
  h_goenv :: "(string \<times> string) option"

datatype transport = TransportStdio | TransportTCPListen

record launch_cfg =
  lc_Program :: string
  lc_Args :: "string list"
  lc_Cwd :: string
  lc_Env :: "string list"
  lc_StopOnEntry :: bool
  lc_MainClass :: string
  lc_Classpath :: string
  lc_SourceRoots :: "string list"

record attach_cfg =
  ac_Host :: string
  ac_Port :: go_int
  ac_PID :: go_int
  ac_SourceRoots :: "string list"

datatype lang = LPython | LGo | LJava

definition adapter_Get :: "string \<Rightarrow> string + lang" where
  "adapter_Get l =
     (if l = ''python'' then Inr LPython else if l = ''go'' then Inr LGo else if l = ''java'' then Inr LJava
      else Inl (''unknown language: '' @ quote l))"

fun lang_name :: "lang \<Rightarrow> string" where
  "lang_name LPython = ''python''"
| "lang_name LGo = ''go''"
| "lang_name LJava = ''java''"

definition adapter_List :: "range_order \<Rightarrow> lang list" where
  "adapter_List ord = go_range ord [LGo, LJava, LPython]"

fun AdapterID :: "lang \<Rightarrow> string" where
  "AdapterID LPython = ''debugpy''"
| "AdapterID LGo = ''go''"
| "AdapterID LJava = ''java''"

definition cfgHost :: "string \<Rightarrow> string" where
  "cfgHost h = (if h = [] then ''127.0.0.1'' else h)"

text \<open>Python.\<close>

definition PythonPath :: "host \<Rightarrow> string + string" where
  "PythonPath h =
     (case List.map_filter (h_lookpath h) [''python3'', ''python''] of
        py # _ \<Rightarrow> Inr py | [] \<Rightarrow> Inl ''Python 3 not found in PATH'')"

definition PythonVenvDir :: "host \<Rightarrow> string option" where
  "PythonVenvDir h = map_option (\<lambda>home. path_join home ''.cache/sl-dbg/adapters/python'') (user_home_dir (h_env h))"

definition PythonAdapterPath :: "host \<Rightarrow> string + string" where
  "PythonAdapterPath h =
     (let venv = (case PythonVenvDir h of None \<Rightarrow> [] | Some d \<Rightarrow> [path_join d ''bin/python'']);
          candidates = venv @ List.map_filter (h_lookpath h) [''python3'', ''python'']
      in case find (h_debugpy h) candidates of
           Some py \<Rightarrow> Inr py
         | None \<Rightarrow> Inl ''debugpy not importable; run `sl-dbg install-adapter python`'')"

text \<open>The loop that turns \<open>KEY=value\<close> strings into a map; entries without \<open>=\<close> are dropped.\<close>

definition env_map :: "string list \<Rightarrow> (string \<times> json) list" where
  "env_map kvs =
     foldl (\<lambda>m kv. case index_byte CHR ''='' kv of
              None \<Rightarrow> m | Some i \<Rightarrow> map_put (take i kv) (JStr (drop (Suc i) kv)) m) [] kvs"

definition put_if :: "bool \<Rightarrow> string \<Rightarrow> json \<Rightarrow> (string \<times> json) list \<Rightarrow> (string \<times> json) list" where
  "put_if b k v m = (if b then map_put k v m else m)"

definition python_launch_args :: "host \<Rightarrow> launch_cfg \<Rightarrow> string + json" where
  "python_launch_args h cfg =
     (if lc_Program cfg = [] then Inl ''python launch requires --program''
      else case PythonPath h of
          Inl e \<Rightarrow> Inl e
        | Inr py \<Rightarrow>
            Inr (JObj (put_if (lc_Env cfg \<noteq> []) ''env'' (JObj (env_map (lc_Env cfg)))
              (put_if (lc_Cwd cfg \<noteq> []) ''cwd'' (JStr (lc_Cwd cfg))
              (put_if (lc_Args cfg \<noteq> []) ''args'' (JArr (map JStr (lc_Args cfg)))
                [(''name'', JStr ''sl-dbg launch''), (''type'', JStr ''python''), (''request'', JStr ''launch''),
                 (''program'', JStr (lc_Program cfg)), (''console'', JStr ''internalConsole''),
                 (''stopOnEntry'', JBool (lc_StopOnEntry cfg)), (''justMyCode'', JBool True), (''python'', JStr py)])))))"

definition python_attach_args :: "attach_cfg \<Rightarrow> string + json" where
  "python_attach_args cfg =
     (if ac_Port cfg = 0 \<and> ac_PID cfg = 0 then Inl ''python attach requires --port or --pid''
      else Inr (JObj ([(''name'', JStr ''sl-dbg attach''), (''type'', JStr ''python''), (''request'', JStr ''attach'')] @
        (if ac_Port cfg \<noteq> 0 then
           [(''connect'', JObj [(''host'', JStr (cfgHost (ac_Host cfg))), (''port'', JInt (ac_Port cfg))])]
         else [(''processId'', JInt (ac_PID cfg))]))))"

text \<open>Go.\<close>

definition path_list :: "string \<Rightarrow> string list" where
  "path_list s = (if s = [] then [] else split_on CHR '':'' s)"

definition GoBinDir :: "host \<Rightarrow> string" where
  "GoBinDir h =
     (let fallback = (case path_list (getenv (h_env h) ''GOPATH'') of
                        p # _ \<Rightarrow> path_join p ''bin''
                      | [] \<Rightarrow> (case user_home_dir (h_env h) of None \<Rightarrow> [] | Some home \<Rightarrow> path_join home ''go/bin''))
      in case h_goenv h of
           None \<Rightarrow> fallback
         | Some (gobin, gopath) \<Rightarrow>
             if gobin \<noteq> [] then gobin
             else (case path_list gopath of p # _ \<Rightarrow> path_join p ''bin'' | [] \<Rightarrow> fallback))"

definition goInstallDirs :: "host \<Rightarrow> string list" where
  "goInstallDirs h =
     (let gobin = getenv (h_env h) ''GOBIN''; gopath = getenv (h_env h) ''GOPATH'' in
      (if GoBinDir h \<noteq> [] then [GoBinDir h] else []) @
      (if gobin \<noteq> [] then [gobin] else []) @
      map (\<lambda>p. path_join p ''bin'') (path_list gopath) @
      (case user_home_dir (h_env h) of None \<Rightarrow> [] | Some home \<Rightarrow> [path_join home ''go/bin'']))"

definition DelvePath :: "host \<Rightarrow> string + string" where
  "DelvePath h =
     (case h_lookpath h ''dlv'' of
        Some p \<Rightarrow> Inr p
      | None \<Rightarrow>
          (case List.map_filter (\<lambda>d. if is_abs d then h_lookpath h (path_join d ''dlv'') else None) (goInstallDirs h) of
             p # _ \<Rightarrow> Inr p
           | [] \<Rightarrow> Inl ''executable dlv not found in PATH or Go install directories; run `sl-dbg install-adapter go`''))"

definition go_launch_args :: "launch_cfg \<Rightarrow> string + json" where
  "go_launch_args cfg =
     (if lc_Program cfg = [] then Inl ''go launch requires --program (path to a .go file, package, or built binary)''
      else Inr (JObj (put_if (lc_Env cfg \<noteq> []) ''env'' (JObj (env_map (lc_Env cfg)))
              (put_if (lc_Cwd cfg \<noteq> []) ''cwd'' (JStr (lc_Cwd cfg))
              (put_if (lc_Args cfg \<noteq> []) ''args'' (JArr (map JStr (lc_Args cfg)))
                [(''name'', JStr ''sl-dbg launch''), (''type'', JStr ''go''), (''request'', JStr ''launch''),
                 (''mode'', JStr ''debug''), (''program'', JStr (lc_Program cfg)),
                 (''stopOnEntry'', JBool (lc_StopOnEntry cfg))])))))"

definition go_attach_args :: "attach_cfg \<Rightarrow> string + json" where
  "go_attach_args cfg =
     (if ac_PID cfg = 0 \<and> ac_Port cfg = 0 then Inl ''go attach requires --pid (local) or --port (headless dlv)''
      else Inr (JObj ([(''name'', JStr ''sl-dbg attach''), (''type'', JStr ''go''), (''request'', JStr ''attach'')] @
        (if ac_PID cfg \<noteq> 0 then [(''mode'', JStr ''local''), (''processId'', JInt (ac_PID cfg))]
         else [(''mode'', JStr ''remote''), (''host'', JStr (cfgHost (ac_Host cfg))), (''port'', JInt (ac_Port cfg))]))))"

text \<open>
  Java. \<open>string(cp[i])\<close> on a byte is the UTF-8 encoding of the code point with that number, so a
  byte of 128 or more becomes two bytes.
\<close>

definition string_of_byte :: "char \<Rightarrow> string" where
  "string_of_byte c =
     (let n = char_code c in if n < 128 then [c] else [char_of (192 + n div 64), char_of (128 + n mod 64)])"

fun classpath_loop :: "string \<Rightarrow> string \<Rightarrow> string list" where
  "classpath_loop cur [] = (if cur = [] then [] else [cur])"
| "classpath_loop cur (c # cs) =
     (if c = CHR '':'' then (if cur = [] then classpath_loop [] cs else cur # classpath_loop [] cs)
      else classpath_loop (cur @ string_of_byte c) cs)"

definition splitClasspath :: "string \<Rightarrow> string list" where
  "splitClasspath cp = classpath_loop [] cp"

definition joinArgs :: "string list \<Rightarrow> string" where
  "joinArgs args = join_with '' '' args"

definition add_root :: "host \<Rightarrow> string \<Rightarrow> string list \<Rightarrow> string list" where
  "add_root h p out = (if p = [] \<or> p \<in> set out then out else if h_isdir h p = Some True then out @ [p] else out)"

definition inferJavaSourceRoots :: "host \<Rightarrow> string \<Rightarrow> string list \<Rightarrow> string list" where
  "inferJavaSourceRoots h cwd0 classpath =
     (let cwd = (if cwd0 = [] then (case h_cwd h of Some wd \<Rightarrow> wd | None \<Rightarrow> []) else cwd0);
          convs = (if cwd = [] then [] else map (path_join cwd) [''src/main/java'', ''src/test/java'', ''src''])
      in fold (add_root h) (cwd # classpath @ convs) [])"

definition javaDebugJarPath :: "host \<Rightarrow> string" where
  "javaDebugJarPath h =
     (let p = getenv (h_env h) ''SL_DBG_JAVA_DEBUG_JAR'' in
      if p \<noteq> [] then p
      else
        let candidates =
              (case user_home_dir (h_env h) of None \<Rightarrow> []
               | Some home \<Rightarrow> [path_join home ''.cache/sl-dbg/adapters/sl-dbg-java-adapter.jar'']) @
              (case h_exe h of None \<Rightarrow> []
               | Some exe \<Rightarrow> [path_join (dir_of exe) ''../adapters/java-launcher/target/sl-dbg-java-adapter.jar'']) @
              (case h_cwd h of None \<Rightarrow> []
               | Some wd \<Rightarrow> [path_join wd ''adapters/java-launcher/target/sl-dbg-java-adapter.jar''])
        in case find (\<lambda>c. h_isdir h c \<noteq> None) candidates of None \<Rightarrow> [] | Some c \<Rightarrow> c)"

definition ValidateJavaJar :: "host \<Rightarrow> string \<Rightarrow> string option" where
  "ValidateJavaJar h path =
     (case h_jar h path of
        Inl e \<Rightarrow> Some (''invalid Java adapter jar at '' @ path @ '': '' @ e)
      | Inr entries \<Rightarrow>
          if list_ex (\<lambda>(name, size). name = ''META-INF/MANIFEST.MF'' \<and> 0 < size) entries then None
          else Some (''invalid Java adapter jar at '' @ path @ '': missing manifest''))"

definition java_detect :: "host \<Rightarrow> string + string" where
  "java_detect h =
     (let jar = javaDebugJarPath h in
      if jar = [] then Inl (''sl-dbg java adapter jar not found '' @ [CHR 0xE2, CHR 0x80, CHR 0x94] @ '' run `sl-dbg install-adapter java` to install it'')
      else if h_lookpath h ''java'' = None then Inl ''`java` not in PATH''
      else case ValidateJavaJar h jar of Some e \<Rightarrow> Inl e | None \<Rightarrow> Inr jar)"

definition java_launch_args :: "host \<Rightarrow> launch_cfg \<Rightarrow> string + json" where
  "java_launch_args h cfg =
     (if lc_MainClass cfg = [] then Inl ''java launch requires --main <mainClass>''
      else
        let cpEntries = splitClasspath (lc_Classpath cfg);
            roots = (if lc_SourceRoots cfg = [] then inferJavaSourceRoots h (lc_Cwd cfg) cpEntries else lc_SourceRoots cfg)
        in Inr (JObj (put_if (roots \<noteq> []) ''sourcePaths'' (JArr (map JStr roots))
             (put_if (lc_Cwd cfg \<noteq> []) ''cwd'' (JStr (lc_Cwd cfg))
             (put_if (lc_StopOnEntry cfg) ''stopOnEntry'' (JBool True)
               [(''name'', JStr ''sl-dbg launch''), (''type'', JStr ''java''), (''request'', JStr ''launch''),
                (''mainClass'', JStr (lc_MainClass cfg)), (''classPaths'', JArr (map JStr cpEntries)),
                (''args'', JStr (joinArgs (lc_Args cfg)))])))))"

definition java_attach_args :: "attach_cfg \<Rightarrow> string + json" where
  "java_attach_args cfg =
     (if ac_Port cfg = 0 then Inl ''java attach requires --port''
      else Inr (JObj (put_if (ac_SourceRoots cfg \<noteq> []) ''sourcePaths'' (JArr (map JStr (ac_SourceRoots cfg)))
        [(''name'', JStr ''sl-dbg attach''), (''type'', JStr ''java''), (''request'', JStr ''attach''),
         (''hostName'', JStr (cfgHost (ac_Host cfg))), (''port'', JInt (ac_Port cfg))])))"

text \<open>The functions of the registered \<open>Spec\<close> of each language.\<close>

fun Detect :: "host \<Rightarrow> lang \<Rightarrow> string + string" where
  "Detect h LPython = PythonAdapterPath h"
| "Detect h LGo = DelvePath h"
| "Detect h LJava = java_detect h"

fun InstallHint :: "lang \<Rightarrow> string" where
  "InstallHint LPython = ''Run `sl-dbg install-adapter python` (installs debugpy in an isolated virtual environment).''"
| "InstallHint LGo = ''go install github.com/go-delve/delve/cmd/dlv@latest''"
| "InstallHint LJava = ''Run `sl-dbg install-adapter java` to download and install the adapter automatically (no Maven required). Override the jar location with SL_DBG_JAVA_DEBUG_JAR.''"

fun LaunchAdapter :: "host \<Rightarrow> lang \<Rightarrow> string + string list \<times> transport" where
  "LaunchAdapter h LPython =
     (case PythonAdapterPath h of Inl e \<Rightarrow> Inl e | Inr py \<Rightarrow> Inr ([py, ''-m'', ''debugpy.adapter''], TransportStdio))"
| "LaunchAdapter h LGo =
     (case DelvePath h of Inl e \<Rightarrow> Inl e | Inr p \<Rightarrow> Inr ([p, ''dap'', ''--listen=127.0.0.1:{PORT}''], TransportTCPListen))"
| "LaunchAdapter h LJava =
     (let jar = javaDebugJarPath h in
      if jar = [] then Inl ''sl-dbg java adapter jar not configured''
      else case ValidateJavaJar h jar of
          Some e \<Rightarrow> Inl e
        | None \<Rightarrow>
            (case h_lookpath h ''java'' of
               None \<Rightarrow> Inl ''exec: java: executable file not found in $PATH''
             | Some java \<Rightarrow>
                 Inr ([java, ''--add-exports=jdk.jdi/com.sun.tools.example.debug.expr=ALL-UNNAMED'',
                       ''-jar'', jar, ''--port={PORT}''], TransportTCPListen)))"

fun BuildLaunchArgs :: "host \<Rightarrow> lang \<Rightarrow> launch_cfg \<Rightarrow> string + json" where
  "BuildLaunchArgs h LPython cfg = python_launch_args h cfg"
| "BuildLaunchArgs h LGo cfg = go_launch_args cfg"
| "BuildLaunchArgs h LJava cfg = java_launch_args h cfg"

fun BuildAttachArgs :: "lang \<Rightarrow> attach_cfg \<Rightarrow> string + json" where
  "BuildAttachArgs LPython cfg = python_attach_args cfg"
| "BuildAttachArgs LGo cfg = go_attach_args cfg"
| "BuildAttachArgs LJava cfg = java_attach_args cfg"

section \<open>Lemmas\<close>

lemma adapter_Get_name: "adapter_Get (lang_name l) = Inr l"
  by (cases l) (simp_all add: adapter_Get_def)

lemma string_of_byte_ascii: "char_code c < 128 \<Longrightarrow> string_of_byte c = [c]"
  by (simp add: string_of_byte_def)

lemma classpath_loop_ascii:
  "\<forall>c \<in> set cp. char_code c < 128 \<Longrightarrow> CHR '':'' \<notin> set cur \<Longrightarrow>
   classpath_loop cur cp = filter (\<lambda>e. e \<noteq> []) (split_on CHR '':'' (cur @ cp))"
proof (induction cur cp rule: classpath_loop.induct)
  case (1 cur)
  then show ?case by (simp add: split_on_id)
next
  case (2 cur c cs)
  show ?case
  proof (cases "c = CHR '':''")
    case True
    with 2 show ?thesis by (simp add: split_on_sep)
  next
    case False
    with 2 show ?thesis by (simp add: string_of_byte_ascii)
  qed
qed

lemma map_of_put_if: "map_of (put_if b k v m) = (if b then (map_of m)(k \<mapsto> v) else map_of m)"
  by (simp add: put_if_def)

end
