(* ===== verification/Daemon_State.thy ===== *)
theory Daemon_State
  imports Manager Adapter
begin

text \<open>
  The state the request handlers of the daemon work on, and the primitives they are written with.
  A handler is a computation of the state monad over \<open>dstate\<close>; its result is \<open>Ok\<close>, the error of a
  failed adapter call, or the crash of the daemon (a Go run-time panic, which nothing recovers).
  Everything outside the program is the record \<open>env\<close> of functions over an opaque world: the debug
  adapters, the clock, the file system, process start. A call to an adapter hands back, with the
  answer, what the other goroutines did in the meantime (\<open>tick\<close>s): events the pump of any session
  delivered, exits of adapter processes, and runs of queued \<open>clearOnceBPs\<close>. Requests are served one
  after the other; goroutines of the sessions interleave with them at every adapter call.
\<close>

section \<open>Outcomes and the environment\<close>

datatype call_err = CallErr (ce_msg: string) (ce_deadline: bool)

datatype 'a outcome = Ok 'a | Fail call_err | Crash string

datatype tick = TickEvent timestamp dap_event | TickClear nat | TickExit adapter_exit

datatype wait_end = Elapsed | Cancelled

datatype async_end = AsyncReply | AsyncFailed string | AsyncClosed | AsyncTimeout

text \<open>
  \<open>e_dap w c limit r\<close> is the answer of the adapter of client \<open>c\<close> to \<open>r\<close>, where \<open>limit\<close> is the caller's
  own deadline, if it set one; \<open>e_open\<close> gives the bytes read from a file and whether the read ended
  without an error; \<open>e_order\<close> is the supply of orders for iterations over maps.
\<close>

record 'w env =
  e_policy :: policy
  e_audit :: bool
  e_host :: host
  e_hash :: "string \<Rightarrow> string"
  e_writable :: bool
  e_order :: "nat \<Rightarrow> range_order"
  e_time_error :: "string \<Rightarrow> string"
  e_now :: "'w \<Rightarrow> timestamp"
  e_stat :: "'w \<Rightarrow> string \<Rightarrow> bool option"
  e_open :: "'w \<Rightarrow> string \<Rightarrow> (string \<times> bool) option"
  e_dap :: "'w \<Rightarrow> nat \<Rightarrow> int option \<Rightarrow> dap_request \<Rightarrow> 'w \<times> (nat \<times> tick) list \<times> (call_err + dap_reply)"
  e_send :: "'w \<Rightarrow> nat \<Rightarrow> dap_request \<Rightarrow> 'w \<times> (nat \<times> tick) list \<times> string option"
  e_async :: "'w \<Rightarrow> nat \<Rightarrow> 'w \<times> (nat \<times> tick) list \<times> async_end"
  e_await :: "'w \<Rightarrow> nat \<Rightarrow> int \<Rightarrow> 'w \<times> (nat \<times> tick) list \<times> wait_end"
  e_spawn :: "'w \<Rightarrow> string list \<Rightarrow> transport \<Rightarrow> 'w \<times> (string + string)"

text \<open>
  \<open>d_new\<close> is the session under construction, \<open>d_inits\<close> the clients whose pump has signalled
  \<open>initialized\<close>. \<open>d_sent\<close> logs the requests the handlers sent, \<open>d_background\<close> those of the goroutines.
\<close>

record 'w dstate =
  d_world :: 'w
  d_mgr :: manager
  d_new :: "session option"
  d_inits :: "nat list"
  d_nextCli :: nat
  d_orders :: nat
  d_store :: watch_store
  d_audit :: "(string \<times> string \<times> (string \<times> json) list) list"
  d_sent :: "(nat \<times> dap_request) list"
  d_background :: "(nat \<times> dap_request) list"
  d_startedAt :: timestamp
  d_shutdown :: bool

type_synonym ('w, 'a) op = "('w dstate, 'a) state"
type_synonym ('w, 'a) act = "('w dstate, 'a outcome) state"

section \<open>Session objects\<close>

definition upd_obj :: "nat \<Rightarrow> (session \<Rightarrow> session) \<Rightarrow> 'w dstate \<Rightarrow> 'w dstate" where
  "upd_obj c f st = st\<lparr>d_mgr := put_obj c f (d_mgr st),
     d_new := map_option (\<lambda>s. if s_cli s = c then f s else s) (d_new st)\<rparr>"

definition obj :: "nat \<Rightarrow> 'w dstate \<Rightarrow> session" where
  "obj c st =
     (case find_obj c (d_mgr st) of
        Some s \<Rightarrow> s
      | None \<Rightarrow> (case d_new st of Some s \<Rightarrow> s | None \<Rightarrow> newSession c [] []))"

section \<open>What happens beside the handler\<close>

definition next_order :: "'w env \<Rightarrow> 'w dstate \<Rightarrow> range_order \<times> 'w dstate" where
  "next_order env st = (e_order env (d_orders st), st\<lparr>d_orders := Suc (d_orders st)\<rparr>)"

text \<open>One message through the event pump, and the exit of an adapter process.\<close>

fun plain_tick :: "'w env \<Rightarrow> nat \<times> tick \<Rightarrow> 'w dstate \<Rightarrow> 'w dstate" where
  "plain_tick env (c, TickEvent ts ev) st =
     (let (ord, st1) = next_order env st; st2 = upd_obj c (handleEvent ord ts ev) st1
      in if ev = InitializedEvent then st2\<lparr>d_inits := List.insert c (d_inits st2)\<rparr> else st2)"
| "plain_tick env (c, TickExit x) st = upd_obj c (watchAdapterExit x) st"
| "plain_tick env (c, TickClear i) st = st"

definition send_background :: "'w env \<Rightarrow> nat \<Rightarrow> dap_request \<Rightarrow> 'w dstate \<Rightarrow> 'w dstate" where
  "send_background env c r st =
     (let (w, ts, res) = e_dap env (d_world st) c None r
      in fold (plain_tick env) ts (st\<lparr>d_world := w, d_background := d_background st @ [(c, r)]\<rparr>))"

definition clear_tick :: "'w env \<Rightarrow> nat \<Rightarrow> nat \<Rightarrow> 'w dstate \<Rightarrow> 'w dstate" where
  "clear_tick env c i st =
     (let q = s_onceQ (obj c st) in
      if i < length q then
        let (ord, st1) = next_order env st;
            reqs = fst (clearOnceBPs ord (q ! i) (obj c st));
            st2 = upd_obj c (\<lambda>s. s\<lparr>s_onceQ := take i (s_onceQ s) @ drop (Suc i) (s_onceQ s)\<rparr>)
                    (upd_obj c (\<lambda>s. snd (clearOnceBPs ord (q ! i) s)) st1)
        in fold (send_background env c) reqs st2
      else st)"

fun run_tick :: "'w env \<Rightarrow> nat \<times> tick \<Rightarrow> 'w dstate \<Rightarrow> 'w dstate" where
  "run_tick env (c, TickClear i) st = clear_tick env c i st"
| "run_tick env ct st = plain_tick env ct st"

definition deliver :: "'w env \<Rightarrow> (nat \<times> tick) list \<Rightarrow> 'w dstate \<Rightarrow> 'w dstate" where
  "deliver env ts st = fold (run_tick env) ts st"

section \<open>Computations\<close>

definition modify :: "('s \<Rightarrow> 's) \<Rightarrow> ('s, unit) state" where
  "modify f = State (\<lambda>s. ((), f s))"

definition reads :: "('s \<Rightarrow> 'a) \<Rightarrow> ('s, 'a) state" where
  "reads f = State (\<lambda>s. (f s, s))"

definition done_with :: "'a \<Rightarrow> ('s, 'a outcome) state" where
  "done_with a = State_Monad.return (Ok a)"

definition try_call :: "('s, 'a outcome) state \<Rightarrow> (call_err \<Rightarrow> ('s, 'b outcome) state) \<Rightarrow>
    ('a \<Rightarrow> ('s, 'b outcome) state) \<Rightarrow> ('s, 'b outcome) state" where
  "try_call m h k =
     do { x \<leftarrow> m; case x of Ok v \<Rightarrow> k v | Fail e \<Rightarrow> h e | Crash p \<Rightarrow> State_Monad.return (Crash p) }"

abbreviation and_then :: "('s, 'a outcome) state \<Rightarrow> ('a \<Rightarrow> ('s, 'b outcome) state) \<Rightarrow> ('s, 'b outcome) state" where
  "and_then m k \<equiv> try_call m (\<lambda>e. State_Monad.return (Fail e)) k"

text \<open>The result of a call whose error the code ignores.\<close>

abbreviation ignoring :: "('s, 'a outcome) state \<Rightarrow> ('s, 'b outcome) state \<Rightarrow> ('s, 'b outcome) state" where
  "ignoring m k \<equiv> try_call m (\<lambda>_. k) (\<lambda>_. k)"

fun each :: "('a \<Rightarrow> ('s, 'b outcome) state) \<Rightarrow> 'a list \<Rightarrow> ('s, 'b list outcome) state" where
  "each f [] = done_with []"
| "each f (x # xs) = and_then (f x) (\<lambda>y. and_then (each f xs) (\<lambda>ys. done_with (y # ys)))"

definition sess :: "nat \<Rightarrow> ('w, session) op" where
  "sess c = reads (obj c)"

definition on_sess :: "nat \<Rightarrow> (session \<Rightarrow> session) \<Rightarrow> ('w, unit) op" where
  "on_sess c f = modify (upd_obj c f)"

definition an_order :: "'w env \<Rightarrow> ('w, range_order) op" where
  "an_order env = State (next_order env)"

definition now :: "'w env \<Rightarrow> ('w, timestamp) op" where
  "now env = reads (\<lambda>st. e_now env (d_world st))"

text \<open>\<open>audit.Log\<close>; without an audit file it does nothing.\<close>

definition audit_Log :: "'w env \<Rightarrow> string \<Rightarrow> string \<Rightarrow> (string \<times> json) list \<Rightarrow> ('w, unit) op" where
  "audit_Log env event sid args =
     modify (\<lambda>st. if e_audit env then st\<lparr>d_audit := d_audit st @ [(event, sid, args)]\<rparr> else st)"

section \<open>Calls to the adapter\<close>

definition Call :: "'w env \<Rightarrow> nat \<Rightarrow> int option \<Rightarrow> dap_request \<Rightarrow> ('w, dap_reply) act" where
  "Call env c limit r = State (\<lambda>st.
     let (w, ts, res) = e_dap env (d_world st) c limit r;
         st1 = deliver env ts (st\<lparr>d_world := w, d_sent := d_sent st @ [(c, r)]\<rparr>)
     in (case res of Inl e \<Rightarrow> Fail e | Inr v \<Rightarrow> Ok v, st1))"

text \<open>The assertion \<open>m.(*godap.XResponse)\<close> of the client's wrappers panics on another response.\<close>

definition asserted :: "(dap_reply \<Rightarrow> 'a option) \<Rightarrow> ('w, dap_reply) act \<Rightarrow> ('w, 'a) act" where
  "asserted p m =
     and_then m (\<lambda>r. case p r of Some v \<Rightarrow> done_with v
       | None \<Rightarrow> State_Monad.return (Crash ''interface conversion''))"

definition StackTrace :: "'w env \<Rightarrow> nat \<Rightarrow> int option \<Rightarrow> go_int \<Rightarrow> go_int \<Rightarrow> ('w, dap_frame list) act" where
  "StackTrace env c limit tid n =
     asserted (\<lambda>r. case r of RepFrames fs \<Rightarrow> Some fs | _ \<Rightarrow> None) (Call env c limit (ReqStackTrace tid n))"

definition Scopes :: "'w env \<Rightarrow> nat \<Rightarrow> go_int \<Rightarrow> ('w, (string \<times> go_int) list) act" where
  "Scopes env c fid =
     asserted (\<lambda>r. case r of RepScopes ss \<Rightarrow> Some ss | _ \<Rightarrow> None) (Call env c None (ReqScopes fid))"

definition Variables :: "'w env \<Rightarrow> nat \<Rightarrow> int option \<Rightarrow> go_int \<Rightarrow> ('w, dap_var list) act" where
  "Variables env c limit ref =
     asserted (\<lambda>r. case r of RepVariables vs \<Rightarrow> Some vs | _ \<Rightarrow> None) (Call env c limit (ReqVariables ref))"

definition Evaluate :: "'w env \<Rightarrow> nat \<Rightarrow> int option \<Rightarrow> string \<Rightarrow> go_int \<Rightarrow> string \<Rightarrow> ('w, eval_result) act" where
  "Evaluate env c limit expr fid context =
     asserted (\<lambda>r. case r of RepEvaluate v t ref \<Rightarrow> Some \<lparr>er_Result = v, er_Type = t, er_Ref = ref\<rparr> | _ \<Rightarrow> None)
       (Call env c limit (ReqEvaluate expr fid context))"

definition SetVariable :: "'w env \<Rightarrow> nat \<Rightarrow> go_int \<Rightarrow> string \<Rightarrow> string \<Rightarrow> ('w, string \<times> string) act" where
  "SetVariable env c ref name val =
     asserted (\<lambda>r. case r of RepSetVariable v t \<Rightarrow> Some (v, t) | _ \<Rightarrow> None) (Call env c None (ReqSetVariable ref name val))"

definition Threads :: "'w env \<Rightarrow> nat \<Rightarrow> ('w, (go_int \<times> string) list) act" where
  "Threads env c = asserted (\<lambda>r. case r of RepThreads ts \<Rightarrow> Some ts | _ \<Rightarrow> None) (Call env c None ReqThreads)"

definition SetBreakpoints :: "'w env \<Rightarrow> nat \<Rightarrow> string \<Rightarrow> source_bp list \<Rightarrow> ('w, dap_bp list) act" where
  "SetBreakpoints env c file bps =
     asserted (\<lambda>r. case r of RepBreakpoints bs \<Rightarrow> Some bs | _ \<Rightarrow> None) (Call env c None (ReqSetBreakpoints file bps))"

definition SetFunctionBreakpoints :: "'w env \<Rightarrow> nat \<Rightarrow> function_bp list \<Rightarrow> ('w, dap_bp list) act" where
  "SetFunctionBreakpoints env c bps =
     asserted (\<lambda>r. case r of RepBreakpoints bs \<Rightarrow> Some bs | _ \<Rightarrow> None) (Call env c None (ReqSetFunctionBreakpoints bps))"

definition SetExceptionBreakpoints :: "'w env \<Rightarrow> nat \<Rightarrow> string list \<Rightarrow> ('w, dap_bp list) act" where
  "SetExceptionBreakpoints env c filters =
     asserted (\<lambda>r. case r of RepBreakpoints bs \<Rightarrow> Some bs | _ \<Rightarrow> None) (Call env c None (ReqSetExceptionBreakpoints filters))"

definition Source :: "'w env \<Rightarrow> nat \<Rightarrow> string \<Rightarrow> go_int \<Rightarrow> ('w, string) act" where
  "Source env c path ref =
     asserted (\<lambda>r. case r of RepSource txt \<Rightarrow> Some txt | _ \<Rightarrow> None) (Call env c None (ReqSource path ref))"

text \<open>The wrappers that return only an error.\<close>

definition Simple :: "'w env \<Rightarrow> nat \<Rightarrow> dap_request \<Rightarrow> ('w, unit) act" where
  "Simple env c r = and_then (Call env c None r) (\<lambda>_. done_with ())"

section \<open>Waiting for a stop\<close>

text \<open>
  The \<open>select\<close> of \<open>Wait\<close> and \<open>WaitForStop\<close>: an event in the channel wins; otherwise other goroutines
  run until the timer or the request's context ends the wait, and what is in the channel then is
  the answer. A timeout of 0 or less starts no timer.
\<close>

definition wait_stop :: "'w env \<Rightarrow> nat \<Rightarrow> nat \<Rightarrow> int \<Rightarrow> ('w, wait_end + stop_event) op" where
  "wait_stop env c ch timeout = State (\<lambda>st.
     case recv ch (obj c st) of
       Some ev \<Rightarrow> (Inr ev, st)
     | None \<Rightarrow>
         (let (w, ts, end) = e_await env (d_world st) c timeout;
              st1 = deliver env ts (st\<lparr>d_world := w\<rparr>)
          in case recv ch (obj c st1) of
               Some ev \<Rightarrow> (Inr ev, st1)
             | None \<Rightarrow> (Inl (if timeout \<le> 0 then Cancelled else end), st1)))"

definition ctx_err :: call_err where
  "ctx_err = CallErr ''context deadline exceeded'' True"

definition Wait :: "'w env \<Rightarrow> nat \<Rightarrow> nat \<Rightarrow> int \<Rightarrow> ('w, pause_info) act" where
  "Wait env c ch timeout =
     do { r \<leftarrow> wait_stop env c ch timeout;
          State_Monad.return (case r of Inr ev \<Rightarrow> Ok (pause_of_event ev)
            | Inl Elapsed \<Rightarrow> Ok pause_timeout | Inl Cancelled \<Rightarrow> Fail ctx_err) }"

definition install :: "bool \<Rightarrow> nat \<Rightarrow> ('w, nat) op" where
  "install replay c =
     do { s \<leftarrow> sess c;
          on_sess c (\<lambda>s. snd (installStateWaiter replay s));
          State_Monad.return (fst (installStateWaiter replay s)) }"

definition WaitForStop :: "'w env \<Rightarrow> nat \<Rightarrow> int \<Rightarrow> ('w, pause_info) act" where
  "WaitForStop env c timeout =
     do { ch \<leftarrow> install True c;
          r \<leftarrow> wait_stop env c ch timeout;
          on_sess c (dropWaiter ch);
          State_Monad.return (case r of Inr ev \<Rightarrow> Ok ((pause_of_event ev)\<lparr>pi_Location := se_location ev\<rparr>)
            | Inl Elapsed \<Rightarrow> Ok pause_timeout | Inl Cancelled \<Rightarrow> Fail ctx_err) }"

definition EnsureConfigurationDone :: "'w env \<Rightarrow> nat \<Rightarrow> ('w, bool) act" where
  "EnsureConfigurationDone env c =
     do { s \<leftarrow> sess c;
          if \<not> s_pendingConfigDone s then done_with False
          else try_call (Simple env c ReqConfigurationDone)
                 (\<lambda>e. State_Monad.return (Fail (CallErr (''dap configurationDone: '' @ ce_msg e) (ce_deadline e))))
                 (\<lambda>_. do { on_sess c (\<lambda>s. s\<lparr>s_pendingConfigDone := False\<rparr>); done_with True }) }"

end
