(* ===== verification/Handlers_Base.thy ===== *)
theory Handlers_Base
  imports Daemon_State
begin

text \<open>
  What the handlers of \<open>internal/daemon\<close> share: responses, the lookup of the session a request is
  for, the read-only gate, the mapping of adapter errors to stable error codes, frame lookup, and
  the location syntax of breakpoints. Response texts are kept, because \<open>adapterErr\<close> decides by text.
\<close>

section \<open>Responses\<close>

type_synonym 'w handler = "('w, response) act"

definition errResp :: "string \<Rightarrow> string \<Rightarrow> string \<Rightarrow> 'w handler" where
  "errResp code msg hint = done_with (ErrResp code msg hint)"

definition ok_resp :: "resp_data \<Rightarrow> 'w handler" where
  "ok_resp d = done_with (OkResp d)"

definition adapter_failed :: "call_err \<Rightarrow> 'w handler" where
  "adapter_failed e = errResp ''ADAPTER_FAILED'' (ce_msg e) []"

definition em_dash :: string where
  "em_dash = [CHR 0xE2, CHR 0x80, CHR 0x94]"

text \<open>\<open>uptime.Round(time.Second)\<close> and its \<open>%s\<close>.\<close>

definition round_seconds :: "int \<Rightarrow> nat" where
  "round_seconds ns = nat ((ns + 500000000) div 1000000000)"

definition duration_text :: "nat \<Rightarrow> string" where
  "duration_text n =
     (let h = n div 3600; m = n mod 3600 div 60; s = n mod 60 in
      (if 0 < h then nat_digits h @ ''h'' else []) @
      (if 0 < h \<or> 0 < m then nat_digits m @ ''m'' else []) @ nat_digits s @ ''s'')"

definition five_minutes :: int where
  "five_minutes = 300000000000"

definition sessionNotFound :: "'w env \<Rightarrow> string \<Rightarrow> string \<Rightarrow> 'w handler" where
  "sessionNotFound env sid cause =
     do { t \<leftarrow> now env;
          st \<leftarrow> State_Monad.get;
          let uptime = t - d_startedAt st;
          let live = length (m_sessions (d_mgr st));
          let msg = (if cause = [] then ''no session '' @ quote sid else cause);
          if live = 0 \<and> uptime < five_minutes then
            errResp ''DAEMON_RESPAWNED''
              (''session '' @ quote sid @ '' not found; daemon was started '' @ duration_text (round_seconds uptime) @
               '' ago and has no sessions '' @ em_dash @ '' it likely respawned after a crash/restart'')
              ''re-issue `debug_start` / `debug_attach` to recreate the session; any pre-respawn session ids are gone''
          else
            errResp ''SESSION_NOT_FOUND'' msg
              (''daemon uptime '' @ duration_text (round_seconds uptime) @ '', '' @ nat_digits live @
               '' live session(s) '' @ em_dash @ '' call `debug_sessions` for current ids'') }"

section \<open>Arguments, session lookup, the read-only gate\<close>

text \<open>A request whose arguments must decode.\<close>

definition with_args :: "'r fields \<Rightarrow> 'r \<Rightarrow> request \<Rightarrow> ('r \<Rightarrow> 'w handler) \<Rightarrow> 'w handler" where
  "with_args fs zero req k =
     (case unmarshalArgs fs zero (rq_Args req) of
        (a, Some e) \<Rightarrow> errResp ''USAGE_ERROR'' e []
      | (a, None) \<Rightarrow> k a)"

text \<open>\<open>_ = unmarshalArgs(...)\<close>: what did decode is used, errors are dropped.\<close>

definition lax_args :: "'r fields \<Rightarrow> 'r \<Rightarrow> request \<Rightarrow> 'r" where
  "lax_args fs zero req = fst (unmarshalArgs fs zero (rq_Args req))"

definition with_session :: "'w env \<Rightarrow> request \<Rightarrow> (nat \<Rightarrow> session \<Rightarrow> 'w handler) \<Rightarrow> 'w handler" where
  "with_session env req k =
     do { m \<leftarrow> reads d_mgr;
          case Get m (rq_Sess req) of
            Inl e \<Rightarrow> sessionNotFound env (rq_Sess req) e
          | Inr s \<Rightarrow> k (s_cli s) s }"

definition read_only_resp :: response where
  "read_only_resp = ErrResp ''READ_ONLY_MODE'' ''session is read-only''
     ''remove --read-only on start/attach, or start a new mutating session''"

definition refuseIfReadOnly :: "session \<Rightarrow> 'w handler \<Rightarrow> 'w handler" where
  "refuseIfReadOnly s k = (if s_ReadOnly s then done_with read_only_resp else k)"

text \<open>The gate \<open>policy.EvalEnabled\<close>, with the audit entry and hint of the handler that asks.\<close>

definition if_eval_enabled :: "'w env \<Rightarrow> string \<Rightarrow> session \<Rightarrow> (string \<times> json) list \<Rightarrow> string \<Rightarrow> 'w handler \<Rightarrow> 'w handler" where
  "if_eval_enabled env event s args hint k =
     (case EvalEnabled (e_policy env) of
        Some e \<Rightarrow> do { audit_Log env event (s_ID s) args; errResp ''EVAL_DISABLED'' e hint }
      | None \<Rightarrow> k)"

section \<open>Errors of the adapter\<close>

definition cut_before :: "string \<Rightarrow> string \<Rightarrow> string" where
  "cut_before p s = (case index_str p s of None \<Rightarrow> s | Some i \<Rightarrow> drop (i + length p) s)"

definition cleanAdapterMessage :: "string \<Rightarrow> string" where
  "cleanAdapterMessage s0 =
     (let s1 = cut_before ''dap error: '' (trim_space s0);
          s2 = cut_before ''Cannot evaluate because of '' s1;
          s3 = (case index_str '': '' s2 of
                  None \<Rightarrow> s2
                | Some i \<Rightarrow>
                    let head = take i s2 in
                    if 0 < i \<and> 2 \<le> length (filter (\<lambda>c. c = CHR ''.'') head) \<and>
                       \<not> contains_any head ([CHR '' '', CHR 0x09, CHR 0x0A, CHR 0x22, CHR 0x27] @ '',()'')
                    then drop (i + 2) s2 else s2)
      in trim_right s3 ([CHR ''.'', CHR '' '', CHR 0x0A, CHR 0x09]))"

definition adapterErr :: "string \<Rightarrow> string \<Rightarrow> response" where
  "adapterErr msg op =
     (let low = to_lower msg; cleaned = cleanAdapterMessage msg in
      if contains msg ''AbsentInformationException'' then
        ErrResp ''MISSING_DEBUG_INFO'' (op @ '': class compiled without debug info'')
          ''Recompile with `javac -g` (or build with -g:vars) so locals and parameter names are available.''
      else if contains msg (''No '' @ [CHR 0x27] @ ''this'' @ [CHR 0x27]) \<or> contains low ''in native or static method'' then
        ErrResp ''EVAL_NO_THIS'' (op @ '': cannot evaluate `this` in a static or native frame'')
          ''Qualify static fields with ClassName.field, or step into a non-static frame first.''
      else if contains msg ''Name unknown'' then
        ErrResp ''EVAL_NAME_UNKNOWN'' (op @ '': '' @ cleaned)
          ''Variable not in scope. For static fields use ClassName.field; for outer-class fields use Outer.this.field.''
      else if contains msg ''ClassNotLoadedException'' \<or> contains low ''class not prepared'' then
        ErrResp ''CLASS_NOT_LOADED'' (op @ '': target class not yet loaded by the JVM'')
          ''Set the breakpoint earlier, or step until the class is referenced.''
      else if contains msg ''InvalidStackFrameException'' then
        ErrResp ''STALE_FRAME'' (op @ '': stack frame is no longer valid'')
          ''The program resumed; re-fetch the stack and retry.''
      else if contains msg ''VMDisconnectedException'' \<or> contains low ''debuggee vm has terminated'' then
        ErrResp ''VM_DISCONNECTED'' (op @ '': debuggee VM has terminated'') ''Start a new session.''
      else if contains low ''/ by zero'' \<or> contains low ''arithmeticexception'' then
        ErrResp ''EVAL_RUNTIME_EXCEPTION'' (op @ '': ArithmeticException: '' @ cleaned)
          ''Guard against zero divisors before evaluating.''
      else if contains low ''nullpointerexception'' \<or> contains low ''cannot access field of primitive type: null'' then
        ErrResp ''EVAL_RUNTIME_EXCEPTION'' (op @ '': NullPointerException: '' @ cleaned)
          ''Check that the receiver is non-null before dereferencing.''
      else if contains low ''classcastexception'' then
        ErrResp ''EVAL_RUNTIME_EXCEPTION'' (op @ '': ClassCastException: '' @ cleaned)
          ''Verify the runtime type before casting (use instanceof first).''
      else if contains low ''syntax error'' \<or> contains low ''cannot find symbol'' \<or> contains low ''parse error'' then
        ErrResp ''EVAL_SYNTAX_ERROR'' (op @ '': '' @ cleaned) ''Check the expression syntax.''
      else if contains low ''timeout'' then
        ErrResp ''TIMEOUT'' (op @ '': '' @ cleaned) ''Increase --timeout or check that the program is making progress.''
      else if contains low ''runtimeexception'' \<or> contains low ''cannot evaluate because of'' then
        ErrResp ''EVAL_RUNTIME_EXCEPTION'' (op @ '': '' @ cleaned)
          ''The expression evaluated to a runtime exception; see message for details.''
      else ErrResp ''ADAPTER_FAILED'' (op @ '': '' @ cleaned) [])"

section \<open>Frames\<close>

text \<open>\<open>f.Source.Path\<close> where \<open>Source\<close> is a pointer the adapter may leave out.\<close>

definition source_path :: "dap_frame \<Rightarrow> ('w, string) act" where
  "source_path f =
     (case df_Source f of Some p \<Rightarrow> done_with p
      | None \<Rightarrow> State_Monad.return (Crash ''invalid memory address or nil pointer dereference''))"

definition fetchTopLocation :: "'w env \<Rightarrow> nat \<Rightarrow> ('w, loc option) act" where
  "fetchTopLocation env c =
     do { s \<leftarrow> sess c;
          try_call (StackTrace env c None (CurrentThread s) 1)
            (\<lambda>_. done_with None)
            (\<lambda>fs. case fs of [] \<Rightarrow> done_with None
               | f # _ \<Rightarrow> and_then (source_path f) (\<lambda>p.
                   done_with (Some \<lparr>loc_File = p, loc_Line = df_Line f, loc_Column = 0, loc_Function = df_Name f\<rparr>))) }"

definition frame_at :: "dap_frame list \<Rightarrow> go_int \<Rightarrow> dap_frame" where
  "frame_at fs idx = (if idx < 0 \<or> int (length fs) \<le> idx then hd fs else fs ! nat idx)"

definition resolveFrameID :: "'w env \<Rightarrow> nat \<Rightarrow> int option \<Rightarrow> go_int \<Rightarrow> ('w, go_int) act" where
  "resolveFrameID env c limit idx =
     do { s \<leftarrow> sess c;
          and_then (StackTrace env c limit (CurrentThread s) 50) (\<lambda>fs.
            if fs = [] then State_Monad.return (Fail (CallErr ''no frames in current stack'' False))
            else done_with (df_Id (frame_at fs idx))) }"

definition class_of_frame_name :: "string \<Rightarrow> string" where
  "class_of_frame_name name0 =
     (let name = (case index_str ''('' name0 of Some p \<Rightarrow> if 0 < p then take p name0 else name0 | None \<Rightarrow> name0)
      in case last_index_byte CHR ''.'' name of Some dot \<Rightarrow> if 0 < dot then take dot name else [] | None \<Rightarrow> [])"

definition javaClassFromFrame :: "'w env \<Rightarrow> nat \<Rightarrow> int option \<Rightarrow> go_int \<Rightarrow> ('w, string) act" where
  "javaClassFromFrame env c limit idx =
     do { s \<leftarrow> sess c;
          try_call (StackTrace env c limit (CurrentThread s) (wrap64 (1 + idx)))
            (\<lambda>_. done_with [])
            (\<lambda>fs. if fs = [] then done_with [] else done_with (class_of_frame_name (df_Name (frame_at fs idx)))) }"

definition currentTopFrame :: "'w env \<Rightarrow> nat \<Rightarrow> ('w, (string \<times> go_int \<times> bool)) act" where
  "currentTopFrame env c =
     do { s \<leftarrow> sess c;
          try_call (StackTrace env c None (CurrentThread s) 1)
            (\<lambda>_. done_with ([], 0, False))
            (\<lambda>fs. case fs of [] \<Rightarrow> done_with ([], 0, False)
               | f # _ \<Rightarrow> and_then (source_path f) (\<lambda>p. done_with (p, df_Line f, p \<noteq> []))) }"

section \<open>Locations\<close>

definition source_exts :: "string list" where
  "source_exts = [''.py'', ''.java'', ''.go'', ''.js'', ''.ts'', ''.rb'', ''.rs'', ''.c'', ''.cc'', ''.cpp'', ''.h'', ''.hpp'', ''.cs'']"

definition slashes :: string where
  "slashes = [CHR ''/'', CHR 0x5C]"

definition looksLikeFilePath :: "string \<Rightarrow> bool" where
  "looksLikeFilePath p \<longleftrightarrow> contains_any p slashes \<or> list_ex (has_suffix p) source_exts"

definition absPath :: "string option \<Rightarrow> string \<Rightarrow> string option" where
  "absPath cwd p =
     (case cwd of None \<Rightarrow> None | Some wd \<Rightarrow> Some (if has_prefix p ''/'' then p else wd @ ''/'' @ p))"

definition parseLocation :: "string option \<Rightarrow> string \<Rightarrow> string + (string \<times> go_int)" where
  "parseLocation cwd l =
     (case last_index_byte CHR '':'' l of
        None \<Rightarrow> Inl (''invalid location: '' @ quote l)
      | Some i \<Rightarrow>
          if i = 0 \<or> i = length l - 1 then Inl (''invalid location: '' @ quote l)
          else case atoi (drop (Suc i) l) of
              Inl e \<Rightarrow> Inl (''invalid line in '' @ quote l @ '': '' @ num_error_text (drop (Suc i) l) e)
            | Inr line \<Rightarrow>
                let file = take i l in
                Inr (if looksLikeFilePath file \<and> \<not> has_prefix file ''/''
                     then (case absPath cwd file of Some a \<Rightarrow> a | None \<Rightarrow> file) else file, line))"

definition resolveJavaClassToFile :: "(string \<Rightarrow> bool option) \<Rightarrow> string \<Rightarrow> string list \<Rightarrow> string option" where
  "resolveJavaClassToFile stat class0 roots =
     (if class0 = [] then None
      else
        let class = (case index_str ''$'' class0 of Some i \<Rightarrow> take i class0 | None \<Rightarrow> class0);
            rel = replace_byte CHR ''.'' ''/'' class @ ''.java'';
            bare = (case last_index_byte CHR ''.'' class of Some i \<Rightarrow> drop (Suc i) class | None \<Rightarrow> class)
        in find (\<lambda>cand. stat cand = Some False)
             (concat (map (\<lambda>root. [path_join root rel, path_join root (bare @ ''.java'')]) roots)))"

definition countLines :: "(string \<times> bool) option \<Rightarrow> go_int" where
  "countLines f =
     (case f of None \<Rightarrow> 0 | Some (bytes, _) \<Rightarrow> int (length (filter (\<lambda>c. c = CHR 0x0A) bytes)) + 1)"

text \<open>A round trip for locations: what \<open>parseLocation\<close> makes of a printed location.\<close>

lemma parseLocation_absolute:
  assumes "has_prefix file ''/''" "in_int64 line"
  shows "parseLocation cwd (file @ '':'' @ itoa line) = Inr (file, line)"
proof -
  have "file \<noteq> []" using assms(1) by (auto simp: has_prefix_def)
  then show ?thesis
    using assms by (simp add: parseLocation_def atoi_itoa last_index_byte_append)
qed

lemma parseLocation_class:
  assumes "\<not> looksLikeFilePath cls" "cls \<noteq> []" "in_int64 line"
  shows "parseLocation cwd (cls @ '':'' @ itoa line) = Inr (cls, line)"
  using assms by (simp add: parseLocation_def atoi_itoa last_index_byte_append)

end
