(* ===== verification/Handlers_Break.thy ===== *)
theory Handlers_Break
  imports Handlers_Base
begin

text \<open>
  The handlers of breakpoints: \<open>handleBreak\<close>, \<open>handleBreaks\<close>, \<open>handleUnbreak\<close> (\<open>server.go\<close>), and
  \<open>handleBreakFn\<close>, \<open>handleBreakEx\<close> (\<open>handlers_v2.go\<close>). DAP's \<open>setBreakpoints\<close> replaces the whole set of a
  file, so every change ends in a request with the breakpoints the session holds for the file.
\<close>

section \<open>Setting line breakpoints\<close>

text \<open>Send the session's breakpoints of one file; the result is those breakpoints and the answers.\<close>

definition sync_file :: "(bp \<Rightarrow> source_bp) \<Rightarrow> 'w env \<Rightarrow> nat \<Rightarrow> string \<Rightarrow> ('w, bp list \<times> dap_bp list) act" where
  "sync_file conv env c file =
     do { ord \<leftarrow> an_order env;
          s \<leftarrow> sess c;
          let bps = BPsForFile ord file s;
          and_then (SetBreakpoints env c file (map conv bps)) (\<lambda>replies. done_with (bps, replies)) }"

definition new_bp :: "string \<Rightarrow> go_int \<Rightarrow> break_args \<Rightarrow> go_int \<Rightarrow> bp" where
  "new_bp file line args i = \<lparr>bp_LocalID = i, bp_File = file, bp_Line = line, bp_Condition = ba_Condition args,
     bp_HitCond = (if 0 < ba_Hit args then itoa (ba_Hit args) else []), bp_LogMsg = ba_LogMsg args,
     bp_Once = ba_Once args, bp_DAPID = 0, bp_Verified = False, bp_Hits = 0\<rparr>"

definition add_bp :: "(go_int \<Rightarrow> bp) \<Rightarrow> session \<Rightarrow> session" where
  "add_bp mk s = PutBP (mk (fst (AllocBP s))) (snd (AllocBP s))"

text \<open>The answers are matched to the breakpoints by position.\<close>

definition apply_replies :: "bp list \<Rightarrow> dap_bp list \<Rightarrow> session \<Rightarrow> session" where
  "apply_replies bps replies s =
     fold (\<lambda>(b, r). SetBPReply (bp_LocalID b) (db_Id r) (db_Verified r)) (zip bps replies) s"

definition reply_for :: "go_int \<Rightarrow> bp list \<Rightarrow> dap_bp list \<Rightarrow> dap_bp option" where
  "reply_for i bps replies = map_of (zip (map bp_LocalID bps) replies) i"

fun scan_replies :: "go_int \<Rightarrow> go_int \<Rightarrow> dap_bp list \<Rightarrow> string \<times> go_int" where
  "scan_replies line shifted [] = ([], shifted)"
| "scan_replies line shifted (r # rs) =
     (if db_Message r \<noteq> [] then (db_Message r, shifted)
      else scan_replies line (if db_Line r \<noteq> 0 \<and> db_Line r \<noteq> line then db_Line r else shifted) rs)"

definition unverified_reason :: "go_int \<Rightarrow> string \<Rightarrow> dap_bp list \<Rightarrow> string" where
  "unverified_reason line cond replies =
     (let (msg, shifted) = scan_replies line 0 replies in
      if msg \<noteq> [] then msg
      else if 0 < shifted then
        ''line '' @ itoa line @ '' is not executable; nearest executable line is '' @ itoa shifted @ '' '' @ em_dash @
        '' try break ...:'' @ itoa shifted
      else if cond \<noteq> [] then
        ''unverified: line has no executable code, conditional cannot bind, or class not yet loaded '' @ em_dash @
        '' pick a body line (not a loop/closing-brace header)''
      else ''unverified: class not yet loaded or line has no executable code'')"

text \<open>The checks of file and line against the file system; class names are passed through.\<close>

definition check_file_line :: "'w env \<Rightarrow> 'w \<Rightarrow> string \<Rightarrow> go_int \<Rightarrow> response option" where
  "check_file_line env w file line =
     (if \<not> contains_any file slashes then None
      else if e_stat env w file = None then
        Some (ErrResp ''USAGE_ERROR'' (''file not found: '' @ file)
          (''pass an absolute path that exists; use Class:line for source we can'' @ [CHR 0x27] @ ''t see''))
      else if line \<le> 0 then
        Some (ErrResp ''USAGE_ERROR'' (''line '' @ itoa line @ '' is not a positive integer'') [])
      else let eof = countLines (e_open env w file) in
        if 0 < eof \<and> eof < line then
          Some (ErrResp ''USAGE_ERROR''
            (''line '' @ itoa line @ '' is past end of file ('' @ itoa eof @ '' lines): '' @ file)
            ''check the file or remove the breakpoint'')
        else None)"

definition resolve_class :: "'w env \<Rightarrow> 'w \<Rightarrow> session \<Rightarrow> string \<Rightarrow> string" where
  "resolve_class env w s file =
     (if s_Lang s = ''java'' \<and> \<not> contains_any file slashes \<and> \<not> has_suffix file ''.java'' then
        (case resolveJavaClassToFile (e_stat env w) file (s_SourceRoots s) of Some r \<Rightarrow> r | None \<Rightarrow> file)
      else file)"

definition cond_hint :: string where
  "cond_hint = ''conditional breakpoints evaluate code at the target; start the daemon with SL_DBG_ALLOW_EVAL=1, or omit --condition''"

definition place_bp :: "'w env \<Rightarrow> nat \<Rightarrow> string \<Rightarrow> go_int \<Rightarrow> break_args \<Rightarrow> 'w handler" where
  "place_bp env c file line args =
     do { s \<leftarrow> sess c;
          let i = fst (AllocBP s);
          on_sess c (add_bp (new_bp file line args));
          try_call (sync_file source_bp_of env c file) adapter_failed (\<lambda>(bps, replies).
            do { on_sess c (apply_replies bps replies);
                 let verified = (case reply_for i bps replies of Some r \<Rightarrow> db_Verified r | None \<Rightarrow> False);
                 ok_resp (DBreak (break_result_zero\<lparr>br_ID := i, br_Verified := verified, br_File := file,
                   br_Line := line, br_Condition := ba_Condition args,
                   br_Reason := (if verified then [] else unverified_reason line (ba_Condition args) replies)\<rparr>)) }) }"

definition handleBreak :: "'w env \<Rightarrow> request \<Rightarrow> 'w handler" where
  "handleBreak env req =
     with_args break_args_fields break_args_zero req (\<lambda>args.
     with_session env req (\<lambda>c s.
     refuseIfReadOnly s (
       let place =
         (case parseLocation (h_cwd (e_host env)) (ba_Location args) of
            Inl e \<Rightarrow> errResp ''USAGE_ERROR'' e
              (''expected '' @ quote ''file:line'' @ '' or '' @ quote ''Class:line'')
          | Inr (file0, line) \<Rightarrow>
              do { w \<leftarrow> reads d_world;
                   let file = resolve_class env w s file0;
                   case check_file_line env w file line of
                     Some r \<Rightarrow> done_with r
                   | None \<Rightarrow> place_bp env c file line args })
       in if ba_Condition args \<noteq> [] then
            if_eval_enabled env ''break.disabled'' s
              [(''location'', JStr (ba_Location args)), (''condition'', JStr (ba_Condition args))] cond_hint place
          else place)))"

section \<open>Listing and removing\<close>

definition bp_info :: "bp \<Rightarrow> break_result" where
  "bp_info b = break_result_zero\<lparr>br_ID := bp_LocalID b, br_Verified := bp_Verified b, br_File := bp_File b,
     br_Line := bp_Line b, br_Condition := bp_Condition b,
     br_Reason := (if bp_Verified b then [] else ''pending (class not yet loaded, or unsupported line)''),
     br_Hits := bp_Hits b\<rparr>"

definition func_bp_info :: "func_bp \<Rightarrow> break_result" where
  "func_bp_info b = break_result_zero\<lparr>br_ID := fbp_LocalID b, br_Verified := fbp_Verified b,
     br_Function := fbp_Name b, br_Condition := fbp_Condition b,
     br_Reason := (if fbp_Verified b then [] else ''pending (function/class not yet loaded)''),
     br_Hits := fbp_Hits b\<rparr>"

definition exc_info :: "string list \<Rightarrow> break_result list" where
  "exc_info filters =
     (if filters = [] then []
      else [break_result_zero\<lparr>br_Verified := True, br_Reason := ''exception: '' @ join_with '','' filters\<rparr>])"

definition handleBreaks :: "'w env \<Rightarrow> request \<Rightarrow> 'w handler" where
  "handleBreaks env req =
     with_session env req (\<lambda>c s.
       do { ord \<leftarrow> an_order env;
            ok_resp (DBreaks (map bp_info (AllBPs ord s) @ map func_bp_info (s_funcBPs s) @ exc_info (s_excFilters s))) })"

fun remove_ids :: "go_int list \<Rightarrow> session \<Rightarrow> (go_int \<times> string) list \<times> session" where
  "remove_ids [] s = ([], s)"
| "remove_ids (i # is) s =
     (let (b, s1) = RemoveBP i s; (r, s2) = remove_ids is s1
      in (case b of None \<Rightarrow> r | Some b \<Rightarrow> (i, bp_File b) # r, s2))"

text \<open>The breakpoint that \<open>handleUnbreak\<close> sends again carries line and condition only.\<close>

definition line_cond_bp_of :: "bp \<Rightarrow> source_bp" where
  "line_cond_bp_of b = \<lparr>sb_Line = bp_Line b, sb_Condition = bp_Condition b, sb_HitCondition = [], sb_LogMessage = []\<rparr>"

definition handleUnbreak :: "'w env \<Rightarrow> request \<Rightarrow> 'w handler" where
  "handleUnbreak env req =
     with_args unbreak_args_fields unbreak_args_zero req (\<lambda>args.
     with_session env req (\<lambda>c s.
     refuseIfReadOnly s (
       do { ord \<leftarrow> an_order env;
            let prior = AllBPs ord s;
            let ids = (if uba_All args then map bp_LocalID prior else uba_IDs args);
            let removed = fst (remove_ids ids s);
            let touched = remdups (map bp_File prior @ (if uba_All args then [] else map snd removed));
            on_sess c (\<lambda>s. snd (remove_ids ids s));
            ord2 \<leftarrow> an_order env;
            and_then
              (each (\<lambda>file. ignoring (sync_file line_cond_bp_of env c file) (done_with ())) (go_range ord2 touched))
              (\<lambda>_. ok_resp (DMap [(''removed'',
                 JArr (map JInt (if uba_All args then map bp_LocalID prior else map fst removed)))])) })))"

section \<open>Function and exception breakpoints\<close>

definition normalizeFuncBPName :: "string \<Rightarrow> string \<Rightarrow> string" where
  "normalizeFuncBPName lang name0 =
     (if name0 = [] \<or> lang \<noteq> ''java'' then name0
      else
        let name = (case index_byte CHR ''('' name0 of Some i \<Rightarrow> trim_space (take i name0) | None \<Rightarrow> name0) in
        if contains name ''#'' then name
        else case last_index_byte CHR ''.'' name of
            Some i \<Rightarrow> if 0 < i \<and> i < length name - 1 then take i name @ ''#'' @ drop (Suc i) name else name
          | None \<Rightarrow> name)"

definition function_bp_of :: "string \<Rightarrow> func_bp \<Rightarrow> function_bp" where
  "function_bp_of lang b = \<lparr>fb_Name = normalizeFuncBPName lang (fbp_Name b), fb_Condition = fbp_Condition b,
     fb_HitCondition = fbp_HitCond b\<rparr>"

definition new_func_bp :: "break_fn_args \<Rightarrow> go_int \<Rightarrow> func_bp" where
  "new_func_bp args i = \<lparr>fbp_LocalID = i, fbp_Name = bfa_Function args, fbp_Condition = bfa_Condition args,
     fbp_HitCond = (if 0 < bfa_Hit args then itoa (bfa_Hit args) else []), fbp_DAPID = 0, fbp_Verified = False,
     fbp_Hits = 0\<rparr>"

definition add_func_bp :: "(go_int \<Rightarrow> func_bp) \<Rightarrow> session \<Rightarrow> session" where
  "add_func_bp mk s = PutFuncBP (mk (fst (AllocBP s))) (snd (AllocBP s))"

definition sync_funcs :: "'w env \<Rightarrow> nat \<Rightarrow> ('w, func_bp list \<times> dap_bp list) act" where
  "sync_funcs env c =
     do { s \<leftarrow> sess c;
          let fbs = s_funcBPs s;
          and_then (SetFunctionBreakpoints env c (map (function_bp_of (s_Lang s)) fbs))
            (\<lambda>replies. done_with (fbs, replies)) }"

definition apply_func_replies :: "func_bp list \<Rightarrow> dap_bp list \<Rightarrow> session \<Rightarrow> session" where
  "apply_func_replies fbs replies s =
     fold (\<lambda>(b, r). UpdateFuncBP (fbp_LocalID b) (db_Id r) (db_Verified r)) (zip fbs replies) s"

definition place_func_bp :: "'w env \<Rightarrow> nat \<Rightarrow> break_fn_args \<Rightarrow> 'w handler" where
  "place_func_bp env c args =
     do { s \<leftarrow> sess c;
          let i = fst (AllocBP s);
          on_sess c (add_func_bp (new_func_bp args));
          try_call (sync_funcs env c) adapter_failed (\<lambda>(fbs, replies).
            do { on_sess c (apply_func_replies fbs replies);
                 ok_resp (DBreak (break_result_zero\<lparr>br_ID := i,
                   br_Verified := (case map_of (zip (map fbp_LocalID fbs) replies) i of
                                     Some r \<Rightarrow> db_Verified r | None \<Rightarrow> False),
                   br_Function := bfa_Function args, br_Condition := bfa_Condition args\<rparr>)) }) }"

definition handleBreakFn :: "'w env \<Rightarrow> request \<Rightarrow> 'w handler" where
  "handleBreakFn env req =
     with_args break_fn_args_fields break_fn_args_zero req (\<lambda>args.
     if bfa_Function args = [] then errResp ''USAGE_ERROR'' ''function name required'' []
     else with_session env req (\<lambda>c s.
     refuseIfReadOnly s (
       let place =
         (if \<not> SupportsFunctionBreakpoints (s_caps s) then
            errResp ''UNSUPPORTED_FEATURE'' ''adapter does not support function breakpoints''
              ''use `break <file:line>` instead''
          else place_func_bp env c args)
       in if bfa_Condition args \<noteq> [] then
            if_eval_enabled env ''break-fn.disabled'' s
              [(''function'', JStr (bfa_Function args)), (''condition'', JStr (bfa_Condition args))] cond_hint place
          else place)))"

definition filter_matches :: "string \<Rightarrow> string \<times> string \<Rightarrow> bool" where
  "filter_matches f sf =
     (let lf = to_lower f; i = to_lower (fst sf); lbl = to_lower (snd sf);
          has = (\<lambda>w. contains i w \<or> contains lbl w)
      in i = lf \<or> lbl = lf \<or>
         lf \<in> set [''uncaught'', ''unhandled''] \<and> (has ''uncaught'' \<or> has ''unhandled'') \<or>
         lf \<in> set [''all'', ''raised'', ''thrown''] \<and> (has ''all'' \<or> has ''raised'' \<or> has ''thrown''))"

definition match_filter :: "(string \<times> string) list \<Rightarrow> string \<Rightarrow> string" where
  "match_filter supported f = (case find (filter_matches f) supported of Some sf \<Rightarrow> fst sf | None \<Rightarrow> [])"

text \<open>The loop over the requested filters: the first unknown one, or the adapter's ids.\<close>

fun choose_filters :: "(string \<times> string) list \<Rightarrow> string list \<Rightarrow> string + string list" where
  "choose_filters supported [] = Inr []"
| "choose_filters supported (f # fs) =
     (let matched = match_filter supported f in
      if matched = [] then Inl f
      else case choose_filters supported fs of Inl e \<Rightarrow> Inl e | Inr cs \<Rightarrow> Inr (matched # cs))"

definition filterNames :: "(string \<times> string) list \<Rightarrow> string list" where
  "filterNames fs = map fst fs"

definition handleBreakEx :: "'w env \<Rightarrow> request \<Rightarrow> 'w handler" where
  "handleBreakEx env req =
     with_args break_ex_args_fields break_ex_args_zero req (\<lambda>args.
     with_session env req (\<lambda>c s.
     refuseIfReadOnly s (
       let supported = ExceptionBreakpointFilters (s_caps s) in
       if supported = [] then errResp ''UNSUPPORTED_FEATURE'' ''adapter does not support exception breakpoints'' []
       else case choose_filters supported (bxa_Filters args) of
           Inl f \<Rightarrow> errResp ''USAGE_ERROR'' (''unknown filter: '' @ f) ''see `sl-dbg adapters` for supported filters''
         | Inr chosen \<Rightarrow>
             try_call (SetExceptionBreakpoints env c chosen) adapter_failed (\<lambda>_.
               do { on_sess c (SetExcFilters chosen);
                    ok_resp (DMap [(''filters'', JArr (map JStr chosen)),
                      (''available'', JArr (map JStr (filterNames supported)))]) }))))"

section \<open>Lemmas\<close>

lemma keeps_add_bp: "(\<And>i. bp_LocalID (mk i) = i) \<Longrightarrow> keeps (add_bp mk)"
  using keeps_new_bp [of mk] by (simp add: add_bp_def [abs_def])

lemma keeps_add_func_bp: "(\<And>i. fbp_LocalID (mk i) = i) \<Longrightarrow> keeps (add_func_bp mk)"
  using keeps_new_func_bp [of mk] by (simp add: add_func_bp_def [abs_def])

lemma keeps_fold: "(\<And>x. keeps (f x)) \<Longrightarrow> keeps (fold f xs)"
  by (induction xs) (auto simp: keeps_def)

lemma keeps_apply_replies: "keeps (apply_replies bps replies)"
  unfolding apply_replies_def by (rule keeps_fold) (auto simp: split_beta)

lemma keeps_apply_func_replies: "keeps (apply_func_replies fbs replies)"
  unfolding apply_func_replies_def by (rule keeps_fold) (auto simp: split_beta)

lemma keeps_remove_ids: "keeps (\<lambda>s. snd (remove_ids ids s))"
proof (induction ids)
  case (Cons i ids)
  then show ?case using keeps_RemoveBP [of i] by (auto simp: keeps_def split_beta Let_def)
qed (simp add: keeps_def)

lemma new_bp_id [simp]: "bp_LocalID (new_bp file line args i) = i"
  by (simp add: new_bp_def)

lemma new_func_bp_id [simp]: "fbp_LocalID (new_func_bp args i) = i"
  by (simp add: new_func_bp_def)

lemma choose_filters_supported:
  "choose_filters supported fs = Inr cs \<Longrightarrow>
   length cs = length fs \<and> set cs \<subseteq> fst ` set supported \<and> [] \<notin> set cs"
proof (induction fs arbitrary: cs)
  case (Cons f fs)
  from Cons.prems obtain cs' where cs: "cs = match_filter supported f # cs'"
    and rest: "choose_filters supported fs = Inr cs'" and ne: "match_filter supported f \<noteq> []"
    by (auto simp: Let_def split: if_splits sum.splits)
  from ne obtain sf where sf: "find (filter_matches f) supported = Some sf"
    by (cases "find (filter_matches f) supported") (auto simp: match_filter_def)
  then have "sf \<in> set supported" by (auto simp: find_Some_iff)
  with sf have "match_filter supported f \<in> fst ` set supported" by (simp add: match_filter_def)
  with Cons.IH [OF rest] cs ne show ?case by auto
qed simp

text \<open>What removal leaves: the ids that are gone, nothing else touched.\<close>

lemma remove_ids_bps:
  "map_of (s_bpsByID (snd (remove_ids ids s))) =
   (\<lambda>i. if i \<in> set ids then None else map_of (s_bpsByID s) i)"
  by (induction ids arbitrary: s) (auto simp: split_beta Let_def RemoveBP_def fun_eq_iff)

lemma remove_ids_removed: "i \<in> fst ` set (fst (remove_ids ids s)) \<longleftrightarrow> i \<in> set ids \<and> i \<in> fst ` set (s_bpsByID s)"
proof (induction ids arbitrary: s)
  case (Cons j ids)
  have "map_of (s_bpsByID s) j = None \<longleftrightarrow> j \<notin> fst ` set (s_bpsByID s)"
    by (simp add: map_of_eq_None_iff)
  with Cons.IH [of "snd (RemoveBP j s)"] show ?case
    by (auto simp: split_beta Let_def RemoveBP_def split: option.splits)
qed simp

lemma normalizeFuncBPName_other: "lang \<noteq> ''java'' \<Longrightarrow> normalizeFuncBPName lang name = name"
  by (simp add: normalizeFuncBPName_def)

end
