(* ===== verification/Handlers_Source.thy ===== *)
theory Handlers_Source
  imports Handlers_Base
begin

text \<open>
  The handlers that read files and logs: \<open>handleSource\<close> with its path rules and its window of lines,
  \<open>handleOutput\<close> and \<open>handleEvents\<close> (\<open>handlers_v2.go\<close>), and the timestamps their queries take
  (\<open>time.Parse\<close> with the layout \<open>RFC3339Nano\<close>).
\<close>

section \<open>Source\<close>

definition dirs_of :: "string \<Rightarrow> string list" where
  "dirs_of file = (if file = [] then [] else [file, dir_of file])"

definition sessionSourceRoots :: "range_order \<Rightarrow> session \<Rightarrow> string list" where
  "sessionSourceRoots ord s =
     s_SourceRoots s @
     (if s_Cwd s \<noteq> [] then [s_Cwd s] else []) @
     (if s_Program s \<noteq> [] then [dir_of (s_Program s), s_Program s] else []) @
     concat (map (\<lambda>b. dirs_of (bp_File b)) (AllBPs ord s)) @
     (case s_lastLocation s of None \<Rightarrow> [] | Some l \<Rightarrow> dirs_of (loc_File l))"

definition sessionOwnsPath :: "string option \<Rightarrow> range_order \<Rightarrow> session \<Rightarrow> string \<Rightarrow> bool" where
  "sessionOwnsPath cwd ord s path = pathUnderRoots cwd path (sessionSourceRoots ord s)"

text \<open>A line for \<open>bufio.Scanner\<close> is cut at the newline and loses one carriage return.\<close>

definition strip_cr :: "string \<Rightarrow> string" where
  "strip_cr l = (if has_suffix l [CHR 0x0D] then butlast l else l)"

definition scan_lines :: "string \<Rightarrow> string list" where
  "scan_lines bytes = (let ls = split_on CHR 0x0A bytes in if last ls = [] then butlast ls else ls)"

definition maxToken :: nat where
  "maxToken = 1048576"

definition readSourceFile :: "(string \<times> bool) option \<Rightarrow> string list option" where
  "readSourceFile f =
     (case f of
        Some (bytes, True) \<Rightarrow>
          (let ls = scan_lines bytes in
           if list_all (\<lambda>l. length l < maxToken) ls then Some (map strip_cr ls) else None)
      | _ \<Rightarrow> None)"

definition windowOf :: "go_int \<Rightarrow> go_int \<Rightarrow> go_int \<Rightarrow> go_int \<times> go_int" where
  "windowOf center around n =
     (if around \<le> 0 \<or> center \<le> 0 then (0, n)
      else
        let start = wrap64 (center - around - 1); end = wrap64 (center + around)
        in (if start < 0 then 0 else start, if n < end then n else end))"

text \<open>\<open>xs[start:end]\<close>, which panics when the bounds are out of order or out of range.\<close>

definition go_slice :: "'a list \<Rightarrow> go_int \<Rightarrow> go_int \<Rightarrow> 'a list option" where
  "go_slice xs i j =
     (if 0 \<le> i \<and> i \<le> j \<and> j \<le> int (length xs) then Some (take (nat (j - i)) (drop (nat i) xs)) else None)"

definition source_answer :: "string \<Rightarrow> go_int \<Rightarrow> go_int \<Rightarrow> go_int \<Rightarrow> string list \<Rightarrow> 'w handler" where
  "source_answer file line around current lines =
     (let (start, end) = windowOf line around (int (length lines)) in
      case go_slice lines start end of
        None \<Rightarrow> State_Monad.return (Crash ''slice bounds out of range'')
      | Some ls \<Rightarrow> ok_resp (DSource \<lparr>so_File = file, so_Start = start + 1, so_Lines = ls, so_Current = current\<rparr>))"

text \<open>File, line and current line when the request names no file: the pause location, then the top frame.\<close>

definition default_location :: "'w env \<Rightarrow> nat \<Rightarrow> session \<Rightarrow> source_args \<Rightarrow> ('w, string \<times> go_int \<times> go_int) act" where
  "default_location env c s args =
     (if sra_File args \<noteq> [] then done_with (sra_File args, sra_Line args, 0)
      else
        let (file, line, current) =
              (case s_lastLocation s of
                 None \<Rightarrow> ([], sra_Line args, 0)
               | Some l \<Rightarrow> (loc_File l, if sra_Line args = 0 then loc_Line l else sra_Line args, loc_Line l))
        in if file = [] \<and> s_state s = StatePaused then
             and_then (currentTopFrame env c) (\<lambda>(topFile, topLine, okay).
               if okay then done_with (topFile, if line = 0 then topLine else line, topLine)
               else done_with (file, line, current))
           else done_with (file, line, current))"

definition owned_hint :: string where
  "owned_hint = ''start the session with --source-root covering this path, set SL_DBG_ALLOW_SOURCE_ROOT to include a parent directory, or set a breakpoint in the file first''"

definition read_source :: "'w env \<Rightarrow> nat \<Rightarrow> source_args \<Rightarrow> string \<Rightarrow> go_int \<Rightarrow> go_int \<Rightarrow> 'w handler" where
  "read_source env c args file line current =
     do { w \<leftarrow> reads d_world;
          s \<leftarrow> sess c;
          let fail = errResp ''ADAPTER_FAILED'' (''could not read source: '' @ file) [];
          case readSourceFile (e_open env w file) of
            Some lines \<Rightarrow> source_answer file line (sra_Around args) current lines
          | None \<Rightarrow>
              if 0 < sra_Ref args \<or> SupportsLoadedSourcesRequest (s_caps s) then
                try_call (Source env c file (sra_Ref args)) (\<lambda>_. fail)
                  (\<lambda>txt. source_answer file line (sra_Around args) current (split_on CHR 0x0A txt))
              else fail }"

definition handleSource :: "'w env \<Rightarrow> request \<Rightarrow> 'w handler" where
  "handleSource env req =
     (let args = lax_args source_args_fields source_args_zero req; cwd = h_cwd (e_host env) in
      with_session env req (\<lambda>c s.
        if sra_File args \<noteq> [] \<and> hasDotDotSegment (sra_File args) then
          do { audit_Log env ''source.denied'' (s_ID s)
                 [(''file'', JStr (sra_File args)), (''reason'', JStr (''path contains '' @ [CHR 0x27] @ ''..'' @ [CHR 0x27] @ '' segment''))];
               errResp ''SOURCE_PATH_DENIED''
                 (''path '' @ quote (sra_File args) @ '' contains '' @ [CHR 0x27] @ ''..'' @ [CHR 0x27] @ '' segment'')
                 (''pass an absolute path under the session'' @ [CHR 0x27] @
                  ''s source roots (program dir, --source-root, or a registered breakpoint file)'') }
        else and_then (default_location env c s args) (\<lambda>(file, line, current).
          if file = [] then
            errResp ''USAGE_ERROR'' ''no file specified and no current pause location''
              ''pass file=<path> or wait until the program is paused at a known location''
          else
            do { ord \<leftarrow> an_order env;
                 s1 \<leftarrow> sess c;
                 if sessionOwnsPath cwd ord s1 file then read_source env c args file line current
                 else case SourcePathAllowed (e_policy env) cwd file of
                     Some e \<Rightarrow>
                       do { audit_Log env ''source.denied'' (s_ID s) [(''file'', JStr file), (''reason'', JStr e)];
                            errResp ''SOURCE_PATH_DENIED''
                              (''path '' @ quote file @ '' is outside the session'' @ [CHR 0x27] @ ''s source roots'') owned_hint }
                   | None \<Rightarrow> read_source env c args file line current })))"

section \<open>Timestamps\<close>

definition digits_n :: "nat \<Rightarrow> string \<Rightarrow> (nat \<times> string) option" where
  "digits_n n s =
     (if n \<le> length s \<and> list_all is_digit (take n s) then Some (digits_value (take n s), drop n s) else None)"

definition lit :: "char \<Rightarrow> string \<Rightarrow> string option" where
  "lit c s = (case s of [] \<Rightarrow> None | x # xs \<Rightarrow> if x = c then Some xs else None)"

text \<open>The layout's hour takes one digit or two.\<close>

definition hour_num :: "string \<Rightarrow> (nat \<times> string) option" where
  "hour_num s = (case digits_n 2 s of Some r \<Rightarrow> Some r | None \<Rightarrow> digits_n 1 s)"

definition fraction :: "string \<Rightarrow> nat \<times> string" where
  "fraction s =
     (case s of
        c # d # rest \<Rightarrow>
          if (c = CHR ''.'' \<or> c = CHR '','') \<and> is_digit d then
            (let ds = takeWhile is_digit (d # rest); ds9 = take 9 ds
             in (digits_value ds9 * 10 ^ (9 - length ds9), dropWhile is_digit (d # rest)))
          else (0, s)
      | _ \<Rightarrow> (0, s))"

text \<open>The zone, in minutes east of UTC.\<close>

definition zone :: "string \<Rightarrow> (int \<times> string) option" where
  "zone s =
     (case s of
        [] \<Rightarrow> None
      | c # rest \<Rightarrow>
          if c = CHR ''Z'' then Some (0, rest)
          else if c = CHR ''+'' \<or> c = CHR ''-'' then
            do { (h, s1) \<leftarrow> digits_n 2 rest;
                 s2 \<leftarrow> lit CHR '':'' s1;
                 (m, s3) \<leftarrow> digits_n 2 s2;
                 if h \<le> 24 \<and> m \<le> 60 then
                   Some ((if c = CHR ''-'' then -1 else 1) * int (60 * h + m), s3)
                 else None }
          else None)"

definition leap :: "int \<Rightarrow> bool" where
  "leap y \<longleftrightarrow> y mod 4 = 0 \<and> (y mod 100 \<noteq> 0 \<or> y mod 400 = 0)"

definition month_lengths :: "int \<Rightarrow> nat list" where
  "month_lengths y = [31, if leap y then 29 else 28, 31, 30, 31, 30, 31, 31, 30, 31, 30, 31]"

definition days_before_year :: "int \<Rightarrow> int" where
  "days_before_year y = 365 * (y - 1) + (y - 1) div 4 - (y - 1) div 100 + (y - 1) div 400"

definition day_number :: "int \<Rightarrow> nat \<Rightarrow> nat \<Rightarrow> int" where
  "day_number y m d = days_before_year y + int (sum_list (take (m - 1) (month_lengths y)) + d - 1)"

definition unix_epoch_day :: int where
  "unix_epoch_day = day_number 1970 1 1"

definition parse_rfc3339 :: "string \<Rightarrow> timestamp option" where
  "parse_rfc3339 s0 =
     do { (y, s1) \<leftarrow> digits_n 4 s0;
          s2 \<leftarrow> lit CHR ''-'' s1;
          (mo, s3) \<leftarrow> digits_n 2 s2;
          s4 \<leftarrow> lit CHR ''-'' s3;
          (d, s5) \<leftarrow> digits_n 2 s4;
          s6 \<leftarrow> lit CHR ''T'' s5;
          (h, s7) \<leftarrow> hour_num s6;
          s8 \<leftarrow> lit CHR '':'' s7;
          (mi, s9) \<leftarrow> digits_n 2 s8;
          s10 \<leftarrow> lit CHR '':'' s9;
          (sec, s11) \<leftarrow> digits_n 2 s10;
          let (ns, s12) = fraction s11;
          (z, s13) \<leftarrow> zone s12;
          if s13 = [] \<and> 1 \<le> mo \<and> mo \<le> 12 \<and> 1 \<le> d \<and> d \<le> month_lengths (int y) ! (mo - 1) \<and>
             h < 24 \<and> mi < 60 \<and> sec < 60 then
            Some ((((day_number (int y) mo d - unix_epoch_day) * 24 + int h) * 3600 + int mi * 60 + int sec - z * 60) * 1000000000 + int ns)
          else None }"

text \<open>The zero \<open>time.Time\<close>, for which \<open>IsZero\<close> holds: no lower bound.\<close>

definition zero_time :: timestamp where
  "zero_time = (day_number 1 1 1 - unix_epoch_day) * 86400 * 1000000000"

definition with_since :: "'w env \<Rightarrow> string \<Rightarrow> (timestamp option \<Rightarrow> 'w handler) \<Rightarrow> 'w handler" where
  "with_since env since k =
     (if since = [] then k None
      else case parse_rfc3339 since of
          None \<Rightarrow> errResp ''USAGE_ERROR''
            (''invalid '' @ [CHR 0x27] @ ''since'' @ [CHR 0x27] @ '' timestamp '' @ quote since @ '': '' @ e_time_error env since)
            ''use RFC3339Nano, e.g. 2026-06-26T19:59:26.279496Z''
        | Some t \<Rightarrow> k (if t = zero_time then None else Some t))"

section \<open>Output and events\<close>

definition handleOutput :: "'w env \<Rightarrow> request \<Rightarrow> 'w handler" where
  "handleOutput env req =
     (let args = lax_args output_args_fields output_args_zero req in
      with_session env req (\<lambda>c s.
        with_since env (oa_Since args) (\<lambda>since. ok_resp (DOutput (Outputs since (oa_Tail args) s)))))"

definition handleEvents :: "'w env \<Rightarrow> request \<Rightarrow> 'w handler" where
  "handleEvents env req =
     (let args = lax_args events_args_fields events_args_zero req in
      with_session env req (\<lambda>c s.
        with_since env (ea_Since args) (\<lambda>since. ok_resp (DEvents (Events since (ea_Tail args) s)))))"

section \<open>Lemmas\<close>

lemma go_slice_bounds: "go_slice xs i j = Some ys \<Longrightarrow> int (length ys) = j - i \<and> sublist ys xs"
  by (auto simp: go_slice_def split: if_splits intro: sublist_order.order.trans [OF sublist_take sublist_drop])

text \<open>The window fits exactly when its first line is not past the end of the file, and no overflow occurs.\<close>

lemma windowOf_slice_iff:
  assumes "in_int64 center" "in_int64 around" "in_int64 n" "0 \<le> n"
  shows "(0 \<le> fst (windowOf center around n) \<and> fst (windowOf center around n) \<le> snd (windowOf center around n) \<and>
      snd (windowOf center around n) \<le> n) \<longleftrightarrow>
    around \<le> 0 \<or> center \<le> 0 \<or> center - around \<le> n + 1 \<and> in_int64 (center + around)"
proof (cases "around \<le> 0 \<or> center \<le> 0")
  case True
  with assms show ?thesis by (auto simp: windowOf_def)
next
  case False
  then have start: "wrap64 (center - around - 1) = center - around - 1"
    using assms by (intro wrap64_id) (auto simp: in_int64_def)
  show ?thesis
  proof (cases "in_int64 (center + around)")
    case True
    with False assms start show ?thesis by (auto simp: windowOf_def Let_def)
  next
    case over: False
    have "(center + around + 2 ^ 63) mod 2 ^ 64 = center + around + 2 ^ 63 - 2 ^ 64"
      using over False assms by (subst minus_mod_self2 [symmetric], subst mod_pos_pos_trivial) (auto simp: in_int64_def)
    then have "wrap64 (center + around) = center + around - 2 ^ 64" by (simp add: wrap64_def)
    then have "wrap64 (center + around) < 0" using False assms by (auto simp: in_int64_def)
    with over False assms start show ?thesis by (auto simp: windowOf_def Let_def)
  qed
qed

end
