(* ===== verification/Component_Props.thy ===== *)
theory Component_Props
  imports Manager Adapter Handlers_Break Handlers_Source
begin

text \<open>
  Properties of the components that need no daemon around them: the policy as it is read from the
  environment and the policy file, the program allowlist, the session table, the watch store, the
  logs, locations and source windows.
\<close>

section \<open>The policy\<close>

text \<open>
  The policy file cannot override the environment: a variable that is set keeps its value, and a
  variable outside the \<open>SL_DBG_\<close> name space is never touched.
\<close>

theorem policy_file_precedence:
  assumes "map_of env k = Some v \<or> \<not> has_prefix k ''SL_DBG_''"
  shows "map_of (loadSafePolicyFile fs env) k = map_of env k"
  using assms by (auto simp: loadSafePolicyFile_def load_policy_lines_keep load_policy_lines_foreign split: option.split)

theorem policy_file_precedence_witness:
  "map_of (loadSafePolicyFile (\<lambda>_. Some ''SL_DBG_ALLOW_EVAL=1'') [(''SL_DBG_ALLOW_EVAL'', ''0'')]) ''SL_DBG_ALLOW_EVAL'' =
   map_of [(''SL_DBG_ALLOW_EVAL'', ''0'')] ''SL_DBG_ALLOW_EVAL''"
  by (rule policy_file_precedence [where v = "''0''"]) simp

lemma unset_getenv: "list_all (\<lambda>(k, v). \<not> has_prefix k ''SL_DBG_'') env \<Longrightarrow> has_prefix k ''SL_DBG_'' \<Longrightarrow> getenv env k = []"
  by (auto simp: getenv_def list_all_iff split: option.split dest: map_of_SomeD)

text \<open>
  Without any \<open>SL_DBG_\<close> variable and without a policy file the daemon denies evaluation and every
  path outside the session's roots, and keeps the default deny-list; programs and the number of
  sessions are not limited.
\<close>

theorem default_policy:
  assumes "list_all (\<lambda>(k, v). \<not> has_prefix k ''SL_DBG_'') env" "fs (safePolicyFilePath env) = None"
  shows "LoadPolicyFromEnv fs cwd env =
      \<lparr>AllowProgram = [], AllowSourceRoot = [], MaxSessions = 0, AuditLogPath = [], AllowEval = False,
       DenyEvalPatterns = default_deny_patterns\<rparr> \<and>
    EvalEnabled (LoadPolicyFromEnv fs cwd env) \<noteq> None \<and>
    SourcePathAllowed (LoadPolicyFromEnv fs cwd env) cwd path \<noteq> None"
proof -
  have "loadSafePolicyFile fs env = env" using assms(2) by (simp add: loadSafePolicyFile_def)
  moreover have "getenv env (''SL_DBG_'' @ x) = []" for x
    by (rule unset_getenv [OF assms(1)]) (simp add: has_prefix_def)
  from this [of "''MAX_SESSIONS''"] this [of "''DENY_EVAL_PATTERNS''"] this [of "''ALLOW_PROGRAM''"]
    this [of "''ALLOW_SOURCE_ROOT''"] this [of "''AUDIT_LOG''"] this [of "''ALLOW_EVAL''"]
  have "getenv env ''SL_DBG_MAX_SESSIONS'' = []" "getenv env ''SL_DBG_DENY_EVAL_PATTERNS'' = []"
    "getenv env ''SL_DBG_ALLOW_PROGRAM'' = []" "getenv env ''SL_DBG_ALLOW_SOURCE_ROOT'' = []"
    "getenv env ''SL_DBG_AUDIT_LOG'' = []" "getenv env ''SL_DBG_ALLOW_EVAL'' = []"
    by simp_all
  moreover have "trim_space [] = []" "parseBoolEnv [] = False" "splitColonList [] = []" "cleanAbs cwd [] = []"
    by (simp_all add: trim_space_def trim_left_f_def trim_right_f_def parseBoolEnv_def splitColonList_def cleanAbs_def
        to_lower_def map_filter_simps)
  ultimately show ?thesis
    by (simp add: LoadPolicyFromEnv_def Let_def EvalEnabled_def SourcePathAllowed_def)
qed

theorem default_policy_witness:
  "LoadPolicyFromEnv (\<lambda>_. None) (Some ''/w'') [(''HOME'', ''/h'')] =
      \<lparr>AllowProgram = [], AllowSourceRoot = [], MaxSessions = 0, AuditLogPath = [], AllowEval = False,
       DenyEvalPatterns = default_deny_patterns\<rparr> \<and>
    EvalEnabled (LoadPolicyFromEnv (\<lambda>_. None) (Some ''/w'') [(''HOME'', ''/h'')]) \<noteq> None \<and>
    SourcePathAllowed (LoadPolicyFromEnv (\<lambda>_. None) (Some ''/w'') [(''HOME'', ''/h'')]) (Some ''/w'') ''/etc/passwd'' \<noteq> None"
  by (rule default_policy) (simp_all add: has_prefix_def)

text \<open>
  With an allowlist of literal names, a program passes exactly when its path or its base name is
  on the list, or when no program is named at all: a launch by main class passes every list.
\<close>

theorem program_allowlist:
  assumes "AllowProgram p \<noteq> []" "list_all literal (AllowProgram p)"
  shows "ProgramAllowed p program = None \<longleftrightarrow>
    program = [] \<or> program \<in> set (AllowProgram p) \<or> base_of program \<in> set (AllowProgram p)"
proof (cases "program = []")
  case True
  then show ?thesis by (simp add: ProgramAllowed_def)
next
  case False
  with assms show ?thesis by (simp add: ProgramAllowed_literal list_all_iff)
qed

theorem program_allowlist_witness:
  "ProgramAllowed (policy_zero\<lparr>AllowProgram := [''app.py'']\<rparr>) ''/srv/app.py'' = None \<longleftrightarrow>
    ''/srv/app.py'' = [] \<or> ''/srv/app.py'' \<in> set (AllowProgram (policy_zero\<lparr>AllowProgram := [''app.py'']\<rparr>)) \<or>
    base_of ''/srv/app.py'' \<in> set (AllowProgram (policy_zero\<lparr>AllowProgram := [''app.py'']\<rparr>))"
  by (rule program_allowlist) (simp_all add: literal_def)

text \<open>
  C17. The path guard of a session is exact: a path is owned when its cleaned absolute form has the
  components of a root as a prefix. Dot-dot segments and siblings with a common string prefix do not
  get past it. (The root directory itself covers only itself.)
\<close>

theorem session_path_guard:
  assumes "cwd_ok cwd"
  shows "sessionOwnsPath cwd ord s p \<longleftrightarrow>
    (\<exists>cs. abs_comps cwd p = Some cs \<and>
      (\<exists>r \<in> set (sessionSourceRoots ord s). \<exists>rs. abs_comps cwd r = Some rs \<and> within cs rs))"
  unfolding sessionOwnsPath_def by (rule session_roots.accepts_iff [OF assms])

theorem session_path_guard_witness:
  "(\<exists>cs. abs_comps (Some ''/w'') ''/work/x'' = Some cs \<and>
      (\<exists>r \<in> set (sessionSourceRoots (\<lambda>n. [0..<n]) ((newSession 0 ''a'' ''go'')\<lparr>s_Cwd := ''/w''\<rparr>)).
        \<exists>rs. abs_comps (Some ''/w'') r = Some rs \<and> within cs rs)) = False"
proof -
  have "cwd_ok (Some ''/w'')" by (simp add: cwd_ok_def is_abs_def has_prefix_def)
  moreover have "\<not> sessionOwnsPath (Some ''/w'') (\<lambda>n. [0..<n]) ((newSession 0 ''a'' ''go'')\<lparr>s_Cwd := ''/w''\<rparr>) ''/work/x''"
    by code_simp
  ultimately show ?thesis by (simp only: session_path_guard [symmetric])
qed

section \<open>Session table and watch store\<close>

text \<open>
  The session table behaves as a map with a default. After \<open>Remove\<close> every other session is found
  as before, the removed one is not, and while a session is left the default names one that exists,
  whichever session the map iteration offers first.
\<close>

theorem remove_promotes_default:
  assumes inv: "mgr_inv m" and sid: "sid \<in> fst ` set (m_sessions m)" "sid \<noteq> []"
    and other: "k \<in> fst ` set (m_sessions m)" "k \<noteq> sid" "k \<noteq> []"
  shows "(\<exists>e. Get (Remove ord sid m) sid = Inl e) \<and> Get (Remove ord sid m) k = Get m k \<and>
    (\<exists>s d. Get (Remove ord sid m) [] = Inr s \<and> d \<noteq> sid \<and> map_of (m_sessions m) d = Some s)"
proof (intro conjI Get_Remove [OF sid(2)] Get_Remove_other [OF inv other(2,3)])
  let ?rest = "map_del sid (m_sessions m)" and ?d = "m_defID (Remove ord sid m)"
  have keys: "fst ` set ?rest = fst ` set (m_sessions m) - {sid}" by simp
  then have "k \<in> fst ` set ?rest" using other by simp
  then have "go_range ord ?rest \<noteq> []" using set_go_range [of ord ?rest] by fastforce
  then obtain d r where d: "map fst (go_range ord ?rest) = d # r" by (cases "go_range ord ?rest") auto
  have "set (map fst (go_range ord ?rest)) = fst ` set ?rest" by simp
  then have "d \<in> fst ` set ?rest" unfolding d by auto
  moreover have "m_defID m \<noteq> sid \<Longrightarrow> m_defID m \<in> fst ` set ?rest"
    using inv sid unfolding keys mgr_inv_def by auto
  ultimately have in_rest: "?d \<in> fst ` set ?rest" using sid(1) d by (simp add: Remove_def Let_def)
  then obtain s where "map_of ?rest ?d = Some s"
    by (cases "map_of ?rest ?d") (auto simp: map_of_eq_None_iff simp del: map_of_del)
  moreover have "m_sessions (Remove ord sid m) = ?rest" using sid(1) by (simp add: Remove_def Let_def)
  ultimately show "\<exists>s d. Get (Remove ord sid m) [] = Inr s \<and> d \<noteq> sid \<and> map_of (m_sessions m) d = Some s"
    by (intro exI [of _ s] exI [of _ ?d]) (auto simp: Get_def Get_key_def split: if_splits)
qed

theorem remove_promotes_default_witness:
  "let m = register (newSession 1 ''b'' ''go'') (register (newSession 0 ''a'' ''go'') NewManager); ord = (\<lambda>n. [0..<n]) in
   (\<exists>e. Get (Remove ord ''b'' m) ''b'' = Inl e) \<and> Get (Remove ord ''b'' m) ''a'' = Get m ''a'' \<and>
    (\<exists>s d. Get (Remove ord ''b'' m) [] = Inr s \<and> d \<noteq> ''b'' \<and> map_of (m_sessions m) d = Some s)"
  unfolding Let_def
proof (rule remove_promotes_default)
  show "mgr_inv (register (newSession 1 ''b'' ''go'') (register (newSession 0 ''a'' ''go'') NewManager))"
    by (intro mgr_inv_register mgr_inv_new sess_inv_new)
qed (simp_all add: register_def newSession_def NewManager_def)

text \<open>
  C16. Watches survive a session: what \<open>SaveWatches\<close> stores when a session ends is what \<open>LoadWatches\<close>
  gives the next session on the same language, program and directory, in the same order.
\<close>

theorem watches_round_trip:
  assumes same: "s_Lang t = s_Lang s" "s_Program t = s_Program s" "s_Cwd t = s_Cwd s" "s_watches t = []"
    and stored: "watch_path hash env s \<noteq> []" "writable" "[] \<notin> w_Expression ` set (s_watches s)"
  shows "map w_Expression (s_watches (fst (LoadWatches hash env (SaveWatches hash env writable s store) t))) =
    map w_Expression (s_watches s)"
proof -
  have "watch_path hash env t = watch_path hash env s" using same by (simp add: watch_path_def)
  moreover have "map w_Expression (s_watches (add_watches (map w_Expression (s_watches s)) t)) = map w_Expression (s_watches s)"
    using stored(3) same(4) by (subst add_watches_exprs) (auto simp: image_iff)
  ultimately show ?thesis
    using stored same(4) by (simp add: LoadWatches_def SaveWatches_def Let_def)
qed

theorem watches_round_trip_witness:
  "let s = (newSession 0 ''a'' ''go'')\<lparr>s_Program := ''/w/main.go''\<rparr>;
       env = [(''XDG_STATE_HOME'', ''/st'')] in
   map w_Expression (s_watches (fst (LoadWatches (\<lambda>x. ''k'') env
      (SaveWatches (\<lambda>x. ''k'') env True (AddWatch ''y'' (AddWatch ''x'' s)) []) (s\<lparr>s_ID := ''b''\<rparr>)))) =
   map w_Expression (s_watches (AddWatch ''y'' (AddWatch ''x'' s)))"
  unfolding Let_def
  by (rule watches_round_trip)
     (simp_all add: AddWatch_def newSession_def watch_path_def watchKey_def watchFilePath_def watchStoreDir_def getenv_def
        path_join_def clean_def rooted_str_def has_prefix_def is_abs_def)

section \<open>Logs\<close>

text \<open>
  \<open>output --tail n\<close> returns the newest \<open>n\<close> entries of everything the program ever wrote, for every
  \<open>n\<close> up to the size of the ring, however much output came before.
\<close>

theorem output_tail:
  assumes "0 < n" "n \<le> int maxOutputEntries"
  shows "Outputs None n (fold push_output es (newSession cli sid lang)) = last_n (nat n) es"
proof -
  have "s_outputs (fold push_output es (newSession cli sid lang)) = last_n maxOutputEntries es"
    using out_log.buf_fold_push [of "newSession cli sid lang" es] by (simp add: newSession_def)
  moreover have "\<not> n < int (length (last_n maxOutputEntries es)) \<Longrightarrow> last_n maxOutputEntries es = last_n (nat n) es"
    using assms by (cases "length es \<le> maxOutputEntries") auto
  moreover have "last_n (nat n) (last_n maxOutputEntries es) = last_n (nat n) es"
    using assms by (cases "length es \<le> maxOutputEntries") (simp_all add: last_n_def)
  ultimately show ?thesis
    using assms(1) by (simp add: Outputs_def log_query_def Let_def)
qed

theorem output_tail_witness:
  "let e = \<lparr>oe_TS = 0, oe_Category = ''stdout'', oe_Output = ''x''\<rparr> in
   Outputs None 2 (fold push_output [e, e\<lparr>oe_Output := ''y''\<rparr>, e\<lparr>oe_Output := ''z''\<rparr>] (newSession 0 ''a'' ''go'')) =
   last_n (nat 2) [e, e\<lparr>oe_Output := ''y''\<rparr>, e\<lparr>oe_Output := ''z''\<rparr>]"
  unfolding Let_def by (rule output_tail) (simp_all add: maxOutputEntries_def)

definition counts_as :: "string \<Rightarrow> output_entry \<Rightarrow> bool" where
  "counts_as want e \<longleftrightarrow> (if oe_Category e = ''console'' then ''stderr'' else oe_Category e) = want"

definition is_tail :: "int \<Rightarrow> string \<Rightarrow> output_entry list \<Rightarrow> string \<Rightarrow> string \<Rightarrow> bool" where
  "is_tail maxBytes want es b t \<longleftrightarrow>
     (\<exists>ys. prefix ys (filter (counts_as want) es) \<and> t = concat (map oe_Output (rev ys)) @ b \<and>
       (int (length t) \<le> maxBytes \<or> (\<exists>e \<in> set es. t = oe_Output e)))"

lemma is_tail_skip: "\<not> counts_as want e \<Longrightarrow> is_tail maxBytes want es b t \<Longrightarrow> is_tail maxBytes want (e # es) b t"
  by (auto simp: is_tail_def)

lemma is_tail_take:
  assumes "counts_as want e" "is_tail maxBytes want es (oe_Output e @ b) t"
  shows "is_tail maxBytes want (e # es) b t"
proof -
  obtain ys where "prefix ys (filter (counts_as want) es)" "t = concat (map oe_Output (rev ys)) @ oe_Output e @ b"
    "int (length t) \<le> maxBytes \<or> (\<exists>e \<in> set es. t = oe_Output e)"
    using assms(2) unfolding is_tail_def by blast
  then show ?thesis
    using assms(1) unfolding is_tail_def by (intro exI [of _ "e # ys"] conjI) auto
qed

lemma is_tail_stop: "int (length b) \<le> maxBytes \<or> (\<exists>e \<in> set es. b = oe_Output e) \<Longrightarrow> is_tail maxBytes want es b b"
  unfolding is_tail_def by (intro exI [of _ "[]"]) simp

lemma tail_loop_entries: "int (length b) \<le> maxBytes \<Longrightarrow> is_tail maxBytes want es b (tail_loop maxBytes want es b)"
proof (induction maxBytes want es b rule: tail_loop.induct)
  case (1 maxBytes want b)
  then show ?case by (simp add: is_tail_stop)
next
  case (2 maxBytes want e es b)
  show ?case
  proof (cases "counts_as want e")
    case False
    with 2 show ?thesis by (simp add: counts_as_def is_tail_skip)
  next
    case True
    let ?cut = "maxBytes < int (length b + length (oe_Output e)) \<and> b \<noteq> []"
    have full: "is_tail maxBytes want (e # es) b (oe_Output e @ b)"
      if "\<not> ?cut"
      using that by (cases "b = []") (auto simp: is_tail_def True intro!: exI [of _ "[e]"])
    have "is_tail maxBytes want (e # es) b (tail_loop maxBytes want es (oe_Output e @ b))"
      if "\<not> ?cut" "\<not> maxBytes \<le> int (length (oe_Output e @ b))"
      using "2.IH"(2) [OF refl _ that(1) refl that(2)] that(2) True
      by (intro is_tail_take) (simp_all add: counts_as_def)
    with full 2 True show ?thesis by (auto simp: counts_as_def Let_def is_tail_stop)
  qed
qed

text \<open>
  The tail shown with a failed launch is the text of the newest entries of the stream, in order,
  and fits \<open>maxBytes\<close>, except that a single entry is never cut (so one long entry exceeds the bound).
\<close>

theorem tail_newest:
  assumes "0 \<le> maxBytes"
  shows "\<exists>ys. suffix ys (filter (counts_as want) (s_outputs s)) \<and> tailByCategory maxBytes want s = concat (map oe_Output ys) \<and>
    (int (length (tailByCategory maxBytes want s)) \<le> maxBytes \<or>
     (\<exists>e \<in> set (s_outputs s). tailByCategory maxBytes want s = oe_Output e))"
proof -
  have "is_tail maxBytes want (rev (s_outputs s)) [] (tailByCategory maxBytes want s)"
    using assms by (simp add: tailByCategory_def tail_loop_entries)
  then obtain ys where "prefix ys (filter (counts_as want) (rev (s_outputs s)))"
    "tailByCategory maxBytes want s = concat (map oe_Output (rev ys))"
    "int (length (tailByCategory maxBytes want s)) \<le> maxBytes \<or>
     (\<exists>e \<in> set (s_outputs s). tailByCategory maxBytes want s = oe_Output e)"
    unfolding is_tail_def append_Nil2 set_rev by blast
  then show ?thesis
    by (intro exI [of _ "rev ys"]) (simp add: suffix_to_prefix rev_filter [symmetric])
qed

theorem tail_newest_witness:
  "let s = recordOutput 0 ''stderr'' ''boom'' (newSession 0 ''a'' ''go'') in
   \<exists>ys. suffix ys (filter (counts_as ''stderr'') (s_outputs s)) \<and> tailByCategory 2 ''stderr'' s = concat (map oe_Output ys) \<and>
    (int (length (tailByCategory 2 ''stderr'' s)) \<le> 2 \<or> (\<exists>e \<in> set (s_outputs s). tailByCategory 2 ''stderr'' s = oe_Output e))"
  unfolding Let_def by (rule tail_newest) simp

section \<open>Locations, class paths, exception filters\<close>

text \<open>
  A location printed as \<open>file:line\<close> parses back to the same file and line, colons in the file
  name included, and so does \<open>Class:line\<close> for a name that does not look like a file.
\<close>

theorem location_round_trip:
  assumes "has_prefix file ''/'' \<or> file \<noteq> [] \<and> \<not> looksLikeFilePath file" "in_int64 line"
  shows "parseLocation cwd (file @ '':'' @ itoa line) = Inr (file, line)"
  using assms parseLocation_absolute parseLocation_class by blast

theorem location_round_trip_witness:
  "parseLocation (Some ''/w'') (''/w/a:b.py'' @ '':'' @ itoa 12) = Inr (''/w/a:b.py'', 12)"
  by (rule location_round_trip) (simp_all add: has_prefix_def in_int64_def)

text \<open>
  On an ASCII class path \<open>splitClasspath\<close> agrees with splitting at the colons and dropping the
  empty entries. (Other bytes are re-encoded one by one, which changes the entry.)
\<close>

theorem classpath_entries:
  assumes "list_all (\<lambda>c. char_code c < 128) cp"
  shows "splitClasspath cp = filter (\<lambda>e. e \<noteq> []) (split_on CHR '':'' cp)"
  using classpath_loop_ascii [of cp "[]"] assms by (simp add: splitClasspath_def list_all_iff)

theorem classpath_entries_witness:
  "splitClasspath ''a.jar::b'' = filter (\<lambda>e. e \<noteq> []) (split_on CHR '':'' ''a.jar::b'')"
  by (rule classpath_entries) (simp add: char_code_def)

text \<open>
  The filters that reach \<open>setExceptionBreakpoints\<close> are ids the adapter advertised, one for each
  filter the caller named; a name that matches none is an error, not a silent omission.
\<close>

theorem exception_filters:
  "case choose_filters supported fs of
     Inl f \<Rightarrow> f \<in> set fs \<and> match_filter supported f = []
   | Inr cs \<Rightarrow> length cs = length fs \<and> set cs \<subseteq> fst ` set supported \<and> [] \<notin> set cs"
proof (cases "choose_filters supported fs")
  case (Inl f)
  then have "f \<in> set fs \<and> match_filter supported f = []"
    by (induction fs) (auto simp: Let_def split: if_splits sum.splits)
  with Inl show ?thesis by simp
next
  case (Inr cs)
  with choose_filters_supported [of supported fs cs] show ?thesis by simp
qed

end
