(* ===== verification/Launch.thy ===== *)
theory Launch
  imports Handlers_Base
begin

text \<open>
  Creating and ending sessions: \<open>CreateLaunch\<close>, \<open>CreateAttach\<close>, \<open>startAdapter\<close>, \<open>Remove\<close> and \<open>Close\<close> of
  \<open>session.go\<close>, and the handlers \<open>handleStart\<close>, \<open>earlyTerminationResp\<close>, \<open>handleAttach\<close>, \<open>handleStop\<close>,
  \<open>handleAdapters\<close> of \<open>server.go\<close>. Spawning the process and opening its pipes or its TCP connection is the
  function \<open>e_spawn\<close> of the environment, which also draws the random session id.
\<close>

section \<open>Ending a session\<close>

definition Close :: "'w env \<Rightarrow> nat \<Rightarrow> ('w, unit) act" where
  "Close env c =
     ignoring (Simple env c (ReqDisconnect True)) (do { on_sess c CloseSession; done_with () })"

definition save_store :: "'w env \<Rightarrow> string \<Rightarrow> 'w dstate \<Rightarrow> 'w dstate" where
  "save_store env sid st =
     (case map_of (m_sessions (d_mgr st)) sid of
        None \<Rightarrow> st
      | Some s \<Rightarrow> st\<lparr>d_store := SaveWatches (e_hash env) (h_env (e_host env)) (e_writable env) s (d_store st)\<rparr>)"

definition remove_session :: "'w env \<Rightarrow> string \<Rightarrow> ('w, unit) act" where
  "remove_session env sid =
     do { m \<leftarrow> reads d_mgr;
          case map_of (m_sessions m) sid of
            None \<Rightarrow> done_with ()
          | Some s \<Rightarrow>
              do { modify (save_store env sid);
                   and_then (Close env (s_cli s)) (\<lambda>_.
                     do { ord \<leftarrow> an_order env;
                          modify (\<lambda>st. st\<lparr>d_mgr := Remove ord sid (d_mgr st)\<rparr>);
                          done_with () }) } }"

section \<open>Starting an adapter\<close>

definition startAdapter :: "'w env \<Rightarrow> lang \<Rightarrow> string \<Rightarrow> ('w, nat) act" where
  "startAdapter env spec lang =
     (case LaunchAdapter (e_host env) spec of
        Inl e \<Rightarrow> State_Monad.return (Fail (CallErr e False))
      | Inr (argv, transport) \<Rightarrow> State (\<lambda>st.
          let (w, r) = e_spawn env (d_world st) argv transport; st1 = st\<lparr>d_world := w\<rparr> in
          case r of
            Inl e \<Rightarrow> (Fail (CallErr e False), st1)
          | Inr newid \<Rightarrow>
              (Ok (d_nextCli st), st1\<lparr>d_new := Some (newSession (d_nextCli st) newid lang), d_nextCli := Suc (d_nextCli st)\<rparr>)))"

text \<open>\<open>s.Close(); return nil, err\<close>: the session object is dropped.\<close>

definition abort :: "'w env \<Rightarrow> nat \<Rightarrow> string \<Rightarrow> ('w, 'a) act" where
  "abort env c msg =
     ignoring (Close env c)
       (do { modify (\<lambda>st. st\<lparr>d_new := None\<rparr>); State_Monad.return (Fail (CallErr msg False)) })"

definition set_new :: "(session \<Rightarrow> session) \<Rightarrow> ('w, unit) op" where
  "set_new f = modify (\<lambda>st. st\<lparr>d_new := map_option f (d_new st)\<rparr>)"

text \<open>A name given by the caller is checked once the adapter runs.\<close>

definition name_session :: "'w env \<Rightarrow> nat \<Rightarrow> string \<Rightarrow> ('w, unit) act" where
  "name_session env c name =
     (if name = [] then done_with ()
      else do { m \<leftarrow> reads d_mgr;
                case validateName m name of
                  Some e \<Rightarrow> abort env c e
                | None \<Rightarrow> do { set_new (\<lambda>s. s\<lparr>s_ID := name\<rparr>); done_with () } })"

definition Initialize :: "'w env \<Rightarrow> nat \<Rightarrow> string \<Rightarrow> ('w, unit) act" where
  "Initialize env c adapterID =
     and_then (Call env c None (ReqInitialize adapterID)) (\<lambda>r.
       case r of RepCaps caps \<Rightarrow> do { on_sess c (\<lambda>s. s\<lparr>s_caps := caps\<rparr>); done_with () }
       | _ \<Rightarrow> State_Monad.return (Fail (CallErr ''unexpected response'' False)))"

definition send_async :: "'w env \<Rightarrow> nat \<Rightarrow> dap_request \<Rightarrow> ('w, string option) op" where
  "send_async env c r = State (\<lambda>st.
     let (w, ts, e) = e_send env (d_world st) c r
     in (e, deliver env ts (st\<lparr>d_world := w, d_sent := d_sent st @ [(c, r)]\<rparr>)))"

definition wait_initialized :: "'w env \<Rightarrow> nat \<Rightarrow> ('w, bool) op" where
  "wait_initialized env c = State (\<lambda>st.
     if c \<in> set (d_inits st) then (True, st)
     else let (w, ts, e) = e_await env (d_world st) c 15000000000; st1 = deliver env ts (st\<lparr>d_world := w\<rparr>)
          in (c \<in> set (d_inits st1), st1))"

definition async_reply :: "'w env \<Rightarrow> nat \<Rightarrow> ('w, async_end) op" where
  "async_reply env c = State (\<lambda>st.
     let (w, ts, e) = e_async env (d_world st) c in (e, deliver env ts (st\<lparr>d_world := w\<rparr>)))"

definition register_new :: "nat \<Rightarrow> ('w, unit) op" where
  "register_new c = modify (\<lambda>st. case d_new st of None \<Rightarrow> st
     | Some s \<Rightarrow> if s_cli s = c then st\<lparr>d_mgr := register s (d_mgr st), d_new := None\<rparr> else st)"

definition load_store :: "'w env \<Rightarrow> nat \<Rightarrow> 'w dstate \<Rightarrow> 'w dstate" where
  "load_store env c st =
     (let load = LoadWatches (e_hash env) (h_env (e_host env)) (d_store st) in
      (upd_obj c (\<lambda>s. fst (load s)) st)\<lparr>d_store := snd (load (obj c st))\<rparr>)"

text \<open>The part of the handshake that \<open>launch\<close> and \<open>attach\<close> share: initialize, send, wait for \<open>initialized\<close>.\<close>

definition handshake :: "'w env \<Rightarrow> nat \<Rightarrow> string \<Rightarrow> string \<Rightarrow> string \<Rightarrow> dap_request \<Rightarrow> ('w, unit) act" where
  "handshake env c adapterID initErr what r =
     try_call (Initialize env c adapterID) (\<lambda>e. abort env c (initErr @ ce_msg e)) (\<lambda>_.
       do { sent \<leftarrow> send_async env c r;
            case sent of
              Some e \<Rightarrow> abort env c (''dap '' @ what @ '' send: '' @ e)
            | None \<Rightarrow>
                do { ready \<leftarrow> wait_initialized env c;
                     if ready then done_with ()
                     else abort env c
                       (''timeout waiting for adapter '' @ [CHR 0x27] @ ''initialized'' @ [CHR 0x27] @ '' event'') } })"

definition await_reply :: "'w env \<Rightarrow> nat \<Rightarrow> string \<Rightarrow> string \<Rightarrow> ('w, unit) act" where
  "await_reply env c what late =
     do { r \<leftarrow> async_reply env c;
          case r of
            AsyncReply \<Rightarrow> done_with ()
          | AsyncFailed msg \<Rightarrow> abort env c (''dap '' @ what @ '' failed: '' @ msg)
          | AsyncClosed \<Rightarrow> abort env c (''dap '' @ what @ '': adapter disconnected'')
          | AsyncTimeout \<Rightarrow> abort env c (''dap '' @ what @ '': timeout waiting for '' @ late) }"

definition detect_spec :: "'w env \<Rightarrow> string \<Rightarrow> ('w, lang) act" where
  "detect_spec env lang =
     (case adapter_Get lang of
        Inl e \<Rightarrow> State_Monad.return (Fail (CallErr e False))
      | Inr spec \<Rightarrow>
          (case Detect (e_host env) spec of
             Inl e \<Rightarrow> State_Monad.return (Fail (CallErr
               (''adapter '' @ quote lang @ '' not installed: '' @ e @ ''  (hint: '' @ InstallHint spec @ '')'') False))
           | Inr _ \<Rightarrow> done_with spec))"

definition launch_cfg_of :: "start_args \<Rightarrow> launch_cfg" where
  "launch_cfg_of args = \<lparr>lc_Program = sa_Program args, lc_Args = sa_Args args, lc_Cwd = sa_Cwd args,
     lc_Env = sa_Env args, lc_StopOnEntry = sa_StopOnEntry args, lc_MainClass = sa_MainClass args,
     lc_Classpath = sa_Classpath args, lc_SourceRoots = sa_SourceRoots args\<rparr>"

text \<open>What follows the start of the adapter in \<open>CreateLaunch\<close>.\<close>

definition finish_launch :: "'w env \<Rightarrow> start_args \<Rightarrow> lang \<Rightarrow> json \<Rightarrow> nat \<Rightarrow> ('w, nat) act" where
  "finish_launch env args spec launchArgs c =
     and_then (name_session env c (sa_Name args)) (\<lambda>_.
     do { set_new (\<lambda>s. s\<lparr>s_Program := sa_Program args, s_Cwd := sa_Cwd args,
                         s_SourceRoots := sa_SourceRoots args, s_ReadOnly := sa_ReadOnly args\<rparr>);
          and_then (handshake env c (AdapterID spec) ''dap initialize: '' ''launch'' (ReqLaunch launchArgs)) (\<lambda>_.
          try_call (Simple env c ReqConfigurationDone) (\<lambda>e. abort env c (''dap configurationDone: '' @ ce_msg e)) (\<lambda>_.
          and_then (await_reply env c ''launch'' ''response after configurationDone'') (\<lambda>_.
          do { register_new c; modify (load_store env c); done_with c }))) })"

definition CreateLaunch :: "'w env \<Rightarrow> start_args \<Rightarrow> ('w, nat) act" where
  "CreateLaunch env args =
     and_then (detect_spec env (sa_Lang args)) (\<lambda>spec.
     case BuildLaunchArgs (e_host env) spec (launch_cfg_of args) of
       Inl e \<Rightarrow> State_Monad.return (Fail (CallErr e False))
     | Inr launchArgs \<Rightarrow> and_then (startAdapter env spec (sa_Lang args)) (finish_launch env args spec launchArgs))"

definition attach_cfg_of :: "attach_args \<Rightarrow> attach_cfg" where
  "attach_cfg_of args = \<lparr>ac_Host = aa_Host args, ac_Port = aa_Port args, ac_PID = aa_PID args, ac_SourceRoots = aa_SourceRoots args\<rparr>"

definition attached_text :: "attach_args \<Rightarrow> string" where
  "attached_text args =
     (if aa_Port args \<noteq> 0 then aa_Host args @ '':'' @ itoa (aa_Port args)
      else if aa_PID args \<noteq> 0 then ''pid:'' @ itoa (aa_PID args) else [])"

definition finish_attach :: "'w env \<Rightarrow> attach_args \<Rightarrow> lang \<Rightarrow> json \<Rightarrow> nat \<Rightarrow> ('w, nat) act" where
  "finish_attach env args spec attachArgs c =
     and_then (name_session env c (aa_Name args)) (\<lambda>_.
     do { set_new (\<lambda>s. s\<lparr>s_ReadOnly := aa_ReadOnly args, s_SourceRoots := aa_SourceRoots args,
                         s_Attached := attached_text args\<rparr>);
          and_then (handshake env c (AdapterID spec) [] ''attach'' (ReqAttach attachArgs)) (\<lambda>_.
          do { on_sess c (\<lambda>s. s\<lparr>s_pendingConfigDone := True\<rparr>);
               and_then (await_reply env c ''attach'' ''attach response'') (\<lambda>_.
               do { register_new c; done_with c }) }) })"

definition CreateAttach :: "'w env \<Rightarrow> attach_args \<Rightarrow> ('w, nat) act" where
  "CreateAttach env args =
     and_then (detect_spec env (aa_Lang args)) (\<lambda>spec.
     case BuildAttachArgs spec (attach_cfg_of args) of
       Inl e \<Rightarrow> State_Monad.return (Fail (CallErr e False))
     | Inr attachArgs \<Rightarrow> and_then (startAdapter env spec (aa_Lang args)) (finish_attach env args spec attachArgs))"

section \<open>Handlers\<close>

definition tail_hint :: "string \<Rightarrow> string \<Rightarrow> string" where
  "tail_hint stderrTail stdoutTail =
     (let nl = [CHR 0x0A];
          parts = (if stderrTail \<noteq> [] then [''stderr tail:'' @ nl @ trim_right stderrTail nl] else []) @
                  (if stdoutTail \<noteq> [] then [''stdout tail:'' @ nl @ trim_right stdoutTail nl] else [])
      in if parts \<noteq> [] then join_with (nl @ nl) parts
         else ''check program path, main class, classpath, and required env vars'')"

definition early_response :: "session \<Rightarrow> pause_info \<Rightarrow> response" where
  "early_response s pi =
     (let stdoutTail = RecentStdoutTail 2048 s; stderrTail = RecentStderrTail 2048 s in
      if pi_ExitCode pi = Some 0 then
        OkResp (DSession (session_result_zero\<lparr>sr_SessionID := s_ID s, sr_Lang := s_Lang s,
          sr_State := state_str StateExited, sr_Reason := ''exited'', sr_ExitCode := pi_ExitCode pi,
          sr_Stdout := stdoutTail, sr_Stderr := stderrTail\<rparr>))
      else
        ErrResp ''LAUNCH_FAILED''
          (case pi_ExitCode pi of
             Some code \<Rightarrow> ''program exited with code '' @ itoa code @ '' before any user command could run''
           | None \<Rightarrow> ''program terminated before any user command could run'')
          (tail_hint stderrTail stdoutTail))"

definition earlyTerminationResp :: "'w env \<Rightarrow> nat \<Rightarrow> pause_info \<Rightarrow> 'w handler" where
  "earlyTerminationResp env c pi =
     do { s \<leftarrow> sess c;
          and_then (remove_session env (s_ID s)) (\<lambda>_. done_with (early_response s pi)) }"

definition exhausted :: "manager \<Rightarrow> string \<Rightarrow> response" where
  "exhausted m e = ErrResp ''RESOURCE_EXHAUSTED'' e
     (''the daemon is configured with SL_DBG_MAX_SESSIONS='' @ itoa (m_maxSessions m) @
      ''. Stop an existing session or raise the limit.'')"

definition ended :: "pause_info \<Rightarrow> bool" where
  "ended pi \<longleftrightarrow> pi_State pi = ''exited'' \<or> pi_State pi = ''terminated''"

definition started :: "'w env \<Rightarrow> start_args \<Rightarrow> nat \<Rightarrow> 'w handler" where
  "started env args c =
     do { s \<leftarrow> sess c;
          audit_Log env ''start'' (s_ID s)
            [(''lang'', JStr (sa_Lang args)), (''program'', JStr (sa_Program args)), (''cwd'', JStr (sa_Cwd args))];
          let answer = (\<lambda>pi.
            if ended pi then earlyTerminationResp env c pi
            else do { s \<leftarrow> sess c;
                      ok_resp (DSession (if sa_StopOnEntry args
                        then session_result_zero\<lparr>sr_SessionID := s_ID s, sr_Lang := s_Lang s, sr_State := pi_State pi,
                               sr_Reason := pi_Reason pi, sr_Location := pi_Location pi\<rparr>
                        else session_result_zero\<lparr>sr_SessionID := s_ID s, sr_Lang := s_Lang s,
                               sr_State := state_str (s_state s), sr_Reason := ''launched''\<rparr>)) });
          try_call (WaitForStop env c (if sa_StopOnEntry args then 5000000000 else 1500000000))
            (\<lambda>_. answer pause_info_zero) answer }"

definition handleStart :: "'w env \<Rightarrow> request \<Rightarrow> 'w handler" where
  "handleStart env req =
     with_args start_args_fields start_args_zero req (\<lambda>args.
       let denied = (\<lambda>e. audit_Log env ''start.denied'' [] [(''program'', JStr (sa_Program args)), (''reason'', JStr e)]) in
       case ProgramAllowed (e_policy env) (sa_Program args) of
         Some e \<Rightarrow>
           do { denied e;
                errResp ''PROGRAM_NOT_ALLOWED'' e
                  ''set SL_DBG_ALLOW_PROGRAM to include this program, or restart the daemon without the env var'' }
       | None \<Rightarrow>
           do { m \<leftarrow> reads d_mgr;
                case Reserve m of
                  Some e \<Rightarrow> do { denied e; done_with (exhausted m e) }
                | None \<Rightarrow> try_call (CreateLaunch env args) adapter_failed (started env args) })"

definition handleAttach :: "'w env \<Rightarrow> request \<Rightarrow> 'w handler" where
  "handleAttach env req =
     with_args attach_args_fields attach_args_zero req (\<lambda>args.
       do { m \<leftarrow> reads d_mgr;
            case Reserve m of
              Some e \<Rightarrow> do { audit_Log env ''attach.denied'' [] [(''reason'', JStr e)]; done_with (exhausted m e) }
            | None \<Rightarrow> try_call (CreateAttach env args) adapter_failed (\<lambda>c.
                do { s \<leftarrow> sess c;
                     audit_Log env ''attach'' (s_ID s)
                       [(''lang'', JStr (aa_Lang args)), (''host'', JStr (aa_Host args)), (''port'', JInt (aa_Port args))];
                     ok_resp (DSession (session_result_zero\<lparr>sr_SessionID := s_ID s, sr_Lang := s_Lang s,
                       sr_State := state_str (s_state s), sr_Reason := ''attached''\<rparr>)) }) })"

definition handleStop :: "'w env \<Rightarrow> request \<Rightarrow> 'w handler" where
  "handleStop env req =
     do { m \<leftarrow> reads d_mgr;
          let sid = (if rq_Sess req = [] then m_defID m else rq_Sess req);
          if sid = [] then errResp ''SESSION_NOT_FOUND'' ''no active session'' []
          else case Get m sid of
              Inl e \<Rightarrow> sessionNotFound env sid e
            | Inr _ \<Rightarrow> and_then (remove_session env sid) (\<lambda>_.
                ok_resp (DSession (session_result_zero\<lparr>sr_SessionID := sid, sr_State := state_str StateTerminated\<rparr>))) }"

definition adapter_info_of :: "host \<Rightarrow> lang \<Rightarrow> adapter_info" where
  "adapter_info_of h l =
     (case Detect h l of
        Inr path \<Rightarrow> \<lparr>ai_Lang = lang_name l, ai_Installed = True, ai_Path = path, ai_Hint = []\<rparr>
      | Inl _ \<Rightarrow> \<lparr>ai_Lang = lang_name l, ai_Installed = False, ai_Path = [], ai_Hint = InstallHint l\<rparr>)"

definition handleAdapters :: "'w env \<Rightarrow> 'w handler" where
  "handleAdapters env =
     do { ord \<leftarrow> an_order env; ok_resp (DAdapters (map (adapter_info_of (e_host env)) (adapter_List ord))) }"

end
