(* ===== verification/Handlers_Exec.thy ===== *)
theory Handlers_Exec
  imports Handlers_Break
begin

text \<open>
  The handlers that run, pause or observe the program: \<open>handleExec\<close> (continue, step, next, finish) and
  \<open>clearOnceAt\<close>, \<open>handlePause\<close>, \<open>handleState\<close>, \<open>handleSessions\<close>, \<open>handleUse\<close> of \<open>server.go\<close>; \<open>handleUntil\<close>,
  \<open>handleRestart\<close>, \<open>handleListen\<close> of \<open>handlers_v2.go\<close>.
\<close>

section \<open>Running\<close>

datatype execKind = execContinue | execStep | execNext | execFinish

definition seconds :: "int \<Rightarrow> int" where
  "seconds n = n * 1000000000"

definition timeout_of :: "decimal \<Rightarrow> int \<Rightarrow> int" where
  "timeout_of sec dflt = (if dec_pos sec then dec_nanos sec else dflt)"

fun exec_request :: "execKind \<Rightarrow> bool \<Rightarrow> string \<Rightarrow> go_int \<Rightarrow> bool \<Rightarrow> dap_request option" where
  "exec_request execContinue configured lang tid single =
     (if \<not> configured \<or> lang \<noteq> ''java'' then Some (ReqContinue tid single) else None)"
| "exec_request execStep configured lang tid single = Some (ReqStepIn tid single)"
| "exec_request execNext configured lang tid single = Some (ReqNext tid single)"
| "exec_request execFinish configured lang tid single = Some (ReqStepOut tid single)"

definition once_at :: "range_order \<Rightarrow> string \<Rightarrow> go_int \<Rightarrow> session \<Rightarrow> go_int list" where
  "once_at ord file line s = map bp_LocalID (filter (\<lambda>b. bp_Once b \<and> bp_Line b = line) (BPsForFile ord file s))"

definition clearOnceAt :: "'w env \<Rightarrow> nat \<Rightarrow> string \<Rightarrow> go_int \<Rightarrow> ('w, unit) act" where
  "clearOnceAt env c file line =
     do { ord \<leftarrow> an_order env;
          on_sess c (\<lambda>s. snd (remove_ids (once_at ord file line s) s));
          ignoring (sync_file source_bp_of env c file) (done_with ()) }"

text \<open>A pause is answered with the location of the top frame; without one the answer is as it was.\<close>

definition with_location :: "'w env \<Rightarrow> nat \<Rightarrow> (loc \<Rightarrow> ('w, unit) act) \<Rightarrow> pause_info \<Rightarrow> 'w handler" where
  "with_location env c after pi =
     (if pi_State pi = state_str StatePaused then
        and_then (fetchTopLocation env c) (\<lambda>l. case l of
            None \<Rightarrow> ok_resp (DPause pi)
          | Some l \<Rightarrow>
              do { on_sess c (SetLastLocation l);
                   and_then (after l) (\<lambda>_. ok_resp (DPause (pi\<lparr>pi_Location := Some l\<rparr>))) })
      else ok_resp (DPause pi))"

definition handleExec :: "'w env \<Rightarrow> execKind \<Rightarrow> request \<Rightarrow> 'w handler" where
  "handleExec env kind req =
     (let args = lax_args continue_args_fields continue_args_zero req in
      with_session env req (\<lambda>c s.
      refuseIfReadOnly s (
        do { let tid = (if ca_Thread args = 0 then CurrentThread s else ca_Thread args);
             ch \<leftarrow> install False c;
             try_call (EnsureConfigurationDone env c) adapter_failed (\<lambda>configured.
             try_call (case exec_request kind configured (s_Lang s) tid (ca_SingleThread args) of
                         None \<Rightarrow> done_with () | Some r \<Rightarrow> Simple env c r) adapter_failed (\<lambda>_.
             try_call (Wait env c ch (timeout_of (ca_TimeoutSec args) (seconds 30)))
               (\<lambda>e. errResp ''INTERNAL_ERROR'' (ce_msg e) [])
               (\<lambda>pi. with_location env c
                  (\<lambda>l. if pi_Reason pi = ''breakpoint'' then clearOnceAt env c (loc_File l) (loc_Line l) else done_with ())
                  pi))) })))"

section \<open>Pausing\<close>

definition last_pause_info :: "session \<Rightarrow> pause_info" where
  "last_pause_info s =
     (let (reason, hitBP, l) = LastPause s in
      pause_info_zero\<lparr>pi_State := state_str (s_state s), pi_Reason := reason, pi_Thread := CurrentThread s,
        pi_Location := l, pi_HitBP := hitBP\<rparr>)"

definition first_thread :: "'w env \<Rightarrow> nat \<Rightarrow> go_int \<Rightarrow> ('w, go_int) act" where
  "first_thread env c tid =
     (if tid = 0 then
        try_call (Threads env c) (\<lambda>_. done_with tid) (\<lambda>ts. case ts of [] \<Rightarrow> done_with tid | t # _ \<Rightarrow> done_with (fst t))
      else done_with tid)"

definition handlePause :: "'w env \<Rightarrow> request \<Rightarrow> 'w handler" where
  "handlePause env req =
     with_session env req (\<lambda>c s.
       if s_state s = StateExited \<or> s_state s = StateTerminated then
         ok_resp (DPause (pause_info_zero\<lparr>pi_State := state_str (s_state s),
           pi_Reason := ''already '' @ state_str (s_state s), pi_ExitCode := s_exitCode s\<rparr>))
       else if s_state s = StatePaused then ok_resp (DPause (last_pause_info s))
       else try_call (EnsureConfigurationDone env c) adapter_failed (\<lambda>_.
         do { s1 \<leftarrow> sess c;
              and_then (first_thread env c (CurrentThread s1)) (\<lambda>tid.
              do { ch \<leftarrow> install False c;
                   try_call (Simple env c (ReqPause tid)) adapter_failed (\<lambda>_.
                   let refuse = errResp ''PAUSE_TIMEOUT'' ''adapter accepted pause but program did not stop within 10s''
                         ''the thread may be in a sleep/wait/native frame; set a function or line breakpoint and continue''
                   in try_call (Wait env c ch (seconds 10)) (\<lambda>_. refuse)
                        (\<lambda>pi. if pi_State pi \<noteq> state_str StatePaused then refuse else ok_resp (DPause pi))) }) }))"

section \<open>State\<close>

definition terminal_info :: "session \<Rightarrow> pause_info" where
  "terminal_info s =
     (let pi = pause_info_zero\<lparr>pi_State := state_str (s_state s), pi_Reason := state_str (s_state s)\<rparr> in
      case LastTerminal s of
        Some (reason, ec, sig) \<Rightarrow>
          pi\<lparr>pi_Reason := (if reason \<noteq> [] then reason else state_str (s_state s)), pi_ExitCode := ec, pi_Signal := sig\<rparr>
      | None \<Rightarrow> pi\<lparr>pi_ExitCode := s_exitCode s\<rparr>)"

definition handleState :: "'w env \<Rightarrow> request \<Rightarrow> 'w handler" where
  "handleState env req =
     with_session env req (\<lambda>c s.
       if s_state s = StateExited \<or> s_state s = StateTerminated then ok_resp (DPause (terminal_info s))
       else ok_resp (DPause (last_pause_info s)))"

definition handleListen :: "'w env \<Rightarrow> request \<Rightarrow> 'w handler" where
  "handleListen env req =
     (let args = lax_args listen_args_fields listen_args_zero req in
      with_session env req (\<lambda>c s.
        if s_state s = StateExited \<or> s_state s = StateTerminated then ok_resp (DPause (terminal_info s))
        else if s_state s = StatePaused then
          (let (reason, hitBP, l) = LastPause s in
           ok_resp (DPause (pause_info_zero\<lparr>pi_State := state_str (s_state s),
             pi_Reason := (if reason = [] then ''already-paused'' else reason), pi_HitBP := hitBP, pi_Location := l\<rparr>)))
        else try_call (WaitForStop env c (timeout_of (la_TimeoutSec args) (seconds 60)))
               (\<lambda>e. errResp ''TIMEOUT'' (ce_msg e) []) (\<lambda>pi. ok_resp (DPause pi))))"

definition session_info_of :: "string \<Rightarrow> session \<Rightarrow> session_info" where
  "session_info_of defID s = \<lparr>si_ID = s_ID s, si_Lang = s_Lang s, si_State = state_str (s_state s),
     si_Program = s_Program s, si_Attached = s_Attached s, si_Default = (s_ID s = defID)\<rparr>"

definition handleSessions :: "'w env \<Rightarrow> 'w handler" where
  "handleSessions env =
     do { m \<leftarrow> reads d_mgr;
          ord \<leftarrow> an_order env;
          ok_resp (DSessions (map (session_info_of (m_defID m)) (List_sessions ord m))) }"

definition handleUse :: "'w env \<Rightarrow> request \<Rightarrow> 'w handler" where
  "handleUse env req =
     with_args use_args_fields use_args_zero req (\<lambda>v.
       do { m \<leftarrow> reads d_mgr;
            case SetDefault (usa_ID v) m of
              (Some e, _) \<Rightarrow> sessionNotFound env (rq_Sess req) e
            | (None, m1) \<Rightarrow>
                do { modify (\<lambda>st. st\<lparr>d_mgr := m1\<rparr>); ok_resp (DMap [(''default'', JStr (usa_ID v))]) } })"

section \<open>Until and restart\<close>

definition until_bp :: "string \<Rightarrow> go_int \<Rightarrow> go_int \<Rightarrow> bp" where
  "until_bp file line i = \<lparr>bp_LocalID = i, bp_File = file, bp_Line = line, bp_Condition = [], bp_HitCond = [],
     bp_LogMsg = [], bp_Once = False, bp_DAPID = 0, bp_Verified = False, bp_Hits = 0\<rparr>"

definition run_until :: "'w env \<Rightarrow> nat \<Rightarrow> string \<Rightarrow> until_args \<Rightarrow> 'w handler" where
  "run_until env c file args =
     do { s \<leftarrow> sess c;
          let i = fst (AllocBP s);
          on_sess c (add_bp (until_bp file (ua_Line args)));
          let drop_bp = on_sess c (\<lambda>s. snd (RemoveBP i s));
          try_call (sync_file source_bp_of env c file) (\<lambda>e. do { drop_bp; adapter_failed e }) (\<lambda>_.
          do { ch \<leftarrow> install False c;
               s1 \<leftarrow> sess c;
               let thread = (if 0 < ua_Thread args then ua_Thread args else CurrentThread s1);
               try_call (Simple env c (ReqContinue thread False)) (\<lambda>e. do { drop_bp; adapter_failed e }) (\<lambda>_.
               let finish = (\<lambda>k. do { drop_bp; ignoring (sync_file source_bp_of env c file) k })
               in try_call (Wait env c ch (timeout_of (ua_TimeoutSec args) (seconds 30)))
                    (\<lambda>e. finish (errResp ''TIMEOUT'' (ce_msg e) []))
                    (\<lambda>pi. finish (with_location env c (\<lambda>_. done_with ()) pi))) }) }"

definition handleUntil :: "'w env \<Rightarrow> request \<Rightarrow> 'w handler" where
  "handleUntil env req =
     with_args until_args_fields until_args_zero req (\<lambda>args.
     if ua_Line args \<le> 0 then errResp ''USAGE_ERROR'' ''until requires a positive line number'' []
     else with_session env req (\<lambda>c s.
       case s_lastLocation s of
         None \<Rightarrow> errResp ''USAGE_ERROR'' ''no current pause location'' ''session must be paused''
       | Some l \<Rightarrow>
           if loc_File l = [] then errResp ''USAGE_ERROR'' ''no current pause location'' ''session must be paused''
           else run_until env c (loc_File l) args))"

definition handleRestart :: "'w env \<Rightarrow> request \<Rightarrow> 'w handler" where
  "handleRestart env req =
     with_session env req (\<lambda>c s.
       if \<not> SupportsRestartRequest (s_caps s) then
         errResp ''UNSUPPORTED_FEATURE'' ''adapter does not support restart'' ''stop the session and start/attach again''
       else try_call (Simple env c ReqRestart) adapter_failed (\<lambda>_.
         ok_resp (DMap [(''session'', JStr (s_ID s)), (''state'', JStr ''running''), (''reason'', JStr ''restarted'')])))"

section \<open>Lemmas\<close>

lemma keeps_add_until: "keeps (add_bp (until_bp file line))"
  by (rule keeps_add_bp) (simp add: until_bp_def)

lemma keeps_once_at: "keeps (\<lambda>s. snd (remove_ids (once_at ord file line s) s))"
  using keeps_remove_ids by (simp add: keeps_def)

text \<open>A waiting time is positive unless it is below one nanosecond.\<close>

lemma timeout_of_nonneg: "0 \<le> dflt \<Longrightarrow> 0 \<le> timeout_of sec dflt"
  by (cases sec) (simp add: timeout_of_def pos_imp_zdiv_nonneg_iff)

end
