(* ===== verification/Handlers_Inspect.thy ===== *)
theory Handlers_Inspect
  imports Handlers_Base
begin

text \<open>
  The handlers that look at the paused program or evaluate in it: \<open>handleStack\<close>, \<open>handleThreads\<close>,
  \<open>handleLocals\<close>, \<open>handleEval\<close>, \<open>handleSet\<close>, \<open>handleSnapshot\<close> of \<open>server.go\<close>; \<open>handleWatch\<close>, \<open>handleGlobals\<close>,
  \<open>handleFields\<close>, \<open>handlePrint\<close> with its recursive expansion of \<open>handlers_v2.go\<close>.
\<close>

section \<open>Stack, threads, variables\<close>

definition frame_of :: "dap_frame \<Rightarrow> ('w, frame) act" where
  "frame_of f = and_then (source_path f) (\<lambda>p.
     done_with \<lparr>fr_ID = df_Id f, fr_Name = df_Name f, fr_File = p, fr_Line = df_Line f, fr_Column = df_Column f,
       fr_Function = df_Name f\<rparr>)"

definition handleStack :: "'w env \<Rightarrow> request \<Rightarrow> 'w handler" where
  "handleStack env req =
     (let args = lax_args stack_args_fields stack_args_zero req in
      with_session env req (\<lambda>c s.
        let tid = (if ska_Thread args = 0 then CurrentThread s else ska_Thread args);
            limit = (if ska_Limit args = 0 then 20 else ska_Limit args)
        in try_call (StackTrace env c None tid limit) adapter_failed (\<lambda>fs.
             and_then (each frame_of fs) (\<lambda>out. ok_resp (DStack out)))))"

definition handleThreads :: "'w env \<Rightarrow> request \<Rightarrow> 'w handler" where
  "handleThreads env req =
     with_session env req (\<lambda>c s.
       try_call (Threads env c) adapter_failed (\<lambda>ts.
         ok_resp (DMap [(''threads'', JArr (map (\<lambda>(i, n). JObj [(''id'', JInt i), (''name'', JStr n)]) ts))])))"

definition var_of :: "dap_var \<Rightarrow> var" where
  "var_of v = \<lparr>v_Name = dv_Name v, v_Value = dv_Value v, v_Type = dv_Type v, v_Ref = dv_Ref v, v_Expandable = (0 < dv_Ref v)\<rparr>"

definition is_locals :: "string \<Rightarrow> bool" where
  "is_locals n \<longleftrightarrow> equal_fold n ''Locals'' \<or> equal_fold n ''Local''"

text \<open>The scope of the locals: the first so named, else the first of all, else reference 0.\<close>

definition locals_scope :: "(string \<times> go_int) list \<Rightarrow> string \<times> go_int" where
  "locals_scope scopes =
     (let (name, ref) = (case find (\<lambda>(n, r). is_locals n) scopes of Some (n, r) \<Rightarrow> (n, r) | None \<Rightarrow> (''Locals'', 0))
      in if ref = 0 then (case scopes of [] \<Rightarrow> (name, ref) | sc # _ \<Rightarrow> sc) else (name, ref))"

definition arg_name :: "string \<Rightarrow> bool" where
  "arg_name n \<longleftrightarrow> 4 \<le> length n \<and> take 3 n = ''arg'' \<and> list_all is_digit (drop 3 n)"

definition looksLikeMissingDebugInfo :: "var list \<Rightarrow> bool" where
  "looksLikeMissingDebugInfo vars \<longleftrightarrow>
     list_all (\<lambda>v. v_Name v = ''this'' \<or> arg_name (v_Name v)) vars \<and> list_ex (\<lambda>v. arg_name (v_Name v)) vars"

definition missing_debug_hint :: string where
  "missing_debug_hint = ''Java source was compiled without debug info '' @ em_dash @
     '' locals show only argN slots. Recompile with: javac -g <file>.java''"

definition handleLocals :: "'w env \<Rightarrow> request \<Rightarrow> 'w handler" where
  "handleLocals env req =
     (let args = lax_args locals_args_fields locals_args_zero req in
      with_session env req (\<lambda>c s.
        try_call (resolveFrameID env c None (lca_Frame args)) adapter_failed (\<lambda>fid.
        try_call (Scopes env c fid) adapter_failed (\<lambda>scopes.
        let (name, ref) = locals_scope scopes in
        try_call (Variables env c None ref) (\<lambda>e. done_with (adapterErr (ce_msg e) ''locals'')) (\<lambda>vs.
          let vars = map var_of vs in
          ok_resp (DLocals \<lparr>lr_Scope = name, lr_Vars = vars,
            lr_Hint = (if s_Lang s = ''java'' \<and> looksLikeMissingDebugInfo vars then missing_debug_hint else [])\<rparr>))))))"

definition isPythonSpecial :: "string \<Rightarrow> bool" where
  "isPythonSpecial name \<longleftrightarrow>
     name \<in> set [''special variables'', ''function variables'', ''class variables''] \<or>
     4 \<le> length name \<and> has_prefix name ''__'' \<and> has_suffix name ''__''"

definition handleFields :: "'w env \<Rightarrow> request \<Rightarrow> 'w handler" where
  "handleFields env req =
     with_args fields_args_fields fields_args_zero req (\<lambda>args.
     if fa_Ref args \<le> 0 then
       errResp ''USAGE_ERROR'' ''fields requires a positive ref'' ''use the Ref from a prior locals/eval response''
     else with_session env req (\<lambda>c s.
       try_call (Variables env c None (fa_Ref args)) adapter_failed (\<lambda>vs.
         ok_resp (DLocals \<lparr>lr_Scope = ''fields'',
           lr_Vars = map var_of (filter (\<lambda>v. fa_ShowSpecial args \<or> \<not> isPythonSpecial (dv_Name v)) vs), lr_Hint = []\<rparr>))))"

section \<open>Evaluation\<close>

definition looksLikeNameUnknown :: "string \<Rightarrow> bool" where
  "looksLikeNameUnknown s \<longleftrightarrow>
     (let l = to_lower s in contains l ''name unknown'' \<or> contains l ''cannot find symbol'' \<or> contains l ''cannot resolve'')"

definition ident_char :: "char \<Rightarrow> bool" where
  "ident_char c \<longleftrightarrow> c = CHR ''_'' \<or> c = CHR ''$'' \<or> is_letter c"

definition isSimpleIdentifier :: "string \<Rightarrow> bool" where
  "isSimpleIdentifier s \<longleftrightarrow>
     (case s of [] \<Rightarrow> False | c # cs \<Rightarrow> ident_char c \<and> list_all (\<lambda>c. ident_char c \<or> is_digit c) cs)"

definition limit_of :: "decimal \<Rightarrow> int option" where
  "limit_of sec = (if dec_pos sec then Some (dec_nanos sec) else None)"

text \<open>A second try for Java: an unresolved simple name is looked up in the class of the frame.\<close>

definition retry_qualified :: "'w env \<Rightarrow> nat \<Rightarrow> session \<Rightarrow> eval_args \<Rightarrow> go_int \<Rightarrow> call_err \<Rightarrow> 'w handler" where
  "retry_qualified env c s args fid e =
     (let fail = done_with (adapterErr (ce_msg e) ''eval''); limit = limit_of (eva_TimeoutSec args) in
      if s_Lang s = ''java'' \<and> looksLikeNameUnknown (ce_msg e) \<and> isSimpleIdentifier (eva_Expression args) then
        and_then (javaClassFromFrame env c limit (eva_Frame args)) (\<lambda>cls.
          if cls \<noteq> [] then
            try_call (Evaluate env c limit (cls @ ''.'' @ eva_Expression args) fid ''repl'')
              (\<lambda>_. fail) (\<lambda>r. ok_resp (DEval r))
          else fail)
      else fail)"

definition run_eval :: "'w env \<Rightarrow> nat \<Rightarrow> session \<Rightarrow> eval_args \<Rightarrow> 'w handler" where
  "run_eval env c s args =
     try_call (resolveFrameID env c None (eva_Frame args)) adapter_failed (\<lambda>fid.
       let logged = (\<lambda>okay. audit_Log env ''eval'' (s_ID s)
             [(''expr'', JStr (eva_Expression args)), (''context'', JStr ''repl''), (''ok'', JBool okay)])
       in try_call (Evaluate env c (limit_of (eva_TimeoutSec args)) (eva_Expression args) fid ''repl'')
            (\<lambda>e. do { logged False;
                      if ce_deadline e then
                        errResp ''TIMEOUT'' ''evaluation exceeded timeout'' ''increase --timeout or simplify the expression''
                      else retry_qualified env c s args fid e })
            (\<lambda>r. do { logged True; ok_resp (DEval r) }))"

definition handleEval :: "'w env \<Rightarrow> request \<Rightarrow> 'w handler" where
  "handleEval env req =
     with_args eval_args_fields eval_args_zero req (\<lambda>args.
     if trim_space (eva_Expression args) = [] then
       errResp ''USAGE_ERROR'' ''expression is empty'' ''pass a non-empty Java/Python/Go expression, e.g. `eval x + 1`''
     else with_session env req (\<lambda>c s.
       if s_ReadOnly s then
         do { audit_Log env ''eval.denied'' (s_ID s) [(''expr'', JStr (eva_Expression args)), (''reason'', JStr ''read_only'')];
              done_with read_only_resp }
       else
         if_eval_enabled env ''eval.disabled'' s [(''expr'', JStr (eva_Expression args))]
           ''start the daemon with SL_DBG_ALLOW_EVAL=1 to permit eval (audit log strongly recommended via SL_DBG_AUDIT_LOG)''
           (case EvalAllowed (e_policy env) (eva_Expression args) of
              Some e \<Rightarrow>
                do { audit_Log env ''eval.denied'' (s_ID s) [(''expr'', JStr (eva_Expression args)), (''reason'', JStr e)];
                     errResp ''EVAL_DENIED'' e
                       (''the daemon blocks this expression via SL_DBG_DENY_EVAL_PATTERNS. Set the env var to '' @
                        [CHR 0x27] @ ''-'' @ [CHR 0x27] @ '' to disable, or remove the deny-listed token.'') }
            | None \<Rightarrow> run_eval env c s args)))"

definition handleSet :: "'w env \<Rightarrow> request \<Rightarrow> 'w handler" where
  "handleSet env req =
     with_args set_var_args_fields set_var_args_zero req (\<lambda>args.
     with_session env req (\<lambda>c s.
     refuseIfReadOnly s (
     if_eval_enabled env ''set.disabled'' s [(''name'', JStr (sva_Name args)), (''value'', JStr (sva_Value args))]
       ''start the daemon with SL_DBG_ALLOW_EVAL=1 to permit set (audit log strongly recommended via SL_DBG_AUDIT_LOG)''
       (try_call (resolveFrameID env c None (sva_Frame args)) adapter_failed (\<lambda>fid.
        try_call (Scopes env c fid) adapter_failed (\<lambda>scopes.
        let logged = (\<lambda>okay. audit_Log env ''set'' (s_ID s)
              [(''name'', JStr (sva_Name args)), (''value'', JStr (sva_Value args)), (''ok'', JBool okay)])
        in try_call (SetVariable env c (snd (locals_scope scopes)) (sva_Name args) (sva_Value args))
             (\<lambda>e. do { logged False; done_with (adapterErr (ce_msg e) ''set'') })
             (\<lambda>(v, t). do { logged True;
                ok_resp (DMap [(''name'', JStr (sva_Name args)), (''value'', JStr v), (''type'', JStr t)]) })))))))"

section \<open>Watches\<close>

definition watch_entry_of :: "watch \<Rightarrow> watch_entry" where
  "watch_entry_of w = \<lparr>we_ID = w_ID w, we_Expression = w_Expression w, we_Result = [], we_Type = [], we_Error = []\<rparr>"

definition eval_watch :: "'w env \<Rightarrow> nat \<Rightarrow> go_int \<Rightarrow> watch \<Rightarrow> ('w, watch_entry) act" where
  "eval_watch env c fid w =
     try_call (Evaluate env c None (w_Expression w) fid ''watch'')
       (\<lambda>e. done_with ((watch_entry_of w)\<lparr>we_Error := ce_msg e\<rparr>))
       (\<lambda>r. done_with ((watch_entry_of w)\<lparr>we_Result := er_Result r, we_Type := er_Type r\<rparr>))"

definition evaluateWatches :: "'w env \<Rightarrow> nat \<Rightarrow> go_int \<Rightarrow> ('w, watch_entry list) act" where
  "evaluateWatches env c frm =
     do { s \<leftarrow> sess c;
          let ws = s_watches s;
          if s_state s \<noteq> StatePaused then done_with (map (\<lambda>w. (watch_entry_of w)\<lparr>we_Error := ''not paused''\<rparr>) ws)
          else try_call (resolveFrameID env c None frm)
                 (\<lambda>e. done_with (map (\<lambda>w. (watch_entry_of w)\<lparr>we_Error := ce_msg e\<rparr>) ws))
                 (\<lambda>fid. each (eval_watch env c fid) ws) }"

definition watch_action :: "watch_args \<Rightarrow> string" where
  "watch_action args =
     (if wa_Action args \<noteq> [] then wa_Action args
      else if wa_Expression args \<noteq> [] then ''add''
      else if 0 < wa_ID args \<or> wa_All args then ''remove''
      else ''list'')"

definition handleWatch :: "'w env \<Rightarrow> request \<Rightarrow> 'w handler" where
  "handleWatch env req =
     with_args watch_args_fields watch_args_zero req (\<lambda>args.
     with_session env req (\<lambda>c s.
       let listing = and_then (evaluateWatches env c (wa_Frame args)) (\<lambda>ws. ok_resp (DWatches ws)) in
       if watch_action args = ''list'' then listing
       else if watch_action args = ''add'' then
         refuseIfReadOnly s (
           if wa_Expression args = [] then errResp ''USAGE_ERROR'' ''watch add requires an expression'' []
           else if_eval_enabled env ''watch.disabled'' s [(''expr'', JStr (wa_Expression args))]
             ''start the daemon with SL_DBG_ALLOW_EVAL=1 to add watch expressions (audit log strongly recommended via SL_DBG_AUDIT_LOG)''
             (do { on_sess c (AddWatch (wa_Expression args)); listing }))
       else if watch_action args = ''remove'' then
         refuseIfReadOnly s (
           if wa_All args then do { on_sess c ClearWatches; listing }
           else if 0 < wa_ID args then
             (if fst (RemoveWatch (wa_ID args) s) then
                do { on_sess c (\<lambda>s. snd (RemoveWatch (wa_ID args) s)); listing }
              else errResp ''USAGE_ERROR'' (''no watch with id '' @ itoa (wa_ID args)) [])
           else errResp ''USAGE_ERROR'' ''watch remove needs --id N or --all'' [])
       else errResp ''USAGE_ERROR'' (''unknown watch action: '' @ watch_action args)
              (''expected '' @ quote ''add'' @ ''|'' @ quote ''remove'' @ ''|'' @ quote ''list'')))"

section \<open>Snapshot and globals\<close>

definition scope_vars :: "'w env \<Rightarrow> nat \<Rightarrow> string \<times> go_int \<Rightarrow> ('w, bool \<times> var list) act" where
  "scope_vars env c sc =
     try_call (Variables env c None (snd sc))
       (\<lambda>_. done_with (is_locals (fst sc), []))
       (\<lambda>vs. done_with (is_locals (fst sc), map var_of vs))"

definition snapshot_zero :: "string \<Rightarrow> snapshot_result" where
  "snapshot_zero state = \<lparr>sn_State = state, sn_Location = None, sn_Thread = 0, sn_Frames = [], sn_Locals = [], sn_Globals = []\<rparr>"

definition with_scopes :: "'w env \<Rightarrow> nat \<Rightarrow> snapshot_result \<Rightarrow> 'w handler" where
  "with_scopes env c out =
     (case sn_Frames out of
        [] \<Rightarrow> ok_resp (DSnapshot out)
      | f # _ \<Rightarrow>
          try_call (Scopes env c (fr_ID f)) (\<lambda>_. ok_resp (DSnapshot out)) (\<lambda>scopes.
            and_then (each (scope_vars env c) scopes) (\<lambda>vss.
              ok_resp (DSnapshot (out\<lparr>sn_Locals := concat (map snd (filter fst vss)),
                sn_Globals := concat (map snd (filter (\<lambda>x. \<not> fst x) vss))\<rparr>)))))"

definition handleSnapshot :: "'w env \<Rightarrow> request \<Rightarrow> 'w handler" where
  "handleSnapshot env req =
     with_session env req (\<lambda>c s.
       let out = snapshot_zero (state_str (s_state s)) in
       if s_state s \<noteq> StatePaused then ok_resp (DSnapshot out)
       else
         let tid = CurrentThread s; out1 = out\<lparr>sn_Thread := tid\<rparr> in
         try_call (StackTrace env c None tid 50) (\<lambda>_. with_scopes env c out1) (\<lambda>fs.
           and_then (each frame_of fs) (\<lambda>frames.
             with_scopes env c (out1\<lparr>sn_Frames := frames,
               sn_Location := (case frames of [] \<Rightarrow> None
                 | f # _ \<Rightarrow> Some \<lparr>loc_File = fr_File f, loc_Line = fr_Line f, loc_Column = 0, loc_Function = fr_Name f\<rparr>)\<rparr>))))"

definition global_scope :: "string \<times> go_int \<Rightarrow> bool" where
  "global_scope sc \<longleftrightarrow> (let n = to_lower (fst sc) in contains n ''global'' \<or> contains n ''module'' \<or> contains n ''static'')"

definition globals_zero :: locals_result where
  "globals_zero = \<lparr>lr_Scope = ''Globals'', lr_Vars = [], lr_Hint = []\<rparr>"

definition java_hint :: "string \<Rightarrow> string" where
  "java_hint cls =
     (if cls \<noteq> [] then
        ''Java doesn'' @ [CHR 0x27] @ ''t expose globals as a scope. Inspect statics with: eval '' @ cls @
        ''.<fieldName>  (or: eval '' @ cls @ ''.class.getDeclaredFields())''
      else ''Java doesn'' @ [CHR 0x27] @ ''t expose globals as a scope. Use '' @ [CHR 0x27] @
        ''eval <ClassName>.<fieldName>'' @ [CHR 0x27] @ '' to read static fields.'')"

text \<open>
  Java has no scope for globals: the class of the frame is evaluated and its fields listed. The
  scope name is set as soon as the fields could be read, even when there are none.
\<close>

definition java_globals :: "'w env \<Rightarrow> nat \<Rightarrow> go_int \<Rightarrow> go_int \<Rightarrow> 'w handler" where
  "java_globals env c frm fid =
     and_then (javaClassFromFrame env c None frm) (\<lambda>cls.
       let hinted = (\<lambda>scope. ok_resp (DLocals (globals_zero\<lparr>lr_Scope := scope, lr_Hint := java_hint cls\<rparr>))) in
       if cls = [] then hinted ''Globals''
       else try_call (Evaluate env c None cls fid ''repl'') (\<lambda>_. hinted ''Globals'') (\<lambda>r.
         if er_Ref r \<le> 0 then hinted ''Globals''
         else try_call (Variables env c None (er_Ref r)) (\<lambda>_. hinted ''Globals'') (\<lambda>vs.
           if vs = [] then hinted (cls @ '' (statics)'')
           else ok_resp (DLocals \<lparr>lr_Scope = cls @ '' (statics)'', lr_Vars = map var_of vs, lr_Hint = []\<rparr>))))"

definition handleGlobals :: "'w env \<Rightarrow> request \<Rightarrow> 'w handler" where
  "handleGlobals env req =
     (let args = lax_args globals_args_fields globals_args_zero req in
      with_session env req (\<lambda>c s.
        try_call (resolveFrameID env c None (ga_Frame args)) adapter_failed (\<lambda>fid.
        try_call (Scopes env c fid) adapter_failed (\<lambda>scopes.
        let (name, ref) = (case find global_scope scopes of Some sc \<Rightarrow> sc | None \<Rightarrow> (''Globals'', 0)) in
        if ref = 0 then
          (if s_Lang s = ''java'' then java_globals env c (ga_Frame args) fid else ok_resp (DLocals globals_zero))
        else try_call (Variables env c None ref) adapter_failed (\<lambda>vs.
          ok_resp (DLocals \<lparr>lr_Scope = name, lr_Vars = map var_of vs, lr_Hint = []\<rparr>))))))"

section \<open>Print\<close>

definition isJavaWrapperType :: "string \<Rightarrow> bool" where
  "isJavaWrapperType t \<longleftrightarrow>
     (let prims = [''Integer'', ''Long'', ''Short'', ''Byte'', ''Float'', ''Double'', ''Boolean'', ''Character'']
      in t \<in> set prims \<or> t \<in> (@) ''java.lang.'' ` set prims)"

definition unwrapJavaWrapper :: "'w env \<Rightarrow> nat \<Rightarrow> int option \<Rightarrow> go_int \<Rightarrow> ('w, string option) act" where
  "unwrapJavaWrapper env c limit ref =
     try_call (Variables env c limit ref) (\<lambda>_. done_with None)
       (\<lambda>vs. done_with (map_option dv_Value (find (\<lambda>v. dv_Name v = ''value'') vs)))"

text \<open>The node of one variable before its children are known: a boxed primitive shows its value.\<close>

definition node_value :: "'w env \<Rightarrow> nat \<Rightarrow> int option \<Rightarrow> dap_var \<Rightarrow> ('w, string \<times> go_int) act" where
  "node_value env c limit v =
     do { s \<leftarrow> sess c;
          if s_Lang s = ''java'' \<and> 0 < dv_Ref v \<and> isJavaWrapperType (dv_Type v) then
            and_then (unwrapJavaWrapper env c limit (dv_Ref v)) (\<lambda>p.
              done_with (case p of Some prim \<Rightarrow> (prim, 0) | None \<Rightarrow> (dv_Value v, dv_Ref v)))
          else done_with (dv_Value v, dv_Ref v) }"

text \<open>
  \<open>expandRefFiltered\<close>; the argument \<open>d\<close> is the code's \<open>depth\<close> minus one, which is never negative: the
  caller passes a positive depth and the recursion is guarded by \<open>depth-1 > 0\<close>.
\<close>

definition visible_vars :: "bool \<Rightarrow> dap_var list \<Rightarrow> dap_var list" where
  "visible_vars showSpecial vs = filter (\<lambda>v. showSpecial \<or> \<not> isPythonSpecial (dv_Name v)) vs"

fun expandRefFiltered :: "'w env \<Rightarrow> nat \<Rightarrow> int option \<Rightarrow> nat \<Rightarrow> nat \<Rightarrow> bool \<Rightarrow> go_int \<Rightarrow> ('w, print_node list \<times> bool) act" where
  "expandRefFiltered env c limit d maxItems special ref =
     and_then (Variables env c limit ref) (\<lambda>vs.
       let src = visible_vars special vs in
       and_then (each (\<lambda>v. and_then (node_value env c limit v) (\<lambda>(value, nref).
           case d of
             0 \<Rightarrow> done_with (PrintNode (dv_Name v) value (dv_Type v) nref False [])
           | Suc d' \<Rightarrow>
               if 0 < nref then
                 try_call (expandRefFiltered env c limit d' maxItems special nref)
                   (\<lambda>_. done_with (PrintNode (dv_Name v) value (dv_Type v) nref False []))
                   (\<lambda>(kids, trunc). done_with (PrintNode (dv_Name v) value (dv_Type v) nref trunc kids))
               else done_with (PrintNode (dv_Name v) value (dv_Type v) nref False [])))
         (take maxItems src))
       (\<lambda>out. done_with (out, maxItems < length src)))"

declare expandRefFiltered.simps [simp del]

definition print_expanded :: "'w env \<Rightarrow> nat \<Rightarrow> print_args \<Rightarrow> string \<Rightarrow> eval_result \<Rightarrow> 'w handler" where
  "print_expanded env c args name r =
     (let depth = (if pa_Depth args \<le> 0 then 3 else pa_Depth args);
          maxItems = (if pa_MaxItems args \<le> 0 then 50 else pa_MaxItems args)
      in if 0 < er_Ref r then
           try_call (expandRefFiltered env c (limit_of (pa_TimeoutSec args)) (nat depth - 1) (nat maxItems)
                       (pa_ShowSpecial args) (er_Ref r)) adapter_failed
             (\<lambda>(kids, trunc). ok_resp (DPrint (PrintNode name (er_Result r) (er_Type r) (er_Ref r) trunc kids)))
         else ok_resp (DPrint (PrintNode name (er_Result r) (er_Type r) (er_Ref r) False [])))"

definition handlePrint :: "'w env \<Rightarrow> request \<Rightarrow> 'w handler" where
  "handlePrint env req =
     with_args print_args_fields print_args_zero req (\<lambda>args.
     if pa_Expression args = [] \<and> pa_Ref args \<le> 0 then errResp ''USAGE_ERROR'' ''print requires --expr or --ref'' []
     else with_session env req (\<lambda>c s.
       let limit = limit_of (pa_TimeoutSec args) in
       if pa_Expression args \<noteq> [] then
         try_call (resolveFrameID env c limit (pa_Frame args)) adapter_failed (\<lambda>fid.
         try_call (Evaluate env c limit (pa_Expression args) fid ''repl'') adapter_failed (\<lambda>r.
           print_expanded env c args (pa_Expression args) r))
       else print_expanded env c args [] \<lparr>er_Result = [], er_Type = [], er_Ref = pa_Ref args\<rparr>))"

end
