(* ===== verification/Server.thy ===== *)
theory Server
  imports Launch Handlers_Exec Handlers_Inspect Handlers_Source
begin

text \<open>
  The dispatch of the daemon (\<open>handle\<close>, \<open>runInspect\<close> and \<open>handleConn\<close> of \<open>server.go\<close>). A command is
  parsed into the constructor of the handler it selects; the per-session lock of \<open>runInspect\<close> has no
  effect here because requests are served one at a time. A crash is the response \<open>PanicResp\<close>.
\<close>

section \<open>Dispatch\<close>

datatype cmd =
    CmdPing | CmdShutdown | CmdAdapters | CmdStart | CmdAttach | CmdSessions | CmdUse | CmdStop | CmdState
  | CmdBreak | CmdBreaks | CmdUnbreak | CmdContinue | CmdStep | CmdNext | CmdFinish | CmdPause
  | CmdStack | CmdThreads | CmdLocals | CmdEval | CmdSet | CmdSnapshot | CmdWatch | CmdGlobals | CmdFields
  | CmdSource | CmdOutput | CmdEvents | CmdListen | CmdRestart | CmdBreakFn | CmdBreakEx | CmdUntil | CmdPrint

definition commands :: "(string \<times> cmd) list" where
  "commands =
     [(''ping'', CmdPing), (''shutdown'', CmdShutdown), (''adapters'', CmdAdapters), (''start'', CmdStart),
      (''attach'', CmdAttach), (''sessions'', CmdSessions), (''use'', CmdUse), (''stop'', CmdStop), (''state'', CmdState),
      (''break'', CmdBreak), (''breaks'', CmdBreaks), (''unbreak'', CmdUnbreak), (''continue'', CmdContinue),
      (''step'', CmdStep), (''next'', CmdNext), (''finish'', CmdFinish), (''pause'', CmdPause), (''stack'', CmdStack),
      (''threads'', CmdThreads), (''locals'', CmdLocals), (''eval'', CmdEval), (''set'', CmdSet),
      (''snapshot'', CmdSnapshot), (''watch'', CmdWatch), (''globals'', CmdGlobals), (''fields'', CmdFields),
      (''source'', CmdSource), (''output'', CmdOutput), (''events'', CmdEvents), (''listen'', CmdListen),
      (''restart'', CmdRestart), (''break-fn'', CmdBreakFn), (''break-ex'', CmdBreakEx), (''until'', CmdUntil),
      (''print'', CmdPrint)]"

fun run_cmd :: "'w env \<Rightarrow> cmd \<Rightarrow> request \<Rightarrow> 'w handler" where
  "run_cmd env CmdPing req = ok_resp (DMap [(''pong'', JStr ''1'')])"
| "run_cmd env CmdShutdown req =
     do { modify (\<lambda>st. st\<lparr>d_shutdown := True\<rparr>); ok_resp (DMap [(''shutdown'', JStr ''scheduled'')]) }"
| "run_cmd env CmdAdapters req = handleAdapters env"
| "run_cmd env CmdStart req = handleStart env req"
| "run_cmd env CmdAttach req = handleAttach env req"
| "run_cmd env CmdSessions req = handleSessions env"
| "run_cmd env CmdUse req = handleUse env req"
| "run_cmd env CmdStop req = handleStop env req"
| "run_cmd env CmdState req = handleState env req"
| "run_cmd env CmdBreak req = handleBreak env req"
| "run_cmd env CmdBreaks req = handleBreaks env req"
| "run_cmd env CmdUnbreak req = handleUnbreak env req"
| "run_cmd env CmdContinue req = handleExec env execContinue req"
| "run_cmd env CmdStep req = handleExec env execStep req"
| "run_cmd env CmdNext req = handleExec env execNext req"
| "run_cmd env CmdFinish req = handleExec env execFinish req"
| "run_cmd env CmdPause req = handlePause env req"
| "run_cmd env CmdStack req = handleStack env req"
| "run_cmd env CmdThreads req = handleThreads env req"
| "run_cmd env CmdLocals req = handleLocals env req"
| "run_cmd env CmdEval req = handleEval env req"
| "run_cmd env CmdSet req = handleSet env req"
| "run_cmd env CmdSnapshot req = handleSnapshot env req"
| "run_cmd env CmdWatch req = handleWatch env req"
| "run_cmd env CmdGlobals req = handleGlobals env req"
| "run_cmd env CmdFields req = handleFields env req"
| "run_cmd env CmdSource req = handleSource env req"
| "run_cmd env CmdOutput req = handleOutput env req"
| "run_cmd env CmdEvents req = handleEvents env req"
| "run_cmd env CmdListen req = handleListen env req"
| "run_cmd env CmdRestart req = handleRestart env req"
| "run_cmd env CmdBreakFn req = handleBreakFn env req"
| "run_cmd env CmdBreakEx req = handleBreakEx env req"
| "run_cmd env CmdUntil req = handleUntil env req"
| "run_cmd env CmdPrint req = handlePrint env req"

definition dispatch :: "'w env \<Rightarrow> request \<Rightarrow> 'w handler" where
  "dispatch env req =
     (case map_of commands (rq_Cmd req) of
        Some c \<Rightarrow> run_cmd env c req
      | None \<Rightarrow> errResp ''UNKNOWN_COMMAND'' (''unknown command: '' @ quote (rq_Cmd req)) [])"

fun response_of :: "response outcome \<Rightarrow> response" where
  "response_of (Ok r) = r"
| "response_of (Fail e) = ErrResp ''ADAPTER_FAILED'' (ce_msg e) []"
| "response_of (Crash p) = PanicResp p"

definition handle :: "'w env \<Rightarrow> request \<Rightarrow> 'w dstate \<Rightarrow> response \<times> 'w dstate" where
  "handle env req st = (let (r, st1) = run_state (dispatch env req) st in (response_of r, st1))"

text \<open>
  The requests of the daemon's connections, one after the other; the answer carries the id of the
  request. Nothing is answered after a crash.
\<close>

fun serve :: "'w env \<Rightarrow> request list \<Rightarrow> 'w dstate \<Rightarrow> (go_int \<times> response) list \<times> 'w dstate" where
  "serve env [] st = ([], st)"
| "serve env (req # reqs) st =
     (let (r, st1) = handle env req st in
      case r of
        PanicResp p \<Rightarrow> ([(rq_ID req, r)], st1)
      | _ \<Rightarrow> (let (rs, st2) = serve env reqs st1 in ((rq_ID req, r) # rs, st2)))"

section \<open>Start-up\<close>

text \<open>The state \<open>Run\<close> builds: an empty manager with the cap of the policy.\<close>

definition start_daemon :: "'w env \<Rightarrow> watch_store \<Rightarrow> 'w \<Rightarrow> 'w dstate" where
  "start_daemon env store w =
     \<lparr>d_world = w,
      d_mgr = (if 0 < MaxSessions (e_policy env) then SetMaxSessions (MaxSessions (e_policy env)) NewManager else NewManager),
      d_new = None, d_inits = [], d_nextCli = 0, d_orders = 0, d_store = store, d_audit = [], d_sent = [],
      d_background = [], d_startedAt = e_now env w, d_shutdown = False\<rparr>"

end
