(* ===== verification/Daemon_Rel.thy ===== *)
theory Daemon_Rel
  imports Server
begin

text \<open>
  Relations between the daemon's state before and after a request. A relation is given by what it
  admits: updates of session objects (\<open>K\<close>) and requests to adapters (\<open>P\<close>). The locales below prove
  once, for every such relation, that each handler respects it; the interpretations at the end are
  the invariant of the daemon, the log of requests sent, and the table of sessions.
\<close>

context io_relation
begin

lemma io_modify: "(\<And>st. R st (f st)) \<Longrightarrow> state_io_rel R (modify f)"
  by (simp add: modify_def state_io_rel_def)

lemma io_reads [intro]: "state_io_rel R (reads f)"
  by (simp add: reads_def state_io_rel_def R_refl)

lemma io_done [intro]: "state_io_rel R (done_with a)"
  by (simp add: done_with_def io_return)

lemma io_try:
  assumes "state_io_rel R m" "\<And>e. state_io_rel R (h e)" "\<And>v. state_io_rel R (k v)"
  shows "state_io_rel R (try_call m h k)"
proof -
  have "state_io_rel R (case x of Ok v \<Rightarrow> k v | Fail e \<Rightarrow> h e | Crash p \<Rightarrow> State_Monad.return (Crash p))" for x
    using assms(2,3) by (cases x) (auto intro: io_return)
  with assms(1) show ?thesis unfolding try_call_def by (intro io_bind)
qed

lemma io_each: "(\<And>x. state_io_rel R (f x)) \<Longrightarrow> state_io_rel R (each f xs)"
  by (induction xs) (auto intro!: io_done io_try io_return)

lemma R_fold: "(\<And>x st. R st (f x st)) \<Longrightarrow> R st (fold f xs st)"
proof (induction xs arbitrary: st)
  case (Cons x xs)
  then show ?case by (auto intro: R_trans)
qed (simp add: R_refl)

end

section \<open>Relations respected by the primitives\<close>

locale daemon_relation = io_relation R
  for R :: "'w dstate \<Rightarrow> 'w dstate \<Rightarrow> bool" +
  fixes K :: "(session \<Rightarrow> session) \<Rightarrow> bool" and P :: "dap_request \<Rightarrow> bool"
  assumes R_upd: "K f \<Longrightarrow> R st (upd_obj c f st)"
    and R_sent: "P r \<Longrightarrow> R st (st\<lparr>d_sent := d_sent st @ [(c, r)]\<rparr>)"
    and R_world: "R st (st\<lparr>d_world := w\<rparr>)"
    and R_orders: "R st (st\<lparr>d_orders := n\<rparr>)"
    and R_inits: "R st (st\<lparr>d_inits := is\<rparr>)"
    and R_background: "R st (st\<lparr>d_background := bg\<rparr>)"
    and R_audit: "R st (st\<lparr>d_audit := a\<rparr>)"
    and K_event: "K (handleEvent ord ts ev)"
    and K_exit: "K (watchAdapterExit x)"
    and K_clear: "K (\<lambda>s. snd (clearOnceBPs ord ids s))"
    and K_queue: "K (\<lambda>s. s\<lparr>s_onceQ := q s\<rparr>)"
    and K_install: "K (\<lambda>s. snd (installStateWaiter b s))"
    and K_drop: "K (dropWaiter ch)"
    and K_config: "K (\<lambda>s. s\<lparr>s_pendingConfigDone := pc\<rparr>)"
    and K_location: "K (SetLastLocation l)"
    and K_remove: "K (\<lambda>s. snd (RemoveBP i s))"
    and K_removes: "K (\<lambda>s. snd (remove_ids (sel s) s))"
    and K_reply: "K (apply_replies bps replies)"
    and K_func_reply: "K (apply_func_replies fbs replies)"
    and K_exc: "K (SetExcFilters excs)"
    and K_watch: "K (\<lambda>s. snd (RemoveWatch i s))"
    and K_watches: "K ClearWatches"
begin

lemma io_sess [intro]: "state_io_rel R (sess c)"
  by (simp add: sess_def io_reads)

lemma io_now [intro]: "state_io_rel R (now env)"
  by (simp add: now_def io_reads)

lemmas monad_rules = io_return io_get io_bind io_reads io_done io_try io_each io_sess io_now
  io_if io_option io_sum io_prod io_list

lemma R_next_order: "R st (snd (next_order env st))"
  by (simp add: next_order_def R_orders)

lemma R_plain_tick: "R st (plain_tick env ct st)"
proof (cases "(env, ct, st)" rule: plain_tick.cases)
  case (1 env c ts ev st)
  let ?st1 = "snd (next_order env st)" and ?ord = "fst (next_order env st)"
  let ?st2 = "upd_obj c (handleEvent ?ord ts ev) ?st1"
  have "R st ?st2" by (rule R_trans [OF R_next_order R_upd]) (rule K_event)
  moreover have "R st (?st2\<lparr>d_inits := List.insert c (d_inits ?st2)\<rparr>)"
    by (rule R_trans [OF \<open>R st ?st2\<close> R_inits])
  ultimately show ?thesis using 1 by (auto simp: split_beta Let_def)
next
  case (2 env c x st)
  then show ?thesis by (simp add: R_upd K_exit)
next
  case (3 env c i st)
  then show ?thesis by (simp add: R_refl)
qed

lemma R_send_background: "R st (send_background env c r st)"
proof -
  have "R st (st\<lparr>d_world := w, d_background := b\<rparr>)" for w b
    by (rule R_trans [OF R_world R_background])
  then show ?thesis
    unfolding send_background_def split_beta Let_def by (rule R_trans) (rule R_fold, rule R_plain_tick)
qed

lemma R_clear_tick: "R st (clear_tick env c i st)"
proof -
  have step: "R st
      (fold (send_background env c) rs (upd_obj c (\<lambda>s. s\<lparr>s_onceQ := q s\<rparr>)
        (upd_obj c (\<lambda>s. snd (clearOnceBPs ord ids s)) (snd (next_order env st)))))" for rs q ord ids
    by (rule R_trans [OF R_next_order R_trans [OF R_upd [OF K_clear] R_trans [OF R_upd [OF K_queue] R_fold]]])
       (rule R_send_background)
  show ?thesis
    unfolding clear_tick_def split_beta Let_def
    by (cases "i < length (s_onceQ (obj c st))") (simp_all add: step R_refl)
qed

lemma R_deliver: "R st (deliver env ts st)"
  unfolding deliver_def
proof (rule R_fold)
  fix ct st
  show "R st (run_tick env ct st)"
    by (cases "(env, ct, st)" rule: run_tick.cases) (auto simp: R_clear_tick intro: R_plain_tick simp del: plain_tick.simps)
qed

lemma io_order [intro]: "state_io_rel R (an_order env)"
  using R_next_order by (simp add: an_order_def state_io_rel_def)

lemma io_on_sess: "K f \<Longrightarrow> state_io_rel R (on_sess c f)"
  unfolding on_sess_def by (rule io_modify) (rule R_upd)

lemma io_audit [intro]: "state_io_rel R (audit_Log env event sid args)"
  unfolding audit_Log_def by (rule io_modify) (simp add: R_audit R_refl)

lemma R_call: "P r \<Longrightarrow> R st (deliver env ts (st\<lparr>d_world := w, d_sent := d_sent st @ [(c, r)]\<rparr>))"
proof -
  assume "P r"
  then have "R (st\<lparr>d_world := w\<rparr>) (st\<lparr>d_world := w, d_sent := d_sent st @ [(c, r)]\<rparr>)"
    using R_sent [of r "st\<lparr>d_world := w\<rparr>" c] by simp
  then show ?thesis by (rule R_trans [OF R_world R_trans]) (rule R_deliver)
qed

lemma io_Call: "P r \<Longrightarrow> state_io_rel R (Call env c limit r)"
  by (simp add: Call_def state_io_rel_def split_beta Let_def R_call)

lemma io_asserted: "state_io_rel R m \<Longrightarrow> state_io_rel R (asserted p m)"
  unfolding asserted_def by (intro monad_rules)

lemma io_Simple: "P r \<Longrightarrow> state_io_rel R (Simple env c r)"
  unfolding Simple_def by (intro monad_rules io_Call)

lemma R_await: "R st (deliver env ts (st\<lparr>d_world := w\<rparr>))"
  by (rule R_trans [OF R_world R_deliver])

lemma io_wait_stop [intro]: "state_io_rel R (wait_stop env c ch timeout)"
  by (auto simp: wait_stop_def state_io_rel_def split_beta Let_def R_refl R_await split: option.split)

lemma io_install [intro]: "state_io_rel R (install replay c)"
  unfolding install_def by (intro monad_rules io_on_sess K_install)

lemma io_Wait [intro]: "state_io_rel R (Wait env c ch timeout)"
  unfolding Wait_def by (intro monad_rules io_wait_stop)

lemma io_WaitForStop [intro]: "state_io_rel R (WaitForStop env c timeout)"
  unfolding WaitForStop_def by (intro monad_rules io_wait_stop io_install io_on_sess K_drop)

lemma io_errResp [intro]: "state_io_rel R (errResp code msg hint)"
  unfolding errResp_def by (rule io_done)

lemma io_ok [intro]: "state_io_rel R (ok_resp d)"
  unfolding ok_resp_def by (rule io_done)

lemma io_failed [intro]: "state_io_rel R (adapter_failed e)"
  unfolding adapter_failed_def by (rule io_errResp)

lemma io_notFound [intro]: "state_io_rel R (sessionNotFound env sid cause)"
  unfolding sessionNotFound_def Let_def by (intro monad_rules io_errResp)

lemma io_with_args: "(\<And>a. state_io_rel R (k a)) \<Longrightarrow> state_io_rel R (with_args fs zero req k)"
  unfolding with_args_def by (auto split: option.split prod.split intro: io_errResp)

lemma io_with_session: "(\<And>c s. state_io_rel R (k c s)) \<Longrightarrow> state_io_rel R (with_session env req k)"
  unfolding with_session_def by (intro monad_rules io_notFound)

lemma io_read_only: "state_io_rel R k \<Longrightarrow> state_io_rel R (refuseIfReadOnly s k)"
  unfolding refuseIfReadOnly_def by (intro monad_rules)

lemma io_gate:
  "(EvalEnabled (e_policy env) = None \<Longrightarrow> state_io_rel R k) \<Longrightarrow> state_io_rel R (if_eval_enabled env event s args hint k)"
  unfolding if_eval_enabled_def by (intro monad_rules io_audit io_errResp)

lemma io_source_path [intro]: "state_io_rel R (source_path f)"
  unfolding source_path_def by (intro monad_rules)

lemma io_frame_of [intro]: "state_io_rel R (frame_of f)"
  unfolding frame_of_def by (intro monad_rules io_source_path)

lemmas handler_rules = monad_rules io_order io_on_sess io_audit io_asserted io_Call io_Simple io_install
  io_Wait io_WaitForStop io_errResp io_ok io_failed io_notFound io_with_args io_with_session io_read_only
  io_gate io_source_path io_frame_of K_location K_remove K_removes K_reply K_func_reply K_exc K_watch K_watches K_config

text \<open>Resynchronising breakpoints, for a relation that admits every such request.\<close>

lemma io_sync_any: "(\<And>f bs. P (ReqSetBreakpoints f bs)) \<Longrightarrow> state_io_rel R (sync_file conv env c file)"
  unfolding sync_file_def SetBreakpoints_def Let_def by (intro handler_rules)

lemma io_sync_funcs_any: "(\<And>bs. P (ReqSetFunctionBreakpoints bs)) \<Longrightarrow> state_io_rel R (sync_funcs env c)"
  unfolding sync_funcs_def SetFunctionBreakpoints_def Let_def by (intro handler_rules)

end

end
