(* ===== verification/Handler_Rel.thy ===== *)
theory Handler_Rel
  imports Daemon_Rel
begin

text \<open>
  Which relations each handler respects. The locales grow with what a handler may do: look at the
  program, run it and set breakpoints, evaluate in it, create and remove sessions.
\<close>

lemma exec_request_resumes: "exec_request kind configured lang tid single = Some r \<Longrightarrow> resumes r"
  by (cases kind) (auto split: if_splits)

section \<open>Handlers that inspect\<close>

locale inspecting_relation = daemon_relation +
  assumes P_inspect: "only_inspects r \<Longrightarrow> P r"
begin

lemma io_inspect_calls [intro]:
  "state_io_rel R (StackTrace env c limit tid n)"
  "state_io_rel R (Scopes env c fid)"
  "state_io_rel R (Variables env c limit ref)"
  "state_io_rel R (Threads env c)"
  "state_io_rel R (Source env c path sref)"
  by (simp_all add: StackTrace_def Scopes_def Variables_def Threads_def Source_def io_asserted io_Call P_inspect only_inspects_def)

lemma io_fetchTop [intro]: "state_io_rel R (fetchTopLocation env c)"
  unfolding fetchTopLocation_def by (intro handler_rules io_inspect_calls)

lemma io_resolveFrame [intro]: "state_io_rel R (resolveFrameID env c limit idx)"
  unfolding resolveFrameID_def by (intro handler_rules io_inspect_calls)

lemma io_javaClass [intro]: "state_io_rel R (javaClassFromFrame env c limit idx)"
  unfolding javaClassFromFrame_def by (intro handler_rules io_inspect_calls)

lemma io_topFrame [intro]: "state_io_rel R (currentTopFrame env c)"
  unfolding currentTopFrame_def by (intro handler_rules io_inspect_calls)

lemmas inspect_rules = handler_rules io_inspect_calls io_fetchTop io_resolveFrame io_javaClass io_topFrame

lemma io_handleStack: "state_io_rel R (handleStack env req)"
  unfolding handleStack_def Let_def by (intro inspect_rules)

lemma io_handleThreads: "state_io_rel R (handleThreads env req)"
  unfolding handleThreads_def by (intro inspect_rules)

lemma io_handleLocals: "state_io_rel R (handleLocals env req)"
  unfolding handleLocals_def Let_def by (intro inspect_rules)

lemma io_handleFields: "state_io_rel R (handleFields env req)"
  unfolding handleFields_def by (intro inspect_rules)

lemma io_scope_vars: "state_io_rel R (scope_vars env c sc)"
  unfolding scope_vars_def by (intro inspect_rules)

lemma io_with_scopes: "state_io_rel R (with_scopes env c out)"
  unfolding with_scopes_def by (intro inspect_rules io_scope_vars)

lemma io_handleSnapshot: "state_io_rel R (handleSnapshot env req)"
  unfolding handleSnapshot_def Let_def by (intro inspect_rules io_with_scopes)

lemma io_source_answer: "state_io_rel R (source_answer file line around current lines)"
  unfolding source_answer_def Let_def by (intro inspect_rules)

lemma io_default_location: "state_io_rel R (default_location env c s args)"
  unfolding default_location_def Let_def by (intro inspect_rules)

lemma io_read_source: "state_io_rel R (read_source env c args file line current)"
  unfolding read_source_def Let_def by (intro inspect_rules io_source_answer)

lemma io_handleSource: "state_io_rel R (handleSource env req)"
  unfolding handleSource_def Let_def by (intro inspect_rules io_default_location io_read_source)

lemma io_with_since: "(\<And>t. state_io_rel R (k t)) \<Longrightarrow> state_io_rel R (with_since env since k)"
  unfolding with_since_def by (intro inspect_rules)

lemma io_handleOutput: "state_io_rel R (handleOutput env req)"
  unfolding handleOutput_def Let_def by (intro inspect_rules io_with_since)

lemma io_handleEvents: "state_io_rel R (handleEvents env req)"
  unfolding handleEvents_def Let_def by (intro inspect_rules io_with_since)

lemma io_handleState: "state_io_rel R (handleState env req)"
  unfolding handleState_def by (intro inspect_rules)

lemma io_handleListen: "state_io_rel R (handleListen env req)"
  unfolding handleListen_def Let_def by (intro inspect_rules)

lemma io_handleSessions: "state_io_rel R (handleSessions env)"
  unfolding handleSessions_def by (intro inspect_rules)

lemma io_handleBreaks: "state_io_rel R (handleBreaks env req)"
  unfolding handleBreaks_def by (intro inspect_rules)

lemma io_handleAdapters: "state_io_rel R (handleAdapters env)"
  unfolding handleAdapters_def by (intro inspect_rules)

end

section \<open>Handlers that run the program and set breakpoints\<close>

locale running_relation = inspecting_relation +
  assumes P_resume: "resumes r \<Longrightarrow> P r"
    and P_exceptions: "P (ReqSetExceptionBreakpoints excs)"
    and K_until: "K (add_bp (until_bp file line))"
    and io_sync: "state_io_rel R (sync_file source_bp_of env c file)"
    and io_sync_lines: "state_io_rel R (sync_file line_cond_bp_of env c file)"
    and io_sync_funcs: "state_io_rel R (sync_funcs env c)"
begin

lemma io_exceptions: "state_io_rel R (SetExceptionBreakpoints env c excs)"
  by (simp add: SetExceptionBreakpoints_def io_asserted io_Call P_exceptions)

lemma io_ensure: "state_io_rel R (EnsureConfigurationDone env c)"
  unfolding EnsureConfigurationDone_def by (intro handler_rules P_resume) simp

lemmas run_rules = inspect_rules io_sync io_sync_lines io_sync_funcs io_exceptions io_ensure

lemma io_clearOnceAt: "state_io_rel R (clearOnceAt env c file line)"
  unfolding clearOnceAt_def by (intro run_rules)

lemma io_with_location: "(\<And>l. state_io_rel R (after l)) \<Longrightarrow> state_io_rel R (with_location env c after pi)"
  unfolding with_location_def by (intro run_rules)

lemma io_handleExec: "state_io_rel R (handleExec env kind req)"
  unfolding handleExec_def Let_def
  by (intro run_rules io_with_location io_clearOnceAt P_resume) (erule exec_request_resumes)

lemma io_first_thread: "state_io_rel R (first_thread env c tid)"
  unfolding first_thread_def by (intro run_rules)

lemma io_handlePause: "state_io_rel R (handlePause env req)"
  unfolding handlePause_def Let_def by (intro run_rules io_first_thread P_inspect) (simp add: only_inspects_def)

lemma io_run_until: "state_io_rel R (run_until env c file args)"
  unfolding run_until_def Let_def by (intro run_rules io_with_location K_until P_resume) simp

lemma io_handleUntil: "state_io_rel R (handleUntil env req)"
  unfolding handleUntil_def by (intro run_rules io_run_until)

lemma io_handleRestart: "state_io_rel R (handleRestart env req)"
  unfolding handleRestart_def by (intro run_rules P_resume) simp

lemma io_handleUnbreak: "state_io_rel R (handleUnbreak env req)"
  unfolding handleUnbreak_def Let_def by (intro run_rules)

lemma io_handleBreakEx: "state_io_rel R (handleBreakEx env req)"
  unfolding handleBreakEx_def Let_def by (intro run_rules)

lemma io_place_bp:
  "K (add_bp (new_bp file line args)) \<Longrightarrow> state_io_rel R (place_bp env c file line args)"
  unfolding place_bp_def Let_def by (intro run_rules)

lemma io_handleBreak:
  assumes "\<And>file line args. ba_Condition args = [] \<or> EvalEnabled (e_policy env) = None \<Longrightarrow> K (add_bp (new_bp file line args))"
  shows "state_io_rel R (handleBreak env req)"
  unfolding handleBreak_def Let_def by (intro run_rules io_place_bp assms) simp_all

lemma io_place_func_bp:
  "K (add_func_bp (new_func_bp args)) \<Longrightarrow> state_io_rel R (place_func_bp env c args)"
  unfolding place_func_bp_def Let_def by (intro run_rules)

lemma io_handleBreakFn:
  assumes "\<And>args. bfa_Condition args = [] \<or> EvalEnabled (e_policy env) = None \<Longrightarrow> K (add_func_bp (new_func_bp args))"
  shows "state_io_rel R (handleBreakFn env req)"
  unfolding handleBreakFn_def Let_def by (intro run_rules io_place_func_bp assms) simp_all

end

section \<open>Handlers that evaluate\<close>

text \<open>
  \<open>handleEval\<close> and \<open>handleSet\<close> evaluate only where the policy enables it; the other three handlers that
  evaluate do not ask the policy, so their lemmas require that evaluation is admitted outright.
\<close>

context inspecting_relation
begin

lemma io_evaluate: "(\<And>e f x. P (ReqEvaluate e f x)) \<Longrightarrow> state_io_rel R (Evaluate env c limit e f x)"
  by (simp add: Evaluate_def io_asserted io_Call)

lemma io_set_variable: "(\<And>i n v. P (ReqSetVariable i n v)) \<Longrightarrow> state_io_rel R (SetVariable env c ref n v)"
  by (simp add: SetVariable_def io_asserted io_Call)

lemma io_run_eval: "(\<And>e f x. P (ReqEvaluate e f x)) \<Longrightarrow> state_io_rel R (run_eval env c s args)"
  unfolding run_eval_def retry_qualified_def Let_def by (intro inspect_rules io_evaluate)

lemma io_handleEval:
  assumes "\<And>e f x. EvalEnabled (e_policy env) = None \<Longrightarrow> P (ReqEvaluate e f x)"
  shows "state_io_rel R (handleEval env req)"
  unfolding handleEval_def by (intro inspect_rules io_run_eval assms)

lemma io_handleSet:
  assumes "\<And>i n v. EvalEnabled (e_policy env) = None \<Longrightarrow> P (ReqSetVariable i n v)"
  shows "state_io_rel R (handleSet env req)"
  unfolding handleSet_def Let_def by (intro inspect_rules io_set_variable assms)

lemma io_evaluateWatches:
  assumes "\<And>e f x. P (ReqEvaluate e f x)"
  shows "state_io_rel R (evaluateWatches env c frm)"
  unfolding evaluateWatches_def eval_watch_def Let_def by (intro inspect_rules io_evaluate assms)

lemma io_handleWatch:
  assumes "\<And>c frm. state_io_rel R (evaluateWatches env c frm)" "\<And>e. EvalEnabled (e_policy env) = None \<Longrightarrow> K (AddWatch e)"
  shows "state_io_rel R (handleWatch env req)"
  unfolding handleWatch_def Let_def by (intro inspect_rules assms)

lemma io_handleGlobals:
  assumes "\<And>e f x. P (ReqEvaluate e f x)"
  shows "state_io_rel R (handleGlobals env req)"
  unfolding handleGlobals_def java_globals_def Let_def by (intro inspect_rules io_evaluate assms)

lemma io_node_value: "state_io_rel R (node_value env c limit v)"
  unfolding node_value_def unwrapJavaWrapper_def by (intro inspect_rules)

lemma io_expandRef: "state_io_rel R (expandRefFiltered env c limit d maxItems special ref)"
proof (induction d arbitrary: ref)
  case 0
  show ?case by (subst expandRefFiltered.simps, unfold Let_def) (simp, intro inspect_rules io_node_value)
next
  case (Suc d)
  show ?case
    by (subst expandRefFiltered.simps, unfold Let_def) (simp, intro inspect_rules io_node_value Suc.IH)
qed

lemma io_print_expanded: "state_io_rel R (print_expanded env c args name r)"
  unfolding print_expanded_def Let_def by (intro inspect_rules io_expandRef)

lemma io_handlePrint:
  assumes "\<And>e f x. P (ReqEvaluate e f x)"
  shows "state_io_rel R (handlePrint env req)"
  unfolding handlePrint_def Let_def by (intro inspect_rules io_evaluate io_print_expanded assms)

end

section \<open>Handlers that change the table of sessions\<close>

text \<open>What the creation of a session writes into it, under its own DAP client.\<close>

definition describes :: "session \<Rightarrow> session \<Rightarrow> bool" where
  "describes s t \<longleftrightarrow> t = s\<lparr>s_ID := s_ID t, s_Program := s_Program t, s_Cwd := s_Cwd t,
     s_SourceRoots := s_SourceRoots t, s_Attached := s_Attached t, s_ReadOnly := s_ReadOnly t\<rparr>"

locale closing_relation = running_relation +
  assumes R_set_new: "(\<And>s. sess_inv s \<Longrightarrow> sess_inv (f s)) \<Longrightarrow> (\<And>s. s_cli (f s) = s_cli s) \<Longrightarrow>
      (\<And>s. s_bpsByID (f s) = s_bpsByID s) \<Longrightarrow> (\<And>s. s_funcBPs (f s) = s_funcBPs s) \<Longrightarrow>
      (\<And>s. s_watches (f s) = s_watches s) \<Longrightarrow> (\<And>s. describes s (f s)) \<Longrightarrow> R st (st\<lparr>d_new := map_option f (d_new st)\<rparr>)"
    and R_drop: "R st (st\<lparr>d_new := None\<rparr>)"
    and R_register: "d_new st = Some s \<Longrightarrow> R st (st\<lparr>d_mgr := register s (d_mgr st), d_new := None\<rparr>)"
    and R_remove: "R st (st\<lparr>d_mgr := Remove ord sid (d_mgr st)\<rparr>)"
    and R_default: "SetDefault sid (d_mgr st) = (None, m) \<Longrightarrow> R st (st\<lparr>d_mgr := m\<rparr>)"
    and R_save: "R st (save_store env sid st)"
    and R_load: "R st (load_store env c st)"
    and R_shutdown: "R st (st\<lparr>d_shutdown := sd\<rparr>)"
    and K_caps: "K (\<lambda>s. s\<lparr>s_caps := caps\<rparr>)"
    and K_close: "K CloseSession"
begin

lemma io_Close: "state_io_rel R (Close env c)"
  unfolding Close_def by (intro run_rules K_close P_inspect) (simp add: only_inspects_def)

lemma io_remove_session: "state_io_rel R (remove_session env sid)"
  unfolding remove_session_def by (intro run_rules io_Close io_modify R_save R_remove)

lemma io_abort: "state_io_rel R (abort env c msg)"
  unfolding abort_def by (intro run_rules io_Close io_modify R_drop)

lemma io_set_new:
  "(\<And>s. sess_inv s \<Longrightarrow> sess_inv (f s)) \<Longrightarrow> (\<And>s. s_cli (f s) = s_cli s) \<Longrightarrow>
   (\<And>s. s_bpsByID (f s) = s_bpsByID s) \<Longrightarrow> (\<And>s. s_funcBPs (f s) = s_funcBPs s) \<Longrightarrow>
   (\<And>s. s_watches (f s) = s_watches s) \<Longrightarrow> (\<And>s. describes s (f s)) \<Longrightarrow> state_io_rel R (set_new f)"
  unfolding set_new_def by (intro io_modify R_set_new)

lemma io_name_session: "state_io_rel R (name_session env c name)"
  unfolding name_session_def by (intro run_rules io_abort io_set_new) (auto simp: sess_inv_defs describes_def)

lemma io_Initialize: "state_io_rel R (Initialize env c adapterID)"
proof -
  have "state_io_rel R (case r of RepCaps caps \<Rightarrow> do { on_sess c (\<lambda>s. s\<lparr>s_caps := caps\<rparr>); done_with () }
       | _ \<Rightarrow> State_Monad.return (Fail (CallErr ''unexpected response'' False)))" for r
    by (cases r) (auto intro!: run_rules K_caps)
  then show ?thesis unfolding Initialize_def by (intro run_rules P_inspect) (simp_all add: only_inspects_def)
qed

lemma io_send_async: "P r \<Longrightarrow> state_io_rel R (send_async env c r)"
  by (simp add: send_async_def state_io_rel_def split_beta Let_def R_call)

lemma io_wait_initialized: "state_io_rel R (wait_initialized env c)"
  by (simp add: wait_initialized_def state_io_rel_def split_beta Let_def R_await R_refl)

lemma io_async_reply: "state_io_rel R (async_reply env c)"
  by (simp add: async_reply_def state_io_rel_def split_beta Let_def R_await)

lemma io_register_new: "state_io_rel R (register_new c)"
  unfolding register_new_def by (rule io_modify) (auto simp: R_refl R_register split: option.split)

lemma io_handshake: "P r \<Longrightarrow> state_io_rel R (handshake env c adapterID initErr what r)"
  unfolding handshake_def
  by (intro run_rules io_Initialize io_abort io_send_async io_wait_initialized)

lemma io_await_reply: "state_io_rel R (await_reply env c what late)"
proof -
  have "state_io_rel R (case r of AsyncReply \<Rightarrow> done_with () | AsyncFailed msg \<Rightarrow> abort env c (f msg)
      | AsyncClosed \<Rightarrow> abort env c g | AsyncTimeout \<Rightarrow> abort env c h)" for r f g h
    by (cases r) (auto intro: io_abort)
  then show ?thesis unfolding await_reply_def by (intro run_rules io_async_reply)
qed

lemma io_detect_spec: "state_io_rel R (detect_spec env lang)"
  unfolding detect_spec_def by (intro run_rules)

lemmas launch_rules = run_rules io_Close io_remove_session io_abort io_name_session io_Initialize
  io_register_new io_await_reply io_detect_spec io_modify R_save R_load R_default R_shutdown

lemma io_finish_launch: "state_io_rel R (finish_launch env args spec launchArgs c)"
  unfolding finish_launch_def
  by (intro launch_rules io_handshake io_set_new P_inspect P_resume)
     (auto simp: sess_inv_defs only_inspects_def describes_def)

lemma io_finish_attach: "state_io_rel R (finish_attach env args spec attachArgs c)"
  unfolding finish_attach_def
  by (intro launch_rules io_handshake io_set_new P_inspect P_resume)
     (auto simp: sess_inv_defs only_inspects_def describes_def)

lemma io_earlyTermination: "state_io_rel R (earlyTerminationResp env c pi)"
  unfolding earlyTerminationResp_def by (intro launch_rules)

lemma io_started: "state_io_rel R (started env args c)"
  unfolding started_def Let_def by (intro launch_rules io_earlyTermination)

lemma io_handleStop: "state_io_rel R (handleStop env req)"
  unfolding handleStop_def Let_def by (intro launch_rules)

lemma io_handleUse: "state_io_rel R (handleUse env req)"
proof -
  have "state_io_rel R (do { m \<leftarrow> reads d_mgr;
            case SetDefault sid m of
              (Some e, _) \<Rightarrow> sessionNotFound env (rq_Sess req) e
            | (None, m1) \<Rightarrow>
                do { modify (\<lambda>st. st\<lparr>d_mgr := m1\<rparr>); ok_resp (DMap [(''default'', JStr sid)]) } })" for sid
    using io_notFound by (auto simp: state_io_rel_def reads_def modify_def ok_resp_def done_with_def
        split: prod.split option.split intro: R_default)
  then show ?thesis unfolding handleUse_def by (intro io_with_args)
qed

lemma io_shutdown: "state_io_rel R (run_cmd env CmdShutdown req)"
  unfolding run_cmd.simps by (intro launch_rules)

text \<open>Every command but \<open>start\<close> and \<open>attach\<close>, for a relation that admits evaluation and every new breakpoint and watch.\<close>

lemma io_run_other:
  assumes "\<And>r. P r" "\<And>file line args. K (add_bp (new_bp file line args))" "\<And>args. K (add_func_bp (new_func_bp args))"
    "\<And>e. K (AddWatch e)" "cmd \<noteq> CmdStart" "cmd \<noteq> CmdAttach"
  shows "state_io_rel R (run_cmd env cmd req)"
proof -
  have "state_io_rel R (handleWatch env req)"
    by (rule io_handleWatch) (auto intro: io_evaluateWatches assms)
  with assms show ?thesis
    by (cases cmd)
       (auto simp del: run_cmd.simps(2) intro: io_shutdown io_handleAdapters io_handleSessions io_handleUse
          io_handleStop io_handleState io_handleBreak io_handleBreaks io_handleUnbreak io_handleExec io_handlePause
          io_handleStack io_handleThreads io_handleLocals io_handleEval io_handleSet io_handleSnapshot
          io_handleGlobals io_handleFields io_handleSource io_handleOutput io_handleEvents io_handleListen
          io_handleRestart io_handleBreakFn io_handleBreakEx io_handleUntil io_handlePrint)
qed

end

section \<open>Handlers that add sessions\<close>

locale table_relation = closing_relation +
  assumes R_new: "R st (st\<lparr>d_new := Some (newSession (d_nextCli st) sid lang), d_nextCli := Suc (d_nextCli st)\<rparr>)"
begin

lemma io_startAdapter: "state_io_rel R (startAdapter env spec lang)"
proof -
  have "R st (st\<lparr>d_world := w, d_new := Some (newSession (d_nextCli st) sid lang), d_nextCli := Suc (d_nextCli st)\<rparr>)" for st w sid
    using R_trans [OF R_world R_new [of "st\<lparr>d_world := w\<rparr>"]] by simp
  then have "state_io_rel R (State (\<lambda>st.
      let (w, r) = e_spawn env (d_world st) argv transport; st1 = st\<lparr>d_world := w\<rparr> in
      case r of
        Inl e \<Rightarrow> (Fail (CallErr e False), st1)
      | Inr newid \<Rightarrow>
          (Ok (d_nextCli st), st1\<lparr>d_new := Some (newSession (d_nextCli st) newid lang), d_nextCli := Suc (d_nextCli st)\<rparr>)))"
    for argv transport
    by (simp add: state_io_rel_def split_beta Let_def R_world split: sum.split)
  then show ?thesis unfolding startAdapter_def by (intro run_rules)
qed

lemma io_CreateLaunch: "state_io_rel R (CreateLaunch env args)"
  unfolding CreateLaunch_def by (intro launch_rules io_startAdapter io_finish_launch)

lemma io_CreateAttach: "state_io_rel R (CreateAttach env args)"
  unfolding CreateAttach_def by (intro launch_rules io_startAdapter io_finish_attach)

lemma io_handleStart: "state_io_rel R (handleStart env req)"
  unfolding handleStart_def Let_def by (intro launch_rules io_CreateLaunch io_started)

lemma io_handleAttach: "state_io_rel R (handleAttach env req)"
  unfolding handleAttach_def by (intro launch_rules io_CreateAttach)

lemma io_run_cmd:
  assumes "\<And>r. P r" "\<And>file line args. K (add_bp (new_bp file line args))" "\<And>args. K (add_func_bp (new_func_bp args))"
    "\<And>e. K (AddWatch e)"
  shows "state_io_rel R (run_cmd env cmd req)"
  using io_run_other [OF assms, of cmd env req] io_handleStart io_handleAttach
  by (cases "cmd = CmdStart \<or> cmd = CmdAttach") auto

end

end
