(* ===== verification/Daemon_Inv.thy ===== *)
theory Daemon_Inv
  imports Handler_Rel
begin

text \<open>
  The invariant of the daemon: its session table is well formed, every session object keeps the
  session invariant, and no two objects share a DAP client (so an update through a handler's
  session pointer reaches one object). Every command keeps it, from the empty daemon on.
\<close>

definition clis :: "'w dstate \<Rightarrow> nat list" where
  "clis st = map (\<lambda>kv. s_cli (snd kv)) (m_sessions (d_mgr st)) @ (case d_new st of None \<Rightarrow> [] | Some s \<Rightarrow> [s_cli s])"

definition ds_inv :: "'w dstate \<Rightarrow> bool" where
  "ds_inv st \<longleftrightarrow>
     mgr_inv (d_mgr st) \<and> (\<forall>s. d_new st = Some s \<longrightarrow> sess_inv s) \<and>
     distinct (clis st) \<and> (\<forall>c \<in> set (clis st). c < d_nextCli st)"

definition inv_rel :: "'w dstate \<Rightarrow> 'w dstate \<Rightarrow> bool" where
  "inv_rel st st' \<longleftrightarrow> (ds_inv st \<longrightarrow> ds_inv st')"

section \<open>The primitives\<close>

lemma inv_rel_refl: "inv_rel st st"
  by (simp add: inv_rel_def)

lemma inv_rel_trans: "inv_rel st st1 \<Longrightarrow> inv_rel st1 st2 \<Longrightarrow> inv_rel st st2"
  by (simp add: inv_rel_def)

lemma clis_upd_obj: "keeps f \<Longrightarrow> clis (upd_obj c f st) = clis st"
proof -
  assume k: "keeps f"
  then have cli: "s_cli (f s) = s_cli s" for s by (simp add: keeps_def)
  have "map (\<lambda>kv. s_cli (snd kv)) (m_sessions (put_obj c f m)) = map (\<lambda>kv. s_cli (snd kv)) (m_sessions m)" for m
    using clis_put_obj [OF k, of c m] by (simp add: comp_def)
  then show ?thesis using cli by (simp add: clis_def upd_obj_def split: option.split)
qed

lemma inv_upd_obj: "keeps f \<Longrightarrow> inv_rel st (upd_obj c f st)"
proof -
  assume k: "keeps f"
  then have inv: "sess_inv s \<Longrightarrow> sess_inv (f s)" for s by (simp add: keeps_def)
  show ?thesis
    unfolding inv_rel_def
  proof
    assume st: "ds_inv st"
    have "mgr_inv (d_mgr (upd_obj c f st))"
      using k st by (simp add: upd_obj_def mgr_inv_put_obj ds_inv_def)
    moreover have "sess_inv s" if "d_new (upd_obj c f st) = Some s" for s
      using that inv st by (cases "d_new st") (auto simp: upd_obj_def ds_inv_def)
    moreover have "d_nextCli (upd_obj c f st) = d_nextCli st" by (simp add: upd_obj_def)
    ultimately show "ds_inv (upd_obj c f st)"
      using st clis_upd_obj [OF k] unfolding ds_inv_def by metis
  qed
qed

lemma clis_put_subset: "set (map (\<lambda>kv. s_cli (snd kv)) (map_put k s m)) \<subseteq> insert (s_cli s) (set (map (\<lambda>kv. s_cli (snd kv)) m))"
  by (auto simp: map_put_def split: if_splits)

lemma distinct_clis_put:
  "distinct (map fst m) \<Longrightarrow> distinct (map (\<lambda>kv. s_cli (snd kv)) m @ [s_cli s]) \<Longrightarrow>
   distinct (map (\<lambda>kv. s_cli (snd kv)) (map_put k s m))"
proof (induction m)
  case (Cons kv m)
  obtain k' v where kv: "kv = (k', v)" by (cases kv)
  have IH: "distinct (map (\<lambda>kv. s_cli (snd kv)) (map_put k s m))" using Cons by auto
  show ?case
  proof (cases "k' = k")
    case True
    with Cons.prems kv have "k \<notin> fst ` set m" by auto
    then have "map (\<lambda>(k', v'). if k' = k then (k', s) else (k', v')) m = m"
      by (intro map_idI) (auto simp: image_iff)
    then have "map_put k s (kv # m) = (k, s) # m" using True kv by (simp add: map_put_def)
    then show ?thesis using Cons.prems by auto
  next
    case False
    then have "map_put k s (kv # m) = kv # map_put k s m" using kv by (auto simp: map_put_def)
    moreover have "s_cli v \<notin> set (map (\<lambda>kv. s_cli (snd kv)) (map_put k s m))"
      using clis_put_subset [of k s m] Cons.prems kv by auto
    ultimately show ?thesis using IH kv by simp
  qed
qed (simp add: map_put_def)

lemma inv_register: "d_new st = Some s \<Longrightarrow> inv_rel st (st\<lparr>d_mgr := register s (d_mgr st), d_new := None\<rparr>)"
proof -
  assume new: "d_new st = Some s"
  show ?thesis
    unfolding inv_rel_def
  proof
    assume inv: "ds_inv st"
    let ?m = "m_sessions (d_mgr st)"
    have d: "distinct (map (\<lambda>kv. s_cli (snd kv)) ?m @ [s_cli s])"
      using inv new by (simp add: ds_inv_def clis_def)
    have "distinct (map fst ?m)" using inv by (simp add: ds_inv_def mgr_inv_def)
    then have "distinct (map (\<lambda>kv. s_cli (snd kv)) (map_put (s_ID s) s ?m))" using d by (rule distinct_clis_put)
    moreover have "\<forall>c \<in> set (map (\<lambda>kv. s_cli (snd kv)) (map_put (s_ID s) s ?m)). c < d_nextCli st"
    proof
      fix c
      assume "c \<in> set (map (\<lambda>kv. s_cli (snd kv)) (map_put (s_ID s) s ?m))"
      then have "c \<in> set (clis st)" using clis_put_subset [of "s_ID s" s ?m] new by (auto simp: clis_def)
      then show "c < d_nextCli st" using inv by (simp add: ds_inv_def)
    qed
    ultimately show "ds_inv (st\<lparr>d_mgr := register s (d_mgr st), d_new := None\<rparr>)"
      using inv new mgr_inv_register [of "d_mgr st" s] by (simp add: ds_inv_def clis_def register_def)
  qed
qed

lemma inv_remove: "inv_rel st (st\<lparr>d_mgr := Remove ord sid (d_mgr st)\<rparr>)"
proof -
  obtain p where p: "m_sessions (Remove ord sid (d_mgr st)) = filter p (m_sessions (d_mgr st))"
    by (cases "sid \<in> fst ` set (m_sessions (d_mgr st))")
       (auto simp: Remove_def Let_def map_del_def intro: that [of "\<lambda>_. True"])
  then show ?thesis
    using mgr_inv_Remove [of "d_mgr st" ord sid]
    by (auto simp: inv_rel_def ds_inv_def clis_def distinct_map_filter split: option.splits)
qed

lemma s_cli_add_watches [simp]: "s_cli (add_watches es s) = s_cli s"
  by (induction es arbitrary: s) (auto simp: AddWatch_def)

lemma LoadWatches_keeps: "keeps (\<lambda>s. fst (LoadWatches hash en store s))"
  by (rule keepsI) (auto simp: LoadWatches_def Let_def inv_add_watches split: option.split watch_file.split)

section \<open>Every command keeps the invariant\<close>

lemma inv_simple:
  "inv_rel st (st\<lparr>d_sent := l\<rparr>)" "inv_rel st (st\<lparr>d_world := w\<rparr>)" "inv_rel st (st\<lparr>d_orders := n\<rparr>)"
  "inv_rel st (st\<lparr>d_inits := is\<rparr>)" "inv_rel st (st\<lparr>d_background := bg\<rparr>)" "inv_rel st (st\<lparr>d_audit := a\<rparr>)"
  "inv_rel st (st\<lparr>d_shutdown := sd\<rparr>)" "inv_rel st (st\<lparr>d_store := store\<rparr>)"
  by (simp_all add: inv_rel_def ds_inv_def clis_def)

lemma inv_load: "inv_rel st (load_store env c st)"
  unfolding load_store_def Let_def
  by (rule inv_rel_trans [OF inv_upd_obj [OF LoadWatches_keeps] inv_simple(8)])

lemma inv_save: "inv_rel st (save_store env sid st)"
  by (auto simp: save_store_def inv_rel_refl inv_simple(8) split: option.split)

lemma inv_new: "inv_rel st (st\<lparr>d_new := Some (newSession (d_nextCli st) sid lang), d_nextCli := Suc (d_nextCli st)\<rparr>)"
proof -
  have cli: "s_cli (newSession (d_nextCli st) sid lang) = d_nextCli st" by (simp add: newSession_def)
  show ?thesis
    unfolding inv_rel_def
  proof
    let ?cs = "map (\<lambda>kv. s_cli (snd kv)) (m_sessions (d_mgr st))"
    assume inv: "ds_inv st"
    then have lt: "\<forall>c \<in> set ?cs. c < d_nextCli st" and "distinct ?cs"
      by (simp_all add: ds_inv_def clis_def)
    then have "distinct (?cs @ [d_nextCli st])" by auto
    moreover have "\<forall>c \<in> set (?cs @ [d_nextCli st]). c < Suc (d_nextCli st)" using lt by (auto simp: less_Suc_eq)
    ultimately show "ds_inv (st\<lparr>d_new := Some (newSession (d_nextCli st) sid lang), d_nextCli := Suc (d_nextCli st)\<rparr>)"
      using inv by (simp add: ds_inv_def clis_def cli sess_inv_new)
  qed
qed

lemma inv_set_new:
  assumes "\<And>s. sess_inv s \<Longrightarrow> sess_inv (f s)" "\<And>s. s_cli (f s) = s_cli s"
  shows "inv_rel st (st\<lparr>d_new := map_option f (d_new st)\<rparr>)"
  by (cases "d_new st") (simp_all add: inv_rel_def ds_inv_def clis_def assms)

lemma inv_drop: "inv_rel st (st\<lparr>d_new := None\<rparr>)"
  by (cases "d_new st") (simp_all add: inv_rel_def ds_inv_def clis_def)

lemma inv_default: "SetDefault sid (d_mgr st) = (None, m) \<Longrightarrow> inv_rel st (st\<lparr>d_mgr := m\<rparr>)"
proof -
  assume s: "SetDefault sid (d_mgr st) = (None, m)"
  then have "m_sessions m = m_sessions (d_mgr st)" by (auto simp: SetDefault_def split: if_splits)
  with s mgr_inv_SetDefault [of "d_mgr st" sid] show ?thesis by (simp add: inv_rel_def ds_inv_def clis_def)
qed

lemma keeps_removes: "keeps (\<lambda>s. snd (remove_ids (sel s) s))"
  using keeps_remove_ids unfolding keeps_def by blast

interpretation inv0: daemon_relation inv_rel keeps "\<lambda>_. True"
  by unfold_locales
     (erule (1) inv_rel_trans |
      simp add: inv_rel_refl inv_upd_obj inv_simple keeps_ops keeps_removes keeps_apply_replies keeps_apply_func_replies)+

interpretation inv: table_relation inv_rel keeps "\<lambda>_. True"
  by unfold_locales
     (simp_all add: inv0.io_sync_any inv0.io_sync_funcs_any keeps_add_until inv_new inv_set_new inv_drop inv_register
        inv_remove inv_default inv_save inv_load inv_simple keeps_fields keeps_CloseSession)

lemma inv_dispatch: "state_io_rel inv_rel (dispatch env req)"
proof -
  have "state_io_rel inv_rel (run_cmd env cmd req)" for cmd
    by (rule inv.io_run_cmd) (auto intro: keeps_add_bp keeps_add_func_bp)
  then show ?thesis
    unfolding dispatch_def by (intro inv.launch_rules)
qed

lemma inv_handle: "ds_inv st \<Longrightarrow> ds_inv (snd (handle env req st))"
  using inv_dispatch [of env req] by (auto simp: handle_def split_beta Let_def state_io_rel_def inv_rel_def)

lemma serve_induct:
  assumes "\<And>req st. I st \<Longrightarrow> I (snd (handle env req st))" "I st"
  shows "I (snd (serve env reqs st))"
  using assms(2)
proof (induction reqs arbitrary: st)
  case (Cons req reqs)
  then have "I (snd (handle env req st))" using assms(1) by blast
  then show ?case using Cons.IH by (auto simp: split_beta Let_def split: response.split)
qed simp

lemma start_daemon_inv: "ds_inv (start_daemon env store w)"
  by (simp add: ds_inv_def start_daemon_def clis_def mgr_inv_def NewManager_def SetMaxSessions_def)

end
