(* ===== verification/Daemon_Safety.thy ===== *)
theory Daemon_Safety
  imports Daemon_Inv
begin

text \<open>
  What a sequence of requests can and cannot do to the daemon: the session cap, the evaluation gate,
  the commands that only inspect, and the refusals of a read-only session. Each group is an
  interpretation of the relation locales.
\<close>

section \<open>The session cap\<close>

definition n_objs :: "'w dstate \<Rightarrow> nat" where
  "n_objs st = length (m_sessions (d_mgr st)) + (case d_new st of None \<Rightarrow> 0 | Some _ \<Rightarrow> 1)"

definition cap_rel :: "'w dstate \<Rightarrow> 'w dstate \<Rightarrow> bool" where
  "cap_rel st st' \<longleftrightarrow> m_maxSessions (d_mgr st') = m_maxSessions (d_mgr st) \<and> n_objs st' \<le> n_objs st"

definition cap_ok :: "go_int \<Rightarrow> 'w dstate \<Rightarrow> bool" where
  "cap_ok n st \<longleftrightarrow> m_maxSessions (d_mgr st) = n \<and> (0 < n \<longrightarrow> int (n_objs st) \<le> n)"

lemma cap_upd_obj [simp]: "cap_rel st (upd_obj c f st)"
  by (auto simp: cap_rel_def n_objs_def upd_obj_def split: option.split)

lemma cap_simple [simp]:
  "cap_rel st (st\<lparr>d_sent := l\<rparr>)" "cap_rel st (st\<lparr>d_world := w\<rparr>)" "cap_rel st (st\<lparr>d_orders := n\<rparr>)"
  "cap_rel st (st\<lparr>d_inits := is\<rparr>)" "cap_rel st (st\<lparr>d_background := bg\<rparr>)" "cap_rel st (st\<lparr>d_audit := a\<rparr>)"
  "cap_rel st (st\<lparr>d_shutdown := sd\<rparr>)" "cap_rel st (st\<lparr>d_store := store\<rparr>)"
  by (simp_all add: cap_rel_def n_objs_def)

lemma cap_rel_trans: "cap_rel st st1 \<Longrightarrow> cap_rel st1 st2 \<Longrightarrow> cap_rel st st2"
  by (simp add: cap_rel_def)

interpretation cap0: daemon_relation cap_rel "\<lambda>_. True" "\<lambda>_. True"
  by unfold_locales (simp_all add: cap_rel_def n_objs_def upd_obj_def split: option.split)

lemma cap_register: "d_new st = Some s \<Longrightarrow> cap_rel st (st\<lparr>d_mgr := register s (d_mgr st), d_new := None\<rparr>)"
  by (simp add: cap_rel_def n_objs_def register_def length_put)

lemma cap_remove: "cap_rel st (st\<lparr>d_mgr := Remove ord sid (d_mgr st)\<rparr>)"
  using length_del_le [of sid "m_sessions (d_mgr st)"]
  by (simp add: cap_rel_def n_objs_def Remove_def Let_def)

lemma cap_load: "cap_rel st (load_store env c st)"
  unfolding load_store_def Let_def by (rule cap_rel_trans [OF cap_upd_obj cap_simple(8)])

lemma cap_save: "cap_rel st (save_store env sid st)"
  by (simp add: save_store_def cap0.R_refl split: option.split)

lemma cap_new: "cap_rel st (st\<lparr>d_new := map_option f (d_new st)\<rparr>)" "cap_rel st (st\<lparr>d_new := None\<rparr>)"
  by (simp_all add: cap_rel_def n_objs_def split: option.split)

lemma cap_default: "SetDefault sid (d_mgr st) = (None, m) \<Longrightarrow> cap_rel st (st\<lparr>d_mgr := m\<rparr>)"
  by (auto simp: cap_rel_def n_objs_def SetDefault_def split: if_splits)

interpretation cap: closing_relation cap_rel "\<lambda>_. True" "\<lambda>_. True"
  by unfold_locales
     (simp_all add: cap0.io_sync_any cap0.io_sync_funcs_any cap_register cap_remove cap_load cap_save cap_new cap_default)

lemma startAdapter_cap:
  assumes "Reserve (d_mgr st) = None"
  shows "cap_ok n st \<Longrightarrow> cap_ok n (snd (run_state (startAdapter env spec lang) st))"
  using assms
  by (auto simp: startAdapter_def Reserve_def cap_ok_def n_objs_def split_beta Let_def
      split: sum.split option.splits if_splits)

text \<open>A computation that keeps the bound, and a creation after a successful \<open>Reserve\<close>.\<close>

lemma cap_io: "state_io_rel cap_rel m \<Longrightarrow> cap_ok n st \<Longrightarrow> cap_ok n (snd (run_state m st))"
proof -
  assume "state_io_rel cap_rel m" and ok: "cap_ok n st"
  then have "cap_rel st (snd (run_state m st))" by (simp add: state_io_rel_def)
  with ok show ?thesis by (auto simp: cap_rel_def cap_ok_def)
qed

lemma run_try_call:
  "run_state (try_call m h k) st =
     (case run_state m st of (Ok v, st1) \<Rightarrow> run_state (k v) st1 | (Fail e, st1) \<Rightarrow> run_state (h e) st1
      | (Crash p, st1) \<Rightarrow> (Crash p, st1))"
  by (simp add: try_call_def split: prod.split outcome.split)

lemma cap_after_start:
  assumes "Reserve (d_mgr st) = None" "cap_ok n st" "\<And>c. state_io_rel cap_rel (k c)"
  shows "cap_ok n (snd (run_state (and_then (startAdapter env spec lang) k) st))"
proof -
  obtain r st1 where r: "run_state (startAdapter env spec lang) st = (r, st1)" by fastforce
  with startAdapter_cap [OF assms(1,2), of env spec lang] have "cap_ok n st1" by simp
  then show ?thesis using cap_io [OF assms(3)] by (auto simp: run_try_call r split: outcome.split)
qed

lemma detect_spec_cases:
  "(\<exists>e. detect_spec env lang = State_Monad.return (Fail e)) \<or> (\<exists>spec. detect_spec env lang = done_with spec)"
  by (auto simp: detect_spec_def split: sum.split)

lemma CreateLaunch_cap:
  assumes "Reserve (d_mgr st) = None" "cap_ok n st"
  shows "cap_ok n (snd (run_state (CreateLaunch env args) st))"
  using detect_spec_cases [of env "sa_Lang args"] assms cap_after_start [OF assms cap.io_finish_launch]
  by (auto simp: CreateLaunch_def run_try_call [of "detect_spec _ _"] done_with_def split: sum.split)

lemma CreateAttach_cap:
  assumes "Reserve (d_mgr st) = None" "cap_ok n st"
  shows "cap_ok n (snd (run_state (CreateAttach env args) st))"
  using detect_spec_cases [of env "aa_Lang args"] assms cap_after_start [OF assms cap.io_finish_attach]
  by (auto simp: CreateAttach_def run_try_call [of "detect_spec _ _"] done_with_def split: sum.split)

lemma cap_try:
  assumes "cap_ok n (snd (run_state m st))" "\<And>e. state_io_rel cap_rel (h e)" "\<And>v. state_io_rel cap_rel (k v)"
  shows "cap_ok n (snd (run_state (try_call m h k) st))"
proof -
  obtain r st1 where r: "run_state m st = (r, st1)" by fastforce
  with assms(1) have "cap_ok n st1" by simp
  then show ?thesis
    using cap_io [OF assms(2)] cap_io [OF assms(3)] by (simp add: run_try_call r split: outcome.split)
qed

lemma cap_with_args:
  "(\<And>a. cap_ok n (snd (run_state (k a) st))) \<Longrightarrow> cap_ok n st \<Longrightarrow> cap_ok n (snd (run_state (with_args fs zero req k) st))"
  using cap_io [OF cap0.io_errResp] by (auto simp: with_args_def split: prod.split option.split)

lemma cap_reserve:
  assumes "cap_ok n st" "\<And>m e. state_io_rel cap_rel (h m e)"
    "Reserve (d_mgr st) = None \<Longrightarrow> cap_ok n (snd (run_state k st))"
  shows "cap_ok n (snd (run_state (do { m \<leftarrow> reads d_mgr; case Reserve m of Some e \<Rightarrow> h m e | None \<Rightarrow> k }) st))"
  using assms(3) cap_io [OF assms(2,1)] by (cases "Reserve (d_mgr st)") (simp_all add: reads_def)

lemma handleStart_cap: "cap_ok n st \<Longrightarrow> cap_ok n (snd (run_state (handleStart env req) st))"
proof -
  assume ok: "cap_ok n st"
  have "cap_ok n (snd (run_state (try_call (CreateLaunch env args) adapter_failed (started env args)) st))"
    if "Reserve (d_mgr st) = None" for args
    by (rule cap_try [OF CreateLaunch_cap [OF that ok] cap0.io_failed cap.io_started])
  then have reserve: "cap_ok n (snd (run_state (do { m \<leftarrow> reads d_mgr; case Reserve m of
        Some e \<Rightarrow> do { audit_Log env ev sid (args' e); done_with (exhausted m e) }
      | None \<Rightarrow> try_call (CreateLaunch env args) adapter_failed (started env args) }) st))" for ev sid args' args
    by (intro cap_reserve [OF ok]) (intro cap.run_rules)
  have denied: "cap_ok n (snd (run_state (do { audit_Log env ev sid args; errResp c m h }) st))" for ev sid args c m h
    by (rule cap_io [OF _ ok]) (intro cap.run_rules)
  show ?thesis
    unfolding handleStart_def Let_def
    by (rule cap_with_args [OF _ ok]) (auto split: option.split simp del: run_state_bind intro: reserve denied)
qed

lemma handleAttach_cap: "cap_ok n st \<Longrightarrow> cap_ok n (snd (run_state (handleAttach env req) st))"
proof -
  assume ok: "cap_ok n st"
  show ?thesis
    unfolding handleAttach_def
  proof (rule cap_with_args [OF cap_reserve [OF ok] ok], goal_cases)
    case 2
    then show ?case by (rule cap_try [OF CreateAttach_cap [OF _ ok] cap0.io_failed]) (intro cap.run_rules)
  qed (intro cap.run_rules)
qed

lemma cap_handle: "cap_ok n st \<Longrightarrow> cap_ok n (snd (handle env req st))"
proof -
  assume ok: "cap_ok n st"
  have "cap_ok n (snd (run_state (run_cmd env cmd req) st))" for cmd
  proof (cases "cmd = CmdStart \<or> cmd = CmdAttach")
    case True
    then show ?thesis using handleStart_cap [OF ok] handleAttach_cap [OF ok] by auto
  next
    case False
    then show ?thesis by (intro cap_io [OF _ ok] cap.io_run_other) auto
  qed
  moreover have "cap_ok n (snd (run_state (errResp c m h) st))" for c m h
    by (rule cap_io [OF cap0.io_errResp ok])
  ultimately show ?thesis by (simp add: handle_def dispatch_def split_beta Let_def split: option.split)
qed

section \<open>The evaluation gate\<close>

text \<open>
  A session that carries no expression: no condition on a breakpoint, no watch. \<open>gate_rel\<close> says that
  such a daemon stays so and that what it sends to adapters carries none either.
\<close>

definition no_code :: "session \<Rightarrow> bool" where
  "no_code s \<longleftrightarrow> (\<forall>(k, b) \<in> set (s_bpsByID s). bp_Condition b = []) \<and>
     (\<forall>b \<in> set (s_funcBPs s). fbp_Condition b = []) \<and> s_watches s = []"

definition calm :: "(session \<Rightarrow> session) \<Rightarrow> bool" where
  "calm f \<longleftrightarrow> (\<forall>s. no_code s \<longrightarrow> no_code (f s))"

definition code_free :: "'w dstate \<Rightarrow> bool" where
  "code_free st \<longleftrightarrow>
     (\<forall>(k, s) \<in> set (m_sessions (d_mgr st)). no_code s) \<and> (\<forall>s. d_new st = Some s \<longrightarrow> no_code s) \<and> d_store st = []"

definition gate_rel :: "'w dstate \<Rightarrow> 'w dstate \<Rightarrow> bool" where
  "gate_rel st st' \<longleftrightarrow> (code_free st \<longrightarrow> code_free st' \<and>
     (\<exists>log. d_sent st' = d_sent st @ log \<and> (\<forall>(c, r) \<in> set log. \<not> carries_code r)))"

lemma calmI: "(\<And>s. s_bpsByID (f s) = s_bpsByID s) \<Longrightarrow> (\<And>s. s_funcBPs (f s) = s_funcBPs s) \<Longrightarrow>
    (\<And>s. s_watches (f s) = s_watches s) \<Longrightarrow> calm f"
  by (simp add: calm_def no_code_def)

lemma calm_comp: "calm f \<Longrightarrow> calm g \<Longrightarrow> calm (\<lambda>s. f (g s))"
  by (simp add: calm_def)

lemma calm_fold: "(\<And>x. calm (f x)) \<Longrightarrow> calm (fold f xs)"
  by (induction xs) (auto simp: calm_def)

lemma no_code_sub:
  "no_code s \<Longrightarrow> set (s_bpsByID t) \<subseteq> set (s_bpsByID s) \<Longrightarrow> set (s_funcBPs t) \<subseteq> set (s_funcBPs s) \<Longrightarrow>
   s_watches t = s_watches s \<Longrightarrow> no_code t"
  unfolding no_code_def by fastforce

lemma calm_bump: "no_code s \<Longrightarrow> no_code (s\<lparr>s_bpsByID := bump_bps h (s_bpsByID s), s_funcBPs := bump_funcs h (s_funcBPs s)\<rparr>)"
  by (auto simp: no_code_def bump_bps_def bump_funcs_def split: if_splits)

lemma calm_hit_loop: "no_code s \<Longrightarrow> no_code (snd (hit_loop ord hids s))"
  by (induction hids arbitrary: s) (simp_all add: split_beta Let_def calm_bump)

lemma calm_notify: "calm (notifyWaiters ev)"
  by (rule calmI) (simp_all add: notifyWaiters_def)

lemma calm_handleStopped: "calm (handleStopped ord reason tid hids)"
proof -
  have "no_code (s\<lparr>s_state := x, s_currentThread := tid, s_lastPauseReason := r, s_lastHitBP := h, s_lastLocation := l\<rparr>) = no_code s"
    for s x r h l by (simp add: no_code_def)
  moreover have "no_code (s\<lparr>s_onceQ := q\<rparr>) = no_code s" for s q by (simp add: no_code_def)
  moreover have "no_code (notifyWaiters ev s) = no_code s" for ev s by (simp add: no_code_def notifyWaiters_def)
  ultimately show ?thesis
    using calm_hit_loop by (simp add: calm_def handleStopped_def split_beta Let_def)
qed

lemma calm_handleEvent: "calm (handleEvent ord ts ev)"
proof -
  have rec: "no_code (recordEvent ts ev s) = no_code s" for s
    by (simp add: no_code_def recordEvent_def push_event_def)
  show ?thesis
  proof (cases ev)
    case (StoppedEvent reason tid hids)
    then show ?thesis using calm_handleStopped rec by (simp add: calm_def handleEvent_def Let_def)
  qed (auto simp: calm_def handleEvent_def Let_def rec no_code_def recordEvent_def push_event_def recordOutput_def
        push_output_def handleExited_def handleTerminated_def notifyWaiters_def)
qed

lemma calm_RemoveBP: "no_code s \<Longrightarrow> no_code (snd (RemoveBP i s))"
  by (rule no_code_sub) (auto simp: RemoveBP_def map_del_def)

lemma calm_removeBPs: "no_code s \<Longrightarrow> no_code (snd (removeBPs is s))"
  by (induction "is" arbitrary: s) (simp_all add: split_beta Let_def calm_RemoveBP)

lemma calm_remove_ids: "no_code s \<Longrightarrow> no_code (snd (remove_ids is s))"
  by (induction "is" arbitrary: s) (simp_all add: split_beta Let_def calm_RemoveBP)

lemma calm_reply: "calm (SetBPReply i d v)"
  by (auto simp: calm_def no_code_def SetBPReply_def map_upd_def split: if_splits)

lemma calm_func_reply: "calm (UpdateFuncBP i d v)"
proof -
  have "b \<in> set (update_first p (\<lambda>b. b\<lparr>fbp_DAPID := d, fbp_Verified := v\<rparr>) fbs) \<Longrightarrow>
      \<forall>b \<in> set fbs. fbp_Condition b = [] \<Longrightarrow> fbp_Condition b = []" for p fbs b
    by (induction fbs) (auto split: if_splits)
  then show ?thesis unfolding calm_def no_code_def UpdateFuncBP_def by (auto split: prod.splits)
qed

lemma calm_replies: "calm (apply_replies bps replies)" "calm (apply_func_replies fbs replies)"
  unfolding apply_replies_def apply_func_replies_def
  by (rule calm_fold, simp add: split_beta calm_reply calm_func_reply)+

lemma calm_simple:
  "calm (watchAdapterExit x)" "calm (\<lambda>s. s\<lparr>s_onceQ := q s\<rparr>)" "calm (\<lambda>s. snd (installStateWaiter b s))"
  "calm (dropWaiter ch)" "calm (\<lambda>s. s\<lparr>s_pendingConfigDone := pc\<rparr>)" "calm (SetLastLocation l)"
  "calm (SetExcFilters excs)" "calm (\<lambda>s. s\<lparr>s_caps := caps\<rparr>)"
  by (rule calmI; simp add: watchAdapterExit_def notifyWaiters_def installStateWaiter_def dropWaiter_def SetLastLocation_def
      SetExcFilters_def split_beta Let_def split: option.split)+

lemma calm_more:
  "calm (\<lambda>s. snd (clearOnceBPs ord is s))" "calm (\<lambda>s. snd (RemoveBP i s))" "calm (\<lambda>s. snd (remove_ids (sel s) s))"
  "calm (\<lambda>s. snd (RemoveWatch i s))" "calm ClearWatches" "calm CloseSession"
  by (simp_all add: calm_def clearOnceBPs_def split_beta Let_def calm_removeBPs calm_RemoveBP calm_remove_ids)
     (simp_all add: no_code_def RemoveWatch_def ClearWatches_def CloseSession_def)

lemma calm_add_bp: "(\<And>i. bp_Condition (mk i) = []) \<Longrightarrow> calm (add_bp mk)"
  by (auto simp: calm_def no_code_def add_bp_def PutBP_def AllocBP_def map_put_def split: if_splits)

lemma calm_add_func_bp: "(\<And>i. fbp_Condition (mk i) = []) \<Longrightarrow> calm (add_func_bp mk)"
  by (auto simp: calm_def no_code_def add_func_bp_def PutFuncBP_def AllocBP_def)

lemma gate_rel_refl: "gate_rel st st"
  by (simp add: gate_rel_def)

lemma gate_rel_trans: "gate_rel st st1 \<Longrightarrow> gate_rel st1 st2 \<Longrightarrow> gate_rel st st2"
  by (fastforce simp: gate_rel_def)

lemma gate_rel_same: "(code_free st \<Longrightarrow> code_free st') \<Longrightarrow> d_sent st' = d_sent st \<Longrightarrow> gate_rel st st'"
  by (simp add: gate_rel_def)

lemma gate_upd_obj: "calm f \<Longrightarrow> gate_rel st (upd_obj c f st)"
proof (rule gate_rel_same)
  assume f: "calm f" and st: "code_free st"
  have "no_code s" if "(k, s) \<in> set (m_sessions (put_obj c f (d_mgr st)))" for k s
    using that f st by (auto simp: put_obj_def calm_def code_free_def split: if_splits)
  moreover have "no_code s" if "map_option (\<lambda>s. if s_cli s = c then f s else s) (d_new st) = Some s" for s
    using that f st by (auto simp: calm_def code_free_def split: if_splits)
  ultimately show "code_free (upd_obj c f st)" using st by (auto simp: code_free_def upd_obj_def)
qed (simp add: upd_obj_def)

lemma gate_simple:
  "gate_rel st (st\<lparr>d_world := w\<rparr>)" "gate_rel st (st\<lparr>d_orders := n\<rparr>)" "gate_rel st (st\<lparr>d_inits := is\<rparr>)"
  "gate_rel st (st\<lparr>d_background := bg\<rparr>)" "gate_rel st (st\<lparr>d_audit := a\<rparr>)" "gate_rel st (st\<lparr>d_shutdown := sd\<rparr>)"
  by (rule gate_rel_same; simp add: code_free_def)+

lemma gate_sent: "\<not> carries_code r \<Longrightarrow> gate_rel st (st\<lparr>d_sent := d_sent st @ [(c, r)]\<rparr>)"
  by (simp add: gate_rel_def code_free_def)

interpretation gate0: daemon_relation gate_rel calm "\<lambda>r. \<not> carries_code r"
  by unfold_locales
     (erule (1) gate_rel_trans |
      simp add: gate_rel_refl gate_upd_obj gate_simple gate_sent calm_handleEvent calm_simple calm_more calm_replies)+

lemma find_obj_in: "find_obj c m = Some s \<Longrightarrow> \<exists>k. (k, s) \<in> set (m_sessions m)"
proof -
  assume "find_obj c m = Some s"
  then have "s \<in> set (map snd (m_sessions m))" unfolding find_obj_def find_Some_iff by (metis nth_mem)
  then show ?thesis by force
qed

lemma code_free_obj: "code_free st \<Longrightarrow> no_code (obj c st)"
proof -
  assume st: "code_free st"
  have "no_code (newSession c [] [])" by (simp add: no_code_def newSession_def)
  with st show ?thesis
    by (auto simp: obj_def code_free_def split: option.split dest!: find_obj_in)
qed

text \<open>Computations that depend on the session object they read.\<close>

lemma gate_reads_sess:
  assumes "\<And>s. no_code s \<Longrightarrow> state_io_rel gate_rel (k s)"
  shows "state_io_rel gate_rel (State_Monad.bind (sess c) k)"
  using assms code_free_obj [of _ c]
  by (fastforce simp: state_io_rel_def sess_def reads_def gate_rel_def)

lemma gate_sync:
  assumes "\<And>b. sb_Condition (conv b) = bp_Condition b"
  shows "state_io_rel gate_rel (sync_file conv env c file)"
proof -
  have "\<not> carries_code (ReqSetBreakpoints file (map conv (BPsForFile ord file s)))" if "no_code s" for s ord
    using that assms by (auto simp: no_code_def BPsForFile_def AllBPs_def list_ex_iff)
  then show ?thesis
    unfolding sync_file_def SetBreakpoints_def Let_def
    by (intro gate0.io_bind gate0.io_order gate_reads_sess gate0.handler_rules)
qed

lemma gate_sync_funcs: "state_io_rel gate_rel (sync_funcs env c)"
proof -
  have "\<not> carries_code (ReqSetFunctionBreakpoints (map (function_bp_of l) (s_funcBPs s)))" if "no_code s" for s l
    using that by (auto simp: no_code_def function_bp_of_def list_ex_iff)
  then show ?thesis
    unfolding sync_funcs_def SetFunctionBreakpoints_def Let_def
    by (intro gate_reads_sess gate0.handler_rules)
qed

lemma resumes_no_code: "resumes r \<Longrightarrow> \<not> carries_code r"
  by (cases r) simp_all

lemma inspects_no_code: "only_inspects r \<Longrightarrow> \<not> carries_code r"
  by (cases r) (simp_all add: only_inspects_def)

lemma gate_set_new:
  assumes "\<And>s. no_code s \<Longrightarrow> no_code (f s)"
  shows "gate_rel st (st\<lparr>d_new := map_option f (d_new st)\<rparr>)"
  by (rule gate_rel_same) (auto simp: code_free_def assms)

lemma gate_drop: "gate_rel st (st\<lparr>d_new := None\<rparr>)"
  by (rule gate_rel_same) (auto simp: code_free_def)

lemma gate_register: "d_new st = Some s \<Longrightarrow> gate_rel st (st\<lparr>d_mgr := register s (d_mgr st), d_new := None\<rparr>)"
  by (rule gate_rel_same) (auto simp: code_free_def register_def map_put_def split: if_splits)

lemma gate_remove: "gate_rel st (st\<lparr>d_mgr := Remove ord sid (d_mgr st)\<rparr>)"
  by (rule gate_rel_same) (auto simp: code_free_def Remove_def Let_def map_del_def)

lemma gate_default: "SetDefault sid (d_mgr st) = (None, m) \<Longrightarrow> gate_rel st (st\<lparr>d_mgr := m\<rparr>)"
  by (rule gate_rel_same) (auto simp: code_free_def SetDefault_def split: if_splits)

lemma gate_save: "gate_rel st (save_store env sid st)"
proof (rule gate_rel_same)
  assume st: "code_free st"
  then have "s_watches s = []" if "map_of (m_sessions (d_mgr st)) sid = Some s" for s
    using that by (auto simp: code_free_def no_code_def dest: map_of_SomeD)
  with st show "code_free (save_store env sid st)"
    by (auto simp: code_free_def save_store_def SaveWatches_def Let_def map_del_def split: option.split)
qed (simp add: save_store_def split: option.split)

lemma gate_load: "gate_rel st (load_store env c st)"
proof (rule gate_rel_same)
  assume st: "code_free st"
  then have "LoadWatches h e (d_store st) s = (s, [])" for h e s
    by (simp add: code_free_def LoadWatches_def Let_def)
  then have "load_store env c st = (upd_obj c (\<lambda>s. s) st)\<lparr>d_store := []\<rparr>" by (simp add: load_store_def)
  moreover have "code_free (upd_obj c (\<lambda>s. s) st)"
    using gate_upd_obj [of "\<lambda>s. s" st c] st by (simp add: calm_def gate_rel_def)
  ultimately show "code_free (load_store env c st)" by (simp add: code_free_def)
qed (simp add: load_store_def upd_obj_def Let_def)

lemma gate_new: "gate_rel st (st\<lparr>d_new := Some (newSession (d_nextCli st) sid lang), d_nextCli := Suc (d_nextCli st)\<rparr>)"
  by (rule gate_rel_same) (auto simp: code_free_def newSession_def no_code_def)

interpretation gate: table_relation gate_rel calm "\<lambda>r. \<not> carries_code r"
proof (unfold_locales, goal_cases)
  case 4
  show ?case by (rule calm_add_bp) (simp add: until_bp_def)
next
  case (8 f)
  then show ?case by (intro gate_set_new) (simp add: no_code_def)
qed (simp_all add: inspects_no_code resumes_no_code gate_sync source_bp_of_def line_cond_bp_of_def gate_sync_funcs
      gate_drop gate_register gate_remove gate_default gate_save gate_load gate_new gate_simple calm_simple calm_more)

lemma gate_watches: "state_io_rel gate_rel (evaluateWatches env c frm)"
  unfolding evaluateWatches_def Let_def
proof (rule gate_reads_sess)
  fix s
  assume "no_code s"
  then have "s_watches s = []" by (simp add: no_code_def)
  then show "state_io_rel gate_rel
      (if s_state s \<noteq> StatePaused then done_with (map (\<lambda>w. (watch_entry_of w)\<lparr>we_Error := ''not paused''\<rparr>) (s_watches s))
       else try_call (resolveFrameID env c None frm)
              (\<lambda>e. done_with (map (\<lambda>w. (watch_entry_of w)\<lparr>we_Error := ce_msg e\<rparr>) (s_watches s)))
              (\<lambda>fid. each (eval_watch env c fid) (s_watches s)))"
    by simp (intro impI conjI gate.inspect_rules)
qed

lemma gate_run_cmd:
  assumes "\<not> AllowEval (e_policy env)" "cmd \<noteq> CmdPrint" "cmd \<noteq> CmdGlobals"
  shows "state_io_rel gate_rel (run_cmd env cmd req)"
proof -
  have off: "EvalEnabled (e_policy env) \<noteq> None" using assms(1) by (simp add: EvalEnabled_def)
  have "state_io_rel gate_rel (handleWatch env req)"
    by (rule gate.io_handleWatch [OF gate_watches]) (simp add: off)
  moreover have "state_io_rel gate_rel (handleEval env req)" by (rule gate.io_handleEval) (simp add: off)
  moreover have "state_io_rel gate_rel (handleSet env req)" by (rule gate.io_handleSet) (simp add: off)
  moreover have "state_io_rel gate_rel (handleBreak env req)"
    by (rule gate.io_handleBreak) (simp add: off calm_add_bp new_bp_def)
  moreover have "state_io_rel gate_rel (handleBreakFn env req)"
    by (rule gate.io_handleBreakFn) (simp add: off calm_add_func_bp new_func_bp_def)
  ultimately show ?thesis using assms(2,3)
    by (cases cmd)
       (auto simp del: run_cmd.simps(2) intro: gate.io_shutdown gate.io_handleAdapters gate.io_handleSessions gate.io_handleUse
          gate.io_handleStop gate.io_handleState gate.io_handleBreaks gate.io_handleUnbreak gate.io_handleExec gate.io_handlePause
          gate.io_handleStack gate.io_handleThreads gate.io_handleLocals gate.io_handleSnapshot gate.io_handleStart gate.io_handleAttach
          gate.io_handleFields gate.io_handleSource gate.io_handleOutput gate.io_handleEvents gate.io_handleListen
          gate.io_handleRestart gate.io_handleBreakEx gate.io_handleUntil)
qed

lemma gate_dispatch:
  assumes "\<not> AllowEval (e_policy env)" "rq_Cmd req \<notin> {''print'', ''globals''}"
  shows "state_io_rel gate_rel (dispatch env req)"
proof -
  have "cmd \<noteq> CmdPrint \<and> cmd \<noteq> CmdGlobals" if "map_of commands (rq_Cmd req) = Some cmd" for cmd
    using assms(2) map_of_SomeD [OF that] by (auto simp: commands_def)
  then show ?thesis
    unfolding dispatch_def by (intro gate.launch_rules gate_run_cmd assms(1)) auto
qed

lemma serve_no_code:
  assumes "\<not> AllowEval (e_policy env)" "\<forall>req \<in> set reqs. rq_Cmd req \<notin> {''print'', ''globals''}"
  shows "gate_rel st (snd (serve env reqs st))"
  using assms(2)
proof (induction reqs arbitrary: st)
  case (Cons req reqs)
  then have "gate_rel st (snd (handle env req st))"
    using gate_dispatch [OF assms(1), of req] by (simp add: handle_def split_beta Let_def state_io_rel_def)
  then show ?case
    using Cons by (auto simp: split_beta Let_def intro: gate_rel_trans split: response.split)
qed (simp add: gate_rel_refl)

end
