(* ===== verification/Demo_World.thy ===== *)
theory Demo_World
  imports Daemon_Safety
begin

text \<open>
  A concrete environment: one Go adapter whose debuggee stops at every resume, a clock that stands
  still and a file system with one file. The witnesses of the daemon's properties run the model on it.
\<close>

definition demo_host :: host where
  "demo_host = \<lparr>h_env = [(''HOME'', ''/h'')], h_cwd = Some ''/w'', h_exe = None,
     h_lookpath = (\<lambda>p. if p = ''dlv'' then Some ''/bin/dlv'' else None), h_isdir = (\<lambda>_. None),
     h_debugpy = (\<lambda>_. False), h_jar = (\<lambda>_. Inl ''no jar''), h_goenv = None\<rparr>"

definition demo_caps :: capabilities where
  "demo_caps = \<lparr>SupportsRestartRequest = True, SupportsFunctionBreakpoints = True,
     SupportsLoadedSourcesRequest = False, ExceptionBreakpointFilters = [(''panic'', ''All panics'')]\<rparr>"

definition demo_frame :: dap_frame where
  "demo_frame = \<lparr>df_Id = 7, df_Name = ''main.main'', df_Source = Some ''/w/main.go'', df_Line = 3, df_Column = 1\<rparr>"

definition demo_bp_reply :: "nat \<Rightarrow> dap_bp" where
  "demo_bp_reply i = \<lparr>db_Id = int i + 100, db_Verified = True, db_Message = [], db_Line = 0\<rparr>"

fun demo_reply :: "dap_request \<Rightarrow> dap_reply" where
  "demo_reply (ReqInitialize _) = RepCaps demo_caps"
| "demo_reply (ReqSetBreakpoints _ bs) = RepBreakpoints (map demo_bp_reply [0..<length bs])"
| "demo_reply (ReqSetFunctionBreakpoints bs) = RepBreakpoints (map demo_bp_reply [0..<length bs])"
| "demo_reply (ReqSetExceptionBreakpoints _) = RepBreakpoints []"
| "demo_reply (ReqStackTrace _ _) = RepFrames [demo_frame]"
| "demo_reply (ReqScopes _) = RepScopes [(''Locals'', 1)]"
| "demo_reply (ReqVariables _) = RepVariables [\<lparr>dv_Name = ''x'', dv_Value = ''1'', dv_Type = ''int'', dv_Ref = 0\<rparr>]"
| "demo_reply (ReqEvaluate _ _ _) = RepEvaluate ''1'' ''int'' 0"
| "demo_reply (ReqSetVariable _ _ v) = RepSetVariable v ''int''"
| "demo_reply ReqThreads = RepThreads [(1, ''main'')]"
| "demo_reply (ReqSource _ _) = RepSource ''package main''"
| "demo_reply _ = RepEmpty"

definition demo_ticks :: "nat \<Rightarrow> dap_request \<Rightarrow> (nat \<times> tick) list" where
  "demo_ticks c r = (if resumes r then [(c, TickEvent 5 (StoppedEvent ''breakpoint'' 1 []))] else [])"

definition demo_env :: "policy \<Rightarrow> unit env" where
  "demo_env p = \<lparr>e_policy = p, e_audit = True, e_host = demo_host, e_hash = id, e_writable = True,
     e_order = (\<lambda>_ n. [0..<n]), e_time_error = (\<lambda>_. ''parse error''), e_now = (\<lambda>_. 0),
     e_stat = (\<lambda>_ f. if f = ''/w/main.go'' then Some False else None),
     e_open = (\<lambda>_ f. if f = ''/w/main.go'' then Some (''a'' @ [CHR 0x0A] @ ''b'' @ [CHR 0x0A] @ ''c'', True) else None),
     e_dap = (\<lambda>w c limit r. ((), demo_ticks c r, Inr (demo_reply r))),
     e_send = (\<lambda>w c r. ((), [(c, TickEvent 1 InitializedEvent)], None)),
     e_async = (\<lambda>w c. ((), [], AsyncReply)),
     e_await = (\<lambda>w c t. ((), [], Elapsed)),
     e_spawn = (\<lambda>w argv t. ((), Inr ''ab12cd''))\<rparr>"

definition mk_req :: "string \<Rightarrow> (string \<times> json) list \<Rightarrow> request" where
  "mk_req cmd args = \<lparr>rq_ID = 1, rq_Cmd = cmd, rq_Sess = [], rq_Args = RawJson (JObj args)\<rparr>"

definition start_req :: "bool \<Rightarrow> request" where
  "start_req ro = mk_req ''start'' [(''lang'', JStr ''go''), (''program'', JStr ''/w/main.go''), (''readOnly'', JBool ro)]"

definition open_policy :: policy where
  "open_policy = policy_zero\<lparr>AllowEval := True\<rparr>"

definition demo_run :: "policy \<Rightarrow> request list \<Rightarrow> (go_int \<times> response) list \<times> unit dstate" where
  "demo_run p reqs = serve (demo_env p) reqs (start_daemon (demo_env p) [] ())"


definition demo_session :: session where
  "demo_session = (newSession 0 ''s1'' ''go'')\<lparr>s_state := StatePaused, s_Program := ''/w/main.go'', s_currentThread := 1, s_caps := demo_caps\<rparr>"

definition demo_state :: "session \<Rightarrow> unit dstate" where
  "demo_state s = \<lparr>d_world = (), d_mgr = register s NewManager, d_new = None, d_inits = [], d_nextCli = 1, d_orders = 0,
     d_store = [], d_audit = [], d_sent = [], d_background = [], d_startedAt = 0, d_shutdown = False\<rparr>"

end
