(* ===== verification/Daemon_Props.thy ===== *)
theory Daemon_Props
  imports Demo_World
begin

text \<open>
  The properties of the daemon as a whole, over arbitrary sequences of requests, arbitrary adapters
  and arbitrary behaviour of the goroutines beside the handlers.
\<close>

section \<open>What the log of sent requests depends on\<close>

lemma d_sent_upd_obj [simp]: "d_sent (upd_obj c f st) = d_sent st"
  by (simp add: upd_obj_def)

lemma d_sent_plain_tick [simp]: "d_sent (plain_tick env ct st) = d_sent st"
  by (cases "(env, ct, st)" rule: plain_tick.cases) (simp_all add: next_order_def Let_def)

lemma d_sent_fold: "(\<And>x st. d_sent (f x st) = d_sent st) \<Longrightarrow> d_sent (fold f xs st) = d_sent st"
  by (induction xs arbitrary: st) simp_all

lemma d_sent_send_background [simp]: "d_sent (send_background env c r st) = d_sent st"
  by (simp add: send_background_def split_beta Let_def d_sent_fold)

lemma d_sent_clear_tick [simp]: "d_sent (clear_tick env c i st) = d_sent st"
  by (simp add: clear_tick_def next_order_def split_beta Let_def d_sent_fold)

lemma d_sent_deliver [simp]: "d_sent (deliver env ts st) = d_sent st"
proof -
  have "d_sent (run_tick env ct st) = d_sent st" for ct st
    by (cases "(env, ct, st)" rule: run_tick.cases) (simp_all del: plain_tick.simps)
  then show ?thesis by (simp add: deliver_def d_sent_fold)
qed

lemma d_sent_Call [simp]: "d_sent (snd (run_state (Call env c limit r) st)) = d_sent st @ [(c, r)]"
  by (simp add: Call_def split_beta Let_def)

text \<open>The log only grows.\<close>

definition log_rel :: "(dap_request \<Rightarrow> bool) \<Rightarrow> 'w dstate \<Rightarrow> 'w dstate \<Rightarrow> bool" where
  "log_rel P st st' \<longleftrightarrow> (\<exists>log. d_sent st' = d_sent st @ log \<and> (\<forall>(c, r) \<in> set log. P r))"

lemma log_rel_same: "d_sent st' = d_sent st \<Longrightarrow> log_rel P st st'"
  by (simp add: log_rel_def)

lemma log_rel_trans: "log_rel P st st1 \<Longrightarrow> log_rel P st1 st2 \<Longrightarrow> log_rel P st st2"
  by (fastforce simp: log_rel_def)

lemma log_daemon_relation: "daemon_relation (log_rel P) (\<lambda>_. True) P"
  by unfold_locales (erule (1) log_rel_trans | simp add: log_rel_same | simp add: log_rel_def)+

interpretation look: inspecting_relation "log_rel only_inspects" "\<lambda>_. True" only_inspects
  by (intro inspecting_relation.intro log_daemon_relation inspecting_relation_axioms.intro) simp

definition bare_sync :: "dap_request \<Rightarrow> bool" where
  "bare_sync r \<longleftrightarrow> (\<exists>file bs. r = ReqSetBreakpoints file bs \<and> (\<forall>b \<in> set bs. sb_HitCondition b = [] \<and> sb_LogMessage b = []))"

interpretation bare: daemon_relation "log_rel bare_sync" "\<lambda>_. True" bare_sync
  by (rule log_daemon_relation)

lemma log_rel_mono: "log_rel P st st' \<Longrightarrow> set (d_sent st) \<subseteq> set (d_sent st')"
  by (auto simp: log_rel_def)

section \<open>Invariant, cap and gate\<close>

text \<open>
  C1. Whatever requests arrive, whatever the adapters answer and whatever happens beside the handlers,
  the daemon stays well formed: unique session ids, a default that exists, one object per DAP client,
  and every session within its own invariant (unique breakpoint and watch ids below their counters,
  bounded logs, no blocked waiter after a terminal event).
\<close>

theorem daemon_invariant: "ds_inv (snd (serve env reqs (start_daemon env store w)))"
  by (rule serve_induct [of ds_inv]) (simp_all add: inv_handle start_daemon_inv)

text \<open>
  With \<open>SL_DBG_MAX_SESSIONS\<close> set, requests served one after the other never leave more live
  sessions than the cap.
\<close>

theorem session_cap:
  assumes "0 < MaxSessions (e_policy env)"
  shows "int (length (m_sessions (d_mgr (snd (serve env reqs (start_daemon env store w)))))) \<le> MaxSessions (e_policy env)"
proof -
  let ?n = "MaxSessions (e_policy env)"
  have "cap_ok ?n (start_daemon env store w)"
    using assms by (simp add: cap_ok_def n_objs_def start_daemon_def SetMaxSessions_def NewManager_def)
  then have "cap_ok ?n (snd (serve env reqs (start_daemon env store w)))"
    by (rule serve_induct [of "cap_ok ?n", rotated]) (rule cap_handle)
  with assms show ?thesis by (simp add: cap_ok_def n_objs_def)
qed

theorem session_cap_witness:
  "int (length (m_sessions (d_mgr (snd (demo_run (policy_zero\<lparr>MaxSessions := 1\<rparr>) [start_req False, start_req False]))))) \<le> 1"
  using session_cap [of "demo_env (policy_zero\<lparr>MaxSessions := 1\<rparr>)" "[start_req False, start_req False]" "[]" "()"]
  by (simp add: demo_run_def demo_env_def)

text \<open>
  The check of the cap and the registration of the session are separate critical sections: two
  requests that both passed \<open>Reserve\<close> both register, and the table then exceeds the cap. (\<open>register\<close>
  itself never refuses, although the comment on \<open>ErrTooManySessions\<close> says it may.)
\<close>

theorem cap_race:
  assumes "int (length (m_sessions m)) + 1 = m_maxSessions m" "s_ID s1 \<noteq> s_ID s2"
    "s_ID s1 \<notin> fst ` set (m_sessions m)" "s_ID s2 \<notin> fst ` set (m_sessions m)"
  shows "Reserve m = None \<and> int (length (m_sessions (register s2 (register s1 m)))) = m_maxSessions (register s2 (register s1 m)) + 1"
  using assms by (simp add: Reserve_def register_def length_put)

theorem cap_race_witness:
  "Reserve (SetMaxSessions 1 NewManager) = None \<and>
   int (length (m_sessions (register (newSession 1 ''b'' ''go'') (register (newSession 0 ''a'' ''go'') (SetMaxSessions 1 NewManager))))) =
   m_maxSessions (register (newSession 1 ''b'' ''go'') (register (newSession 0 ''a'' ''go'') (SetMaxSessions 1 NewManager))) + 1"
  by (rule cap_race) (simp_all add: SetMaxSessions_def NewManager_def newSession_def)



section \<open>Inspection and read-only sessions\<close>

definition looking :: "string list" where
  "looking = [''ping'', ''adapters'', ''sessions'', ''state'', ''breaks'', ''stack'', ''threads'', ''locals'', ''snapshot'',
     ''fields'', ''source'', ''output'', ''events'', ''listen'']"

text \<open>
  The commands that look at a session send adapters only requests that look: nothing that lets
  the program run, nothing that evaluates or assigns in it, no breakpoints.
\<close>

theorem inspection_only:
  assumes "rq_Cmd req \<in> set looking"
  shows "\<exists>log. d_sent (snd (handle env req st)) = d_sent st @ log \<and> list_all (\<lambda>(c, r). only_inspects r) log"
proof -
  have "state_io_rel (log_rel only_inspects) (dispatch env req)"
    using assms unfolding looking_def dispatch_def commands_def
    by (auto intro: look.inspect_rules look.io_handleAdapters look.io_handleSessions look.io_handleState look.io_handleBreaks
        look.io_handleStack look.io_handleThreads look.io_handleLocals look.io_handleSnapshot look.io_handleFields
        look.io_handleSource look.io_handleOutput look.io_handleEvents look.io_handleListen)
  then show ?thesis by (simp add: state_io_rel_def handle_def split_beta Let_def log_rel_def list_all_iff)
qed

theorem inspection_only_witness:
  "\<exists>log. d_sent (snd (handle (demo_env policy_zero) (mk_req ''locals'' []) (demo_state demo_session))) =
     d_sent (demo_state demo_session) @ log \<and> list_all (\<lambda>(c, r). only_inspects r) log"
  by (rule inspection_only) (simp add: looking_def mk_req_def)

definition mutating :: "string list" where
  "mutating = [''break'', ''unbreak'', ''break-fn'', ''break-ex'', ''continue'', ''step'', ''next'', ''finish'', ''eval'', ''set'']"

lemma with_session_run:
  "Get (d_mgr st) (rq_Sess req) = Inr s \<Longrightarrow> run_state (with_session env req k) st = run_state (k (s_cli s) s) st"
  by (simp add: with_session_def reads_def)

definition refused :: "'w dstate \<Rightarrow> response outcome \<times> 'w dstate \<Rightarrow> bool" where
  "refused st r \<longleftrightarrow> (case fst r of Ok a \<Rightarrow> has_code ''READ_ONLY_MODE'' a \<or> has_code ''USAGE_ERROR'' a | _ \<Rightarrow> False) \<and>
     (\<exists>log. snd r = st\<lparr>d_audit := log\<rparr>)"

lemma same_audit: "\<exists>log. st = st\<lparr>d_audit := log\<rparr>"
  by (rule exI [of _ "d_audit st"]) simp

lemma refused_basic:
  "refused st (run_state (errResp ''USAGE_ERROR'' m h) st)"
  "refused st (run_state (done_with read_only_resp) st)"
  "refused st (run_state (do { audit_Log env ev sid args; done_with read_only_resp }) st)"
  using same_audit [of st]
  by (auto simp: refused_def errResp_def done_with_def read_only_resp_def audit_Log_def modify_def)

lemma refused_args: "(\<And>a. refused st (run_state (k a) st)) \<Longrightarrow> refused st (run_state (with_args fs zero req k) st)"
  using refused_basic by (auto simp: with_args_def split: prod.split option.split)

lemma refused_gate: "s_ReadOnly s \<Longrightarrow> refused st (run_state (refuseIfReadOnly s k) st)"
  using refused_basic by (simp add: refuseIfReadOnly_def)



lemma Call_in_log: "(c, r) \<in> set (d_sent (snd (run_state (Simple env c r) st)))"
proof -
  obtain x st1 where "run_state (Call env c None r) st = (x, st1)" by fastforce
  then show ?thesis
    using d_sent_Call [of env c None r st]
    by (cases x) (simp_all add: Simple_def run_try_call done_with_def)
qed

text \<open>
  \<open>restart\<close> is not one of those commands: it does not look at the read-only flag, so a read-only
  session whose adapter supports it is restarted.
\<close>

theorem restart_ignores_read_only:
  assumes "rq_Cmd req = ''restart''" "Get (d_mgr st) (rq_Sess req) = Inr s" "s_ReadOnly s"
    "SupportsRestartRequest (s_caps s)"
  shows "(s_cli s, ReqRestart) \<in> set (d_sent (snd (handle env req st)))"
proof -
  obtain x st1 where x: "run_state (Simple env (s_cli s) ReqRestart) st = (x, st1)" by fastforce
  with Call_in_log [of "s_cli s" ReqRestart env st] have "(s_cli s, ReqRestart) \<in> set (d_sent st1)" by simp
  then have "(s_cli s, ReqRestart) \<in> set (d_sent (snd (run_state (handleRestart env req) st)))"
    using x assms(4)
    by (cases x) (simp_all add: handleRestart_def with_session_run [OF assms(2)] run_try_call ok_resp_def adapter_failed_def errResp_def done_with_def)
  then show ?thesis
    using assms(1) by (simp add: handle_def dispatch_def commands_def split_beta Let_def)
qed

theorem restart_ignores_read_only_witness:
  "(0, ReqRestart) \<in> set (d_sent (snd (handle (demo_env policy_zero) (mk_req ''restart'' [])
     (demo_state (demo_session\<lparr>s_ReadOnly := True\<rparr>)))))"
  using restart_ignores_read_only [of "mk_req ''restart'' []" "demo_state (demo_session\<lparr>s_ReadOnly := True\<rparr>)"
      "demo_session\<lparr>s_ReadOnly := True\<rparr>" "demo_env policy_zero"]
  by (simp add: mk_req_def demo_state_def Get_def Get_key_def register_def NewManager_def demo_session_def newSession_def
      map_put_def demo_caps_def)

lemma run_asserted_ok:
  "run_state (Call env c limit r) st = (Ok rep, st1) \<Longrightarrow> p rep = Some v \<Longrightarrow>
   run_state (asserted p (Call env c limit r)) st = (Ok v, st1)"
  by (simp add: asserted_def run_try_call done_with_def)

lemma state_of_asserted: "snd (run_state (asserted p m) st) = snd (run_state m st)"
proof -
  obtain x st1 where "run_state m st = (x, st1)" by fastforce
  then show ?thesis by (simp add: asserted_def run_try_call done_with_def split: outcome.split option.split)
qed

lemma resolveFrameID_ok:
  assumes "run_state (Call env c limit (ReqStackTrace (CurrentThread (obj c st)) 50)) st = (Ok (RepFrames fs), st1)" "fs \<noteq> []"
  shows "run_state (resolveFrameID env c limit idx) st = (Ok (df_Id (frame_at fs idx)), st1)"
  using assms by (simp add: resolveFrameID_def sess_def reads_def run_try_call StackTrace_def
      run_asserted_ok [OF assms(1)] done_with_def)

lemma look_runs: "state_io_rel (log_rel only_inspects) m \<Longrightarrow> x \<in> set (d_sent st) \<Longrightarrow> x \<in> set (d_sent (snd (run_state m st)))"
  using log_rel_mono by (fastforce simp: state_io_rel_def)

text \<open>
  C11. \<open>print\<close> asks neither the read-only flag nor the policy: whenever the current stack has a frame, it
  sends the caller's expression to the adapter for evaluation, with evaluation disabled too.
\<close>

theorem print_ignores_gates:
  assumes "rq_Cmd req = ''print''" "Get (d_mgr st) (rq_Sess req) = Inr s" "s_ReadOnly s" "\<not> AllowEval (e_policy env)"
    "unmarshalArgs print_args_fields print_args_zero (rq_Args req) = (args, None)" "pa_Expression args \<noteq> []"
    "run_state (Call env (s_cli s) (limit_of (pa_TimeoutSec args)) (ReqStackTrace (CurrentThread (obj (s_cli s) st)) 50)) st =
       (Ok (RepFrames fs), st1)" "fs \<noteq> []"
  shows "(s_cli s, ReqEvaluate (pa_Expression args) (df_Id (frame_at fs (pa_Frame args))) ''repl'')
    \<in> set (d_sent (snd (handle env req st)))"
proof -
  let ?c = "s_cli s" and ?limit = "limit_of (pa_TimeoutSec args)" and ?fid = "df_Id (frame_at fs (pa_Frame args))"
  let ?r = "ReqEvaluate (pa_Expression args) ?fid ''repl''"
  let ?ev = "Evaluate env ?c ?limit (pa_Expression args) ?fid ''repl''"
  obtain x st2 where x: "run_state ?ev st1 = (x, st2)" by fastforce
  have "d_sent (snd (run_state ?ev st1)) = d_sent st1 @ [(?c, ?r)]"
    by (simp add: Evaluate_def state_of_asserted)
  with x have logged: "(?c, ?r) \<in> set (d_sent st2)" by simp
  have "run_state (handlePrint env req) st =
      run_state (try_call ?ev adapter_failed (print_expanded env ?c args (pa_Expression args))) st1"
    using assms(5,6) resolveFrameID_ok [OF assms(7,8), of "pa_Frame args"]
    by (simp add: handlePrint_def with_args_def Let_def with_session_run [OF assms(2)] run_try_call [of "resolveFrameID _ _ _ _"])
  then have "(?c, ?r) \<in> set (d_sent (snd (run_state (handlePrint env req) st)))"
    using logged look_runs [OF look.io_print_expanded, of "(?c, ?r)" st2] look_runs [OF look.io_failed, of "(?c, ?r)" st2]
    by (cases x) (simp_all add: run_try_call x)
  then show ?thesis using assms(1) by (simp add: handle_def dispatch_def commands_def split_beta Let_def)
qed

theorem print_ignores_gates_witness:
  "(0, ReqEvaluate ''x'' 7 ''repl'') \<in> set (d_sent (snd (handle (demo_env policy_zero)
     (mk_req ''print'' [(''expression'', JStr ''x'')]) (demo_state (demo_session\<lparr>s_ReadOnly := True\<rparr>)))))"
proof -
  let ?st = "demo_state (demo_session\<lparr>s_ReadOnly := True\<rparr>)"
  have cli: "s_cli (demo_session\<lparr>s_ReadOnly := True\<rparr>) = 0" by (simp add: demo_session_def newSession_def)
  have "(s_cli (demo_session\<lparr>s_ReadOnly := True\<rparr>), ReqEvaluate (pa_Expression (print_args_zero\<lparr>pa_Expression := ''x''\<rparr>))
      (df_Id (frame_at [demo_frame] (pa_Frame (print_args_zero\<lparr>pa_Expression := ''x''\<rparr>)))) ''repl'') \<in>
      set (d_sent (snd (handle (demo_env policy_zero) (mk_req ''print'' [(''expression'', JStr ''x'')]) ?st)))"
    by (rule print_ignores_gates [of _ ?st _ _ _ _ "?st\<lparr>d_sent := [(0, ReqStackTrace 1 50)]\<rparr>"])
       (simp_all add: mk_req_def demo_state_def Get_def Get_key_def register_def NewManager_def demo_session_def newSession_def
         map_put_def demo_env_def policy_zero_def unmarshalArgs_def unmarshal_struct_def print_args_fields_def print_args_zero_def
         find_field_def dec_str_def first_error_def Call_def demo_ticks_def obj_def find_obj_def CurrentThread_def
         limit_of_def dec_zero_def deliver_def)
  then show ?thesis by (simp add: cli print_args_zero_def frame_at_def demo_frame_def)
qed

end
