(* ===== verification/Handler_Props.thy ===== *)
theory Handler_Props
  imports Daemon_Props
begin

text \<open>
  Properties of single requests: every request is answered or takes the daemon down, when exactly
  it does the latter, what the path jail of \<open>source\<close> lets through, that a stop is not lost between
  resume and wait, and what the breakpoint handlers send.
\<close>

section \<open>Requests are answered\<close>

definition answers :: "('s, 'a outcome) state \<Rightarrow> bool" where
  "answers m \<longleftrightarrow> (\<forall>st e. fst (run_state m st) \<noteq> Fail e)"

lemma answers_basic:
  "answers (done_with a)" "answers (State_Monad.return (Crash p))" "answers (errResp code msg hint)" "answers (ok_resp d)"
  "answers (adapter_failed e)"
  by (simp_all add: answers_def done_with_def errResp_def ok_resp_def adapter_failed_def)

lemma answers_bind: "(\<And>a. answers (f a)) \<Longrightarrow> answers (State_Monad.bind m f)"
  by (simp add: answers_def split_beta)

lemma answers_try: "(\<And>e. answers (h e)) \<Longrightarrow> (\<And>v. answers (k v)) \<Longrightarrow> answers (try_call m h k)"
  by (auto simp: answers_def try_call_def split: outcome.split prod.split)

lemma answers_and_then: "answers m \<Longrightarrow> (\<And>v. answers (k v)) \<Longrightarrow> answers (and_then m k)"
  by (auto simp: answers_def try_call_def split: outcome.split prod.split) (metis fst_conv)

lemma answers_if: "(b \<Longrightarrow> answers m) \<Longrightarrow> (\<not> b \<Longrightarrow> answers n) \<Longrightarrow> answers (if b then m else n)"
  by simp

lemma answers_cases:
  "(\<And>y. answers (f y)) \<Longrightarrow> answers m \<Longrightarrow> answers (case x of None \<Rightarrow> m | Some y \<Rightarrow> f y)"
  "(\<And>y. answers (g y)) \<Longrightarrow> (\<And>y. answers (k y)) \<Longrightarrow> answers (case z of Inl y \<Rightarrow> g y | Inr y \<Rightarrow> k y)"
  "(\<And>a b. answers (p a b)) \<Longrightarrow> answers (case ab of (a, b) \<Rightarrow> p a b)"
  "answers m \<Longrightarrow> (\<And>y ys. answers (q y ys)) \<Longrightarrow> answers (case l of [] \<Rightarrow> m | y # ys \<Rightarrow> q y ys)"
  by (simp_all split: option.split sum.split prod.split list.split)

lemma answers_each: "(\<And>x. answers (f x)) \<Longrightarrow> answers (each f xs)"
  by (induction xs) (auto intro: answers_basic answers_and_then)

lemmas answer_rules = answers_basic answers_and_then answers_try answers_bind answers_if answers_cases answers_each

lemma answers_gates:
  "answers (sessionNotFound env sid cause)"
  "(\<And>a. answers (ka a)) \<Longrightarrow> answers (with_args fs zero req ka)"
  "(\<And>c s. answers (ks c s)) \<Longrightarrow> answers (with_session env req ks)"
  "answers k \<Longrightarrow> answers (refuseIfReadOnly s k)"
  "answers k \<Longrightarrow> answers (if_eval_enabled env event s args hint k)"
  "answers (source_path f)" "answers (frame_of f)" "answers (fetchTopLocation env c)" "answers (currentTopFrame env c)"
  "answers (javaClassFromFrame env c limit idx)"
  unfolding sessionNotFound_def with_args_def with_session_def refuseIfReadOnly_def if_eval_enabled_def Let_def
    source_path_def frame_of_def fetchTopLocation_def currentTopFrame_def javaClassFromFrame_def
  by (intro answer_rules | simp)+

lemmas gate_rules = answers_gates answer_rules

lemma answers_break:
  "answers (handleBreak env req)" "answers (handleBreaks env req)" "answers (handleUnbreak env req)"
  "answers (handleBreakFn env req)" "answers (handleBreakEx env req)"
  unfolding handleBreak_def handleBreaks_def handleUnbreak_def handleBreakFn_def handleBreakEx_def place_bp_def
    place_func_bp_def Let_def
  by (intro gate_rules | simp)+

lemma answers_exec:
  "answers (clearOnceAt env c file line)" "answers (first_thread env c tid)"
  "(\<And>l. answers (after l)) \<Longrightarrow> answers (with_location env c after pi)"
  unfolding clearOnceAt_def first_thread_def with_location_def Let_def
  by (intro gate_rules | simp)+

lemma answers_running:
  "answers (handleExec env kind req)" "answers (handlePause env req)" "answers (handleState env req)"
  "answers (handleListen env req)" "answers (handleSessions env)" "answers (handleUse env req)"
  "answers (handleUntil env req)" "answers (handleRestart env req)"
  unfolding handleExec_def handlePause_def handleState_def handleListen_def handleSessions_def handleUse_def
    handleUntil_def run_until_def handleRestart_def Let_def
  by (intro answers_exec gate_rules | simp split: option.split)+

lemma answers_inspect:
  "answers (handleStack env req)" "answers (handleThreads env req)" "answers (handleLocals env req)"
  "answers (handleFields env req)" "answers (handleEval env req)" "answers (handleSet env req)"
  "answers (handleSnapshot env req)" "answers (handleGlobals env req)" "answers (handlePrint env req)"
  unfolding handleStack_def handleThreads_def handleLocals_def handleFields_def handleEval_def handleSet_def
    handleSnapshot_def handleGlobals_def handlePrint_def run_eval_def retry_qualified_def with_scopes_def scope_vars_def
    java_globals_def print_expanded_def Let_def
  by (intro gate_rules | simp)+

lemma answers_watch: "answers (evaluateWatches env c frm)" "answers (handleWatch env req)"
proof -
  show w: "answers (evaluateWatches env c frm)" for env :: "'a env" and c frm
    unfolding evaluateWatches_def eval_watch_def Let_def by (intro gate_rules | simp)+
  show "answers (handleWatch env req)"
    unfolding handleWatch_def Let_def by (intro w gate_rules | simp)+
qed

lemma answers_source: "answers (handleSource env req)" "answers (handleOutput env req)" "answers (handleEvents env req)"
  unfolding handleSource_def read_source_def source_answer_def default_location_def handleOutput_def handleEvents_def
    with_since_def Let_def
  by (intro gate_rules | simp)+

lemma answers_remove: "answers (remove_session env sid)"
  unfolding remove_session_def Close_def by (intro gate_rules | simp)+

lemma answers_launch:
  "answers (handleStart env req)" "answers (handleAttach env req)" "answers (handleStop env req)" "answers (handleAdapters env)"
  unfolding handleStart_def handleAttach_def handleStop_def handleAdapters_def started_def earlyTerminationResp_def Let_def
  by (intro answers_remove gate_rules | simp)+


section \<open>Crashes\<close>

lemma run_frame_of:
  "run_state (frame_of f) st =
     (case df_Source f of
        None \<Rightarrow> Crash ''invalid memory address or nil pointer dereference''
      | Some p \<Rightarrow> Ok \<lparr>fr_ID = df_Id f, fr_Name = df_Name f, fr_File = p, fr_Line = df_Line f,
                     fr_Column = df_Column f, fr_Function = df_Name f\<rparr>, st)"
  by (cases "df_Source f") (simp_all add: frame_of_def source_path_def run_try_call done_with_def)

lemma run_frames:
  "run_state (each frame_of fs) st =
     (if list_all (\<lambda>f. df_Source f \<noteq> None) fs
      then Ok (map (\<lambda>f. \<lparr>fr_ID = df_Id f, fr_Name = df_Name f, fr_File = the (df_Source f), fr_Line = df_Line f,
                        fr_Column = df_Column f, fr_Function = df_Name f\<rparr>) fs)
      else Crash ''invalid memory address or nil pointer dereference'', st)"
  by (induction fs) (auto simp: run_frame_of run_try_call done_with_def split: option.split)

text \<open>
  \<open>stack\<close> lists exactly the frames the adapter reported, unless one of them comes without a source
  (DAP leaves it out for frames of generated code): the nil pointer then takes the daemon down.
\<close>

theorem stack_crash:
  assumes "rq_Cmd req = ''stack''" "Get (d_mgr st) (rq_Sess req) = Inr s"
    "lax_args stack_args_fields stack_args_zero req = stack_args_zero"
    "run_state (Call env (s_cli s) None (ReqStackTrace (CurrentThread s) 20)) st = (Ok (RepFrames fs), st1)"
  shows "fst (handle env req st) =
    (if list_all (\<lambda>f. df_Source f \<noteq> None) fs
     then OkResp (DStack (map (\<lambda>f. \<lparr>fr_ID = df_Id f, fr_Name = df_Name f, fr_File = the (df_Source f), fr_Line = df_Line f,
                        fr_Column = df_Column f, fr_Function = df_Name f\<rparr>) fs))
     else PanicResp ''invalid memory address or nil pointer dereference'')"
proof -
  have "run_state (StackTrace env (s_cli s) None (CurrentThread s) 20) st = (Ok fs, st1)"
    unfolding StackTrace_def by (rule run_asserted_ok [OF assms(4)]) simp
  then show ?thesis
    using assms(1,3)
    by (simp add: handle_def dispatch_def commands_def handleStack_def Let_def with_session_run [OF assms(2)]
        stack_args_zero_def run_try_call run_frames ok_resp_def done_with_def split_beta)
qed

definition nosource_env :: "unit env" where
  "nosource_env = (demo_env policy_zero)\<lparr>e_dap := (\<lambda>w c limit r. ((), [], Inr (RepFrames [demo_frame\<lparr>df_Source := None\<rparr>])))\<rparr>"

lemmas demo_simps = demo_state_def Get_def Get_key_def register_def NewManager_def demo_session_def newSession_def map_put_def
  mk_req_def

theorem stack_crash_witness:
  "fst (handle nosource_env (mk_req ''stack'' []) (demo_state demo_session)) =
    PanicResp ''invalid memory address or nil pointer dereference''"
proof -
  have "fst (handle nosource_env (mk_req ''stack'' []) (demo_state demo_session)) =
    (if list_all (\<lambda>f. df_Source f \<noteq> None) [demo_frame\<lparr>df_Source := None\<rparr>]
     then OkResp (DStack (map (\<lambda>f. \<lparr>fr_ID = df_Id f, fr_Name = df_Name f, fr_File = the (df_Source f), fr_Line = df_Line f,
                        fr_Column = df_Column f, fr_Function = df_Name f\<rparr>) [demo_frame\<lparr>df_Source := None\<rparr>]))
     else PanicResp ''invalid memory address or nil pointer dereference'')"
    by (rule stack_crash [of _ "demo_state demo_session" demo_session _ _
          "(demo_state demo_session)\<lparr>d_sent := [(0, ReqStackTrace 1 20)]\<rparr>"])
       (simp_all add: demo_simps lax_args_def unmarshalArgs_def unmarshal_struct_def first_error_def nosource_env_def
          demo_env_def Call_def deliver_def CurrentThread_def)
  then show ?thesis by simp
qed

section \<open>Source\<close>

lemma source_answer_run:
  "run_state (source_answer file line around current lines) st =
     (case go_slice lines (fst (windowOf line around (int (length lines)))) (snd (windowOf line around (int (length lines)))) of
        None \<Rightarrow> Crash ''slice bounds out of range''
      | Some ls \<Rightarrow> Ok (OkResp (DSource \<lparr>so_File = file, so_Start = fst (windowOf line around (int (length lines))) + 1,
                                 so_Lines = ls, so_Current = current\<rparr>)), st)"
  by (simp add: source_answer_def split_beta Let_def ok_resp_def done_with_def split: option.split)

lemma handle_source_named:
  assumes "rq_Cmd req = ''source''" "Get (d_mgr st) (rq_Sess req) = Inr s"
    "lax_args source_args_fields source_args_zero req = args" "sra_File args \<noteq> []" "\<not> hasDotDotSegment (sra_File args)"
    "sessionOwnsPath (h_cwd (e_host env)) (e_order env (d_orders st)) (obj (s_cli s) st) (sra_File args) \<or>
     SourcePathAllowed (e_policy env) (h_cwd (e_host env)) (sra_File args) = None"
  shows "handle env req st = (let (r, st1) = run_state (read_source env (s_cli s) args (sra_File args) (sra_Line args) 0)
      (st\<lparr>d_orders := Suc (d_orders st)\<rparr>) in (response_of r, st1))"
proof -
  have obj: "obj c (st\<lparr>d_orders := n\<rparr>) = obj c st" for c n by (simp add: obj_def split: option.split)
  show ?thesis
    using assms
    by (auto simp: handle_def dispatch_def commands_def handleSource_def Let_def with_session_run [OF assms(2)]
        default_location_def run_try_call done_with_def an_order_def next_order_def sess_def reads_def obj split: option.split)
qed

lemma read_source_local:
  assumes "readSourceFile (e_open env (d_world st) file) = Some lines"
  shows "run_state (read_source env c args file line current) st =
    run_state (source_answer file line (sra_Around args) current lines) st"
  using assms by (simp add: read_source_def reads_def sess_def Let_def)



lemma take_drop_nths:
  assumes "\<And>k. k < length xs \<Longrightarrow> n \<le> k \<and> k < n + m \<longleftrightarrow> k \<in> A"
  shows "take m (drop n xs) = nths xs A"
proof -
  have "nths (drop n xs) {..<m} = nths xs A"
    unfolding nths_drop unfolding nths_def
  proof (intro arg_cong [of _ _ "map fst"] filter_cong refl)
    fix p assume "p \<in> set (zip xs [0..<length xs])"
    then have "snd p < length xs" by (auto simp: set_zip)
    moreover have "snd p \<in> (+) n ` {..<m} \<longleftrightarrow> n \<le> snd p \<and> snd p < n + m"
      by (auto simp: image_iff intro: bexI [of _ "snd p - n"])
    ultimately show "snd p \<in> (+) n ` {..<m} \<longleftrightarrow> snd p \<in> A" using assms by blast
  qed
  then show ?thesis by (simp only: nths_upt_eq_take)
qed

text \<open>
  When it does not crash, a window of \<open>around\<close> lines about \<open>line\<close> holds exactly the lines of the
  file numbered from \<open>line - around\<close> to \<open>line + around\<close>, and reports the number of the first.
\<close>

theorem source_window_lines:
  assumes "0 < around" "0 < line" "in_int64 line" "in_int64 (line + around)" "line - around \<le> int (length lines) + 1"
  shows "fst (run_state (source_answer file line around current lines) st) =
    Ok (OkResp (DSource \<lparr>so_File = file, so_Start = max 1 (line - around),
      so_Lines = nths lines {k. line - around \<le> int k + 1 \<and> int k + 1 \<le> line + around}, so_Current = current\<rparr>))"
proof -
  let ?n = "int (length lines)" and ?start = "max 0 (line - around - 1)"
  let ?last = "min ?n (line + around)"
  have "in_int64 (line - around - 1)" using assms by (auto simp: in_int64_def)
  then have w: "windowOf line around ?n = (?start, ?last)"
    using assms by (auto simp: windowOf_def Let_def max_def min_def)
  have "take (nat (?last - ?start)) (drop (nat ?start) lines) = nths lines {k. line - around \<le> int k + 1 \<and> int k + 1 \<le> line + around}"
    by (rule take_drop_nths) (auto simp: max_def min_def nat_le_iff)
  moreover have "0 \<le> ?start \<and> ?start \<le> ?last \<and> ?last \<le> ?n" using assms by auto
  ultimately show ?thesis by (simp add: source_answer_run w go_slice_def)
qed

theorem source_window_lines_witness:
  "fst (run_state (source_answer ''/w/a.py'' 2 1 2 [''w'', ''x'', ''y'', ''z'']) (demo_state demo_session)) =
    Ok (OkResp (DSource \<lparr>so_File = ''/w/a.py'', so_Start = max 1 (2 - 1),
      so_Lines = nths [''w'', ''x'', ''y'', ''z''] {k. 2 - 1 \<le> int k + 1 \<and> int k + 1 \<le> 2 + 1}, so_Current = 2\<rparr>))"
  by (rule source_window_lines) (simp_all add: in_int64_def)

lemma response_of_OkResp: "response_of x = OkResp d \<longleftrightarrow> x = Ok (OkResp d)"
  by (cases x) simp_all

lemma read_source_file:
  "fst (run_state (read_source env c args file line current) st) = Ok (OkResp (DSource r)) \<Longrightarrow> so_File r = file"
  by (auto simp: read_source_def reads_def sess_def Let_def run_try_call errResp_def done_with_def source_answer_run
      split: option.splits outcome.splits if_splits prod.splits)

text \<open>
  C13. The jail of \<open>source\<close>: when a request that names a file is answered with text, the file lies, as a
  path of cleaned components, under one of the session's roots or of \<open>SL_DBG_ALLOW_SOURCE_ROOT\<close>, and
  its name had no dot-dot segment.
\<close>

theorem source_jail:
  assumes req: "rq_Cmd req = ''source''" and s: "Get (d_mgr st) (rq_Sess req) = Inr s"
    and args: "lax_args source_args_fields source_args_zero req = args" "sra_File args \<noteq> []"
    and cwd: "cwd_ok (h_cwd (e_host env))" and pol: "AllowSourceRoot (e_policy env) = cleanAbs (h_cwd (e_host env)) roots"
    and answer: "fst (handle env req st) = OkResp (DSource r)"
  shows "so_File r = sra_File args \<and> \<not> hasDotDotSegment (sra_File args) \<and>
    (\<exists>cs. abs_comps (h_cwd (e_host env)) (sra_File args) = Some cs \<and>
      (\<exists>root \<in> set (sessionSourceRoots (e_order env (d_orders st)) (obj (s_cli s) st)) \<union> set roots.
        \<exists>rs. abs_comps (h_cwd (e_host env)) root = Some rs \<and> within cs rs))"
proof -
  let ?cwd = "h_cwd (e_host env)" and ?f = "sra_File args"
  let ?owns = "sessionOwnsPath ?cwd (e_order env (d_orders st)) (obj (s_cli s) st) ?f"
  have obj: "obj c (st\<lparr>d_orders := n\<rparr>) = obj c st" for c n by (simp add: obj_def split: option.split)
  have nodots: "\<not> hasDotDotSegment ?f"
    using answer args
    by (auto simp: req handle_def dispatch_def commands_def handleSource_def Let_def with_session_run [OF s]
        errResp_def done_with_def audit_Log_def modify_def split_beta)
  have may: "?owns \<or> SourcePathAllowed (e_policy env) ?cwd ?f = None"
  proof (rule ccontr)
    assume "\<not> ?thesis"
    with nodots args answer show False
      by (auto simp: req handle_def dispatch_def commands_def handleSource_def Let_def with_session_run [OF s] obj
          default_location_def run_try_call done_with_def an_order_def next_order_def sess_def reads_def
          errResp_def audit_Log_def modify_def split_beta)
  qed
  have "response_of (fst (run_state (read_source env (s_cli s) args ?f (sra_Line args) 0) (st\<lparr>d_orders := Suc (d_orders st)\<rparr>))) = OkResp (DSource r)"
    using handle_source_named [OF req s args nodots may] answer by (simp add: split_beta Let_def)
  then have "so_File r = ?f"
    unfolding response_of_OkResp by (rule read_source_file)
  moreover have "SourcePathAllowed (policy_zero\<lparr>AllowSourceRoot := cleanAbs ?cwd roots\<rparr>) ?cwd ?f = SourcePathAllowed (e_policy env) ?cwd ?f"
    by (rule SourcePathAllowed_frame) (simp add: pol)
  ultimately show ?thesis
    using nodots may session_roots.accepts_iff [OF cwd] source_roots.accepts_iff [OF cwd, of roots ?f]
    unfolding sessionOwnsPath_def by auto
qed

theorem source_jail_witness:
  "let args = source_args_zero\<lparr>sra_File := ''/w/main.go''\<rparr>; req = mk_req ''source'' [(''file'', JStr ''/w/main.go'')] in
   \<exists>r :: source_result. so_File r = sra_File args \<and> \<not> hasDotDotSegment (sra_File args) \<and>
    (\<exists>cs. abs_comps (h_cwd (e_host (demo_env policy_zero))) (sra_File args) = Some cs \<and>
      (\<exists>root \<in> set (sessionSourceRoots (e_order (demo_env policy_zero) (d_orders (demo_state demo_session)))
              (obj (s_cli demo_session) (demo_state demo_session))) \<union> set [].
        \<exists>rs. abs_comps (h_cwd (e_host (demo_env policy_zero))) root = Some rs \<and> within cs rs))"
proof -
  let ?args = "source_args_zero\<lparr>sra_File := ''/w/main.go''\<rparr>" and ?req = "mk_req ''source'' [(''file'', JStr ''/w/main.go'')]"
    and ?env = "demo_env policy_zero" and ?st = "demo_state demo_session"
  let ?r = "\<lparr>so_File = ''/w/main.go'', so_Start = 1, so_Lines = [''a'', ''b'', ''c''], so_Current = 0\<rparr>"
  have args: "lax_args source_args_fields source_args_zero ?req = ?args" by code_simp
  have req: "rq_Cmd ?req = ''source''" and s: "Get (d_mgr ?st) (rq_Sess ?req) = Inr demo_session"
    by (simp_all add: demo_simps)
  have o: "obj (s_cli demo_session) ?st = demo_session" "d_orders ?st = 0" "d_world ?st = ()" "s_cli demo_session = 0"
    by (simp_all add: demo_simps obj_def find_obj_def)
  have e: "h_cwd (e_host ?env) = Some ''/w''" "e_order ?env 0 = (\<lambda>n. [0..<n])" by (simp_all add: demo_env_def demo_host_def)
  have dd: "hasDotDotSegment ''/w/main.go'' = False" by code_simp
  have owns: "sessionOwnsPath (Some ''/w'') (\<lambda>n. [0..<n]) demo_session ''/w/main.go''" by code_simp
  have bytes: "readSourceFile (e_open ?env () ''/w/main.go'') = Some [''a'', ''b'', ''c'']"
    by (simp add: demo_env_def readSourceFile_def scan_lines_def maxToken_def strip_cr_def has_suffix_def suffix_to_prefix)
  have ne: "sra_File ?args \<noteq> []" "\<not> hasDotDotSegment (sra_File ?args)"
    "sessionOwnsPath (h_cwd (e_host ?env)) (e_order ?env (d_orders ?st)) (obj (s_cli demo_session) ?st) (sra_File ?args) \<or>
     SourcePathAllowed (e_policy ?env) (h_cwd (e_host ?env)) (sra_File ?args) = None"
    using owns dd by (simp_all add: o(1,2) e)
  have answer: "fst (handle ?env ?req ?st) = OkResp (DSource ?r)"
    using bytes by (simp add: handle_source_named [OF req s args ne] read_source_local o(2,3) source_answer_run source_args_zero_def
        windowOf_def go_slice_def split_beta Let_def)
  have cwd: "cwd_ok (h_cwd (e_host ?env))" by (simp add: e cwd_ok_def is_abs_def has_prefix_def)
  have pol: "AllowSourceRoot (e_policy ?env) = cleanAbs (h_cwd (e_host ?env)) []"
    by (simp add: demo_env_def policy_zero_def cleanAbs_def map_filter_simps)
  show ?thesis
    unfolding Let_def by (intro exI [of _ ?r]) (rule source_jail [OF req s args ne(1) cwd pol answer])
qed

section \<open>Print\<close>

definition yields :: "('a \<Rightarrow> bool) \<Rightarrow> ('s, 'a outcome) state \<Rightarrow> bool" where
  "yields P m \<longleftrightarrow> (\<forall>st v. fst (run_state m st) = Ok v \<longrightarrow> P v)"

lemma yields_done: "P v \<Longrightarrow> yields P (done_with v)"
  by (simp add: yields_def done_with_def)

lemma yields_try: "(\<And>e. yields P (h e)) \<Longrightarrow> (\<And>v. Q v \<Longrightarrow> yields P (k v)) \<Longrightarrow> yields Q m \<Longrightarrow> yields P (try_call m h k)"
  by (auto simp: yields_def run_try_call split: outcome.splits prod.splits) (metis fst_conv)

lemma yields_and_then: "(\<And>v. Q v \<Longrightarrow> yields P (k v)) \<Longrightarrow> yields Q m \<Longrightarrow> yields P (and_then m k)"
  by (rule yields_try) (simp_all add: yields_def)

lemma yields_any: "yields (\<lambda>_. True) m"
  by (simp add: yields_def)

lemma yields_each: "(\<And>x. yields P (f x)) \<Longrightarrow> yields (\<lambda>ys. length ys = length xs \<and> list_all P ys) (each f xs)"
proof (induction xs)
  case (Cons x xs)
  show ?case
    unfolding each.simps
    by (rule yields_and_then [OF _ Cons.prems], rule yields_and_then [OF _ Cons.IH [OF Cons.prems]])
       (auto intro: yields_done)
qed (simp add: yields_done)

text \<open>A printed tree of at most \<open>d\<close> levels below its root, with at most \<open>n\<close> children anywhere.\<close>

fun fits :: "nat \<Rightarrow> nat \<Rightarrow> print_node \<Rightarrow> bool" where
  "fits d n (PrintNode name val t r trunc kids) =
     (length kids \<le> n \<and> (case d of 0 \<Rightarrow> kids = [] | Suc d' \<Rightarrow> list_all (fits d' n) kids))"

lemma yields_expand:
  "yields (\<lambda>(kids, trunc). length kids \<le> n \<and> list_all (fits d n) kids) (expandRefFiltered env c limit d n special ref)"
proof (induction d arbitrary: ref)
  case 0
  show ?case
    unfolding expandRefFiltered.simps [of env c limit 0] Let_def
    by (rule yields_and_then [OF yields_and_then [OF yields_done yields_each [where P = "fits 0 n"]] yields_any])
       (auto intro!: yields_and_then [OF _ yields_any] yields_done)
next
  case (Suc d)
  have kid: "yields (fits (Suc d) n) (try_call (expandRefFiltered env c limit d n special r)
      (\<lambda>_. done_with (PrintNode a b t r False [])) (\<lambda>(kids, trunc). done_with (PrintNode a b t r trunc kids)))" for a b t r
    by (rule yields_try [OF _ _ Suc]) (auto intro!: yields_done)
  show ?case
    unfolding expandRefFiltered.simps [of env c limit "Suc d"] Let_def
    by (rule yields_and_then [OF yields_and_then [OF yields_done yields_each [where P = "fits (Suc d) n"]] yields_any])
       (auto intro!: yields_and_then [OF _ yields_any] yields_done kid)
qed

text \<open>
  C15. \<open>print\<close> returns a bounded tree whatever the object graph looks like, cycles included: at most
  \<open>depth\<close> levels (3 unless the caller says otherwise) and at most \<open>maxItems\<close> children (50) per node.
\<close>

theorem print_bounded:
  assumes "fst (run_state (print_expanded env c args name r) st) = Ok (OkResp (DPrint root))"
  shows "fits (if pa_Depth args \<le> 0 then 3 else nat (pa_Depth args))
    (if pa_MaxItems args \<le> 0 then 50 else nat (pa_MaxItems args)) root"
proof -
  let ?d = "if pa_Depth args \<le> 0 then 3 else pa_Depth args" and ?n = "if pa_MaxItems args \<le> 0 then 50 else pa_MaxItems args"
  define d where "d = nat ?d - 1"
  define n where "n = nat ?n"
  have d: "nat ?d = Suc d" by (auto simp: d_def)
  have "yields (\<lambda>x. \<forall>root. x = OkResp (DPrint root) \<longrightarrow> fits (Suc d) n root) (print_expanded env c args name r)"
    unfolding print_expanded_def Let_def d_def [symmetric] n_def [symmetric]
    by (auto intro!: yields_try [OF _ _ yields_expand] yields_done simp: ok_resp_def adapter_failed_def errResp_def)
  with assms have "fits (nat ?d) (nat ?n) root" by (simp add: yields_def d n_def)
  then show ?thesis by (simp split: if_splits)
qed

theorem print_bounded_witness:
  "fits (if pa_Depth print_args_zero \<le> 0 then 3 else nat (pa_Depth print_args_zero))
    (if pa_MaxItems print_args_zero \<le> 0 then 50 else nat (pa_MaxItems print_args_zero))
    (PrintNode ''p'' ''{...}'' ''point'' 1 False [PrintNode ''x'' ''1'' ''int'' 0 False []])"
proof (rule print_bounded)
  show "fst (run_state (print_expanded (demo_env policy_zero) 0 print_args_zero ''p''
      \<lparr>er_Result = ''{...}'', er_Type = ''point'', er_Ref = 1\<rparr>) (demo_state demo_session)) =
    Ok (OkResp (DPrint (PrintNode ''p'' ''{...}'' ''point'' 1 False [PrintNode ''x'' ''1'' ''int'' 0 False []])))"
    by (simp add: print_expanded_def print_args_zero_def expandRefFiltered.simps Variables_def asserted_def Call_def demo_env_def
        demo_ticks_def deliver_def run_try_call node_value_def sess_def reads_def visible_vars_def isPythonSpecial_def
        has_prefix_def done_with_def ok_resp_def limit_of_def dec_zero_def Let_def)
qed

end
