(* ===== verification/Session_Steps.thy ===== *)
theory Session_Steps
  imports Session_Props
begin

text \<open>
  The life of a session as a step relation: one rule per critical section that changes it and per
  field that its creation writes, in any order and number (the event pump, the adapter watcher, the
  one-shot cleaner and the request handlers all take such steps; \<open>Session_Refines\<close> proves it of the handlers). The properties hold in every reachable state, so under every
  interleaving of those goroutines.
\<close>

section \<open>Steps and reachable sessions\<close>

inductive sess_step :: "session \<Rightarrow> session \<Rightarrow> bool" where
  step_event: "sess_step s (handleEvent ord ts ev s)"
| step_adapter_exit: "sess_step s (watchAdapterExit st s)"
| step_install: "sess_step s (snd (installStateWaiter replay s))"
| step_drop_waiter: "sess_step s (dropWaiter ch s)"
| step_new_bp: "AllocBP s = (i, s1) \<Longrightarrow> bp_LocalID b = i \<Longrightarrow> sess_step s (PutBP b s1)"
| step_new_func_bp: "AllocBP s = (i, s1) \<Longrightarrow> fbp_LocalID b = i \<Longrightarrow> sess_step s (PutFuncBP b s1)"
| step_bp_reply: "sess_step s (SetBPReply i dapid verified s)"
| step_func_bp_reply: "sess_step s (UpdateFuncBP i dapid verified s)"
| step_remove_bp: "sess_step s (snd (RemoveBP i s))"
| step_clear_once: "sess_step s (snd (clearOnceBPs ord ids s))"
| step_exc: "sess_step s (SetExcFilters fs s)"
| step_add_watch: "sess_step s (AddWatch e s)"
| step_remove_watch: "sess_step s (snd (RemoveWatch i s))"
| step_clear_watches: "sess_step s (ClearWatches s)"
| step_location: "sess_step s (SetLastLocation l s)"
| step_close: "sess_step s (CloseSession s)"
| step_caps: "sess_step s (s\<lparr>s_caps := caps\<rparr>)"
| step_config: "sess_step s (s\<lparr>s_pendingConfigDone := pc\<rparr>)"
| step_once_queue: "sess_step s (s\<lparr>s_onceQ := q\<rparr>)"
| step_describe: "sess_step s (s\<lparr>s_ID := sid, s_Program := prog, s_Cwd := cwd, s_SourceRoots := roots,
    s_Attached := att, s_ReadOnly := ro\<rparr>)"

inductive sess_reachable :: "session \<Rightarrow> bool" where
  reach_new: "sess_reachable (newSession cli sid lang)"
| reach_step: "sess_reachable s \<Longrightarrow> sess_step s t \<Longrightarrow> sess_reachable t"

lemma inv_bookkeeping:
  "sess_inv s \<Longrightarrow> sess_inv (s\<lparr>s_caps := caps\<rparr>)" "sess_inv s \<Longrightarrow> sess_inv (s\<lparr>s_pendingConfigDone := pc\<rparr>)"
  "sess_inv s \<Longrightarrow> sess_inv (s\<lparr>s_onceQ := q\<rparr>)"
  "sess_inv s \<Longrightarrow> sess_inv (s\<lparr>s_ID := sid, s_Program := prog, s_Cwd := cwd, s_SourceRoots := roots,
     s_Attached := att, s_ReadOnly := ro\<rparr>)"
  by (simp_all add: sess_inv_defs)

lemma sess_step_inv: "sess_step s t \<Longrightarrow> sess_inv s \<Longrightarrow> sess_inv t"
  by (induction rule: sess_step.induct) (auto intro: session_invs inv_bookkeeping)

text \<open>
  In every reachable session the breakpoint ids are unique, each stored breakpoint carries its own
  id, source and function breakpoints never share an id and every id is below the next one to be
  allocated; watch ids are unique; the output log holds at most 4096 and the event log at most 1024
  entries; a session that is over has its terminal event recorded, and no waiter is left waiting.
\<close>

lemma reachable_inv: "sess_reachable s \<Longrightarrow> sess_inv s"
  by (induction rule: sess_reachable.induct) (auto intro: sess_inv_new sess_step_inv)

section \<open>Deliveries to a waiter\<close>

fun run_events :: "range_order \<Rightarrow> (timestamp \<times> dap_event) list \<Rightarrow> session \<Rightarrow> session" where
  "run_events ord [] s = s"
| "run_events ord ((ts, ev) # evs) s = run_events ord evs (handleEvent ord ts ev s)"

text \<open>The events that wake a waiter, and what it is told.\<close>

fun stop_of :: "dap_event \<Rightarrow> stop_event option" where
  "stop_of (StoppedEvent reason tid hids) =
     Some (stop_event_zero\<lparr>se_reason := reason, se_threadID := tid,
             se_hitBP := (case hids of [] \<Rightarrow> 0 | h # _ \<Rightarrow> h)\<rparr>)"
| "stop_of (ExitedEvent ec) = Some (stop_event_zero\<lparr>se_reason := ''exited'', se_exited := Some ec\<rparr>)"
| "stop_of TerminatedEvent = Some (stop_event_zero\<lparr>se_reason := ''terminated'', se_terminated := True\<rparr>)"
| "stop_of _ = None"

lemma notify_chans [simp]: "s_chans (notifyWaiters ev s) = send_all ev (s_waiters s) (s_chans s)"
  by (simp add: notifyWaiters_def)

lemma hit_loop_chans [simp]:
  "s_chans (snd (hit_loop ord hids s)) = s_chans s" "s_waiters (snd (hit_loop ord hids s)) = s_waiters s"
  using hit_loop_frame [of ord hids s] by auto

lemma recordEvent_chans [simp]:
  "s_chans (recordEvent ts ev s) = s_chans s" "s_waiters (recordEvent ts ev s) = s_waiters s"
  "s_lastTerminal (recordEvent ts ev s) = s_lastTerminal s"
  by (simp_all add: recordEvent_def push_event_def)

lemma handleEvent_stop:
  "stop_of ev = Some se \<Longrightarrow>
   s_chans (handleEvent ord ts ev s) = send_all se (s_waiters s) (s_chans s) \<and> s_waiters (handleEvent ord ts ev s) = []"
  by (cases ev) (auto simp: handleEvent_def handleStopped_def handleExited_def handleTerminated_def Let_def split_beta)

lemma handleEvent_quiet:
  "stop_of ev = None \<Longrightarrow>
   s_chans (handleEvent ord ts ev s) = s_chans s \<and> s_waiters (handleEvent ord ts ev s) = s_waiters s"
  by (cases ev) (auto simp: handleEvent_def recordOutput_def push_output_def Let_def)

lemma handleEvent_keeps_recv: "recv ch s = Some se \<Longrightarrow> recv ch (handleEvent ord ts ev s) = Some se"
  using handleEvent_stop [of ev _ ord ts s] handleEvent_quiet [of ev ord ts s]
  by (cases "stop_of ev") (auto simp: recv_def send_all_old)

lemma run_events_keeps_recv: "recv ch s = Some se \<Longrightarrow> recv ch (run_events ord evs s) = Some se"
  by (induction ord evs s rule: run_events.induct) (auto simp: handleEvent_keeps_recv)

lemma run_events_quiet:
  "\<forall>(ts, ev) \<in> set evs. stop_of ev = None \<Longrightarrow>
   s_chans (run_events ord evs s) = s_chans s \<and> s_waiters (run_events ord evs s) = s_waiters s"
  by (induction ord evs s rule: run_events.induct) (auto simp: handleEvent_quiet)

lemma run_events_append: "run_events ord (xs @ ys) s = run_events ord ys (run_events ord xs s)"
  by (induction ord xs s rule: run_events.induct) auto

section \<open>Properties\<close>

text \<open>
  C9. No waiter waits for a session that is already over: once a terminal event is recorded the list
  of blocked waiters is empty, and a waiter installed later (by \<open>InstallWaiter\<close> or by
  \<open>WaitForStop\<close>) finds exactly that terminal event in its channel.
\<close>

theorem late_waiter_answered:
  assumes "sess_reachable s" and "s_lastTerminal s = Some ev"
  shows "s_waiters s = [] \<and> recv (fst (installStateWaiter replay s)) (snd (installStateWaiter replay s)) = Some ev"
proof -
  from assms(1) have "waiter_inv s" by (simp add: reachable_inv [unfolded sess_inv_def])
  with assms(2) show ?thesis by (simp add: waiter_inv_def installStateWaiter_def Let_def recv_def)
qed

theorem late_waiter_answered_witness:
  "s_waiters (handleEvent (\<lambda>_. []) 0 (ExitedEvent 3) (newSession 0 ''s1'' ''go'')) = [] \<and>
   recv (fst (installStateWaiter False (handleEvent (\<lambda>_. []) 0 (ExitedEvent 3) (newSession 0 ''s1'' ''go''))))
        (snd (installStateWaiter False (handleEvent (\<lambda>_. []) 0 (ExitedEvent 3) (newSession 0 ''s1'' ''go'')))) =
     Some (stop_event_zero\<lparr>se_reason := ''exited'', se_exited := Some 3\<rparr>)"
proof (rule late_waiter_answered)
  show "sess_reachable (handleEvent (\<lambda>_. []) 0 (ExitedEvent 3) (newSession 0 ''s1'' ''go''))"
    by (rule reach_step [OF reach_new step_event])
  show "s_lastTerminal (handleEvent (\<lambda>_. []) 0 (ExitedEvent 3) (newSession 0 ''s1'' ''go'')) =
      Some (stop_event_zero\<lparr>se_reason := ''exited'', se_exited := Some 3\<rparr>)"
    by (simp add: handleEvent_def handleExited_def Let_def)
qed

text \<open>
  C8. No lost wake-up. A waiter installed in a session without a terminal event (as the handlers do
  before they send the resume request) receives the first stop, exit or termination event that the
  pump processes afterwards, whatever other events come before or after it.
\<close>

theorem waiter_gets_first_stop:
  assumes "sess_reachable s" and "s_lastTerminal s = None"
    and quiet: "\<forall>(ts, ev) \<in> set before. stop_of ev = None"
    and stop: "stop_of ev = Some se"
  shows "recv (fst (InstallWaiter s)) (run_events ord (before @ (ts, ev) # rest) (snd (InstallWaiter s))) = Some se"
proof -
  let ?ch = "fst (InstallWaiter s)" and ?s1 = "snd (InstallWaiter s)"
  let ?s2 = "run_events ord before ?s1"
  from assms(1) have "waiter_inv s" by (simp add: reachable_inv [unfolded sess_inv_def])
  then have "s_nextChan s \<notin> fst ` set (s_chans s)" by (auto simp: waiter_inv_def)
  then have "?ch \<in> set (s_waiters ?s1)" and "map_of (s_chans ?s1) ?ch = None"
    using assms(2) by (auto simp: InstallWaiter_def installStateWaiter_def Let_def map_of_eq_None_iff)
  then have "?ch \<in> set (s_waiters ?s2)" and "map_of (s_chans ?s2) ?ch = None"
    using run_events_quiet [OF quiet] by auto
  then have "recv ?ch (handleEvent ord ts ev ?s2) = Some se"
    using handleEvent_stop [OF stop] by (simp add: recv_def send_all_new)
  then show ?thesis by (simp add: run_events_append run_events_keeps_recv)
qed

theorem waiter_gets_first_stop_witness:
  "recv (fst (InstallWaiter (newSession 0 ''s'' ''go'')))
     (run_events (\<lambda>_. []) ([(0, ContinuedEvent 1)] @ (1, StoppedEvent ''breakpoint'' 7 [4]) # [(2, ExitedEvent 0)])
        (snd (InstallWaiter (newSession 0 ''s'' ''go'')))) =
   Some (stop_event_zero\<lparr>se_reason := ''breakpoint'', se_threadID := 7, se_hitBP := 4\<rparr>)"
  by (rule waiter_gets_first_stop [OF reach_new]) (simp_all add: newSession_def)

end
