(* ===== verification/Exec_Props.thy ===== *)
theory Exec_Props
  imports Handler_Props Session_Steps
begin

text \<open>
  No stop is lost between the resume request and the wait, at the level of the whole daemon: what a
  waiter's channel holds is kept by everything that runs beside the handler, and the first stop of
  the session that arrives after the waiter is installed is the answer of the request.
\<close>

section \<open>Session objects under updates\<close>

lemma find_put_obj:
  assumes "\<And>s. s_cli (f s) = s_cli s"
  shows "find_obj c (put_obj c' f m) = map_option (\<lambda>s. if c' = c then f s else s) (find_obj c m)"
proof -
  have "find (\<lambda>s. s_cli s = c) (map (snd \<circ> (\<lambda>(k, s). (k, if s_cli s = c' then f s else s))) ks) =
      map_option (\<lambda>s. if c' = c then f s else s) (find (\<lambda>s. s_cli s = c) (map snd ks))" for ks :: "(string \<times> session) list"
    by (induction ks) (auto simp: assms)
  then show ?thesis by (simp add: find_obj_def put_obj_def)
qed

lemma find_obj_cli: "find_obj c m = Some s \<Longrightarrow> s_cli s = c"
  by (auto simp: find_obj_def find_Some_iff)

lemma find_obj_Get:
  assumes "ds_inv st" "Get (d_mgr st) sid = Inr s"
  shows "find_obj (s_cli s) (d_mgr st) = Some s"
proof -
  let ?ss = "map snd (m_sessions (d_mgr st))"
  have s: "s \<in> set ?ss" using assms(2) by (force simp: Get_def split: option.splits dest: map_of_SomeD)
  then obtain t where t: "find (\<lambda>t. s_cli t = s_cli s) ?ss = Some t"
    by (cases "find (\<lambda>t. s_cli t = s_cli s) ?ss") (auto simp: find_None_iff)
  then have "t \<in> set ?ss" "s_cli t = s_cli s" by (auto simp: find_Some_iff)
  moreover have "distinct (map s_cli ?ss)" using assms(1) by (simp add: ds_inv_def clis_def comp_def)
  ultimately have "t = s" using s by (metis inj_on_eq_iff distinct_map)
  with t show ?thesis by (simp add: find_obj_def)
qed

section \<open>What a channel holds is kept\<close>

definition mail_ok :: "nat \<Rightarrow> (session \<Rightarrow> session) \<Rightarrow> bool" where
  "mail_ok ch f \<longleftrightarrow> (\<forall>s. s_cli (f s) = s_cli s \<and>
     (ch < s_nextChan s \<longrightarrow> ch < s_nextChan (f s) \<and> (\<forall>se. recv ch s = Some se \<longrightarrow> recv ch (f s) = Some se)))"

definition mail_rel :: "nat \<Rightarrow> nat \<Rightarrow> 'w dstate \<Rightarrow> 'w dstate \<Rightarrow> bool" where
  "mail_rel c ch st st' \<longleftrightarrow> (\<forall>s. find_obj c (d_mgr st) = Some s \<and> ch < s_nextChan s \<longrightarrow>
     (\<exists>s'. find_obj c (d_mgr st') = Some s' \<and> ch < s_nextChan s' \<and> (\<forall>se. recv ch s = Some se \<longrightarrow> recv ch s' = Some se)))"

lemma mail_rel_mgr: "d_mgr st' = d_mgr st \<Longrightarrow> mail_rel c ch st st'"
  by (simp add: mail_rel_def)

lemma mail_rel_trans: "mail_rel c ch st st1 \<Longrightarrow> mail_rel c ch st1 st2 \<Longrightarrow> mail_rel c ch st st2"
  unfolding mail_rel_def by meson

lemma mail_rel_upd: "mail_ok ch f \<Longrightarrow> mail_rel c ch st (upd_obj c' f st)"
  by (auto simp: mail_rel_def mail_ok_def upd_obj_def find_put_obj)

lemma mail_ok_same:
  "(\<And>s. s_cli (f s) = s_cli s) \<Longrightarrow> (\<And>s. s_nextChan (f s) = s_nextChan s) \<Longrightarrow> (\<And>s. s_chans (f s) = s_chans s) \<Longrightarrow> mail_ok ch f"
  by (simp add: mail_ok_def recv_def)

lemma nextChan_notify [simp]: "s_nextChan (notifyWaiters ev s) = s_nextChan s"
  by (simp add: notifyWaiters_def)

lemma nextChan_hit_loop [simp]: "s_nextChan (snd (hit_loop ord hids s)) = s_nextChan s"
  using hit_loop_frame [of ord hids s] by auto

lemma nextChan_handleEvent [simp]: "s_nextChan (handleEvent ord ts ev s) = s_nextChan s"
  by (cases ev) (simp_all add: handleEvent_def handleStopped_def handleExited_def handleTerminated_def recordEvent_def
      push_event_def recordOutput_def push_output_def Let_def split_beta)

lemma mail_ok_event: "mail_ok ch (handleEvent ord ts ev)"
  using keeps_handleEvent [of ord ts ev] by (simp add: mail_ok_def keeps_def handleEvent_keeps_recv)

lemma mail_ok_exit: "mail_ok ch (watchAdapterExit x)"
  using keeps_watchAdapterExit [of x]
  by (auto simp: mail_ok_def keeps_def watchAdapterExit_def recv_def send_all_old Let_def split_beta)

lemma mail_ok_install: "mail_ok ch (\<lambda>s. snd (installStateWaiter b s))"
  using keeps_installStateWaiter [of b]
  by (auto simp: mail_ok_def keeps_def installStateWaiter_def recv_def Let_def split: option.split)

lemma removeBPs_frame: "\<exists>bps. snd (removeBPs is s) = s\<lparr>s_bpsByID := bps\<rparr>"
proof (induction "is" arbitrary: s)
  case Nil
  show ?case by (rule exI [of _ "s_bpsByID s"]) simp
next
  case (Cons i "is")
  then obtain bps where "snd (removeBPs is (snd (RemoveBP i s))) = (snd (RemoveBP i s))\<lparr>s_bpsByID := bps\<rparr>" by blast
  then show ?case by (auto simp: split_beta Let_def RemoveBP_def)
qed

lemma removeBPs_chans:
  "s_nextChan (snd (removeBPs is s)) = s_nextChan s" "s_chans (snd (removeBPs is s)) = s_chans s"
  using removeBPs_frame [of "is" s] by auto

lemma remove_ids_frame: "\<exists>bps. snd (remove_ids ids s) = s\<lparr>s_bpsByID := bps\<rparr>"
proof (induction ids arbitrary: s)
  case Nil
  show ?case by (rule exI [of _ "s_bpsByID s"]) simp
next
  case (Cons i ids)
  then obtain bps where "snd (remove_ids ids (snd (RemoveBP i s))) = (snd (RemoveBP i s))\<lparr>s_bpsByID := bps\<rparr>" by blast
  then show ?case by (auto simp: split_beta Let_def RemoveBP_def)
qed

lemma mail_ok_fold: "(\<And>x. mail_ok ch (f x)) \<Longrightarrow> mail_ok ch (fold f xs)"
  by (induction xs) (auto simp: mail_ok_def)

lemma mail_ok_bps:
  "mail_ok ch (\<lambda>s. snd (clearOnceBPs ord ids s))" "mail_ok ch (\<lambda>s. snd (RemoveBP i s))"
  "mail_ok ch (\<lambda>s. snd (remove_ids (sel s) s))"
  "mail_ok ch (apply_replies bps replies)" "mail_ok ch (apply_func_replies fbs replies)"
proof -
  show "mail_ok ch (\<lambda>s. snd (clearOnceBPs ord ids s))"
    by (rule mail_ok_same) (simp_all add: clearOnceBPs_def split_beta Let_def removeBPs_chans)
next
  show "mail_ok ch (\<lambda>s. snd (RemoveBP i s))" by (simp add: mail_ok_def RemoveBP_def recv_def)
next
  have "s_cli (snd (remove_ids ids s)) = s_cli s \<and> s_nextChan (snd (remove_ids ids s)) = s_nextChan s \<and>
      s_chans (snd (remove_ids ids s)) = s_chans s" for ids s
    using remove_ids_frame [of ids s] by auto
  then show "mail_ok ch (\<lambda>s. snd (remove_ids (sel s) s))" by (intro mail_ok_same) simp_all
next
  show "mail_ok ch (apply_replies bps replies)"
    unfolding apply_replies_def [abs_def] by (rule mail_ok_fold) (auto simp: mail_ok_def SetBPReply_def recv_def)
  show "mail_ok ch (apply_func_replies fbs replies)"
    unfolding apply_func_replies_def [abs_def] by (rule mail_ok_fold) (auto simp: mail_ok_def UpdateFuncBP_def recv_def)
qed

interpretation mail: daemon_relation "mail_rel c ch" "mail_ok ch" "\<lambda>_. True" for c ch
proof unfold_locales
  show "mail_rel c ch st st2" if "mail_rel c ch st st1" "mail_rel c ch st1 st2" for st st1 st2 :: "'a dstate"
    using that by (rule mail_rel_trans)
qed (simp_all add: mail_rel_mgr mail_rel_upd mail_ok_event mail_ok_exit mail_ok_install mail_ok_bps,
     simp_all add: mail_ok_def recv_def dropWaiter_def SetLastLocation_def SetExcFilters_def RemoveWatch_def ClearWatches_def)

section \<open>The first stop reaches the waiter\<close>

text \<open>Ticks that do not wake a waiter of client \<open>c\<close>.\<close>

fun quiet_tick :: "nat \<Rightarrow> nat \<times> tick \<Rightarrow> bool" where
  "quiet_tick c (c', TickEvent ts ev) = (c' \<noteq> c \<or> stop_of ev = None)"
| "quiet_tick c (c', TickExit x) = (c' \<noteq> c)"
| "quiet_tick c (c', TickClear i) = False"

definition waiting :: "nat \<Rightarrow> nat \<Rightarrow> 'w dstate \<Rightarrow> bool" where
  "waiting c ch st \<longleftrightarrow> (\<exists>s. find_obj c (d_mgr st) = Some s \<and> ch \<in> set (s_waiters s) \<and> recv ch s = None \<and> ch < s_nextChan s)"

definition has_mail :: "nat \<Rightarrow> nat \<Rightarrow> stop_event \<Rightarrow> 'w dstate \<Rightarrow> bool" where
  "has_mail c ch se st \<longleftrightarrow> (\<exists>s. find_obj c (d_mgr st) = Some s \<and> recv ch s = Some se \<and> ch < s_nextChan s)"

lemma cli_handleEvent [simp]: "s_cli (handleEvent ord ts ev s) = s_cli s"
  using keeps_handleEvent [of ord ts ev] by (simp add: keeps_def)

lemma cli_exit [simp]: "s_cli (watchAdapterExit x s) = s_cli s"
  using keeps_watchAdapterExit [of x] by (simp add: keeps_def)

lemma d_mgr_event:
  "d_mgr (run_tick env (c', TickEvent ts ev) st) = put_obj c' (handleEvent (e_order env (d_orders st)) ts ev) (d_mgr st)"
  by (simp add: next_order_def upd_obj_def Let_def)

lemma waiting_quiet: "quiet_tick c t \<Longrightarrow> waiting c ch st \<Longrightarrow> waiting c ch (run_tick env t st)"
proof (cases "(c, t)" rule: quiet_tick.cases)
  case (1 c'' c' ts ev)
  assume "quiet_tick c t" "waiting c ch st"
  with 1 handleEvent_quiet [of ev] show ?thesis
    unfolding waiting_def by (cases "c' = c''") (auto simp: d_mgr_event find_put_obj recv_def simp del: run_tick.simps)
next
  case (2 c'' c' x)
  assume "quiet_tick c t" "waiting c ch st"
  with 2 show ?thesis unfolding waiting_def by (auto simp: upd_obj_def find_put_obj)
qed simp

lemma waiting_stop:
  "stop_of ev = Some se \<Longrightarrow> waiting c ch st \<Longrightarrow> has_mail c ch se (run_tick env (c, TickEvent ts ev) st)"
  using handleEvent_stop [of ev se]
  by (auto simp: waiting_def has_mail_def d_mgr_event find_put_obj recv_def send_all_new simp del: run_tick.simps)

lemma has_mail_deliver: "has_mail c ch se st \<Longrightarrow> has_mail c ch se (deliver env ts st)"
  using mail.R_deliver [of c ch st env ts] unfolding mail_rel_def has_mail_def by blast

lemma deliver_stop:
  assumes "waiting c ch st" "list_all (quiet_tick c) pre" "stop_of ev = Some se"
  shows "has_mail c ch se (deliver env (pre @ (c, TickEvent ts ev) # post) st)"
proof -
  have "waiting c ch (deliver env pre st)"
    using assms(1,2) unfolding deliver_def by (induction pre arbitrary: st) (auto simp: waiting_quiet simp del: run_tick.simps)
  then have "has_mail c ch se (deliver env post (run_tick env (c, TickEvent ts ev) (deliver env pre st)))"
    by (intro has_mail_deliver waiting_stop assms(3))
  then show ?thesis by (simp add: deliver_def del: run_tick.simps)
qed

lemma obj_found: "find_obj c (d_mgr st) = Some s \<Longrightarrow> obj c st = s"
  by (simp add: obj_def)

lemma run_Wait_mail: "has_mail c ch se st \<Longrightarrow> run_state (Wait env c ch timeout) st = (Ok (pause_of_event se), st)"
  by (auto simp: Wait_def wait_stop_def has_mail_def obj_found)

lemma with_location_pause:
  assumes "\<And>l. answers (after l)"
  shows "\<exists>x. fst (run_state (with_location env c after pi) st) = x \<and>
    (x = Ok (OkResp (DPause pi)) \<or> (\<exists>l. x = Ok (OkResp (DPause (pi\<lparr>pi_Location := Some l\<rparr>)))) \<or> (\<exists>p. x = Crash p))"
proof -
  have "answers (fetchTopLocation env c)" by (rule answers_gates)
  with assms show ?thesis
    unfolding with_location_def
    by (auto simp: answers_def run_try_call ok_resp_def done_with_def on_sess_def modify_def
        split: outcome.split prod.split option.split) (metis fst_conv)+
qed

lemma waiting_install:
  assumes "ds_inv st" "Get (d_mgr st) sid = Inr s" "s_lastTerminal s = None"
  shows "run_state (install False (s_cli s)) st =
      (s_nextChan s, upd_obj (s_cli s) (\<lambda>s. snd (installStateWaiter False s)) st) \<and>
    waiting (s_cli s) (s_nextChan s) (upd_obj (s_cli s) (\<lambda>s. snd (installStateWaiter False s)) st)"
proof -
  have found: "find_obj (s_cli s) (d_mgr st) = Some s" by (rule find_obj_Get [OF assms(1,2)])
  have "waiter_inv s"
    using Get_Inr [OF _ assms(2)] assms(1) by (simp add: ds_inv_def sess_inv_def)
  then have "s_nextChan s \<notin> fst ` set (s_chans s)" by (auto simp: waiter_inv_def)
  moreover have "\<And>t. s_cli (snd (installStateWaiter False t)) = s_cli t"
    using keeps_installStateWaiter [of False] by (simp add: keeps_def)
  ultimately show ?thesis
    using found assms(3)
    by (simp add: install_def sess_def reads_def on_sess_def modify_def obj_found waiting_def upd_obj_def find_put_obj
        installStateWaiter_def Let_def recv_def map_of_eq_None_iff)
qed



section \<open>Breakpoints\<close>

text \<open>
  \<open>unbreak\<close> resynchronises every file with breakpoints that lost their hit count and log message:
  all it sends are sets of bare line and condition breakpoints, so a surviving logpoint or counted
  breakpoint stops the program from then on.
\<close>

theorem unbreak_drops_hit_conditions:
  assumes "rq_Cmd req = ''unbreak''"
  shows "\<exists>log. d_sent (snd (handle env req st)) = d_sent st @ log \<and> list_all (\<lambda>(c, r). bare_sync r) log"
proof -
  have "state_io_rel (log_rel bare_sync) (handleUnbreak env req)"
    unfolding handleUnbreak_def sync_file_def SetBreakpoints_def Let_def
    by (intro bare.handler_rules) (auto simp: bare_sync_def line_cond_bp_of_def)
  then have "state_io_rel (log_rel bare_sync) (dispatch env req)"
    using assms by (simp add: dispatch_def commands_def)
  then show ?thesis by (simp add: state_io_rel_def handle_def split_beta Let_def log_rel_def list_all_iff)
qed

theorem unbreak_drops_hit_conditions_witness:
  "\<exists>log. d_sent (snd (handle (demo_env policy_zero) (mk_req ''unbreak'' [(''all'', JBool True)]) (demo_state demo_session))) =
     d_sent (demo_state demo_session) @ log \<and> list_all (\<lambda>(c, r). bare_sync r) log"
  by (rule unbreak_drops_hit_conditions) (simp add: mk_req_def)

lemma d_sent_asserted: "d_sent (snd (run_state (asserted p (Call env c limit r)) st)) = d_sent st @ [(c, r)]"
  by (simp add: state_of_asserted)

text \<open>
  Since DAP's \<open>setBreakpoints\<close> replaces the set of a file, \<open>break\<close> sends all of them: the request
  it sends holds, in some order, exactly the breakpoints the session keeps for that file, the new one
  among them, with their conditions, hit counts and log messages.
\<close>

theorem break_sends_full_set:
  assumes "find_obj c (d_mgr st) = Some s"
  shows "\<exists>bs. d_sent (snd (run_state (place_bp env c file line args) st)) = d_sent st @ [(c, ReqSetBreakpoints file bs)] \<and>
    mset bs = image_mset source_bp_of (filter_mset (\<lambda>b. bp_File b = file)
      (mset (map snd (s_bpsByID (add_bp (new_bp file line args) s))))) \<and>
    source_bp_of (new_bp file line args (s_bpNextLocalID s)) \<in> set bs"
proof -
  let ?f = "add_bp (new_bp file line args)"
  define st1 where "st1 = upd_obj c ?f st"
  define ord where "ord = fst (next_order env st1)"
  define st2 where "st2 = snd (next_order env st1)"
  let ?bps = "BPsForFile ord file (?f s)"
  have cli: "s_cli (?f t) = s_cli t" for t by (simp add: add_bp_def AllocBP_def PutBP_def)
  have "obj c st2 = ?f s"
    using assms by (intro obj_found) (simp add: st2_def st1_def next_order_def upd_obj_def find_put_obj cli)
  then have "snd (run_state (sync_file source_bp_of env c file) st1) =
      snd (run_state (SetBreakpoints env c file (map source_bp_of ?bps)) st2)"
    by (simp add: sync_file_def an_order_def sess_def reads_def Let_def run_try_call done_with_def ord_def st2_def split_beta
        split: outcome.split prod.split)
  then have sent: "d_sent (snd (run_state (sync_file source_bp_of env c file) st1)) =
      d_sent st @ [(c, ReqSetBreakpoints file (map source_bp_of ?bps))]"
    by (simp add: SetBreakpoints_def d_sent_asserted st2_def st1_def next_order_def)
  have "d_sent (snd (run_state (place_bp env c file line args) st)) = d_sent (snd (run_state (sync_file source_bp_of env c file) st1))"
    by (simp add: place_bp_def sess_def reads_def Let_def on_sess_def modify_def run_try_call ok_resp_def done_with_def
        adapter_failed_def errResp_def st1_def [symmetric] split: outcome.split prod.split)
  moreover have "mset (map source_bp_of ?bps) = image_mset source_bp_of (filter_mset (\<lambda>b. bp_File b = file)
      (mset (map snd (s_bpsByID (?f s)))))"
    by (simp add: BPsForFile_def AllBPs_def mset_filter [symmetric])
  moreover have "new_bp file line args (s_bpNextLocalID s) \<in> set ?bps"
    by (force simp: BPsForFile_def AllBPs_def add_bp_def AllocBP_def PutBP_def map_put_def new_bp_def)
  ultimately show ?thesis using sent by (intro exI [of _ "map source_bp_of ?bps"]) auto
qed

theorem break_sends_full_set_witness:
  "let args = break_args_zero\<lparr>ba_Hit := 3\<rparr> in
   \<exists>bs. d_sent (snd (run_state (place_bp (demo_env policy_zero) 0 ''/w/main.go'' 2 args) (demo_state demo_session))) =
      d_sent (demo_state demo_session) @ [(0, ReqSetBreakpoints ''/w/main.go'' bs)] \<and>
    mset bs = image_mset source_bp_of (filter_mset (\<lambda>b. bp_File b = ''/w/main.go'')
      (mset (map snd (s_bpsByID (add_bp (new_bp ''/w/main.go'' 2 args) demo_session))))) \<and>
    source_bp_of (new_bp ''/w/main.go'' 2 args (s_bpNextLocalID demo_session)) \<in> set bs"
  unfolding Let_def by (rule break_sends_full_set) (simp add: demo_simps find_obj_def)

end
