(* ===== verification/Session_Refines.thy ===== *)
theory Session_Refines
  imports Session_Steps Demo_World
begin

text \<open>
  The handlers of the daemon refine the life of a session: what a request does to a session is a
  finite run of the steps of \<open>Session_Steps\<close>, each of them one critical section of the code, and a
  session that appears is a new one followed by such a run. So whatever holds of every reachable
  session holds of every session a daemon stores.
\<close>

section \<open>Runs of steps\<close>

definition steps_to :: "(session \<Rightarrow> session) \<Rightarrow> bool" where
  "steps_to f \<longleftrightarrow> (\<forall>s. s_cli (f s) = s_cli s \<and> sess_step\<^sup>*\<^sup>* s (f s))"

lemma steps_to_step: "keeps f \<Longrightarrow> (\<And>s. sess_step s (f s)) \<Longrightarrow> steps_to f"
  by (auto simp: steps_to_def keeps_def)

lemma steps_to_comp: "steps_to f \<Longrightarrow> steps_to g \<Longrightarrow> steps_to (\<lambda>s. f (g s))"
  unfolding steps_to_def by (metis rtranclp_trans)

lemma steps_to_fold: "(\<And>x. steps_to (f x)) \<Longrightarrow> steps_to (fold f xs)"
proof (induction xs)
  case (Cons x xs)
  then show ?case using steps_to_comp [of "fold f xs" "f x"] by (simp add: comp_def)
qed (simp add: steps_to_def)

lemma reachable_steps: "sess_step\<^sup>*\<^sup>* s t \<Longrightarrow> sess_reachable s \<Longrightarrow> sess_reachable t"
  by (induction rule: rtranclp_induct) (auto intro: reach_step)

section \<open>The operations of the handlers\<close>

lemma steps_ops:
  "steps_to (handleEvent ord ts ev)" "steps_to (watchAdapterExit x)"
  "steps_to (\<lambda>s. snd (clearOnceBPs ord ids s))" "steps_to (\<lambda>s. snd (installStateWaiter b s))"
  "steps_to (dropWaiter ch)" "steps_to (SetLastLocation l)" "steps_to (\<lambda>s. snd (RemoveBP i s))"
  "steps_to (SetExcFilters excs)" "steps_to (\<lambda>s. snd (RemoveWatch j s))" "steps_to ClearWatches"
  "steps_to (AddWatch e)" "steps_to CloseSession" "steps_to (SetBPReply i d v)" "steps_to (UpdateFuncBP i d v)"
  by (rule steps_to_step; auto intro: sess_step.intros)+

lemma steps_fields:
  "steps_to (\<lambda>s. s\<lparr>s_onceQ := q s\<rparr>)" "steps_to (\<lambda>s. s\<lparr>s_pendingConfigDone := pc\<rparr>)"
  "steps_to (\<lambda>s. s\<lparr>s_caps := caps\<rparr>)"
  by (rule steps_to_step; auto intro: sess_step.intros)+

lemma steps_add_bp: "(\<And>i. bp_LocalID (mk i) = i) \<Longrightarrow> steps_to (add_bp mk)"
  by (rule steps_to_step [OF keeps_add_bp]) (auto simp: add_bp_def intro: step_new_bp [OF surjective_pairing])

lemma steps_add_func_bp: "(\<And>i. fbp_LocalID (mk i) = i) \<Longrightarrow> steps_to (add_func_bp mk)"
  by (rule steps_to_step [OF keeps_add_func_bp]) (auto simp: add_func_bp_def intro: step_new_func_bp [OF surjective_pairing])

lemma steps_apply_replies: "steps_to (apply_replies bps replies)"
  unfolding apply_replies_def by (rule steps_to_fold) (auto simp: split_beta steps_ops)

lemma steps_apply_func_replies: "steps_to (apply_func_replies fbs replies)"
  unfolding apply_func_replies_def by (rule steps_to_fold) (auto simp: split_beta steps_ops)

lemma steps_remove_ids: "steps_to (\<lambda>s. snd (remove_ids ids s))"
proof (induction ids)
  case (Cons i ids)
  then show ?case using steps_to_comp [OF Cons.IH steps_ops(7) [of i]] by (simp add: split_beta Let_def)
qed (simp add: steps_to_def)

lemma steps_removes: "steps_to (\<lambda>s. snd (remove_ids (sel s) s))"
  using steps_remove_ids by (simp add: steps_to_def)

lemma steps_add_watches: "steps_to (add_watches es)"
proof (induction es)
  case (Cons e es)
  then show ?case
    using steps_to_comp [OF Cons.IH steps_ops(11) [of e]] by (simp add: steps_to_def)
qed (simp add: steps_to_def)

lemma steps_LoadWatches: "steps_to (\<lambda>s. fst (LoadWatches hash en store s))"
  using steps_add_watches
  by (auto simp: steps_to_def LoadWatches_def Let_def split: option.split watch_file.split)

lemma describes_step: "describes s t \<Longrightarrow> sess_step s t"
  unfolding describes_def by (metis step_describe)

section \<open>The relation between the daemon's states\<close>

definition objs :: "'w dstate \<Rightarrow> session set" where
  "objs st = set (map snd (m_sessions (d_mgr st))) \<union> set_option (d_new st)"

text \<open>A session object is the run of one there was, with the same DAP client, or it is new.\<close>

definition continues :: "'w dstate \<Rightarrow> session \<Rightarrow> bool" where
  "continues st s' \<longleftrightarrow>
     (\<exists>s \<in> objs st. s_cli s = s_cli s' \<and> sess_step\<^sup>*\<^sup>* s s') \<or> (d_nextCli st \<le> s_cli s' \<and> sess_reachable s')"

definition follows :: "'w dstate \<Rightarrow> 'w dstate \<Rightarrow> bool" where
  "follows st st' \<longleftrightarrow> d_nextCli st \<le> d_nextCli st' \<and> (\<forall>s' \<in> objs st'. continues st s')"

lemma continues_self: "s \<in> objs st \<Longrightarrow> continues st s"
  by (auto simp: continues_def)

lemma continues_step: "s \<in> objs st \<Longrightarrow> s_cli t = s_cli s \<Longrightarrow> sess_step\<^sup>*\<^sup>* s t \<Longrightarrow> continues st t"
  by (auto simp: continues_def)

lemma continues_stored: "(k, s) \<in> set (m_sessions (d_mgr st)) \<Longrightarrow> continues st s"
  by (rule continues_self) (force simp: objs_def)

lemma continues_new: "d_new st = Some s \<Longrightarrow> s_cli t = s_cli s \<Longrightarrow> sess_step s t \<Longrightarrow> continues st t"
  by (rule continues_step [of s]) (auto simp: objs_def)

lemma continues_run: "continues st s \<Longrightarrow> s_cli t = s_cli s \<Longrightarrow> sess_step\<^sup>*\<^sup>* s t \<Longrightarrow> continues st t"
  unfolding continues_def by (metis reachable_steps rtranclp_trans)

lemma follows_trans: "follows st st1 \<Longrightarrow> follows st1 st2 \<Longrightarrow> follows st st2"
proof -
  assume a: "follows st st1" and b: "follows st1 st2"
  have "continues st s2" if "s2 \<in> objs st2" for s2
  proof -
    from b that have "continues st1 s2" by (simp add: follows_def)
    then show ?thesis
      unfolding continues_def [of st1]
    proof
      assume "\<exists>s \<in> objs st1. s_cli s = s_cli s2 \<and> sess_step\<^sup>*\<^sup>* s s2"
      with a show ?thesis by (auto simp: follows_def intro: continues_run)
    next
      assume "d_nextCli st1 \<le> s_cli s2 \<and> sess_reachable s2"
      with a show ?thesis by (auto simp: follows_def continues_def)
    qed
  qed
  with a b show ?thesis by (auto simp: follows_def)
qed

lemma follows_subset: "objs st' \<subseteq> objs st \<Longrightarrow> d_nextCli st' = d_nextCli st \<Longrightarrow> follows st st'"
  by (auto simp: follows_def continues_self)

lemma objs_upd: "s' \<in> objs (upd_obj c f st) \<Longrightarrow> \<exists>s \<in> objs st. s' = s \<or> s' = f s"
  by (auto simp: objs_def upd_obj_def put_obj_def map_option_case split: option.splits if_splits) force+

lemma follows_upd: "steps_to f \<Longrightarrow> follows st (upd_obj c f st)"
  using objs_upd [of _ c f st]
  by (fastforce simp: follows_def steps_to_def upd_obj_def intro: continues_self continues_step)

lemma follows_simple:
  "follows st (st\<lparr>d_sent := l\<rparr>)" "follows st (st\<lparr>d_world := w\<rparr>)" "follows st (st\<lparr>d_orders := n\<rparr>)"
  "follows st (st\<lparr>d_inits := is\<rparr>)" "follows st (st\<lparr>d_background := bg\<rparr>)" "follows st (st\<lparr>d_audit := a\<rparr>)"
  "follows st (st\<lparr>d_shutdown := sd\<rparr>)" "follows st (st\<lparr>d_store := store\<rparr>)" "follows st (st\<lparr>d_new := None\<rparr>)"
  by (rule follows_subset; simp add: objs_def)+

lemma follows_refl: "follows st st"
  by (simp add: follows_subset)

lemma follows_set_new: "(\<And>s. s_cli (f s) = s_cli s) \<Longrightarrow> (\<And>s. describes s (f s)) \<Longrightarrow> follows st (st\<lparr>d_new := map_option f (d_new st)\<rparr>)"
  by (cases "d_new st")
     (auto simp: follows_def objs_def intro: continues_stored continues_new describes_step)

lemma set_map_put: "set (map snd (map_put k v m)) \<subseteq> insert v (set (map snd m))"
  by (auto simp: map_put_def image_iff split: if_splits) 

lemma follows_register: "d_new st = Some s \<Longrightarrow> follows st (st\<lparr>d_mgr := register s (d_mgr st), d_new := None\<rparr>)"
  using set_map_put [of "s_ID s" s "m_sessions (d_mgr st)"]
  by (intro follows_subset) (auto simp: objs_def register_def)

lemma follows_remove: "follows st (st\<lparr>d_mgr := Remove ord sid (d_mgr st)\<rparr>)"
  by (rule follows_subset) (auto simp: objs_def Remove_def Let_def map_del_def)

lemma follows_default: "SetDefault sid (d_mgr st) = (None, m) \<Longrightarrow> follows st (st\<lparr>d_mgr := m\<rparr>)"
  by (rule follows_subset) (auto simp: objs_def SetDefault_def split: if_splits)

lemma follows_save: "follows st (save_store env sid st)"
  by (auto simp: save_store_def follows_refl follows_simple split: option.split)

lemma follows_load: "follows st (load_store env c st)"
  unfolding load_store_def Let_def
  by (rule follows_trans [OF follows_upd [OF steps_LoadWatches] follows_simple(8)])

lemma follows_new: "follows st (st\<lparr>d_new := Some (newSession (d_nextCli st) sid lang), d_nextCli := Suc (d_nextCli st)\<rparr>)"
proof -
  have "continues st (newSession (d_nextCli st) sid lang)"
    by (simp add: continues_def reach_new) (simp add: newSession_def)
  then show ?thesis by (auto simp: follows_def objs_def intro: continues_stored)
qed

section \<open>Every command\<close>

interpretation life0: daemon_relation follows steps_to "\<lambda>_. True"
  by unfold_locales
     (erule (1) follows_trans |
      simp add: follows_refl follows_upd follows_simple steps_ops steps_fields steps_removes steps_apply_replies
        steps_apply_func_replies)+

lemma steps_add_until: "steps_to (add_bp (until_bp file line))"
  by (rule steps_add_bp) (simp add: until_bp_def)

interpretation life: table_relation follows steps_to "\<lambda>_. True"
  by unfold_locales
     (simp_all add: life0.io_sync_any life0.io_sync_funcs_any steps_add_until follows_set_new follows_register
        follows_remove follows_default follows_save follows_load follows_new follows_simple steps_fields steps_ops)

lemma follows_dispatch: "state_io_rel follows (dispatch env req)"
proof -
  have "state_io_rel follows (run_cmd env cmd req)" for cmd
    by (rule life.io_run_cmd) (auto intro: steps_add_bp steps_add_func_bp steps_ops)
  then show ?thesis unfolding dispatch_def by (intro life.launch_rules)
qed

lemma follows_handle: "follows st (snd (handle env req st))"
  using follows_dispatch [of env req] by (auto simp: handle_def split_beta Let_def state_io_rel_def)

lemma follows_serve: "follows st (snd (serve env reqs st))"
  by (rule serve_induct [of "follows st"]) (auto intro: follows_trans follows_handle follows_refl)

text \<open>With one object per DAP client, the object a session continues is the only one of its client.\<close>

lemma one_object: "ds_inv st \<Longrightarrow> s \<in> objs st \<Longrightarrow> t \<in> objs st \<Longrightarrow> s_cli s = s_cli t \<Longrightarrow> s = t"
  by (auto simp: ds_inv_def clis_def objs_def distinct_map inj_on_def image_iff split: option.splits)

text \<open>A daemon that starts, and every daemon after the requests it served, is sound.\<close>

definition sound_daemon :: "'w dstate \<Rightarrow> bool" where
  "sound_daemon st \<longleftrightarrow> ds_inv st \<and> (\<forall>s \<in> objs st. sess_reachable s)"

lemma started_sound: "sound_daemon (start_daemon env store w)"
  by (simp add: sound_daemon_def start_daemon_inv) (simp add: objs_def start_daemon_def NewManager_def SetMaxSessions_def)

lemma follows_sound: "follows st st' \<Longrightarrow> \<forall>s \<in> objs st. sess_reachable s \<Longrightarrow> \<forall>s \<in> objs st'. sess_reachable s"
  unfolding follows_def continues_def by (metis reachable_steps)

lemma handle_sound: "sound_daemon st \<Longrightarrow> sound_daemon (snd (handle env req st))"
  unfolding sound_daemon_def using inv_handle follows_sound [OF follows_handle] by blast

lemma serve_sound: "sound_daemon st \<Longrightarrow> sound_daemon (snd (serve env reqs st))"
  by (rule serve_induct [of sound_daemon]) (rule handle_sound)

lemma old_client: "ds_inv st \<Longrightarrow> s \<in> objs st \<Longrightarrow> s_cli s < d_nextCli st"
  by (auto simp: ds_inv_def clis_def objs_def split: option.splits)

text \<open>
  C10. The handlers refine the session. However many requests a daemon has served, every session it
  stores after one more is reachable by the steps of \<open>Session_Steps\<close>, so within its invariant; and it
  is the run of such steps from the one session object that had its DAP client before the request, or
  its client is new. What the adapters answer, what happens beside the handlers and the errors on the
  way make no difference. The daemon begins sound when it starts (\<open>started_sound\<close>), so this holds of
  every daemon since its start.
\<close>

theorem handlers_refine_sessions:
  assumes "sound_daemon st0" and "st = snd (serve env reqs st0)"
    and "(sid, s') \<in> set (m_sessions (d_mgr (snd (handle env req st))))"
  shows "sess_reachable s' \<and> sess_inv s' \<and>
    ((\<exists>s \<in> objs st. s_cli s = s_cli s' \<and> sess_step\<^sup>*\<^sup>* s s' \<and> (\<forall>t \<in> objs st. s_cli t = s_cli s' \<longrightarrow> t = s)) \<or>
     (\<forall>t \<in> objs st. s_cli t \<noteq> s_cli s'))"
proof -
  have sound: "sound_daemon st" using assms(1) unfolding assms(2) by (rule serve_sound)
  then have inv: "ds_inv st" by (simp add: sound_daemon_def)
  have obj: "s' \<in> objs (snd (handle env req st))" using assms(3) by (force simp: objs_def)
  with handle_sound [OF sound] have reach: "sess_reachable s'" by (auto simp: sound_daemon_def)
  have "continues st s'" using follows_handle [of st env req] obj by (simp add: follows_def)
  then show ?thesis
    using reach reachable_inv [OF reach] one_object [OF inv] old_client [OF inv]
    unfolding continues_def by (metis not_less)
qed

theorem handlers_refine_sessions_witness:
  "\<exists>s'. sess_step\<^sup>*\<^sup>* (newSession 0 ''s1'' ''go'') s' \<and> sess_reachable s' \<and> map w_Expression (s_watches s') = [''x'']"
proof -
  let ?env = "demo_env open_policy" and ?s = "newSession 0 ''s1'' ''go''"
  let ?st = "demo_state ?s"
  let ?req = "mk_req ''watch'' [(''action'', JStr ''add''), (''expression'', JStr ''x'')]"
  have objs: "objs ?st = {?s}"
    by (simp add: objs_def demo_state_def register_def NewManager_def map_put_def)
  have sound: "sound_daemon ?st"
    unfolding sound_daemon_def objs
    by (simp add: reach_new ds_inv_def mgr_inv_def clis_def demo_state_def register_def NewManager_def map_put_def sess_inv_new)
       (simp add: newSession_def)
  have run: "?st = snd (serve ?env [] ?st)" by simp
  have "map_option (\<lambda>s. (s_cli s, map w_Expression (s_watches s)))
      (map_of (m_sessions (d_mgr (snd (handle ?env ?req ?st)))) ''s1'') = Some (0, [''x''])"
    by code_simp
  then obtain s' where s': "map_of (m_sessions (d_mgr (snd (handle ?env ?req ?st)))) ''s1'' = Some s'"
      "s_cli s' = 0" "map w_Expression (s_watches s') = [''x'']"
    by auto
  have "s_cli ?s = 0" by (simp add: newSession_def)
  with handlers_refine_sessions [OF sound run map_of_SomeD [OF s'(1)]] s' show ?thesis
    unfolding objs by auto
qed

end
