(* ===== verification/Dap_Client.thy ===== *)
theory Dap_Client
  imports Prelude
begin

text \<open>
  The DAP client of \<open>internal/dap/client.go\<close>: sequence numbers, the table of pending calls, the event
  subscribers, the read loop and \<open>Close\<close>, with Go's channels as an explicit heap. Every region the
  code runs under the client's mutex is one function here; \<open>dispatch\<close> releases the mutex between its
  regions, so what is left of it is the program counter of the read loop. The step relation
  interleaves the read loop, the callers and \<open>Close\<close> at the boundaries of these regions. A send on a
  closed channel and a second \<open>close\<close> are run-time panics: the state \<open>y_panic\<close>.
  The content of messages plays no role and is the type parameter.
\<close>

section \<open>Messages and channels\<close>

text \<open>A response carries the sequence number of its request; everything else is an event.\<close>

datatype 'p msg = Response (m_requestSeq: int) (m_success: bool) (m_message: string) 'p | Event 'p

record 'p chan =
  ch_cap :: nat
  ch_buf :: "'p msg list"
  ch_closed :: bool

datatype 'p sent = Sent "'p chan" | Blocked | Panics

definition chan_send :: "'p msg \<Rightarrow> 'p chan \<Rightarrow> 'p sent" where
  "chan_send m ch =
     (if ch_closed ch then Panics
      else if length (ch_buf ch) < ch_cap ch then Sent (ch\<lparr>ch_buf := ch_buf ch @ [m]\<rparr>)
      else Blocked)"

section \<open>The client\<close>

record 'p client =
  c_seq :: int
  c_pending :: "(int \<times> nat) list"
  c_subs :: "nat list"
  c_isClosed :: bool
  c_readerErr :: "string option"
  c_chans :: "'p chan list"

definition New :: "'p client" where
  "New = \<lparr>c_seq = 0, c_pending = [], c_subs = [], c_isClosed = False, c_readerErr = None, c_chans = []\<rparr>"

definition make_chan :: "nat \<Rightarrow> 'p client \<Rightarrow> nat \<times> 'p client" where
  "make_chan cap c = (length (c_chans c), c\<lparr>c_chans := c_chans c @ [\<lparr>ch_cap = cap, ch_buf = [], ch_closed = False\<rparr>]\<rparr>)"

text \<open>\<open>close(ch)\<close>; \<open>None\<close> is the panic of closing twice.\<close>

definition close_chan :: "nat \<Rightarrow> 'p client \<Rightarrow> 'p client option" where
  "close_chan i c =
     (if ch_closed (c_chans c ! i) then None
      else Some (c\<lparr>c_chans := (c_chans c)[i := (c_chans c ! i)\<lparr>ch_closed := True\<rparr>]\<rparr>))"

fun close_all :: "nat list \<Rightarrow> 'p client \<Rightarrow> 'p client option" where
  "close_all [] c = Some c"
| "close_all (i # is) c = (case close_chan i c of None \<Rightarrow> None | Some c' \<Rightarrow> close_all is c')"

text \<open>\<open>Close\<close>, one region under the mutex.\<close>

definition Close_client :: "range_order \<Rightarrow> 'p client \<Rightarrow> 'p client option" where
  "Close_client ord c =
     (if c_isClosed c then Some c
      else case close_all (map snd (go_range ord (c_pending c))) (c\<lparr>c_isClosed := True\<rparr>) of
          None \<Rightarrow> None
        | Some c1 \<Rightarrow> map_option (\<lambda>c2. c2\<lparr>c_subs := []\<rparr>) (close_all (c_subs c1) (c1\<lparr>c_pending := []\<rparr>)))"

definition nextSeq :: "'p client \<Rightarrow> int \<times> 'p client" where
  "nextSeq c = (c_seq c + 1, c\<lparr>c_seq := c_seq c + 1\<rparr>)"

definition Subscribe :: "'p client \<Rightarrow> nat \<times> 'p client" where
  "Subscribe c = (let (ch, c1) = make_chan 64 c in (ch, c1\<lparr>c_subs := c_subs c1 @ [ch]\<rparr>))"

text \<open>\<open>send\<close> up to the write: a fresh number, a channel of capacity one, the pending entry.\<close>

definition send_register :: "'p client \<Rightarrow> (string + int \<times> nat) \<times> 'p client" where
  "send_register c =
     (let (seq, c1) = nextSeq c; (ch, c2) = make_chan 1 c1 in
      if c_isClosed c2 then (Inl ''dap client closed'', c2)
      else (Inr (seq, ch), c2\<lparr>c_pending := map_put seq ch (c_pending c2)\<rparr>))"

text \<open>The entry is dropped when the write fails, when the timer fires and when the context ends.\<close>

definition forget :: "int \<Rightarrow> 'p client \<Rightarrow> 'p client" where
  "forget seq c = c\<lparr>c_pending := map_del seq (c_pending c)\<rparr>"

text \<open>The read loop at an error of the stream: every pending channel is closed and dropped.\<close>

definition reader_failed :: "range_order \<Rightarrow> string \<Rightarrow> 'p client \<Rightarrow> 'p client option" where
  "reader_failed ord err c =
     map_option (\<lambda>c1. c1\<lparr>c_pending := []\<rparr>)
       (close_all (map snd (go_range ord (c_pending c))) (c\<lparr>c_readerErr := Some err\<rparr>))"

text \<open>
  \<open>dispatch\<close>: under the mutex the pending channel of a response is taken out; otherwise (events, and
  responses nobody waits for) the subscribers are copied under the mutex and served without it.
\<close>

datatype 'p reader = Reading | Delivering nat "'p msg" | Copying "'p msg" | Fanning "'p msg" "nat list" | Stopped

fun dispatch_lookup :: "'p msg \<Rightarrow> 'p client \<Rightarrow> 'p reader \<times> 'p client" where
  "dispatch_lookup (Response seq okay txt p) c =
     (case map_of (c_pending c) seq of
        Some ch \<Rightarrow> (Delivering ch (Response seq okay txt p), c\<lparr>c_pending := map_del seq (c_pending c)\<rparr>)
      | None \<Rightarrow> (Copying (Response seq okay txt p), c))"
| "dispatch_lookup (Event p) c = (Copying (Event p), c)"

definition put_chan :: "nat \<Rightarrow> 'p chan \<Rightarrow> 'p client \<Rightarrow> 'p client" where
  "put_chan i ch c = c\<lparr>c_chans := (c_chans c)[i := ch]\<rparr>"

text \<open>\<open>ch <- msg; close(ch)\<close> of a response, and the non-blocking send to one subscriber.\<close>

definition deliver_response :: "nat \<Rightarrow> 'p msg \<Rightarrow> 'p client \<Rightarrow> 'p client option" where
  "deliver_response i m c =
     (case chan_send m (c_chans c ! i) of
        Sent ch \<Rightarrow> Some (put_chan i (ch\<lparr>ch_closed := True\<rparr>) c)
      | _ \<Rightarrow> None)"

definition offer_event :: "nat \<Rightarrow> 'p msg \<Rightarrow> 'p client \<Rightarrow> 'p client option" where
  "offer_event i m c =
     (case chan_send m (c_chans c ! i) of
        Sent ch \<Rightarrow> Some (put_chan i ch c)
      | Blocked \<Rightarrow> Some c
      | Panics \<Rightarrow> None)"

section \<open>Calls\<close>

text \<open>
  A call is a goroutine in \<open>Call\<close>: its number and channel, whether the request is written, and its
  result once the \<open>select\<close> has chosen a branch. The channel of a call is received from by that call
  alone. A response that reports failure is returned together with its error.
\<close>

datatype 'p call_result =
    Got "'p msg" | AdapterError "'p msg" string | WriteFailed string | Disconnected int | TimedOut int | Cancelled_ctx

record 'p call =
  k_seq :: int
  k_chan :: nat
  k_written :: bool
  k_result :: "'p call_result option"

text \<open>The branch \<open>msg, ok := <-ch\<close>; \<open>None\<close> while the channel is open and empty.\<close>

definition receive :: "'p call \<Rightarrow> 'p client \<Rightarrow> ('p call_result \<times> 'p client) option" where
  "receive k c =
     (case ch_buf (c_chans c ! k_chan k) of
        m # ms \<Rightarrow>
          Some (case m of Response s okay txt p \<Rightarrow> if okay then Got m else AdapterError m (''dap error: '' @ txt) | Event _ \<Rightarrow> Got m,
                put_chan (k_chan k) ((c_chans c ! k_chan k)\<lparr>ch_buf := ms\<rparr>) c)
      | [] \<Rightarrow> if ch_closed (c_chans c ! k_chan k) then Some (Disconnected (k_seq k), c) else None)"

section \<open>The whole: callers, read loop, Close\<close>

record 'p sys =
  y_client :: "'p client"
  y_reader :: "'p reader"
  y_calls :: "'p call list"
  y_panic :: bool

definition sys_start :: "'p sys" where
  "sys_start = \<lparr>y_client = New, y_reader = Reading, y_calls = [], y_panic = False\<rparr>"

definition apply_region :: "'p client option \<Rightarrow> 'p reader \<Rightarrow> 'p sys \<Rightarrow> 'p sys" where
  "apply_region r rd y =
     (case r of None \<Rightarrow> y\<lparr>y_panic := True\<rparr> | Some c \<Rightarrow> y\<lparr>y_client := c, y_reader := rd\<rparr>)"

definition waits :: "nat \<Rightarrow> bool \<Rightarrow> 'p sys \<Rightarrow> bool" where
  "waits i written y \<longleftrightarrow>
     \<not> y_panic y \<and> i < length (y_calls y) \<and> k_written (y_calls y ! i) = written \<and> k_result (y_calls y ! i) = None"

definition finish_call :: "nat \<Rightarrow> 'p call_result \<Rightarrow> 'p client \<Rightarrow> 'p sys \<Rightarrow> 'p sys" where
  "finish_call i r c y =
     y\<lparr>y_calls := (y_calls y)[i := (y_calls y ! i)\<lparr>k_result := Some r\<rparr>], y_client := c\<rparr>"

inductive client_step :: "'p sys \<Rightarrow> 'p sys \<Rightarrow> bool" where
  step_call:
    "\<not> y_panic y \<Longrightarrow> send_register (y_client y) = (Inr (seq, ch), c) \<Longrightarrow>
     client_step y (y\<lparr>y_client := c, y_calls := y_calls y @ [\<lparr>k_seq = seq, k_chan = ch, k_written = False, k_result = None\<rparr>]\<rparr>)"
| step_refused:
    "\<not> y_panic y \<Longrightarrow> send_register (y_client y) = (Inl e, c) \<Longrightarrow> client_step y (y\<lparr>y_client := c\<rparr>)"
| step_write:
    "waits i False y \<Longrightarrow>
     client_step y (y\<lparr>y_calls := (y_calls y)[i := (y_calls y ! i)\<lparr>k_written := True\<rparr>]\<rparr>)"
| step_write_error:
    "waits i False y \<Longrightarrow>
     client_step y (finish_call i (WriteFailed e) (forget (k_seq (y_calls y ! i)) (y_client y)) y)"
| step_subscribe:
    "\<not> y_panic y \<Longrightarrow> client_step y (y\<lparr>y_client := snd (Subscribe (y_client y))\<rparr>)"
| step_close:
    "\<not> y_panic y \<Longrightarrow> client_step y (apply_region (Close_client ord (y_client y)) (y_reader y) y)"
| step_read:
    "\<not> y_panic y \<Longrightarrow> y_reader y = Reading \<Longrightarrow> dispatch_lookup m (y_client y) = (rd, c) \<Longrightarrow>
     client_step y (y\<lparr>y_client := c, y_reader := rd\<rparr>)"
| step_deliver:
    "\<not> y_panic y \<Longrightarrow> y_reader y = Delivering ch m \<Longrightarrow>
     client_step y (apply_region (deliver_response ch m (y_client y)) Reading y)"
| step_copy:
    "\<not> y_panic y \<Longrightarrow> y_reader y = Copying m \<Longrightarrow> client_step y (y\<lparr>y_reader := Fanning m (c_subs (y_client y))\<rparr>)"
| step_offer:
    "\<not> y_panic y \<Longrightarrow> y_reader y = Fanning m (ch # chs) \<Longrightarrow>
     client_step y (apply_region (offer_event ch m (y_client y)) (Fanning m chs) y)"
| step_fanned:
    "\<not> y_panic y \<Longrightarrow> y_reader y = Fanning m [] \<Longrightarrow> client_step y (y\<lparr>y_reader := Reading\<rparr>)"
| step_read_error:
    "\<not> y_panic y \<Longrightarrow> y_reader y = Reading \<Longrightarrow>
     client_step y (apply_region (reader_failed ord err (y_client y)) Stopped y)"
| step_receive:
    "waits i True y \<Longrightarrow>
     receive (y_calls y ! i) (y_client y) = Some (r, c) \<Longrightarrow> client_step y (finish_call i r c y)"
| step_timeout:
    "waits i True y \<Longrightarrow>
     client_step y (finish_call i (TimedOut (k_seq (y_calls y ! i))) (forget (k_seq (y_calls y ! i)) (y_client y)) y)"
| step_cancel:
    "waits i True y \<Longrightarrow>
     client_step y (finish_call i Cancelled_ctx (forget (k_seq (y_calls y ! i)) (y_client y)) y)"

inductive client_reachable :: "'p sys \<Rightarrow> bool" where
  reach_start: "client_reachable sys_start"
| reach_next: "client_reachable y \<Longrightarrow> client_step y y' \<Longrightarrow> client_reachable y'"

inductive_cases client_stepE: "client_step y y'"

section \<open>The invariant\<close>

text \<open>
  A channel belongs to one call or to one subscriber. \<open>fits_call\<close>: what the buffer of a call's channel
  may hold. \<open>served\<close>: an unfinished call is registered, or being answered, or its channel is closed.
\<close>

fun fits_call :: "int \<Rightarrow> 'p msg \<Rightarrow> bool" where
  "fits_call s (Response s' _ _ _) = (s' = s)"
| "fits_call s (Event _) = False"

fun fits_result :: "int \<Rightarrow> 'p call_result \<Rightarrow> bool" where
  "fits_result s (Got m) = (fits_call s m \<and> m_success m)"
| "fits_result s (AdapterError m e) = (fits_call s m \<and> \<not> m_success m \<and> e = ''dap error: '' @ m_message m)"
| "fits_result s _ = True"

definition idle_chan :: "'p client \<Rightarrow> nat \<Rightarrow> bool" where
  "idle_chan c i \<longleftrightarrow> i < length (c_chans c) \<and> \<not> ch_closed (c_chans c ! i) \<and> ch_buf (c_chans c ! i) = [] \<and> ch_cap (c_chans c ! i) = 1"

definition pending_ok :: "'p client \<Rightarrow> 'p call list \<Rightarrow> bool" where
  "pending_ok c ks \<longleftrightarrow>
     distinct (map fst (c_pending c)) \<and> distinct (map snd (c_pending c)) \<and>
     (\<forall>(s, ch) \<in> set (c_pending c). idle_chan c ch \<and> (s, ch) \<in> (\<lambda>k. (k_seq k, k_chan k)) ` set ks) \<and>
     (c_isClosed c \<longrightarrow> c_pending c = [])"

definition subs_ok :: "'p client \<Rightarrow> 'p call list \<Rightarrow> bool" where
  "subs_ok c ks \<longleftrightarrow>
     distinct (c_subs c) \<and>
     (\<forall>i \<in> set (c_subs c). i < length (c_chans c) \<and> \<not> ch_closed (c_chans c ! i) \<and> i \<notin> k_chan ` set ks)"

definition call_ok :: "'p client \<Rightarrow> 'p call \<Rightarrow> bool" where
  "call_ok c k \<longleftrightarrow>
     k_chan k < length (c_chans c) \<and> k_seq k \<le> c_seq c \<and>
     list_all (fits_call (k_seq k)) (ch_buf (c_chans c ! k_chan k)) \<and>
     (case k_result k of None \<Rightarrow> True | Some r \<Rightarrow> fits_result (k_seq k) r)"

fun reader_ok :: "'p client \<Rightarrow> 'p call list \<Rightarrow> 'p reader \<Rightarrow> bool" where
  "reader_ok c ks (Delivering ch m) \<longleftrightarrow>
     idle_chan c ch \<and> ch \<notin> snd ` set (c_pending c) \<and> (\<exists>k \<in> set ks. k_chan k = ch \<and> fits_call (k_seq k) m)"
| "reader_ok c ks (Fanning m chs) \<longleftrightarrow>
     (\<forall>i \<in> set chs. i < length (c_chans c) \<and> i \<notin> k_chan ` set ks \<and> (ch_closed (c_chans c ! i) \<longrightarrow> c_isClosed c))"
| "reader_ok c ks _ \<longleftrightarrow> True"

fun answering :: "'p reader \<Rightarrow> nat \<Rightarrow> bool" where
  "answering (Delivering ch _) i = (ch = i)"
| "answering _ i = False"

definition served :: "'p client \<Rightarrow> 'p reader \<Rightarrow> 'p call \<Rightarrow> bool" where
  "served c rd k \<longleftrightarrow>
     k_result k = None \<longrightarrow>
     (k_seq k, k_chan k) \<in> set (c_pending c) \<or> answering rd (k_chan k) \<or> ch_closed (c_chans c ! k_chan k)"

definition sys_ok :: "'p sys \<Rightarrow> bool" where
  "sys_ok y \<longleftrightarrow>
     pending_ok (y_client y) (y_calls y) \<and> subs_ok (y_client y) (y_calls y) \<and>
     reader_ok (y_client y) (y_calls y) (y_reader y) \<and>
     distinct (map k_chan (y_calls y)) \<and> distinct (map k_seq (y_calls y)) \<and>
     (\<forall>k \<in> set (y_calls y). call_ok (y_client y) k \<and> served (y_client y) (y_reader y) k)"

text \<open>Closing several channels, as one update.\<close>

definition mark_closed :: "nat set \<Rightarrow> 'p client \<Rightarrow> 'p client" where
  "mark_closed A c =
     c\<lparr>c_chans := map (\<lambda>i. if i \<in> A then (c_chans c ! i)\<lparr>ch_closed := True\<rparr> else c_chans c ! i) [0..<length (c_chans c)]\<rparr>"

lemma mark_closed_simps [simp]:
  "length (c_chans (mark_closed A c)) = length (c_chans c)"
  "i < length (c_chans c) \<Longrightarrow> ch_closed (c_chans (mark_closed A c) ! i) = (i \<in> A \<or> ch_closed (c_chans c ! i))"
  "i < length (c_chans c) \<Longrightarrow> ch_buf (c_chans (mark_closed A c) ! i) = ch_buf (c_chans c ! i)"
  "i < length (c_chans c) \<Longrightarrow> ch_cap (c_chans (mark_closed A c) ! i) = ch_cap (c_chans c ! i)"
  "c_seq (mark_closed A c) = c_seq c"
  "c_pending (mark_closed A c) = c_pending c"
  "c_subs (mark_closed A c) = c_subs c"
  "c_isClosed (mark_closed A c) = c_isClosed c"
  by (simp_all add: mark_closed_def)

lemma mark_closed_empty [simp]: "mark_closed {} c = c"
  by (simp add: mark_closed_def map_nth)

lemma mark_closed_insert:
  assumes "i < length (c_chans c)"
  shows "mark_closed A (c\<lparr>c_chans := (c_chans c)[i := (c_chans c ! i)\<lparr>ch_closed := True\<rparr>]\<rparr>) = mark_closed (insert i A) c"
  using assms by (auto simp: mark_closed_def intro!: client.equality nth_equalityI simp: nth_list_update)

lemma close_all_mark:
  assumes "distinct is" "\<forall>i \<in> set is. i < length (c_chans c) \<and> \<not> ch_closed (c_chans c ! i)"
  shows "close_all is c = Some (mark_closed (set is) c)"
  using assms
proof (induction "is" arbitrary: c)
  case (Cons i "is")
  let ?c = "c\<lparr>c_chans := (c_chans c)[i := (c_chans c ! i)\<lparr>ch_closed := True\<rparr>]\<rparr>"
  have "close_all is ?c = Some (mark_closed (set is) ?c)"
    by (rule Cons.IH) (use Cons.prems in \<open>auto simp: nth_list_update\<close>)
  then show ?case using Cons.prems by (simp add: close_chan_def mark_closed_insert)
qed simp

lemma pending_call: "pending_ok c ks \<Longrightarrow> (s, ch) \<in> set (c_pending c) \<Longrightarrow> ch \<in> k_chan ` set ks"
  by (force simp: pending_ok_def)

lemma close_all_pending:
  assumes "pending_ok c ks"
  shows "close_all (map snd (go_range ord (c_pending c))) c = Some (mark_closed (snd ` set (c_pending c)) c)"
proof -
  have "mset (map snd (go_range ord (c_pending c))) = mset (map snd (c_pending c))" by simp
  then have "distinct (map snd (go_range ord (c_pending c)))"
    using assms mset_eq_imp_distinct_iff by (metis pending_ok_def)
  then show ?thesis
    using close_all_mark [of "map snd (go_range ord (c_pending c))" c] assms
    by (fastforce simp: pending_ok_def idle_chan_def simp del: mset_map)
qed

lemma close_all_commute:
  assumes "\<And>i c. close_chan i (f c) = map_option f (close_chan i c)"
  shows "close_all is (f c) = map_option f (close_all is c)"
  by (induction "is" arbitrary: c) (auto simp: assms split: option.splits)

lemma close_all_update [simp]:
  "close_all is (c\<lparr>c_isClosed := b\<rparr>) = map_option (\<lambda>c'. c'\<lparr>c_isClosed := b\<rparr>) (close_all is c)"
  "close_all is (c\<lparr>c_readerErr := e\<rparr>) = map_option (\<lambda>c'. c'\<lparr>c_readerErr := e\<rparr>) (close_all is c)"
  "close_all is (c\<lparr>c_pending := ps\<rparr>) = map_option (\<lambda>c'. c'\<lparr>c_pending := ps\<rparr>) (close_all is c)"
  by (rule close_all_commute; simp add: close_chan_def)+

text \<open>The two regions that close channels never close one twice.\<close>

lemma reader_failed_eq:
  assumes "pending_ok c ks"
  shows "reader_failed ord err c =
           Some ((mark_closed (snd ` set (c_pending c)) c)\<lparr>c_readerErr := Some err, c_pending := []\<rparr>)"
  using close_all_pending [OF assms, of ord] by (simp add: reader_failed_def)

lemma Close_client_eq:
  assumes "pending_ok c ks" "subs_ok c ks" "\<not> c_isClosed c"
  shows "Close_client ord c =
           Some ((mark_closed (set (c_subs c)) (mark_closed (snd ` set (c_pending c)) c))
                   \<lparr>c_isClosed := True, c_pending := [], c_subs := []\<rparr>)"
proof -
  let ?c = "mark_closed (snd ` set (c_pending c)) c"
  have "i \<notin> snd ` set (c_pending c)" if i: "i \<in> set (c_subs c)" for i
    using i assms pending_call [OF assms(1)] by (auto simp: subs_ok_def)
  then have "close_all (c_subs c) ?c = Some (mark_closed (set (c_subs c)) ?c)"
    by (intro close_all_mark) (use assms(2) in \<open>simp_all add: subs_ok_def\<close>)
  then show ?thesis using assms close_all_pending [of c ks ord] by (simp add: Close_client_def)
qed

section \<open>Every step keeps the invariant\<close>

lemmas ok_defs = sys_ok_def pending_ok_def subs_ok_def call_ok_def served_def idle_chan_def

text \<open>What a call does to itself: it is written, or it finishes and its entry is dropped.\<close>

lemma call_update_keys:
  assumes "i < length ks" "k_seq k' = k_seq (ks ! i)" "k_chan k' = k_chan (ks ! i)"
  shows "map k_seq (ks[i := k']) = map k_seq ks" "map k_chan (ks[i := k']) = map k_chan ks"
  using assms by (simp_all add: map_update list_update_same_conv)

lemma call_update_image:
  assumes "i < length ks" "k_seq k' = k_seq (ks ! i)" "k_chan k' = k_chan (ks ! i)"
  shows "k_chan ` set (ks[i := k']) = k_chan ` set ks"
    and "(\<lambda>k. (k_seq k, k_chan k)) ` set (ks[i := k']) = (\<lambda>k. (k_seq k, k_chan k)) ` set ks"
proof -
  show "k_chan ` set (ks[i := k']) = k_chan ` set ks"
    using call_update_keys(2) [OF assms] by (metis set_map)
  have "map (\<lambda>k. (k_seq k, k_chan k)) (ks[i := k']) = map (\<lambda>k. (k_seq k, k_chan k)) ks"
    using assms by (simp add: map_update list_update_same_conv)
  then show "(\<lambda>k. (k_seq k, k_chan k)) ` set (ks[i := k']) = (\<lambda>k. (k_seq k, k_chan k)) ` set ks"
    by (metis set_map)
qed

text \<open>
  The part of the invariant that speaks of the calls does so through their numbers and channels; a
  change of one call's progress leaves these alone.
\<close>

lemma sys_ok_call_update:
  assumes y: "sys_ok y" and i: "i < length (y_calls y)"
    and same: "k_seq k' = k_seq (y_calls y ! i)" "k_chan k' = k_chan (y_calls y ! i)"
    and k': "call_ok (y_client y) k'" "served (y_client y) (y_reader y) k'"
  shows "sys_ok (y\<lparr>y_calls := (y_calls y)[i := k']\<rparr>)"
proof -
  note keys = call_update_keys [OF i same] and imgs = call_update_image [OF i same]
  have rd: "reader_ok (y_client y) ((y_calls y)[i := k']) (y_reader y)"
  proof (cases "y_reader y")
    case (Delivering ch m)
    with y obtain k where k: "k \<in> set (y_calls y)" "k_chan k = ch" "fits_call (k_seq k) m"
      by (auto simp: sys_ok_def)
    then have "(k_seq k, k_chan k) \<in> (\<lambda>k. (k_seq k, k_chan k)) ` set ((y_calls y)[i := k'])"
      unfolding imgs(2) by blast
    then show ?thesis using y Delivering k by (force simp: sys_ok_def)
  next
    case (Fanning m chs)
    then show ?thesis using y by (simp add: sys_ok_def imgs(1))
  qed simp_all
  have "\<forall>k \<in> set ((y_calls y)[i := k']). call_ok (y_client y) k \<and> served (y_client y) (y_reader y) k"
    using y k' set_update_subset_insert [of "y_calls y" i k'] by (fastforce simp: sys_ok_def)
  then show ?thesis
    using y rd by (simp add: sys_ok_def keys pending_ok_def subs_ok_def imgs)
qed

lemma sys_ok_forget:
  assumes y: "sys_ok y" and s: "\<And>k. k \<in> set (y_calls y) \<Longrightarrow> k_seq k = s \<Longrightarrow> k_result k \<noteq> None"
  shows "sys_ok (y\<lparr>y_client := forget s (y_client y)\<rparr>)"
proof -
  let ?c = "forget s (y_client y)"
  have p: "pending_ok ?c (y_calls y)"
    using y by (auto simp: ok_defs forget_def map_del_def distinct_map intro: inj_on_subset)
  have r: "reader_ok ?c (y_calls y) (y_reader y)"
    using y by (cases "y_reader y") (auto simp: ok_defs forget_def map_del_def)
  have "served ?c (y_reader y) k" if k: "k \<in> set (y_calls y)" for k
    using y k s [OF k] by (auto simp: ok_defs forget_def map_del_def)
  then show ?thesis using y p r by (auto simp: sys_ok_def subs_ok_def call_ok_def forget_def)
qed

lemma sys_ok_finish:
  assumes y: "sys_ok y" and i: "i < length (y_calls y)" and r: "fits_result (k_seq (y_calls y ! i)) r"
  shows "sys_ok (finish_call i r (y_client y) y)"
    and "sys_ok (finish_call i r (forget (k_seq (y_calls y ! i)) (y_client y)) y)"
proof -
  let ?k = "(y_calls y ! i)\<lparr>k_result := Some r\<rparr>"
  have "call_ok (y_client y) (y_calls y ! i)" using y i by (simp add: sys_ok_def)
  then have "call_ok (y_client y) ?k" using r by (simp add: call_ok_def)
  then have ok: "sys_ok (y\<lparr>y_calls := (y_calls y)[i := ?k]\<rparr>)"
    using y i by (intro sys_ok_call_update) (simp_all add: served_def)
  then show "sys_ok (finish_call i r (y_client y) y)" by (simp add: finish_call_def)
  have "distinct (map k_seq (y_calls y))" using y by (simp add: sys_ok_def)
  then have "k_result k \<noteq> None" if k: "k \<in> set ((y_calls y)[i := ?k])" "k_seq k = k_seq (y_calls y ! i)" for k
  proof -
    obtain j where j: "j < length (y_calls y)" "k = (y_calls y)[i := ?k] ! j"
      using k(1) by (metis in_set_conv_nth length_list_update)
    with k(2) have "k_seq (y_calls y ! j) = k_seq (y_calls y ! i)" by (cases "j = i") simp_all
    with j i \<open>distinct (map k_seq (y_calls y))\<close> have "j = i" by (simp add: distinct_conv_nth) metis
    with j i show ?thesis by simp
  qed
  then show "sys_ok (finish_call i r (forget (k_seq (y_calls y ! i)) (y_client y)) y)"
    using sys_ok_forget [OF ok, of "k_seq (y_calls y ! i)"] by (simp add: finish_call_def)
qed

text \<open>A message taken from a channel, or put into a subscriber's.\<close>

lemma pending_ok_idle:
  assumes "pending_ok c ks" "\<And>s j. (s, j) \<in> set (c_pending c) \<Longrightarrow> idle_chan c j \<Longrightarrow> idle_chan c' j"
    and "c_pending c' = c_pending c" "c_isClosed c' = c_isClosed c"
  shows "pending_ok c' ks"
  using assms by (auto simp: pending_ok_def)

lemma put_chan_simps [simp]:
  "c_seq (put_chan i ch c) = c_seq c" "c_pending (put_chan i ch c) = c_pending c"
  "c_subs (put_chan i ch c) = c_subs c" "c_isClosed (put_chan i ch c) = c_isClosed c"
  "length (c_chans (put_chan i ch c)) = length (c_chans c)"
  by (simp_all add: put_chan_def)

lemma idle_chan_put: "j \<noteq> i \<Longrightarrow> idle_chan (put_chan i ch c) j = idle_chan c j"
  by (simp add: idle_chan_def put_chan_def)

lemma sys_ok_put_chan:
  assumes y: "sys_ok y" and i: "i < length (c_chans (y_client y))"
    and busy: "\<not> idle_chan (y_client y) i \<or> i \<notin> k_chan ` set (y_calls y)"
    and ch: "ch_closed ch = ch_closed (c_chans (y_client y) ! i)"
      "set (ch_buf ch) \<subseteq> set (ch_buf (c_chans (y_client y) ! i)) \<or> i \<notin> k_chan ` set (y_calls y)"
  shows "sys_ok (y\<lparr>y_client := put_chan i ch (y_client y)\<rparr>)"
proof -
  let ?c = "put_chan i ch (y_client y)"
  have idle: "idle_chan ?c j" if "idle_chan (y_client y) j" "j \<in> k_chan ` set (y_calls y)" for j
    using that busy by (cases "j = i") (simp_all add: idle_chan_put)
  have "pending_ok (y_client y) (y_calls y)" using y by (simp add: sys_ok_def)
  then have "pending_ok ?c (y_calls y)"
    by (rule pending_ok_idle) (use idle pending_call [OF \<open>pending_ok (y_client y) (y_calls y)\<close>] in simp_all)
  moreover have "subs_ok ?c (y_calls y)"
    using y i ch by (auto simp: sys_ok_def subs_ok_def put_chan_def nth_list_update)
  moreover have "reader_ok ?c (y_calls y) (y_reader y)"
    using y i ch idle by (cases "y_reader y") (auto simp: sys_ok_def put_chan_def nth_list_update split: if_splits)
  moreover have "call_ok ?c k" if "k \<in> set (y_calls y)" for k
    using y i ch that by (auto simp: sys_ok_def call_ok_def put_chan_def nth_list_update list_all_iff)
  moreover have "served ?c (y_reader y) k" if "k \<in> set (y_calls y)" for k
    using y i ch that by (auto simp: sys_ok_def served_def put_chan_def nth_list_update)
  ultimately show ?thesis using y by (simp add: sys_ok_def)
qed

lemma sys_ok_deliver:
  assumes y: "sys_ok y" and rd: "y_reader y = Delivering ch m"
  shows "sys_ok (apply_region (deliver_response ch m (y_client y)) Reading y)"
    and "deliver_response ch m (y_client y) \<noteq> None"
proof -
  let ?c = "y_client y"
  let ?ch = "(c_chans ?c ! ch)\<lparr>ch_buf := [m], ch_closed := True\<rparr>"
  have idle: "idle_chan ?c ch" and new: "ch \<notin> snd ` set (c_pending ?c)"
    and own: "\<exists>k \<in> set (y_calls y). k_chan k = ch \<and> fits_call (k_seq k) m"
    using y rd by (simp_all add: sys_ok_def)
  then have eq: "deliver_response ch m ?c = Some (put_chan ch ?ch ?c)"
    by (simp add: deliver_response_def chan_send_def idle_chan_def)
  then show "deliver_response ch m (y_client y) \<noteq> None" by simp
  have len: "ch < length (c_chans ?c)" using idle by (simp add: idle_chan_def)
  have "pending_ok (put_chan ch ?ch ?c) (y_calls y)"
  proof (rule pending_ok_idle)
    show "pending_ok ?c (y_calls y)" using y by (simp add: sys_ok_def)
    show "idle_chan (put_chan ch ?ch ?c) j" if "(s, j) \<in> set (c_pending ?c)" "idle_chan ?c j" for s j
      using that new by (subst idle_chan_put) force+
  qed simp_all
  moreover have "subs_ok (put_chan ch ?ch ?c) (y_calls y)"
  proof -
    have "ch \<noteq> i" if "i \<in> set (c_subs ?c)" for i using y own that by (auto simp: sys_ok_def subs_ok_def)
    then show ?thesis using y by (simp add: sys_ok_def subs_ok_def put_chan_def)
  qed
  moreover have "call_ok (put_chan ch ?ch ?c) k \<and> served (put_chan ch ?ch ?c) Reading k" if k: "k \<in> set (y_calls y)" for k
  proof -
    have "call_ok ?c k" "served ?c (Delivering ch m) k" and inj: "inj_on k_chan (set (y_calls y))"
      using y k rd by (simp_all add: sys_ok_def distinct_map)
    moreover have "k_chan k = ch \<Longrightarrow> fits_call (k_seq k) m"
      using own k inj by (metis inj_on_def)
    ultimately show ?thesis
      using len by (auto simp: call_ok_def served_def put_chan_def nth_list_update)
  qed
  ultimately show "sys_ok (apply_region (deliver_response ch m (y_client y)) Reading y)"
    using y by (simp add: eq apply_region_def sys_ok_def)
qed

text \<open>The regions that allocate a channel.\<close>

lemma idle_chan_append [simp]:
  "idle_chan c j \<Longrightarrow> idle_chan (c\<lparr>c_chans := c_chans c @ xs\<rparr>) j"
  by (simp add: idle_chan_def nth_append)

definition grow :: "nat \<Rightarrow> 'p client \<Rightarrow> 'p client" where
  "grow cap c = snd (make_chan cap c)"

lemma grow_simps [simp]:
  "c_seq (grow n c) = c_seq c" "c_pending (grow n c) = c_pending c"
  "c_subs (grow n c) = c_subs c" "c_isClosed (grow n c) = c_isClosed c"
  "length (c_chans (grow n c)) = Suc (length (c_chans c))"
  "j < length (c_chans c) \<Longrightarrow> c_chans (grow n c) ! j = c_chans c ! j"
  "c_chans (grow n c) ! length (c_chans c) = \<lparr>ch_cap = n, ch_buf = [], ch_closed = False\<rparr>"
  "idle_chan c j \<Longrightarrow> idle_chan (grow n c) j"
  by (simp_all add: grow_def make_chan_def nth_append idle_chan_def)

lemma sys_ok_grow:
  assumes y: "sys_ok y"
  shows "sys_ok (y\<lparr>y_client := grow n (y_client y)\<rparr>)"
proof -
  let ?c = "grow n (y_client y)"
  have "pending_ok ?c (y_calls y)"
    by (rule pending_ok_idle [of "y_client y"]) (use y in \<open>simp_all add: sys_ok_def\<close>)
  moreover have "subs_ok ?c (y_calls y)" using y by (auto simp: sys_ok_def subs_ok_def less_Suc_eq)
  moreover have "reader_ok ?c (y_calls y) (y_reader y)"
    using y by (cases "y_reader y") (auto simp: sys_ok_def less_Suc_eq)
  moreover have "call_ok ?c k \<and> served ?c (y_reader y) k" if "k \<in> set (y_calls y)" for k
    using y that by (auto simp: sys_ok_def call_ok_def served_def)
  ultimately show ?thesis using y by (simp add: sys_ok_def)
qed

lemma Subscribe_eq:
  "snd (Subscribe c) = (grow 64 c)\<lparr>c_subs := c_subs c @ [length (c_chans c)]\<rparr>"
  by (simp add: Subscribe_def grow_def make_chan_def)

lemma send_register_eq:
  "send_register c =
     (let c' = (grow 1 c)\<lparr>c_seq := c_seq c + 1\<rparr> in
      if c_isClosed c then (Inl ''dap client closed'', c')
      else (Inr (c_seq c + 1, length (c_chans c)), c'\<lparr>c_pending := map_put (c_seq c + 1) (length (c_chans c)) (c_pending c)\<rparr>))"
  by (simp add: send_register_def nextSeq_def grow_def make_chan_def Let_def)

lemma fresh_chan:
  assumes "sys_ok y"
  shows "length (c_chans (y_client y)) \<notin> set (c_subs (y_client y))"
    and "length (c_chans (y_client y)) \<notin> k_chan ` set (y_calls y)"
    and "length (c_chans (y_client y)) \<notin> snd ` set (c_pending (y_client y))"
    and "c_seq (y_client y) + 1 \<notin> k_seq ` set (y_calls y)"
    and "c_seq (y_client y) + 1 \<notin> fst ` set (c_pending (y_client y))"
  using assms by (fastforce simp: sys_ok_def subs_ok_def call_ok_def pending_ok_def idle_chan_def)+

lemma sys_ok_subscribe:
  assumes y: "sys_ok y"
  shows "sys_ok (y\<lparr>y_client := snd (Subscribe (y_client y))\<rparr>)"
proof -
  let ?y = "y\<lparr>y_client := grow 64 (y_client y)\<rparr>"
  let ?new = "length (c_chans (y_client y))"
  have g: "sys_ok ?y" by (rule sys_ok_grow [OF y])
  have "reader_ok ((grow 64 (y_client y))\<lparr>c_subs := ss\<rparr>) (y_calls y) (y_reader y)" for ss
    using g by (cases "y_reader y") (auto simp: sys_ok_def idle_chan_def)
  then show ?thesis
    using g fresh_chan(1,2) [OF y]
    by (simp add: Subscribe_eq sys_ok_def pending_ok_def subs_ok_def call_ok_def served_def idle_chan_def)
qed

lemma sys_ok_register:
  assumes y: "sys_ok y" and reg: "send_register (y_client y) = (Inr (seq, ch), c)"
  shows "sys_ok (y\<lparr>y_client := c, y_calls := y_calls y @ [\<lparr>k_seq = seq, k_chan = ch, k_written = False, k_result = None\<rparr>]\<rparr>)"
proof -
  let ?o = "y_client y"
  let ?g = "grow 1 ?o"
  let ?k = "\<lparr>k_seq = seq, k_chan = ch, k_written = False, k_result = None :: 'a call_result option\<rparr>"
  have eq: "seq = c_seq ?o + 1" "ch = length (c_chans ?o)" "\<not> c_isClosed ?o"
    and c: "c = ?g\<lparr>c_seq := seq, c_pending := c_pending ?o @ [(seq, ch)]\<rparr>"
    using reg fresh_chan(5) [OF y] by (auto simp: send_register_eq Let_def map_put_def split: if_splits)
  note new = fresh_chan [OF y, folded eq(1,2)]
  have g: "sys_ok (y\<lparr>y_client := ?g\<rparr>)" by (rule sys_ok_grow [OF y])
  have idle: "idle_chan c j \<longleftrightarrow> idle_chan ?g j" for j by (simp add: c idle_chan_def)
  have "pending_ok c (y_calls y @ [?k])"
    using g new eq by (auto simp: sys_ok_def pending_ok_def idle c idle_chan_def less_Suc_eq)
  moreover have "subs_ok c (y_calls y @ [?k])"
    using g new by (auto simp: sys_ok_def subs_ok_def c)
  moreover have "reader_ok c (y_calls y @ [?k]) (y_reader y)"
  proof (cases "y_reader y")
    case (Delivering i m)
    then have "i \<noteq> ch" using y eq(2) by (auto simp: sys_ok_def idle_chan_def)
    with Delivering g show ?thesis by (simp add: sys_ok_def idle) (simp add: c)
  next
    case (Fanning m chs)
    then have "ch \<notin> set chs" using y eq(2) by (auto simp: sys_ok_def)
    with Fanning g show ?thesis by (auto simp: sys_ok_def c)
  qed simp_all
  moreover have "call_ok c k \<and> served c (y_reader y) k" if "k \<in> set (y_calls y)" for k
    using g y that eq by (auto simp: sys_ok_def call_ok_def served_def c)
  moreover have "call_ok c ?k" "served c (y_reader y) ?k"
    using eq by (simp_all add: call_ok_def served_def c)
  ultimately show ?thesis using y new by (auto simp: sys_ok_def)
qed

lemma sys_ok_refused:
  assumes y: "sys_ok y" and reg: "send_register (y_client y) = (Inl e, c)"
  shows "sys_ok (y\<lparr>y_client := c\<rparr>)"
proof -
  have c: "c = (grow 1 (y_client y))\<lparr>c_seq := c_seq (y_client y) + 1\<rparr>"
    using reg by (simp add: send_register_eq Let_def split: if_splits)
  have g: "sys_ok (y\<lparr>y_client := grow 1 (y_client y)\<rparr>)" by (rule sys_ok_grow [OF y])
  have "reader_ok c (y_calls y) (y_reader y)"
    using g by (cases "y_reader y") (simp_all add: sys_ok_def idle_chan_def c)
  moreover have "call_ok c k" if "k \<in> set (y_calls y)" for k
    using g that by (fastforce simp: sys_ok_def call_ok_def c)
  ultimately show ?thesis
    using g by (simp add: sys_ok_def pending_ok_def subs_ok_def served_def idle_chan_def c)
qed

text \<open>\<open>dispatch\<close>.\<close>

lemma dispatch_lookup_cases:
  assumes look: "dispatch_lookup m c = (rd, c')"
  obtains (event) "rd = Copying m" "c' = c"
  | (answer) seq okay e p ch where "m = Response seq okay e p" "(seq, ch) \<in> set (c_pending c)"
      "rd = Delivering ch m" "c' = forget seq c"
proof (cases m)
  case (Response seq okay e p)
  then show ?thesis
  proof (cases "map_of (c_pending c) seq")
    case (Some ch)
    then show ?thesis using look Response answer [of seq okay e p ch] by (simp add: forget_def map_of_SomeD)
  qed (use look Response event in simp)
qed (use look event in simp)

lemma sys_ok_read:
  assumes y: "sys_ok y" and rd: "y_reader y = Reading" and look: "dispatch_lookup m (y_client y) = (rd', c)"
  shows "sys_ok (y\<lparr>y_client := c, y_reader := rd'\<rparr>)"
  using look
proof (cases rule: dispatch_lookup_cases)
  case event
  with y rd show ?thesis by (simp add: sys_ok_def served_def)
next
  case (answer seq okay e p ch)
  let ?c = "forget seq (y_client y)"
  obtain k where k: "k \<in> set (y_calls y)" "k_seq k = seq" "k_chan k = ch" and idle: "idle_chan (y_client y) ch"
    using y answer(2) by (auto simp: sys_ok_def pending_ok_def)
  have p: "pending_ok ?c (y_calls y)"
    using y by (auto simp: ok_defs forget_def map_del_def distinct_map intro: inj_on_subset)
  have "ch \<notin> snd ` set (c_pending ?c)"
    using y answer(2) by (fastforce simp: sys_ok_def pending_ok_def forget_def map_del_def distinct_map inj_on_def)
  then have "reader_ok ?c (y_calls y) (Delivering ch m)"
    using idle k answer(1) by (auto simp: idle_chan_def forget_def)
  moreover have "served ?c (Delivering ch m) k'" if k': "k' \<in> set (y_calls y)" for k'
  proof -
    have "k_seq k' = seq \<Longrightarrow> k' = k" using y k k' by (auto simp: sys_ok_def distinct_map inj_on_def)
    then show ?thesis using y rd k k' by (auto simp: sys_ok_def served_def forget_def map_del_def)
  qed
  ultimately show ?thesis
    using y p answer(3,4) by (simp add: sys_ok_def subs_ok_def call_ok_def forget_def)
qed

lemma sys_ok_copy:
  assumes "sys_ok y" "y_reader y = Copying m"
  shows "sys_ok (y\<lparr>y_reader := Fanning m (c_subs (y_client y))\<rparr>)"
  using assms by (simp add: sys_ok_def subs_ok_def served_def)

lemma sys_ok_fan:
  assumes "sys_ok y" "y_reader y = Fanning m chs" "set chs' \<subseteq> set chs"
  shows "sys_ok (y\<lparr>y_reader := Fanning m chs'\<rparr>)" "sys_ok (y\<lparr>y_reader := Reading\<rparr>)"
  using assms by (auto simp: sys_ok_def served_def)

lemma sys_ok_offer:
  assumes y: "sys_ok y" and rd: "y_reader y = Fanning m (ch # chs)"
  shows "sys_ok (apply_region (offer_event ch m (y_client y)) (Fanning m chs) y)"
proof -
  let ?c = "y_client y"
  let ?ch = "(c_chans ?c ! ch)\<lparr>ch_buf := ch_buf (c_chans ?c ! ch) @ [m]\<rparr>"
  have ch: "ch < length (c_chans ?c)" "ch \<notin> k_chan ` set (y_calls y)"
    using y rd by (simp_all add: sys_ok_def)
  have fan: "sys_ok (y\<lparr>y_reader := Fanning m chs\<rparr>)" by (rule sys_ok_fan [OF y rd]) auto
  have "sys_ok (y\<lparr>y_reader := Fanning m chs, y_client := put_chan ch ?ch ?c\<rparr>)"
    using sys_ok_put_chan [OF fan, of ch ?ch] ch by simp
  then show ?thesis
    using fan y by (auto simp: apply_region_def offer_event_def chan_send_def sys_ok_def split: sent.split)
qed

text \<open>The regions that close channels: they close what is pending, and perhaps the subscribers.\<close>

lemma sys_ok_mark:
  assumes y: "sys_ok y" and A: "A \<inter> k_chan ` set (y_calls y) \<subseteq> snd ` set (c_pending (y_client y))"
    and P: "snd ` set (c_pending (y_client y)) \<subseteq> A"
    and c: "c_chans c = c_chans (mark_closed A (y_client y))" "c_pending c = []" "c_seq c = c_seq (y_client y)"
    and subs: "A \<inter> set (c_subs (y_client y)) = {} \<and> c_subs c = c_subs (y_client y) \<and> c_isClosed c = c_isClosed (y_client y)
                 \<and> \<not> (\<exists>m chs. y_reader y = Fanning m chs)
               \<or> c_subs c = [] \<and> c_isClosed c"
  shows "sys_ok (y\<lparr>y_client := c\<rparr>)"
proof -
  have own: "i \<notin> A" if "idle_chan (y_client y) i" "i \<notin> snd ` set (c_pending (y_client y))" "i \<in> k_chan ` set (y_calls y)" for i
    using that A by blast
  have "reader_ok c (y_calls y) (y_reader y)"
  proof (cases "y_reader y")
    case (Delivering ch m)
    then have "ch \<notin> A" using y own [of ch] by (auto simp: sys_ok_def)
    with Delivering y show ?thesis by (auto simp: sys_ok_def idle_chan_def c)
  next
    case (Fanning m chs)
    with y subs show ?thesis by (auto simp: sys_ok_def c)
  qed simp_all
  moreover have "call_ok c k" "served c (y_reader y) k" if k: "k \<in> set (y_calls y)" for k
  proof -
    have *: "call_ok (y_client y) k" "served (y_client y) (y_reader y) k" using y k by (simp_all add: sys_ok_def)
    show "call_ok c k" using *(1) by (simp add: call_ok_def c)
    have "k_chan k < length (c_chans (y_client y))" using *(1) by (simp add: call_ok_def)
    then show "served c (y_reader y) k" using *(2) P by (force simp: served_def c)
  qed
  moreover have "subs_ok c (y_calls y)" using y subs by (auto simp: sys_ok_def subs_ok_def c)
  ultimately show ?thesis using y by (simp add: sys_ok_def pending_ok_def c)
qed

lemma mark_closed_twice: "mark_closed B (mark_closed A c) = mark_closed (B \<union> A) c"
  by (auto simp: mark_closed_def)

lemma sys_ok_close:
  assumes y: "sys_ok y"
  shows "sys_ok (apply_region (Close_client ord (y_client y)) (y_reader y) y)"
    and "Close_client ord (y_client y) \<noteq> None"
proof -
  let ?c = "y_client y"
  have ok: "pending_ok ?c (y_calls y)" "subs_ok ?c (y_calls y)" using y by (simp_all add: sys_ok_def)
  have *: "sys_ok (apply_region (Close_client ord ?c) (y_reader y) y) \<and> Close_client ord ?c \<noteq> None"
  proof (cases "c_isClosed ?c")
    case True
    then show ?thesis using y by (simp add: Close_client_def apply_region_def)
  next
    case False
    have "sys_ok (y\<lparr>y_client := (mark_closed (set (c_subs ?c)) (mark_closed (snd ` set (c_pending ?c)) ?c))
                   \<lparr>c_isClosed := True, c_pending := [], c_subs := []\<rparr>\<rparr>)"
      by (rule sys_ok_mark [OF y, of "set (c_subs ?c) \<union> snd ` set (c_pending ?c)"])
        (use ok(2) in \<open>auto simp: mark_closed_twice subs_ok_def\<close>)
    then show ?thesis by (simp add: Close_client_eq [OF ok False] apply_region_def)
  qed
  then show "sys_ok (apply_region (Close_client ord ?c) (y_reader y) y)" "Close_client ord ?c \<noteq> None" by simp_all
qed

lemma sys_ok_read_error:
  assumes y: "sys_ok y" and rd: "y_reader y = Reading"
  shows "sys_ok (apply_region (reader_failed ord err (y_client y)) Stopped y)"
    and "reader_failed ord err (y_client y) \<noteq> None"
proof -
  let ?c = "y_client y"
  have ok: "pending_ok ?c (y_calls y)" "subs_ok ?c (y_calls y)" using y by (simp_all add: sys_ok_def)
  show "reader_failed ord err ?c \<noteq> None" by (simp add: reader_failed_eq [OF ok(1)])
  have "snd ` set (c_pending ?c) \<inter> set (c_subs ?c) = {}"
    using ok(2) pending_call [OF ok(1)] by (auto simp: subs_ok_def)
  then have "sys_ok (y\<lparr>y_client := (mark_closed (snd ` set (c_pending ?c)) ?c)\<lparr>c_readerErr := Some err, c_pending := []\<rparr>\<rparr>)"
    by (intro sys_ok_mark [OF y, of "snd ` set (c_pending ?c)"]) (simp_all add: rd)
  then show "sys_ok (apply_region (reader_failed ord err ?c) Stopped y)"
    using rd by (simp add: reader_failed_eq [OF ok(1)] apply_region_def sys_ok_def served_def)
qed

lemma sys_ok_receive:
  assumes y: "sys_ok y" and i: "i < length (y_calls y)" and got: "receive (y_calls y ! i) (y_client y) = Some (r, c)"
  shows "sys_ok (finish_call i r c y)"
proof -
  let ?c = "y_client y" and ?k = "y_calls y ! i"
  have k: "call_ok ?c ?k" using y i by (simp add: sys_ok_def)
  show ?thesis
  proof (cases "ch_buf (c_chans ?c ! k_chan ?k)")
    case Nil
    with got have "r = Disconnected (k_seq ?k)" "c = ?c" by (simp_all add: receive_def split: if_splits)
    then show ?thesis using sys_ok_finish(1) [OF y i, of r] by simp
  next
    case (Cons m ms)
    then have m: "fits_call (k_seq ?k) m" using k by (simp add: call_ok_def)
    with Cons got have r: "fits_result (k_seq ?k) r"
      and c: "c = put_chan (k_chan ?k) ((c_chans ?c ! k_chan ?k)\<lparr>ch_buf := ms\<rparr>) ?c"
      by (auto simp: receive_def split: msg.splits if_splits)
    have "sys_ok (y\<lparr>y_client := c\<rparr>)"
      unfolding c by (rule sys_ok_put_chan [OF y]) (use k Cons in \<open>auto simp: call_ok_def idle_chan_def\<close>)
    then show ?thesis using sys_ok_finish(1) [of "y\<lparr>y_client := c\<rparr>" i r] i r by (simp add: finish_call_def)
  qed
qed

lemma sys_ok_written:
  assumes y: "sys_ok y" and i: "i < length (y_calls y)"
  shows "sys_ok (y\<lparr>y_calls := (y_calls y)[i := (y_calls y ! i)\<lparr>k_written := True\<rparr>]\<rparr>)"
proof (rule sys_ok_call_update [OF y i])
  have "call_ok (y_client y) (y_calls y ! i)" "served (y_client y) (y_reader y) (y_calls y ! i)"
    using y i by (simp_all add: sys_ok_def)
  then show "call_ok (y_client y) ((y_calls y ! i)\<lparr>k_written := True\<rparr>)"
    "served (y_client y) (y_reader y) ((y_calls y ! i)\<lparr>k_written := True\<rparr>)"
    by (simp_all add: call_ok_def served_def split: option.splits)
qed simp_all

lemma sys_ok_start: "sys_ok sys_start"
  by (simp add: sys_start_def New_def ok_defs)

lemmas sys_ok_steps =
  sys_ok_register sys_ok_refused sys_ok_written sys_ok_finish sys_ok_subscribe sys_ok_close sys_ok_read
  sys_ok_deliver sys_ok_copy sys_ok_offer sys_ok_fan sys_ok_read_error sys_ok_receive

lemma sys_ok_step: "client_step y y' \<Longrightarrow> sys_ok y \<Longrightarrow> sys_ok y'"
  by (induction rule: client_step.induct) (auto simp: waits_def intro: sys_ok_steps)

lemma sys_ok_reachable: "client_reachable y \<Longrightarrow> sys_ok y"
  by (induction rule: client_reachable.induct) (auto simp: sys_ok_start intro: sys_ok_step)

lemma not_panicked_step: "client_step y y' \<Longrightarrow> \<not> y_panic y"
  by (auto elim: client_stepE simp: waits_def)

text \<open>A run: a request with a subscriber present, its response read and delivered, then \<open>Close\<close> while an event is fanned out.\<close>

definition demo_resp :: "unit msg" where
  "demo_resp = Response 1 True [] ()"

definition demo_chan :: "nat \<Rightarrow> unit msg list \<Rightarrow> bool \<Rightarrow> unit chan" where
  "demo_chan n ms b = \<lparr>ch_cap = n, ch_buf = ms, ch_closed = b\<rparr>"

definition demo_client :: "(int \<times> nat) list \<Rightarrow> unit chan \<Rightarrow> unit client" where
  "demo_client ps ch =
     \<lparr>c_seq = 1, c_pending = ps, c_subs = [0], c_isClosed = False, c_readerErr = None, c_chans = [demo_chan 64 [] False, ch]\<rparr>"

definition demo_sys :: "unit client \<Rightarrow> unit reader \<Rightarrow> bool \<Rightarrow> unit call_result option \<Rightarrow> unit sys" where
  "demo_sys c rd written r =
     \<lparr>y_client = c, y_reader = rd, y_calls = [\<lparr>k_seq = 1, k_chan = 1, k_written = written, k_result = r\<rparr>], y_panic = False\<rparr>"

lemmas demo_defs = demo_resp_def demo_chan_def demo_client_def demo_sys_def

definition demo_closed :: "unit client" where
  "demo_closed =
     \<lparr>c_seq = 1, c_pending = [], c_subs = [], c_isClosed = True, c_readerErr = None,
      c_chans = [demo_chan 64 [] True, demo_chan 1 [] True]\<rparr>"

lemma reach_by: "client_reachable y \<Longrightarrow> client_step y z \<Longrightarrow> z = y' \<Longrightarrow> client_reachable y'"
  by (auto intro: reach_next)

lemma demo_sent: "client_reachable (demo_sys (demo_client [(1, 1)] (demo_chan 1 [] False)) Reading True None)"
proof -
  have "client_reachable (sys_start\<lparr>y_client := snd (Subscribe New)\<rparr> :: unit sys)"
    using reach_next [OF reach_start step_subscribe] by (simp add: sys_start_def)
  then have "client_reachable (demo_sys (demo_client [(1, 1)] (demo_chan 1 [] False)) Reading False None)"
    by (rule reach_by [OF _ step_call])
      (simp_all add: sys_start_def Subscribe_eq send_register_eq Let_def grow_def make_chan_def New_def map_put_def demo_defs)
  then show ?thesis by (rule reach_by [OF _ step_write [of 0]]) (simp_all add: waits_def demo_defs)
qed

lemma demo_answered: "client_reachable (demo_sys (demo_client [] (demo_chan 1 [] True)) Reading True (Some (Got demo_resp)))"
proof -
  have "client_reachable (demo_sys (demo_client [] (demo_chan 1 [] False)) (Delivering 1 demo_resp) True None)"
    by (rule reach_by [OF demo_sent step_read [of _ demo_resp]]) (simp_all add: demo_defs map_del_def)
  then have "client_reachable (demo_sys (demo_client [] (demo_chan 1 [demo_resp] True)) Reading True None)"
    by (rule reach_by [OF _ step_deliver [of _ 1 demo_resp]])
      (simp_all add: demo_defs apply_region_def deliver_response_def chan_send_def put_chan_def)
  then show ?thesis
    by (rule reach_by [OF _ step_receive [of 0]])
      (simp_all add: demo_defs waits_def receive_def finish_call_def put_chan_def)
qed

lemma demo_fanning:
  "client_reachable (demo_sys (demo_client [(1, 1)] (demo_chan 1 [] False)) (Fanning (Event ()) [0]) True None)"
proof -
  have "client_reachable (demo_sys (demo_client [(1, 1)] (demo_chan 1 [] False)) (Copying (Event ())) True None)"
    by (rule reach_by [OF demo_sent step_read [of _ "Event ()"]]) (simp_all add: demo_defs)
  then show ?thesis by (rule reach_by [OF _ step_copy [of _ "Event ()"]]) (simp_all add: demo_defs)
qed

lemma demo_closed_reachable: "client_reachable (demo_sys demo_closed (Fanning (Event ()) [0]) True None)"
  by (rule reach_by [OF demo_fanning step_close [of _ "\<lambda>_. []"]])
    (simp_all add: demo_defs demo_closed_def Close_client_def close_chan_def apply_region_def go_range_def)

lemma demo_panic_step:
  "client_step (demo_sys demo_closed (Fanning (Event ()) [0]) True None)
     ((demo_sys demo_closed (Fanning (Event ()) [0]) True None)\<lparr>y_panic := True\<rparr>)"
  using step_offer [of "demo_sys demo_closed (Fanning (Event ()) [0]) True None" "Event ()" 0 "[]"]
  by (simp add: demo_defs demo_closed_def apply_region_def offer_event_def chan_send_def)

section \<open>Properties of the client\<close>

text \<open>C19. Whatever the interleaving of callers, read loop and \<open>Close\<close>, a call that returns a message
  returns a response to its own request: its request number, its success, its error text.\<close>

theorem call_correlates:
  assumes "client_reachable y" "k \<in> set (y_calls y)" "k_result k = Some r"
  shows "fits_result (k_seq k) r"
  using sys_ok_reachable [OF assms(1)] assms(2,3) by (fastforce simp: sys_ok_def call_ok_def)

theorem call_correlates_witness: "fits_result 1 (Got demo_resp)"
  using call_correlates [OF demo_answered, of "\<lparr>k_seq = 1, k_chan = 1, k_written = True, k_result = Some (Got demo_resp)\<rparr>"]
  by (simp add: demo_sys_def)

text \<open>C20. Once the client is closed, no written call is left waiting: each one that has not returned can
  take a result at once, unless the read loop is about to answer it.\<close>

theorem close_releases_calls:
  assumes "client_reachable y" "c_isClosed (y_client y)" "k \<in> set (y_calls y)" "k_result k = None"
  shows "receive k (y_client y) \<noteq> None \<or> answering (y_reader y) (k_chan k)"
proof -
  have "sys_ok y" by (rule sys_ok_reachable [OF assms(1)])
  then have "pending_ok (y_client y) (y_calls y)" "served (y_client y) (y_reader y) k"
    using assms(3) by (simp_all add: sys_ok_def)
  then show ?thesis
    using assms(2,4) by (auto simp: served_def pending_ok_def receive_def split: list.split)
qed

theorem close_releases_calls_witness:
  "receive \<lparr>k_seq = 1, k_chan = 1, k_written = True, k_result = None\<rparr> demo_closed = Some (Disconnected 1, demo_closed)"
  using close_releases_calls [OF demo_closed_reachable, of "\<lparr>k_seq = 1, k_chan = 1, k_written = True, k_result = None\<rparr>"]
  by (simp add: demo_sys_def demo_closed_def demo_chan_def receive_def)



text \<open>That panic happens: a subscriber, an event read and copied, \<open>Close\<close>, then the send.\<close>

theorem close_race_panics: "\<exists>y :: unit sys. client_reachable y \<and> y_panic y"
  using reach_next [OF demo_closed_reachable demo_panic_step] by force

end
