(* ===== verification/Proto_Encode.thy ===== *)
theory Proto_Encode
  imports Proto
begin

text \<open>
  \<open>json.Marshal\<close> of the wire types: the argument structs a client sends and the results the daemon
  returns, with the \<open>omitempty\<close> tags of \<open>internal/proto\<close>. The locale \<open>arg_codec\<close> is what client and
  daemon rely on: what one marshals, the other decodes to the same struct.
\<close>

section \<open>Members of an object\<close>

text \<open>\<open>mem_\<close> writes a member always, \<open>om_\<close> only when the value is not the zero value (\<open>omitempty\<close>).\<close>

fun dec_json :: "decimal \<Rightarrow> json" where
  "dec_json (Dec m e) = (if e = 0 then JInt m else JDec m e)"

fun dec_is_zero :: "decimal \<Rightarrow> bool" where
  "dec_is_zero (Dec m e) \<longleftrightarrow> m = 0"

definition mem_str :: "string \<Rightarrow> string \<Rightarrow> (string \<times> json) list" where
  "mem_str k s = [(k, JStr s)]"

definition mem_int :: "string \<Rightarrow> int \<Rightarrow> (string \<times> json) list" where
  "mem_int k i = [(k, JInt i)]"

definition mem_bool :: "string \<Rightarrow> bool \<Rightarrow> (string \<times> json) list" where
  "mem_bool k b = [(k, JBool b)]"

definition mem_strs :: "string \<Rightarrow> string list \<Rightarrow> (string \<times> json) list" where
  "mem_strs k ss = [(k, JArr (map JStr ss))]"

definition om_str :: "string \<Rightarrow> string \<Rightarrow> (string \<times> json) list" where
  "om_str k s = (if s = [] then [] else [(k, JStr s)])"

definition om_int :: "string \<Rightarrow> int \<Rightarrow> (string \<times> json) list" where
  "om_int k i = (if i = 0 then [] else [(k, JInt i)])"

definition om_bool :: "string \<Rightarrow> bool \<Rightarrow> (string \<times> json) list" where
  "om_bool k b = (if b then [(k, JBool b)] else [])"

definition om_float :: "string \<Rightarrow> decimal \<Rightarrow> (string \<times> json) list" where
  "om_float k d = (if dec_is_zero d then [] else [(k, dec_json d)])"

definition om_strs :: "string \<Rightarrow> string list \<Rightarrow> (string \<times> json) list" where
  "om_strs k ss = (if ss = [] then [] else [(k, JArr (map JStr ss))])"

definition om_ints :: "string \<Rightarrow> int list \<Rightarrow> (string \<times> json) list" where
  "om_ints k is = (if is = [] then [] else [(k, JArr (map JInt is))])"

definition om_opt :: "string \<Rightarrow> json option \<Rightarrow> (string \<times> json) list" where
  "om_opt k j = (case j of None \<Rightarrow> [] | Some v \<Rightarrow> [(k, v)])"

section \<open>Argument structs\<close>

definition print_args_json :: "print_args \<Rightarrow> json" where
  "print_args_json a =
     JObj (om_str ''expression'' (pa_Expression a) @
       om_int ''ref'' (pa_Ref a) @
       om_int ''frame'' (pa_Frame a) @
       om_int ''depth'' (pa_Depth a) @
       om_int ''maxItems'' (pa_MaxItems a) @
       om_float ''timeoutSec'' (pa_TimeoutSec a) @
       om_bool ''showSpecial'' (pa_ShowSpecial a))"

definition watch_args_json :: "watch_args \<Rightarrow> json" where
  "watch_args_json a =
     JObj (mem_str ''action'' (wa_Action a) @
       om_str ''expression'' (wa_Expression a) @
       om_int ''id'' (wa_ID a) @
       om_int ''frame'' (wa_Frame a) @
       om_bool ''all'' (wa_All a))"

definition break_fn_args_json :: "break_fn_args \<Rightarrow> json" where
  "break_fn_args_json a =
     JObj (mem_str ''function'' (bfa_Function a) @
       om_str ''condition'' (bfa_Condition a) @
       om_int ''hit'' (bfa_Hit a))"

definition break_ex_args_json :: "break_ex_args \<Rightarrow> json" where
  "break_ex_args_json a =
     JObj (mem_strs ''filters'' (bxa_Filters a))"

definition fields_args_json :: "fields_args \<Rightarrow> json" where
  "fields_args_json a =
     JObj (mem_int ''ref'' (fa_Ref a) @
       om_bool ''showSpecial'' (fa_ShowSpecial a))"

definition globals_args_json :: "globals_args \<Rightarrow> json" where
  "globals_args_json a =
     JObj (om_int ''frame'' (ga_Frame a))"

definition source_args_json :: "source_args \<Rightarrow> json" where
  "source_args_json a =
     JObj (om_str ''file'' (sra_File a) @
       om_int ''line'' (sra_Line a) @
       om_int ''around'' (sra_Around a) @
       om_int ''sourceRef'' (sra_Ref a))"

definition output_args_json :: "output_args \<Rightarrow> json" where
  "output_args_json a =
     JObj (om_str ''since'' (oa_Since a) @
       om_int ''tail'' (oa_Tail a))"

definition events_args_json :: "events_args \<Rightarrow> json" where
  "events_args_json a =
     JObj (om_str ''since'' (ea_Since a) @
       om_int ''tail'' (ea_Tail a))"

definition listen_args_json :: "listen_args \<Rightarrow> json" where
  "listen_args_json a =
     JObj (om_float ''timeoutSec'' (la_TimeoutSec a))"

definition until_args_json :: "until_args \<Rightarrow> json" where
  "until_args_json a =
     JObj (mem_int ''line'' (ua_Line a) @
       om_int ''thread'' (ua_Thread a) @
       om_float ''timeoutSec'' (ua_TimeoutSec a))"

definition start_args_json :: "start_args \<Rightarrow> json" where
  "start_args_json a =
     JObj (mem_str ''lang'' (sa_Lang a) @
       om_str ''name'' (sa_Name a) @
       mem_str ''program'' (sa_Program a) @
       om_strs ''args'' (sa_Args a) @
       om_str ''cwd'' (sa_Cwd a) @
       om_strs ''env'' (sa_Env a) @
       om_bool ''stopOnEntry'' (sa_StopOnEntry a) @
       om_bool ''readOnly'' (sa_ReadOnly a) @
       om_str ''mainClass'' (sa_MainClass a) @
       om_str ''classpath'' (sa_Classpath a) @
       om_strs ''sourceRoots'' (sa_SourceRoots a))"

definition attach_args_json :: "attach_args \<Rightarrow> json" where
  "attach_args_json a =
     JObj (mem_str ''lang'' (aa_Lang a) @
       om_str ''name'' (aa_Name a) @
       om_str ''host'' (aa_Host a) @
       om_int ''port'' (aa_Port a) @
       om_int ''pid'' (aa_PID a) @
       om_bool ''readOnly'' (aa_ReadOnly a) @
       om_strs ''sourceRoots'' (aa_SourceRoots a))"

definition break_args_json :: "break_args \<Rightarrow> json" where
  "break_args_json a =
     JObj (mem_str ''location'' (ba_Location a) @
       om_str ''condition'' (ba_Condition a) @
       om_int ''hit'' (ba_Hit a) @
       om_str ''logMsg'' (ba_LogMsg a) @
       om_bool ''once'' (ba_Once a))"

definition unbreak_args_json :: "unbreak_args \<Rightarrow> json" where
  "unbreak_args_json a =
     JObj (om_ints ''ids'' (uba_IDs a) @
       om_bool ''all'' (uba_All a))"

definition continue_args_json :: "continue_args \<Rightarrow> json" where
  "continue_args_json a =
     JObj (om_int ''thread'' (ca_Thread a) @
       om_float ''timeoutSec'' (ca_TimeoutSec a) @
       om_bool ''singleThread'' (ca_SingleThread a))"

definition stack_args_json :: "stack_args \<Rightarrow> json" where
  "stack_args_json a =
     JObj (om_int ''thread'' (ska_Thread a) @
       om_int ''limit'' (ska_Limit a))"

definition locals_args_json :: "locals_args \<Rightarrow> json" where
  "locals_args_json a =
     JObj (om_int ''frame'' (lca_Frame a))"

definition eval_args_json :: "eval_args \<Rightarrow> json" where
  "eval_args_json a =
     JObj (mem_str ''expression'' (eva_Expression a) @
       om_int ''frame'' (eva_Frame a) @
       om_float ''timeoutSec'' (eva_TimeoutSec a))"

definition set_var_args_json :: "set_var_args \<Rightarrow> json" where
  "set_var_args_json a =
     JObj (mem_str ''name'' (sva_Name a) @
       mem_str ''value'' (sva_Value a) @
       om_int ''frame'' (sva_Frame a))"

definition use_args_json :: "use_args \<Rightarrow> json" where
  "use_args_json a =
     JObj (mem_str ''id'' (usa_ID a))"

section \<open>Results\<close>

text \<open>A list that Go leaves nil is written as \<open>null\<close> where the handler never appended; readers treat
  it as the empty array written here. Timestamps are formatted by the parameter \<open>fmt\<close> (RFC 3339).\<close>

definition mem_list :: "('a \<Rightarrow> json) \<Rightarrow> string \<Rightarrow> 'a list \<Rightarrow> (string \<times> json) list" where
  "mem_list f k xs = [(k, JArr (map f xs))]"

definition om_list :: "('a \<Rightarrow> json) \<Rightarrow> string \<Rightarrow> 'a list \<Rightarrow> (string \<times> json) list" where
  "om_list f k xs = (if xs = [] then [] else [(k, JArr (map f xs))])"

definition loc_json :: "loc \<Rightarrow> json" where
  "loc_json l =
     JObj (om_str ''file'' (loc_File l) @ om_int ''line'' (loc_Line l) @ om_int ''column'' (loc_Column l) @
       om_str ''function'' (loc_Function l))"

definition pause_info_json :: "pause_info \<Rightarrow> json" where
  "pause_info_json p =
     JObj (mem_str ''state'' (pi_State p) @ om_str ''reason'' (pi_Reason p) @ om_int ''thread'' (pi_Thread p) @
       om_opt ''location'' (map_option loc_json (pi_Location p)) @ om_int ''hitBreakpoint'' (pi_HitBP p) @
       om_opt ''exitCode'' (map_option JInt (pi_ExitCode p)) @ om_str ''signal'' (pi_Signal p) @
       om_str ''message'' (pi_Message p))"

definition session_result_json :: "session_result \<Rightarrow> json" where
  "session_result_json r =
     JObj (mem_str ''session'' (sr_SessionID r) @ om_str ''lang'' (sr_Lang r) @ om_str ''state'' (sr_State r) @
       om_str ''reason'' (sr_Reason r) @ om_opt ''location'' (map_option loc_json (sr_Location r)) @
       om_opt ''exitCode'' (map_option JInt (sr_ExitCode r)) @ om_str ''stdout'' (sr_Stdout r) @
       om_str ''stderr'' (sr_Stderr r))"

definition break_result_json :: "break_result \<Rightarrow> json" where
  "break_result_json r =
     JObj (mem_int ''id'' (br_ID r) @ mem_bool ''verified'' (br_Verified r) @ om_str ''file'' (br_File r) @
       om_int ''line'' (br_Line r) @ om_str ''function'' (br_Function r) @ om_str ''condition'' (br_Condition r) @
       om_str ''reason'' (br_Reason r) @ om_int ''hits'' (br_Hits r))"

definition frame_json :: "frame \<Rightarrow> json" where
  "frame_json f =
     JObj (mem_int ''id'' (fr_ID f) @ mem_str ''name'' (fr_Name f) @ om_str ''file'' (fr_File f) @
       om_int ''line'' (fr_Line f) @ om_int ''column'' (fr_Column f) @ om_str ''function'' (fr_Function f))"

definition var_json :: "var \<Rightarrow> json" where
  "var_json v =
     JObj (mem_str ''name'' (v_Name v) @ mem_str ''value'' (v_Value v) @ om_str ''type'' (v_Type v) @
       om_int ''ref'' (v_Ref v) @ om_bool ''expandable'' (v_Expandable v))"

definition locals_result_json :: "locals_result \<Rightarrow> json" where
  "locals_result_json r =
     JObj (mem_str ''scope'' (lr_Scope r) @ mem_list var_json ''vars'' (lr_Vars r) @ om_str ''hint'' (lr_Hint r))"

definition eval_result_json :: "eval_result \<Rightarrow> json" where
  "eval_result_json r =
     JObj (mem_str ''result'' (er_Result r) @ om_str ''type'' (er_Type r) @ om_int ''ref'' (er_Ref r))"

definition watch_entry_json :: "watch_entry \<Rightarrow> json" where
  "watch_entry_json w =
     JObj (mem_int ''id'' (we_ID w) @ mem_str ''expression'' (we_Expression w) @ om_str ''result'' (we_Result w) @
       om_str ''type'' (we_Type w) @ om_str ''error'' (we_Error w))"

definition source_result_json :: "source_result \<Rightarrow> json" where
  "source_result_json r =
     JObj (mem_str ''file'' (so_File r) @ mem_int ''start'' (so_Start r) @ mem_strs ''lines'' (so_Lines r) @
       om_int ''current'' (so_Current r))"

definition session_info_json :: "session_info \<Rightarrow> json" where
  "session_info_json s =
     JObj (mem_str ''id'' (si_ID s) @ mem_str ''lang'' (si_Lang s) @ mem_str ''state'' (si_State s) @
       om_str ''program'' (si_Program s) @ om_str ''attached'' (si_Attached s) @ om_bool ''default'' (si_Default s))"

definition snapshot_result_json :: "snapshot_result \<Rightarrow> json" where
  "snapshot_result_json r =
     JObj (mem_str ''state'' (sn_State r) @ om_opt ''location'' (map_option loc_json (sn_Location r)) @
       om_int ''thread'' (sn_Thread r) @ mem_list frame_json ''frames'' (sn_Frames r) @
       mem_list var_json ''locals'' (sn_Locals r) @ om_list var_json ''globals'' (sn_Globals r))"

definition adapter_info_json :: "adapter_info \<Rightarrow> json" where
  "adapter_info_json a =
     JObj (mem_str ''lang'' (ai_Lang a) @ mem_bool ''installed'' (ai_Installed a) @ om_str ''path'' (ai_Path a) @
       om_str ''hint'' (ai_Hint a))"

fun print_node_json :: "print_node \<Rightarrow> json" where
  "print_node_json (PrintNode name val ty ref trunc cs) =
     JObj (om_str ''name'' name @ mem_str ''value'' val @ om_str ''type'' ty @ om_int ''ref'' ref @
       om_bool ''truncated'' trunc @ (if cs = [] then [] else [(''children'', JArr (map print_node_json cs))]))"

definition output_entry_json :: "(timestamp \<Rightarrow> string) \<Rightarrow> output_entry \<Rightarrow> json" where
  "output_entry_json fmt e =
     JObj (mem_str ''ts'' (fmt (oe_TS e)) @ mem_str ''category'' (oe_Category e) @ mem_str ''output'' (oe_Output e))"

definition event_entry_json :: "(timestamp \<Rightarrow> string) \<Rightarrow> logged_event \<Rightarrow> json" where
  "event_entry_json fmt e =
     JObj (mem_str ''ts'' (fmt (le_TS e)) @ mem_str ''type'' (le_Type e) @
       (if le_Body e = [] then [] else [(''body'', JObj (le_Body e))]))"

fun resp_data_json :: "(timestamp \<Rightarrow> string) \<Rightarrow> resp_data \<Rightarrow> json" where
  "resp_data_json fmt (DMap kvs) = JObj kvs"
| "resp_data_json fmt (DSession r) = session_result_json r"
| "resp_data_json fmt (DSessions rs) = JObj (mem_list session_info_json ''sessions'' rs)"
| "resp_data_json fmt (DPause p) = pause_info_json p"
| "resp_data_json fmt (DBreak r) = break_result_json r"
| "resp_data_json fmt (DBreaks rs) = JObj (mem_list break_result_json ''breakpoints'' rs)"
| "resp_data_json fmt (DStack fs) = JObj (mem_list frame_json ''frames'' fs)"
| "resp_data_json fmt (DLocals r) = locals_result_json r"
| "resp_data_json fmt (DEval r) = eval_result_json r"
| "resp_data_json fmt (DSnapshot r) = snapshot_result_json r"
| "resp_data_json fmt (DWatches ws) = JObj (mem_list watch_entry_json ''watches'' ws)"
| "resp_data_json fmt (DSource r) = source_result_json r"
| "resp_data_json fmt (DOutput es) = JObj (mem_list (output_entry_json fmt) ''entries'' es)"
| "resp_data_json fmt (DEvents es) = JObj (mem_list (event_entry_json fmt) ''events'' es)"
| "resp_data_json fmt (DPrint n) = JObj [(''root'', print_node_json n)]"
| "resp_data_json fmt (DAdapters as) = JObj (mem_list adapter_info_json ''adapters'' as)"

section \<open>What a client sends\<close>

text \<open>The \<open>args\<close> value of a request before \<open>rawJSON\<close>; \<open>NoArgs\<close> is Go's nil.\<close>

datatype dargs =
    NoArgs | AStart start_args | AAttach attach_args | AUse use_args | ABreak break_args | ABreakFn break_fn_args
  | ABreakEx break_ex_args | AUnbreak unbreak_args | AContinue continue_args | AStep continue_args
  | AUntil until_args | AStack stack_args | ALocals locals_args | AGlobals globals_args | AFields fields_args
  | AEval eval_args | ASet set_var_args | AWatch watch_args | ASource source_args | AOutput output_args
  | AEvents events_args | AListen listen_args | ARestart | APrint print_args

fun dargs_json :: "dargs \<Rightarrow> json option" where
  "dargs_json NoArgs = None"
| "dargs_json (AStart a) = Some (start_args_json a)"
| "dargs_json (AAttach a) = Some (attach_args_json a)"
| "dargs_json (AUse a) = Some (use_args_json a)"
| "dargs_json (ABreak a) = Some (break_args_json a)"
| "dargs_json (ABreakFn a) = Some (break_fn_args_json a)"
| "dargs_json (ABreakEx a) = Some (break_ex_args_json a)"
| "dargs_json (AUnbreak a) = Some (unbreak_args_json a)"
| "dargs_json (AContinue a) = Some (continue_args_json a)"
| "dargs_json (AStep a) = Some (continue_args_json a)"
| "dargs_json (AUntil a) = Some (until_args_json a)"
| "dargs_json (AStack a) = Some (stack_args_json a)"
| "dargs_json (ALocals a) = Some (locals_args_json a)"
| "dargs_json (AGlobals a) = Some (globals_args_json a)"
| "dargs_json (AFields a) = Some (fields_args_json a)"
| "dargs_json (AEval a) = Some (eval_args_json a)"
| "dargs_json (ASet a) = Some (set_var_args_json a)"
| "dargs_json (AWatch a) = Some (watch_args_json a)"
| "dargs_json (ASource a) = Some (source_args_json a)"
| "dargs_json (AOutput a) = Some (output_args_json a)"
| "dargs_json (AEvents a) = Some (events_args_json a)"
| "dargs_json (AListen a) = Some (listen_args_json a)"
| "dargs_json ARestart = Some (JObj [])"
| "dargs_json (APrint a) = Some (print_args_json a)"

definition rawJSON :: "dargs \<Rightarrow> raw" where
  "rawJSON a = (case dargs_json a of None \<Rightarrow> RawEmpty | Some j \<Rightarrow> RawJson j)"

section \<open>Marshal then unmarshal\<close>

text \<open>A zero of \<open>float64\<close> has one representation here; other decimals may be written as they are.\<close>

fun plain_dec :: "decimal \<Rightarrow> bool" where
  "plain_dec (Dec m e) \<longleftrightarrow> (m = 0 \<longrightarrow> e = 0)"

lemma elem_rt [simp]:
  "elem_str (JStr s) = (s, None)" "in_int64 i \<Longrightarrow> elem_int (JInt i) = (i, None)"
  by (simp_all add: elem_str_def dec_str_def elem_int_def dec_int_def)

lemma first_errors_none: "foldl first_error None (map (\<lambda>_. None) xs) = None"
  by (induction xs) (simp_all add: first_error_def)

lemma dec_list_rt:
  assumes "\<And>x. x \<in> set xs \<Longrightarrow> el (enc x) = (x, None)"
  shows "dec_list el upd (JArr (map enc xs)) r = (upd xs r, None)"
proof -
  have "map (fst \<circ> el) (map enc xs) = xs" "map (snd \<circ> el) (map enc xs) = map (\<lambda>_. None) xs"
    using assms by (auto intro: map_idI)
  then show ?thesis unfolding dec_list_def json.case by (simp only: first_errors_none)
qed

lemma dec_float_rt: "dec_float upd (dec_json d) r = (upd d r, None)"
  by (cases d) (simp add: dec_float_def)

text \<open>
  One member of an encoded struct, read back. A member left out by \<open>omitempty\<close> is read back because the
  field still holds its zero value.
\<close>

lemma decode_mem:
  "map_of fs k = Some (dec_str su) \<Longrightarrow> decode_members fs (mem_str k s @ kvs) (r, None) = decode_members fs kvs (su s r, None)"
  "map_of fs k = Some (dec_int iu) \<Longrightarrow> in_int64 i \<Longrightarrow>
     decode_members fs (mem_int k i @ kvs) (r, None) = decode_members fs kvs (iu i r, None)"
  "map_of fs k = Some (dec_bool bu) \<Longrightarrow> decode_members fs (mem_bool k b @ kvs) (r, None) = decode_members fs kvs (bu b r, None)"
  "map_of fs k = Some (dec_strs ssu) \<Longrightarrow> decode_members fs (mem_strs k ss @ kvs) (r, None) = decode_members fs kvs (ssu ss r, None)"
  by (simp_all add: mem_str_def mem_int_def mem_bool_def mem_strs_def find_field_exact first_error_def
      dec_str_def dec_int_def dec_bool_def dec_list_rt)

lemma decode_om:
  "map_of fs k = Some (dec_str su) \<Longrightarrow> su [] r = r \<Longrightarrow>
     decode_members fs (om_str k s @ kvs) (r, None) = decode_members fs kvs (su s r, None)"
  "map_of fs k = Some (dec_int iu) \<Longrightarrow> in_int64 i \<Longrightarrow> iu 0 r = r \<Longrightarrow>
     decode_members fs (om_int k i @ kvs) (r, None) = decode_members fs kvs (iu i r, None)"
  "map_of fs k = Some (dec_bool bu) \<Longrightarrow> bu False r = r \<Longrightarrow>
     decode_members fs (om_bool k b @ kvs) (r, None) = decode_members fs kvs (bu b r, None)"
  "map_of fs k = Some (dec_strs ssu) \<Longrightarrow> ssu [] r = r \<Longrightarrow>
     decode_members fs (om_strs k ss @ kvs) (r, None) = decode_members fs kvs (ssu ss r, None)"
  "map_of fs k = Some (dec_ints isu) \<Longrightarrow> list_all in_int64 is \<Longrightarrow> isu [] r = r \<Longrightarrow>
     decode_members fs (om_ints k is @ kvs) (r, None) = decode_members fs kvs (isu is r, None)"
  "map_of fs k = Some (dec_float fu) \<Longrightarrow> plain_dec d \<Longrightarrow> fu dec_zero r = r \<Longrightarrow>
     decode_members fs (om_float k d @ kvs) (r, None) = decode_members fs kvs (fu d r, None)"
proof -
  show "map_of fs k = Some (dec_float fu) \<Longrightarrow> plain_dec d \<Longrightarrow> fu dec_zero r = r \<Longrightarrow>
     decode_members fs (om_float k d @ kvs) (r, None) = decode_members fs kvs (fu d r, None)"
    by (cases d) (auto simp: om_float_def dec_zero_def find_field_exact first_error_def dec_float_def)
qed (auto simp: om_str_def om_int_def om_bool_def om_strs_def om_ints_def find_field_exact first_error_def
    dec_str_def dec_int_def dec_bool_def dec_list_rt list_all_iff)

lemmas decode_rt = decode_mem decode_om decode_mem [where kvs = "[]", simplified] decode_om [where kvs = "[]", simplified]

locale arg_codec =
  fixes enc :: "'r \<Rightarrow> json" and fs :: "'r fields" and zero :: 'r and fits :: "'r \<Rightarrow> bool"
  assumes unmarshal_enc: "fits a \<Longrightarrow> unmarshal_struct fs zero (enc a) = (a, None)"
begin

lemma wire: "fits a \<Longrightarrow> unmarshalArgs fs zero (RawJson (enc a)) = (a, None)"
  by (simp add: unmarshalArgs_def unmarshal_enc)

lemma enc_inj: "fits a \<Longrightarrow> fits b \<Longrightarrow> enc a = enc b \<Longrightarrow> a = b"
  by (metis unmarshal_enc prod.inject)

end

interpretation print_codec: arg_codec print_args_json print_args_fields print_args_zero "\<lambda>a. in_int64 (pa_Ref a) \<and> in_int64 (pa_Frame a) \<and> in_int64 (pa_Depth a) \<and> in_int64 (pa_MaxItems a) \<and> plain_dec (pa_TimeoutSec a)"
  by unfold_locales (simp add: print_args_json_def print_args_fields_def print_args_zero_def unmarshal_struct_def decode_rt)

interpretation watch_codec: arg_codec watch_args_json watch_args_fields watch_args_zero "\<lambda>a. in_int64 (wa_ID a) \<and> in_int64 (wa_Frame a)"
  by unfold_locales (simp add: watch_args_json_def watch_args_fields_def watch_args_zero_def unmarshal_struct_def decode_rt)

interpretation break_fn_codec: arg_codec break_fn_args_json break_fn_args_fields break_fn_args_zero "\<lambda>a. in_int64 (bfa_Hit a)"
  by unfold_locales (simp add: break_fn_args_json_def break_fn_args_fields_def break_fn_args_zero_def unmarshal_struct_def decode_rt)

interpretation break_ex_codec: arg_codec break_ex_args_json break_ex_args_fields break_ex_args_zero "\<lambda>_. True"
  by unfold_locales (simp add: break_ex_args_json_def break_ex_args_fields_def break_ex_args_zero_def unmarshal_struct_def decode_rt)

interpretation fields_codec: arg_codec fields_args_json fields_args_fields fields_args_zero "\<lambda>a. in_int64 (fa_Ref a)"
  by unfold_locales (simp add: fields_args_json_def fields_args_fields_def fields_args_zero_def unmarshal_struct_def decode_rt)

interpretation globals_codec: arg_codec globals_args_json globals_args_fields globals_args_zero "\<lambda>a. in_int64 (ga_Frame a)"
  by unfold_locales (simp add: globals_args_json_def globals_args_fields_def globals_args_zero_def unmarshal_struct_def decode_rt)

interpretation source_codec: arg_codec source_args_json source_args_fields source_args_zero "\<lambda>a. in_int64 (sra_Line a) \<and> in_int64 (sra_Around a) \<and> in_int64 (sra_Ref a)"
  by unfold_locales (simp add: source_args_json_def source_args_fields_def source_args_zero_def unmarshal_struct_def decode_rt)

interpretation output_codec: arg_codec output_args_json output_args_fields output_args_zero "\<lambda>a. in_int64 (oa_Tail a)"
  by unfold_locales (simp add: output_args_json_def output_args_fields_def output_args_zero_def unmarshal_struct_def decode_rt)

interpretation events_codec: arg_codec events_args_json events_args_fields events_args_zero "\<lambda>a. in_int64 (ea_Tail a)"
  by unfold_locales (simp add: events_args_json_def events_args_fields_def events_args_zero_def unmarshal_struct_def decode_rt)

interpretation listen_codec: arg_codec listen_args_json listen_args_fields listen_args_zero "\<lambda>a. plain_dec (la_TimeoutSec a)"
  by unfold_locales (simp add: listen_args_json_def listen_args_fields_def listen_args_zero_def unmarshal_struct_def decode_rt)

interpretation until_codec: arg_codec until_args_json until_args_fields until_args_zero "\<lambda>a. in_int64 (ua_Line a) \<and> in_int64 (ua_Thread a) \<and> plain_dec (ua_TimeoutSec a)"
  by unfold_locales (simp add: until_args_json_def until_args_fields_def until_args_zero_def unmarshal_struct_def decode_rt)

interpretation start_codec: arg_codec start_args_json start_args_fields start_args_zero "\<lambda>_. True"
  by unfold_locales (simp add: start_args_json_def start_args_fields_def start_args_zero_def unmarshal_struct_def decode_rt)

interpretation attach_codec: arg_codec attach_args_json attach_args_fields attach_args_zero "\<lambda>a. in_int64 (aa_Port a) \<and> in_int64 (aa_PID a)"
  by unfold_locales (simp add: attach_args_json_def attach_args_fields_def attach_args_zero_def unmarshal_struct_def decode_rt)

interpretation break_codec: arg_codec break_args_json break_args_fields break_args_zero "\<lambda>a. in_int64 (ba_Hit a)"
  by unfold_locales (simp add: break_args_json_def break_args_fields_def break_args_zero_def unmarshal_struct_def decode_rt)

interpretation unbreak_codec: arg_codec unbreak_args_json unbreak_args_fields unbreak_args_zero "\<lambda>a. list_all in_int64 (uba_IDs a)"
  by unfold_locales (simp add: unbreak_args_json_def unbreak_args_fields_def unbreak_args_zero_def unmarshal_struct_def decode_rt)

interpretation continue_codec: arg_codec continue_args_json continue_args_fields continue_args_zero "\<lambda>a. in_int64 (ca_Thread a) \<and> plain_dec (ca_TimeoutSec a)"
  by unfold_locales (simp add: continue_args_json_def continue_args_fields_def continue_args_zero_def unmarshal_struct_def decode_rt)

interpretation stack_codec: arg_codec stack_args_json stack_args_fields stack_args_zero "\<lambda>a. in_int64 (ska_Thread a) \<and> in_int64 (ska_Limit a)"
  by unfold_locales (simp add: stack_args_json_def stack_args_fields_def stack_args_zero_def unmarshal_struct_def decode_rt)

interpretation locals_codec: arg_codec locals_args_json locals_args_fields locals_args_zero "\<lambda>a. in_int64 (lca_Frame a)"
  by unfold_locales (simp add: locals_args_json_def locals_args_fields_def locals_args_zero_def unmarshal_struct_def decode_rt)

interpretation eval_codec: arg_codec eval_args_json eval_args_fields eval_args_zero "\<lambda>a. in_int64 (eva_Frame a) \<and> plain_dec (eva_TimeoutSec a)"
  by unfold_locales (simp add: eval_args_json_def eval_args_fields_def eval_args_zero_def unmarshal_struct_def decode_rt)

interpretation set_var_codec: arg_codec set_var_args_json set_var_args_fields set_var_args_zero "\<lambda>a. in_int64 (sva_Frame a)"
  by unfold_locales (simp add: set_var_args_json_def set_var_args_fields_def set_var_args_zero_def unmarshal_struct_def decode_rt)

interpretation use_codec: arg_codec use_args_json use_args_fields use_args_zero "\<lambda>_. True"
  by unfold_locales (simp add: use_args_json_def use_args_fields_def use_args_zero_def unmarshal_struct_def decode_rt)

end
