(* ===== verification/Mcp_Tools.thy ===== *)
theory Mcp_Tools
  imports Proto_Encode
begin

text \<open>
  The tools of the MCP server (\<open>internal/mcp/server.go\<close>, \<open>validate.go\<close>): the registry with the schema
  and the \<open>Translate\<close> function of every tool, the schema check and the treatment of the \<open>session\<close>
  argument. Descriptions are left out. Numbers are exact decimals, where Go compares \<open>float64\<close> values.
\<close>

section \<open>JSON objects as Go maps\<close>

text \<open>Decoding into a map: the last of several members of the same name wins. Marshalling sorts by name.\<close>

definition go_map :: "(string \<times> json) list \<Rightarrow> (string \<times> json) list" where
  "go_map kvs = foldl (\<lambda>m (k, v). map_put k v m) [] kvs"

fun str_le :: "string \<Rightarrow> string \<Rightarrow> bool" where
  "str_le [] _ = True"
| "str_le (_ # _) [] = False"
| "str_le (a # as) (b # bs) = (char_code a < char_code b \<or> a = b \<and> str_le as bs)"

fun insert_member :: "string \<times> json \<Rightarrow> (string \<times> json) list \<Rightarrow> (string \<times> json) list" where
  "insert_member kv [] = [kv]"
| "insert_member kv (kv' # kvs) = (if str_le (fst kv) (fst kv') then kv # kv' # kvs else kv' # insert_member kv kvs)"

definition sort_members :: "(string \<times> json) list \<Rightarrow> (string \<times> json) list" where
  "sort_members kvs = foldr insert_member kvs []"

text \<open>\<open>json.Unmarshal\<close> of a \<open>RawMessage\<close> that may be absent.\<close>

definition unmarshal_opt :: "'r fields \<Rightarrow> 'r \<Rightarrow> json option \<Rightarrow> 'r \<times> string option" where
  "unmarshal_opt fs zero raw =
     (case raw of None \<Rightarrow> (zero, Some ''unexpected end of JSON input'') | Some j \<Rightarrow> unmarshal_struct fs zero j)"

section \<open>Schema check\<close>

text \<open>The types the schemas use, and a property: its type and, for \<open>lang\<close>, its enumeration.\<close>

datatype json_type = TString | TInteger | TNumber | TBoolean | TArray | TObject

type_synonym schema_prop = "json_type \<times> string list option"

datatype violation =
    MissingArg string
  | WrongType string json_type json
  | NotInEnum string json "string list"

datatype invalid = NotAnObject | Violations "violation list"

definition whole :: "json \<Rightarrow> bool" where
  "whole j = (case j of JInt i \<Rightarrow> in_int64 i | JDec m e \<Rightarrow> m mod 10 ^ e = 0 \<and> in_int64 (m div 10 ^ e) | _ \<Rightarrow> False)"

fun checkJSONType :: "json_type \<Rightarrow> json \<Rightarrow> bool" where
  "checkJSONType TString v = (case v of JStr _ \<Rightarrow> True | _ \<Rightarrow> False)"
| "checkJSONType TInteger v = whole v"
| "checkJSONType TNumber v = (case v of JInt _ \<Rightarrow> True | JDec _ _ \<Rightarrow> True | _ \<Rightarrow> False)"
| "checkJSONType TBoolean v = (case v of JBool _ \<Rightarrow> True | _ \<Rightarrow> False)"
| "checkJSONType TArray v = (case v of JArr _ \<Rightarrow> True | _ \<Rightarrow> False)"
| "checkJSONType TObject v = (case v of JObj _ \<Rightarrow> True | _ \<Rightarrow> False)"

definition containsStr :: "string list \<Rightarrow> string \<Rightarrow> bool" where
  "containsStr xs s = list_ex (\<lambda>x. x = s) xs"

definition check_member :: "(string \<times> schema_prop) list \<Rightarrow> string \<times> json \<Rightarrow> violation list" where
  "check_member props kv =
     (case map_of props (fst kv) of
        None \<Rightarrow> []
      | Some (ty, en) \<Rightarrow>
          (if checkJSONType ty (snd kv) then [] else [WrongType (fst kv) ty (snd kv)]) @
          (case en of
             None \<Rightarrow> []
           | Some xs \<Rightarrow>
               if (case snd kv of JStr s \<Rightarrow> containsStr xs s | _ \<Rightarrow> False) then [] else [NotInEnum (fst kv) (snd kv) xs]))"

definition validateArgs ::
  "range_order \<Rightarrow> string list \<Rightarrow> (string \<times> schema_prop) list \<Rightarrow> json option \<Rightarrow> invalid option" where
  "validateArgs ord required props raw =
     (let args = (case raw of None \<Rightarrow> Some [] | Some JNull \<Rightarrow> Some [] | Some (JObj kvs) \<Rightarrow> Some (go_map kvs) | _ \<Rightarrow> None) in
      case args of
        None \<Rightarrow> Some NotAnObject
      | Some m \<Rightarrow>
          let errs = map MissingArg (filter (\<lambda>n. map_of m n = None) required) @
                     concat (map (check_member props) (go_range ord m))
          in if errs = [] then None else Some (Violations errs))"

section \<open>The session argument\<close>

text \<open>\<open>extractSession\<close>: the error, the session and what is left of the arguments. After an error the
  arguments come back as they were.\<close>

definition extractSession :: "json option \<Rightarrow> string option \<times> string \<times> json option" where
  "extractSession raw =
     (case raw of
        None \<Rightarrow> (None, [], None)
      | Some JNull \<Rightarrow> (None, [], Some JNull)
      | Some (JObj kvs) \<Rightarrow>
          (let m = go_map kvs;
               sess = (case map_of m ''session'' of Some (JStr s) \<Rightarrow> s | _ \<Rightarrow> [])
           in (None, sess, Some (JObj (sort_members (map_del ''session'' m)))))
      | Some j \<Rightarrow> (type_error ''map[string]json.RawMessage'', [], Some j))"

section \<open>Tools\<close>

type_synonym translation = "string + string \<times> string \<times> dargs"

datatype composite = RunUntilBreak | InspectAt | ExplainPause | SnapshotCompact

datatype action = Translate "json option \<Rightarrow> translation" | Handler composite

record tool =
  t_Name :: string
  t_Mutating :: bool
  t_required :: "string list"
  t_props :: "(string \<times> schema_prop) list"
  t_action :: action

definition objectSchema :: "(string \<times> schema_prop) list \<Rightarrow> (string \<times> schema_prop) list" where
  "objectSchema props = (if map_of props ''session'' = None then props @ [(''session'', (TString, None))] else props)"

definition stringProp :: schema_prop where "stringProp = (TString, None)"
definition intProp :: schema_prop where "intProp = (TInteger, None)"
definition boolProp :: schema_prop where "boolProp = (TBoolean, None)"
definition numberProp :: schema_prop where "numberProp = (TNumber, None)"
definition arrayProp :: schema_prop where "arrayProp = (TArray, None)"

definition langEnumProp :: schema_prop where
  "langEnumProp = (TString, Some [''python'', ''go'', ''java''])"

definition mk_tool :: "string \<Rightarrow> bool \<Rightarrow> string list \<Rightarrow> (string \<times> schema_prop) list \<Rightarrow> action \<Rightarrow> tool" where
  "mk_tool name mut req props act =
     \<lparr>t_Name = name, t_Mutating = mut, t_required = req, t_props = objectSchema props, t_action = act\<rparr>"

text \<open>
  The four shapes of \<open>Translate\<close>: every error reported; the error of \<open>extractSession\<close> dropped; both
  dropped; no arguments but the session.
\<close>

definition strict_tool :: "string \<Rightarrow> 'r fields \<Rightarrow> 'r \<Rightarrow> ('r \<Rightarrow> dargs) \<Rightarrow> json option \<Rightarrow> translation" where
  "strict_tool cmd fs zero con raw =
     (case extractSession raw of
        (Some e, _, _) \<Rightarrow> Inl e
      | (None, sess, rest) \<Rightarrow>
          (case unmarshal_opt fs zero rest of (_, Some e) \<Rightarrow> Inl e | (a, None) \<Rightarrow> Inr (cmd, sess, con a)))"

definition decode_tool :: "string \<Rightarrow> 'r fields \<Rightarrow> 'r \<Rightarrow> ('r \<Rightarrow> dargs) \<Rightarrow> json option \<Rightarrow> translation" where
  "decode_tool cmd fs zero con raw =
     (case extractSession raw of
        (_, sess, rest) \<Rightarrow>
          (case unmarshal_opt fs zero rest of (_, Some e) \<Rightarrow> Inl e | (a, None) \<Rightarrow> Inr (cmd, sess, con a)))"

definition lax_tool :: "string \<Rightarrow> 'r fields \<Rightarrow> 'r \<Rightarrow> ('r \<Rightarrow> dargs) \<Rightarrow> json option \<Rightarrow> translation" where
  "lax_tool cmd fs zero con raw =
     (case extractSession raw of (_, sess, rest) \<Rightarrow> Inr (cmd, sess, con (fst (unmarshal_opt fs zero rest))))"

definition bare_tool :: "string \<Rightarrow> dargs \<Rightarrow> json option \<Rightarrow> translation" where
  "bare_tool cmd a raw = (case extractSession raw of (_, sess, _) \<Rightarrow> Inr (cmd, sess, a))"

text \<open>On start and attach the session argument names the new session; the request goes to no session.\<close>

definition translate_start :: "json option \<Rightarrow> translation" where
  "translate_start raw =
     (case extractSession raw of
        (Some e, _, _) \<Rightarrow> Inl e
      | (None, sess, rest) \<Rightarrow>
          (case unmarshal_opt start_args_fields start_args_zero rest of
             (_, Some e) \<Rightarrow> Inl e
           | (a, None) \<Rightarrow>
               Inr (''start'', [], AStart (if sess \<noteq> [] \<and> sa_Name a = [] then a\<lparr>sa_Name := sess\<rparr> else a))))"

definition translate_attach :: "json option \<Rightarrow> translation" where
  "translate_attach raw =
     (case extractSession raw of
        (Some e, _, _) \<Rightarrow> Inl e
      | (None, sess, rest) \<Rightarrow>
          (case unmarshal_opt attach_args_fields attach_args_zero rest of
             (_, Some e) \<Rightarrow> Inl e
           | (a, None) \<Rightarrow>
               Inr (''attach'', [], AAttach (if sess \<noteq> [] \<and> aa_Name a = [] then a\<lparr>aa_Name := sess\<rparr> else a))))"

definition tool_debug_start :: tool where
  "tool_debug_start =
     mk_tool ''debug_start'' True [''lang'', ''program'']
       [(''lang'', langEnumProp), (''program'', stringProp), (''args'', arrayProp), (''stopOnEntry'', boolProp), (''mainClass'', stringProp), (''classpath'', stringProp), (''sourceRoots'', arrayProp), (''name'', stringProp), (''session'', stringProp)]
       (Translate (translate_start))"

definition tool_debug_attach :: tool where
  "tool_debug_attach =
     mk_tool ''debug_attach'' True [''lang'', ''host'', ''port'']
       [(''lang'', langEnumProp), (''host'', stringProp), (''port'', intProp), (''pid'', intProp), (''sourceRoots'', arrayProp), (''name'', stringProp), (''session'', stringProp)]
       (Translate (translate_attach))"

definition tool_debug_break :: tool where
  "tool_debug_break =
     mk_tool ''debug_break'' True [''location'']
       [(''location'', stringProp), (''condition'', stringProp), (''hit'', intProp), (''logMsg'', stringProp), (''once'', boolProp)]
       (Translate (strict_tool ''break'' break_args_fields break_args_zero ABreak))"

definition tool_debug_break_fn :: tool where
  "tool_debug_break_fn =
     mk_tool ''debug_break_fn'' True [''function'']
       [(''function'', stringProp), (''condition'', stringProp), (''hit'', intProp)]
       (Translate (strict_tool ''break-fn'' break_fn_args_fields break_fn_args_zero ABreakFn))"

definition tool_debug_break_ex :: tool where
  "tool_debug_break_ex =
     mk_tool ''debug_break_ex'' True [''filters'']
       [(''filters'', arrayProp)]
       (Translate (strict_tool ''break-ex'' break_ex_args_fields break_ex_args_zero ABreakEx))"

definition tool_debug_continue :: tool where
  "tool_debug_continue =
     mk_tool ''debug_continue'' True []
       [(''timeoutSec'', numberProp)]
       (Translate (lax_tool ''continue'' continue_args_fields continue_args_zero AContinue))"

definition tool_debug_step :: tool where
  "tool_debug_step =
     mk_tool ''debug_step'' True []
       []
       (Translate (bare_tool ''step'' (AStep continue_args_zero)))"

definition tool_debug_next :: tool where
  "tool_debug_next =
     mk_tool ''debug_next'' True []
       []
       (Translate (bare_tool ''next'' (AStep continue_args_zero)))"

definition tool_debug_finish :: tool where
  "tool_debug_finish =
     mk_tool ''debug_finish'' True []
       []
       (Translate (bare_tool ''finish'' (AStep continue_args_zero)))"

definition tool_debug_pause :: tool where
  "tool_debug_pause =
     mk_tool ''debug_pause'' True []
       []
       (Translate (bare_tool ''pause'' NoArgs))"

definition tool_debug_until :: tool where
  "tool_debug_until =
     mk_tool ''debug_until'' True [''line'']
       [(''line'', intProp)]
       (Translate (strict_tool ''until'' until_args_fields until_args_zero AUntil))"

definition tool_debug_stack :: tool where
  "tool_debug_stack =
     mk_tool ''debug_stack'' False []
       [(''thread'', intProp), (''limit'', intProp)]
       (Translate (lax_tool ''stack'' stack_args_fields stack_args_zero AStack))"

definition tool_debug_threads :: tool where
  "tool_debug_threads =
     mk_tool ''debug_threads'' False []
       []
       (Translate (bare_tool ''threads'' NoArgs))"

definition tool_debug_breaks :: tool where
  "tool_debug_breaks =
     mk_tool ''debug_breaks'' False []
       []
       (Translate (bare_tool ''breaks'' NoArgs))"

definition tool_debug_unbreak :: tool where
  "tool_debug_unbreak =
     mk_tool ''debug_unbreak'' True []
       [(''ids'', arrayProp), (''all'', boolProp)]
       (Translate (lax_tool ''unbreak'' unbreak_args_fields unbreak_args_zero AUnbreak))"

definition tool_debug_set :: tool where
  "tool_debug_set =
     mk_tool ''debug_set'' True [''name'', ''value'']
       [(''name'', stringProp), (''value'', stringProp), (''frame'', intProp)]
       (Translate (strict_tool ''set'' set_var_args_fields set_var_args_zero ASet))"

definition tool_debug_locals :: tool where
  "tool_debug_locals =
     mk_tool ''debug_locals'' False []
       [(''frame'', intProp)]
       (Translate (lax_tool ''locals'' locals_args_fields locals_args_zero ALocals))"

definition tool_debug_globals :: tool where
  "tool_debug_globals =
     mk_tool ''debug_globals'' False []
       []
       (Translate (bare_tool ''globals'' (AGlobals globals_args_zero)))"

definition tool_debug_fields :: tool where
  "tool_debug_fields =
     mk_tool ''debug_fields'' False [''ref'']
       [(''ref'', intProp)]
       (Translate (decode_tool ''fields'' fields_args_fields fields_args_zero AFields))"

definition tool_debug_eval :: tool where
  "tool_debug_eval =
     mk_tool ''debug_eval'' True [''expression'']
       [(''expression'', stringProp), (''frame'', intProp), (''timeoutSec'', numberProp)]
       (Translate (decode_tool ''eval'' eval_args_fields eval_args_zero AEval))"

definition tool_debug_watch :: tool where
  "tool_debug_watch =
     mk_tool ''debug_watch'' True []
       [(''action'', stringProp), (''expression'', stringProp), (''id'', intProp), (''all'', boolProp)]
       (Translate (decode_tool ''watch'' watch_args_fields watch_args_zero AWatch))"

definition tool_debug_source :: tool where
  "tool_debug_source =
     mk_tool ''debug_source'' False []
       [(''file'', stringProp), (''line'', intProp), (''around'', intProp)]
       (Translate (decode_tool ''source'' source_args_fields source_args_zero ASource))"

definition tool_debug_output :: tool where
  "tool_debug_output =
     mk_tool ''debug_output'' False []
       [(''since'', stringProp), (''tail'', intProp)]
       (Translate (lax_tool ''output'' output_args_fields output_args_zero AOutput))"

definition tool_debug_events :: tool where
  "tool_debug_events =
     mk_tool ''debug_events'' False []
       [(''since'', stringProp), (''tail'', intProp)]
       (Translate (lax_tool ''events'' events_args_fields events_args_zero AEvents))"

definition tool_debug_listen :: tool where
  "tool_debug_listen =
     mk_tool ''debug_listen'' False []
       [(''timeoutSec'', numberProp)]
       (Translate (lax_tool ''listen'' listen_args_fields listen_args_zero AListen))"

definition tool_debug_snapshot :: tool where
  "tool_debug_snapshot =
     mk_tool ''debug_snapshot'' False []
       []
       (Translate (bare_tool ''snapshot'' NoArgs))"

definition tool_debug_state :: tool where
  "tool_debug_state =
     mk_tool ''debug_state'' False []
       []
       (Translate (bare_tool ''state'' NoArgs))"

definition tool_debug_restart :: tool where
  "tool_debug_restart =
     mk_tool ''debug_restart'' True []
       []
       (Translate (bare_tool ''restart'' ARestart))"

definition tool_debug_stop :: tool where
  "tool_debug_stop =
     mk_tool ''debug_stop'' True []
       []
       (Translate (bare_tool ''stop'' NoArgs))"

definition tool_debug_sessions :: tool where
  "tool_debug_sessions =
     mk_tool ''debug_sessions'' False []
       []
       (Translate (\<lambda>_. Inr (''sessions'', [], NoArgs)))"

definition tool_debug_adapters :: tool where
  "tool_debug_adapters =
     mk_tool ''debug_adapters'' False []
       []
       (Translate (\<lambda>_. Inr (''adapters'', [], NoArgs)))"

definition tool_debug_print :: tool where
  "tool_debug_print =
     mk_tool ''debug_print'' True []
       [(''expression'', stringProp), (''ref'', intProp), (''frame'', intProp), (''depth'', intProp), (''maxItems'', intProp)]
       (Translate (strict_tool ''print'' print_args_fields print_args_zero APrint))"

definition tool_debug_run_until_break :: tool where
  "tool_debug_run_until_break =
     mk_tool ''debug_run_until_break'' True [''location'']
       [(''location'', stringProp), (''condition'', stringProp), (''timeoutSec'', numberProp), (''once'', boolProp)]
       (Handler RunUntilBreak)"

definition tool_debug_inspect_at :: tool where
  "tool_debug_inspect_at =
     mk_tool ''debug_inspect_at'' True [''location'']
       [(''location'', stringProp), (''condition'', stringProp), (''expressions'', arrayProp), (''continue'', boolProp), (''timeoutSec'', numberProp)]
       (Handler InspectAt)"

definition tool_debug_explain_pause :: tool where
  "tool_debug_explain_pause =
     mk_tool ''debug_explain_pause'' False []
       [(''maxVars'', intProp), (''maxFrames'', intProp)]
       (Handler ExplainPause)"

definition tool_debug_snapshot_compact :: tool where
  "tool_debug_snapshot_compact =
     mk_tool ''debug_snapshot_compact'' False []
       [(''maxVars'', intProp), (''maxFrames'', intProp)]
       (Handler SnapshotCompact)"

definition toolRegistry :: "tool list" where
  "toolRegistry =
     [tool_debug_start, tool_debug_attach, tool_debug_break, tool_debug_break_fn, tool_debug_break_ex,
      tool_debug_continue, tool_debug_step, tool_debug_next, tool_debug_finish, tool_debug_pause, tool_debug_until,
      tool_debug_stack, tool_debug_threads, tool_debug_breaks, tool_debug_unbreak, tool_debug_set, tool_debug_locals,
      tool_debug_globals, tool_debug_fields, tool_debug_eval, tool_debug_watch, tool_debug_source, tool_debug_output,
      tool_debug_events, tool_debug_listen, tool_debug_snapshot, tool_debug_state, tool_debug_restart, tool_debug_stop,
      tool_debug_sessions, tool_debug_adapters, tool_debug_print, tool_debug_run_until_break, tool_debug_inspect_at,
      tool_debug_explain_pause, tool_debug_snapshot_compact]"

lemmas tool_defs = tool_debug_start_def tool_debug_attach_def tool_debug_break_def tool_debug_break_fn_def tool_debug_break_ex_def tool_debug_continue_def tool_debug_step_def tool_debug_next_def tool_debug_finish_def tool_debug_pause_def tool_debug_until_def tool_debug_stack_def tool_debug_threads_def tool_debug_breaks_def tool_debug_unbreak_def tool_debug_set_def tool_debug_locals_def tool_debug_globals_def tool_debug_fields_def tool_debug_eval_def tool_debug_watch_def tool_debug_source_def tool_debug_output_def tool_debug_events_def tool_debug_listen_def tool_debug_snapshot_def tool_debug_state_def tool_debug_restart_def tool_debug_stop_def tool_debug_sessions_def tool_debug_adapters_def tool_debug_print_def tool_debug_run_until_break_def tool_debug_inspect_at_def tool_debug_explain_pause_def tool_debug_snapshot_compact_def

definition toolByName :: "string \<Rightarrow> tool option" where
  "toolByName name = find (\<lambda>t. t_Name t = name) toolRegistry"

end
