(* ===== verification/Mcp_Server.thy ===== *)
theory Mcp_Server
  imports Mcp_Tools Policy "HOL-Library.State_Monad" "HOL-Library.Monad_Syntax"
begin

text \<open>
  The MCP server (\<open>internal/mcp\<close>): the JSON-RPC methods, tool calls with their allowlist, resources,
  prompts, and the composite tools of \<open>composites.go\<close>. The daemon is the field \<open>m_call\<close> of the
  environment, Go's \<open>DaemonCaller\<close>: a command, a session and arguments give an error text or JSON, and
  change the state \<open>'w\<close>. A list that Go leaves nil is the empty array here.
\<close>

section \<open>Options and environment\<close>

record options =
  o_ReadOnly :: bool
  o_AllowCwd :: "string list"
  o_DenyProgram :: "string list"

type_synonym 'w caller = "string \<Rightarrow> string \<Rightarrow> dargs \<Rightarrow> ('w, string + json) state"

record 'w mcp =
  m_opts :: options
  m_call :: "'w caller"
  m_cwd :: "string option"
  m_order :: range_order

section \<open>The program allowlist\<close>

text \<open>\<open>enforceAllowlist\<close> looks at the marshalled arguments; attach has neither program nor cwd.\<close>

fun probe :: "dargs \<Rightarrow> string \<times> string" where
  "probe (AStart a) = (sa_Program a, sa_Cwd a)"
| "probe _ = ([], [])"

definition cwd_allowed :: "string option \<Rightarrow> string list \<Rightarrow> string \<Rightarrow> bool" where
  "cwd_allowed cwd roots target =
     (let a = clean (case abs_path cwd target of Some p \<Rightarrow> p | None \<Rightarrow> target) in
      list_ex (\<lambda>r. case abs_path cwd r of None \<Rightarrow> False | Some ra \<Rightarrow> under_root a (clean ra)) roots)"

definition enforceAllowlist :: "options \<Rightarrow> string option \<Rightarrow> dargs \<Rightarrow> string option" where
  "enforceAllowlist opts cwd args =
     (let (program, wd) = probe args in
      case find (\<lambda>deny. deny \<noteq> [] \<and> contains (to_lower program) (to_lower deny)) (o_DenyProgram opts) of
        Some deny \<Rightarrow> Some (''POLICY_DENIED: program '' @ quote program @ '' matches deny rule '' @ quote deny)
      | None \<Rightarrow>
          if o_AllowCwd opts = [] then None
          else let target = (if wd = [] then program else wd) in
               if target = [] then None
               else if cwd_allowed cwd (o_AllowCwd opts) target then None
               else Some (''POLICY_DENIED: '' @ clean (case abs_path cwd target of Some p \<Rightarrow> p | None \<Rightarrow> target) @
                          '' outside allowed cwd roots ['' @ join_with '' '' (o_AllowCwd opts) @ '']''))"

section \<open>The default session\<close>

record session_row =
  row_ID :: string
  row_Default :: bool
  row_State :: string

definition session_row_zero :: session_row where
  "session_row_zero = \<lparr>row_ID = [], row_Default = False, row_State = []\<rparr>"

definition session_row_fields :: "session_row fields" where
  "session_row_fields =
     [(''id'', dec_str (\<lambda>v r. r\<lparr>row_ID := v\<rparr>)),
      (''default'', dec_bool (\<lambda>v r. r\<lparr>row_Default := v\<rparr>)),
      (''state'', dec_str (\<lambda>v r. r\<lparr>row_State := v\<rparr>))]"

definition session_rows_fields :: "session_row list fields" where
  "session_rows_fields = [(''sessions'', dec_list (unmarshal_struct session_row_fields session_row_zero) (\<lambda>v _. v))]"

definition live_row :: "session_row \<Rightarrow> bool" where
  "live_row r \<longleftrightarrow> row_State r \<noteq> ''exited'' \<and> row_State r \<noteq> ''terminated''"

definition pick_session :: "session_row list \<Rightarrow> string" where
  "pick_session rows =
     (case find row_Default rows of
        Some r \<Rightarrow> row_ID r
      | None \<Rightarrow>
          (case filter live_row rows of
             [r] \<Rightarrow> row_ID r
           | _ \<Rightarrow> (case rows of [r] \<Rightarrow> row_ID r | _ \<Rightarrow> [])))"

definition resolveSession :: "'w mcp \<Rightarrow> string \<Rightarrow> ('w, string) state" where
  "resolveSession m sess =
     (if sess \<noteq> [] then State_Monad.return sess
      else do {
        r \<leftarrow> m_call m ''sessions'' [] NoArgs;
        State_Monad.return
          (case r of
             Inl _ \<Rightarrow> []
           | Inr j \<Rightarrow>
               (case unmarshal_struct session_rows_fields [] j of (_, Some _) \<Rightarrow> [] | (rows, None) \<Rightarrow> pick_session rows))
      })"

section \<open>Composite tools\<close>

text \<open>
  A composite returns an error text or a value to marshal. Marshalling fails, and the text sent is
  empty, when the value holds raw JSON that is not JSON: \<open>None\<close>.
\<close>

type_synonym composite_result = "string + json option"

definition raw_or_null :: "string + json \<Rightarrow> json" where
  "raw_or_null r = (case r of Inl _ \<Rightarrow> JNull | Inr j \<Rightarrow> j)"

definition ok_raw :: "string + json \<Rightarrow> json option" where
  "ok_raw r = (case r of Inl _ \<Rightarrow> None | Inr j \<Rightarrow> Some j)"

record run_until_break_args =
  rub_Location :: string
  rub_Condition :: string
  rub_TimeoutSec :: decimal
  rub_Once :: "bool option"

definition run_until_break_zero :: run_until_break_args where
  "run_until_break_zero = \<lparr>rub_Location = [], rub_Condition = [], rub_TimeoutSec = dec_zero, rub_Once = None\<rparr>"

definition run_until_break_fields :: "run_until_break_args fields" where
  "run_until_break_fields =
     [(''location'', dec_str (\<lambda>v r. r\<lparr>rub_Location := v\<rparr>)),
      (''condition'', dec_str (\<lambda>v r. r\<lparr>rub_Condition := v\<rparr>)),
      (''timeoutSec'', dec_float (\<lambda>v r. r\<lparr>rub_TimeoutSec := v\<rparr>)),
      (''once'', dec_bool (\<lambda>v r. r\<lparr>rub_Once := Some v\<rparr>))]"

definition handleRunUntilBreak :: "'w mcp \<Rightarrow> string \<Rightarrow> json option \<Rightarrow> ('w, composite_result) state" where
  "handleRunUntilBreak m sess raw =
     (case unmarshal_opt run_until_break_fields run_until_break_zero raw of
        (_, Some e) \<Rightarrow> State_Monad.return (Inl e)
      | (a, None) \<Rightarrow>
          if rub_Location a = [] then State_Monad.return (Inl ''location is required'')
          else do {
            let once = (case rub_Once a of None \<Rightarrow> True | Some b \<Rightarrow> b);
            bp \<leftarrow> m_call m ''break'' sess
                   (ABreak (break_args_zero\<lparr>ba_Location := rub_Location a, ba_Condition := rub_Condition a, ba_Once := once\<rparr>));
            case bp of
              Inl e \<Rightarrow> State_Monad.return (Inl (''break: '' @ e))
            | Inr bpRaw \<Rightarrow> do {
                stop \<leftarrow> m_call m ''continue'' sess (AContinue (continue_args_zero\<lparr>ca_TimeoutSec := rub_TimeoutSec a\<rparr>));
                State_Monad.return
                  (case stop of
                     Inl e \<Rightarrow> Inl (''continue: '' @ e)
                   | Inr contRaw \<Rightarrow> Inr (Some (JObj [(''breakpoint'', bpRaw), (''stop'', contRaw)])))
              }
          })"

record inspect_at_args =
  ia_Location :: string
  ia_Condition :: string
  ia_Expressions :: "string list"
  ia_Continue :: bool
  ia_TimeoutSec :: decimal

definition inspect_at_zero :: inspect_at_args where
  "inspect_at_zero =
     \<lparr>ia_Location = [], ia_Condition = [], ia_Expressions = [], ia_Continue = False, ia_TimeoutSec = dec_zero\<rparr>"

definition inspect_at_fields :: "inspect_at_args fields" where
  "inspect_at_fields =
     [(''location'', dec_str (\<lambda>v r. r\<lparr>ia_Location := v\<rparr>)),
      (''condition'', dec_str (\<lambda>v r. r\<lparr>ia_Condition := v\<rparr>)),
      (''expressions'', dec_strs (\<lambda>v r. r\<lparr>ia_Expressions := v\<rparr>)),
      (''continue'', dec_bool (\<lambda>v r. r\<lparr>ia_Continue := v\<rparr>)),
      (''timeoutSec'', dec_float (\<lambda>v r. r\<lparr>ia_TimeoutSec := v\<rparr>))]"

text \<open>What \<open>handleInspectAt\<close> reads of the answers to break and continue.\<close>

definition break_result_fields :: "break_result fields" where
  "break_result_fields =
     [(''id'', dec_int (\<lambda>v r. r\<lparr>br_ID := v\<rparr>)),
      (''verified'', dec_bool (\<lambda>v r. r\<lparr>br_Verified := v\<rparr>)),
      (''file'', dec_str (\<lambda>v r. r\<lparr>br_File := v\<rparr>)),
      (''line'', dec_int (\<lambda>v r. r\<lparr>br_Line := v\<rparr>)),
      (''function'', dec_str (\<lambda>v r. r\<lparr>br_Function := v\<rparr>)),
      (''condition'', dec_str (\<lambda>v r. r\<lparr>br_Condition := v\<rparr>)),
      (''reason'', dec_str (\<lambda>v r. r\<lparr>br_Reason := v\<rparr>)),
      (''hits'', dec_int (\<lambda>v r. r\<lparr>br_Hits := v\<rparr>))]"

definition loc_zero :: loc where
  "loc_zero = \<lparr>loc_File = [], loc_Line = 0, loc_Column = 0, loc_Function = []\<rparr>"

definition loc_fields :: "loc fields" where
  "loc_fields =
     [(''file'', dec_str (\<lambda>v r. r\<lparr>loc_File := v\<rparr>)),
      (''line'', dec_int (\<lambda>v r. r\<lparr>loc_Line := v\<rparr>)),
      (''column'', dec_int (\<lambda>v r. r\<lparr>loc_Column := v\<rparr>)),
      (''function'', dec_str (\<lambda>v r. r\<lparr>loc_Function := v\<rparr>))]"

text \<open>A pointer field: \<open>null\<close> makes it nil, anything else is decoded into what it points to.\<close>

definition dec_ptr :: "'a fields \<Rightarrow> 'a \<Rightarrow> ('a option \<Rightarrow> 'r \<Rightarrow> 'r) \<Rightarrow> 'r field_dec" where
  "dec_ptr fs zero upd j r =
     (if j = JNull then (upd None r, None) else let (a, e) = unmarshal_struct fs zero j in (upd (Some a) r, e))"

definition dec_int_ptr :: "(int option \<Rightarrow> 'r \<Rightarrow> 'r) \<Rightarrow> 'r field_dec" where
  "dec_int_ptr upd j r =
     (if j = JNull then (upd None r, None) else let (i, e) = dec_int (\<lambda>i _. i) j 0 in (upd (Some i) r, e))"

definition pause_info_fields :: "pause_info fields" where
  "pause_info_fields =
     [(''state'', dec_str (\<lambda>v r. r\<lparr>pi_State := v\<rparr>)),
      (''reason'', dec_str (\<lambda>v r. r\<lparr>pi_Reason := v\<rparr>)),
      (''thread'', dec_int (\<lambda>v r. r\<lparr>pi_Thread := v\<rparr>)),
      (''location'', dec_ptr loc_fields loc_zero (\<lambda>v r. r\<lparr>pi_Location := v\<rparr>)),
      (''hitBreakpoint'', dec_int (\<lambda>v r. r\<lparr>pi_HitBP := v\<rparr>)),
      (''exitCode'', dec_int_ptr (\<lambda>v r. r\<lparr>pi_ExitCode := v\<rparr>)),
      (''signal'', dec_str (\<lambda>v r. r\<lparr>pi_Signal := v\<rparr>)),
      (''message'', dec_str (\<lambda>v r. r\<lparr>pi_Message := v\<rparr>))]"

text \<open>
  The error of an evaluation is written with \<open>%q\<close>, Go's quoting, into raw JSON; Go escapes some
  bytes in ways JSON does not know.
\<close>

definition json_quotable :: "string \<Rightarrow> bool" where
  "json_quotable s =
     list_all (\<lambda>c. let n = char_code c in n \<in> set [8, 9, 10, 12, 13] \<or> 32 \<le> n \<and> n \<noteq> 127) s"

definition eval_entry :: "string + json \<Rightarrow> json option" where
  "eval_entry r =
     (case r of Inr j \<Rightarrow> Some j | Inl e \<Rightarrow> if json_quotable e then Some (JObj [(''error'', JStr e)]) else None)"

fun eval_all :: "'w mcp \<Rightarrow> string \<Rightarrow> string list \<Rightarrow> (string \<times> json option) list \<Rightarrow>
    ('w, (string \<times> json option) list) state" where
  "eval_all m sess [] acc = State_Monad.return acc"
| "eval_all m sess (expr # exprs) acc = do {
     r \<leftarrow> m_call m ''eval'' sess (AEval (eval_args_zero\<lparr>eva_Expression := expr\<rparr>));
     eval_all m sess exprs (map_put expr (eval_entry r) acc) }"

definition inspect_answer ::
  "json \<Rightarrow> json \<Rightarrow> (string + json) \<Rightarrow> (string \<times> json option) list \<Rightarrow> json option \<Rightarrow> json option" where
  "inspect_answer bpRaw stopRaw locals evals resumed =
     (if list_ex (\<lambda>(_, j). j = None) evals then None
      else Some (JObj ([(''breakpoint'', bpRaw),
             (''evaluations'', JObj (sort_members (map (\<lambda>(k, j). (k, the j)) evals))),
             (''locals'', raw_or_null locals)] @ om_opt ''resumed'' resumed @ [(''stop'', stopRaw)])))"

definition error_member :: "string \<Rightarrow> string \<Rightarrow> string \<Rightarrow> string \<times> json" where
  "error_member code msg hint = (''error'', JObj [(''code'', JStr code), (''hint'', JStr hint), (''message'', JStr msg)])"

definition en_dash :: string where
  "en_dash = [CHR 0xE2, CHR 0x80, CHR 0x93]"

definition long_dash :: string where
  "long_dash = [CHR 0xE2, CHR 0x80, CHR 0x94]"

definition bp_hint :: string where
  "bp_hint = ''pick an executable line in the same method (not loop headers or '' @ [CHR 0x27] @ ''}'' @ [CHR 0x27] @
     '' lines); ensure the class is loaded with --stop-on-entry before calling inspect_at''"

definition handleInspectAt :: "'w mcp \<Rightarrow> string \<Rightarrow> json option \<Rightarrow> ('w, composite_result) state" where
  "handleInspectAt m sess raw =
     (case unmarshal_opt inspect_at_fields inspect_at_zero raw of
        (_, Some e) \<Rightarrow> State_Monad.return (Inl e)
      | (a, None) \<Rightarrow>
          if ia_Location a = [] then State_Monad.return (Inl ''location is required'')
          else do {
            bp \<leftarrow> m_call m ''break'' sess
                   (ABreak (break_args_zero\<lparr>ba_Location := ia_Location a, ba_Condition := ia_Condition a, ba_Once := True\<rparr>));
            case bp of
              Inl e \<Rightarrow> State_Monad.return (Inl (''break: '' @ e))
            | Inr bpRaw \<Rightarrow>
                let bpRes = fst (unmarshal_struct break_result_fields break_result_zero bpRaw) in
                if \<not> br_Verified bpRes then
                  State_Monad.return (Inr (Some (JObj [(''breakpoint'', bpRaw),
                    error_member ''BREAKPOINT_UNVERIFIED''
                      (if br_Reason bpRes = [] then ''breakpoint did not verify at requested location'' else br_Reason bpRes)
                      bp_hint])))
                else do {
                  stop \<leftarrow> m_call m ''continue'' sess (AContinue (continue_args_zero\<lparr>ca_TimeoutSec := ia_TimeoutSec a\<rparr>));
                  case stop of
                    Inl e \<Rightarrow> State_Monad.return (Inl (''continue: '' @ e))
                  | Inr stopRaw \<Rightarrow>
                      let p = fst (unmarshal_struct pause_info_fields pause_info_zero stopRaw) in
                      if pi_State p \<noteq> ''paused'' then
                        State_Monad.return (Inr (Some (JObj [(''breakpoint'', bpRaw),
                          error_member ''INSPECT_NOT_PAUSED''
                            (''program did not pause at '' @ ia_Location a @ '' (state='' @ pi_State p @ '', reason='' @ pi_Reason p @ '')'')
                            (''the breakpoint never fired '' @ long_dash @
                             '' confirm the line is reachable from the current execution point, or raise timeoutSec''),
                          (''stop'', stopRaw)])))
                      else do {
                        locals \<leftarrow> m_call m ''locals'' sess (ALocals locals_args_zero);
                        evals \<leftarrow> eval_all m sess (ia_Expressions a) [];
                        if ia_Continue a then do {
                          r \<leftarrow> m_call m ''continue'' sess (AContinue (continue_args_zero\<lparr>ca_TimeoutSec := ia_TimeoutSec a\<rparr>));
                          State_Monad.return (Inr (inspect_answer bpRaw stopRaw locals evals (ok_raw r))) }
                        else State_Monad.return (Inr (inspect_answer bpRaw stopRaw locals evals None))
                      }
                }
          })"

subsection \<open>explain-pause and snapshot-compact\<close>

record explain_args =
  xa_MaxVars :: go_int
  xa_MaxFrames :: go_int

definition explain_args_zero :: explain_args where
  "explain_args_zero = \<lparr>xa_MaxVars = 0, xa_MaxFrames = 0\<rparr>"

definition explain_args_fields :: "explain_args fields" where
  "explain_args_fields =
     [(''maxVars'', dec_int (\<lambda>v r. r\<lparr>xa_MaxVars := v\<rparr>)), (''maxFrames'', dec_int (\<lambda>v r. r\<lparr>xa_MaxFrames := v\<rparr>))]"

definition explain_limits :: "go_int \<Rightarrow> go_int \<Rightarrow> json option \<Rightarrow> nat \<times> nat" where
  "explain_limits defVars defFrames raw =
     (let a = fst (unmarshal_opt explain_args_fields explain_args_zero raw) in
      (nat (if xa_MaxVars a \<le> 0 then defVars else xa_MaxVars a),
       nat (if xa_MaxFrames a \<le> 0 then defFrames else xa_MaxFrames a)))"

text \<open>The anonymous structs of \<open>handleExplainPause\<close>: a place, the state, a frame.\<close>

record place =
  pl_File :: string
  pl_Line :: go_int
  pl_Function :: string

definition place_zero :: place where
  "place_zero = \<lparr>pl_File = [], pl_Line = 0, pl_Function = []\<rparr>"

definition place_fields :: "place fields" where
  "place_fields =
     [(''file'', dec_str (\<lambda>v r. r\<lparr>pl_File := v\<rparr>)),
      (''line'', dec_int (\<lambda>v r. r\<lparr>pl_Line := v\<rparr>)),
      (''function'', dec_str (\<lambda>v r. r\<lparr>pl_Function := v\<rparr>))]"

definition place_json :: "place \<Rightarrow> json" where
  "place_json p = JObj [(''file'', JStr (pl_File p)), (''line'', JInt (pl_Line p)), (''function'', JStr (pl_Function p))]"

record pause_state =
  ps_State :: string
  ps_Reason :: string
  ps_Location :: place

definition pause_state_zero :: pause_state where
  "pause_state_zero = \<lparr>ps_State = [], ps_Reason = [], ps_Location = place_zero\<rparr>"

definition pause_state_fields :: "pause_state fields" where
  "pause_state_fields =
     [(''state'', dec_str (\<lambda>v r. r\<lparr>ps_State := v\<rparr>)),
      (''reason'', dec_str (\<lambda>v r. r\<lparr>ps_Reason := v\<rparr>)),
      (''location'', \<lambda>j r. let (l, e) = unmarshal_struct place_fields (ps_Location r) j in (r\<lparr>ps_Location := l\<rparr>, e))]"

definition pause_state_json :: "pause_state \<Rightarrow> json" where
  "pause_state_json s =
     JObj [(''state'', JStr (ps_State s)), (''reason'', JStr (ps_Reason s)), (''location'', place_json (ps_Location s))]"

definition places_fields :: "place list fields" where
  "places_fields = [(''frames'', dec_list (unmarshal_struct place_fields place_zero) (\<lambda>v _. v))]"

definition exit_code_fields :: "int option fields" where
  "exit_code_fields = [(''exitCode'', dec_int_ptr (\<lambda>v _. v))]"

definition var_zero :: var where
  "var_zero = \<lparr>v_Name = [], v_Value = [], v_Type = [], v_Ref = 0, v_Expandable = False\<rparr>"

definition var_fields :: "var fields" where
  "var_fields =
     [(''name'', dec_str (\<lambda>v r. r\<lparr>v_Name := v\<rparr>)),
      (''value'', dec_str (\<lambda>v r. r\<lparr>v_Value := v\<rparr>)),
      (''type'', dec_str (\<lambda>v r. r\<lparr>v_Type := v\<rparr>)),
      (''ref'', dec_int (\<lambda>v r. r\<lparr>v_Ref := v\<rparr>)),
      (''expandable'', dec_bool (\<lambda>v r. r\<lparr>v_Expandable := v\<rparr>))]"

definition locals_result_zero :: locals_result where
  "locals_result_zero = \<lparr>lr_Scope = [], lr_Vars = [], lr_Hint = []\<rparr>"

definition locals_result_fields :: "locals_result fields" where
  "locals_result_fields =
     [(''scope'', dec_str (\<lambda>v r. r\<lparr>lr_Scope := v\<rparr>)),
      (''vars'', dec_list (unmarshal_struct var_fields var_zero) (\<lambda>v r. r\<lparr>lr_Vars := v\<rparr>)),
      (''hint'', dec_str (\<lambda>v r. r\<lparr>lr_Hint := v\<rparr>))]"

definition dunder :: "string \<Rightarrow> bool" where
  "dunder n \<longleftrightarrow> 4 \<le> length n \<and> take 2 n = ''__'' \<and> drop (length n - 2) n = ''__''"

definition filterDunders :: "var list \<Rightarrow> var list" where
  "filterDunders vars =
     filter (\<lambda>v. v_Name v \<notin> set [''special variables'', ''function variables'', ''class variables''] \<and> \<not> dunder (v_Name v)) vars"

definition arrow :: string where
  "arrow = '' '' @ [CHR 0xE2, CHR 0x86, CHR 0x92] @ '' ''"

definition framesToString :: "place list \<Rightarrow> string" where
  "framesToString fs =
     join_with arrow (map (\<lambda>f. pl_Function f @ '' ('' @ pl_File f @ '':'' @ itoa (pl_Line f) @ '')'') fs)"

definition varsToString :: "var list \<Rightarrow> string" where
  "varsToString vs =
     join_with '', '' (map (\<lambda>v. v_Name v @ ''='' @
       (if 60 < length (v_Value v) then take 57 (v_Value v) @ ''...'' else v_Value v)) vs)"

definition pause_summary :: "pause_state \<Rightarrow> place list \<Rightarrow> var list \<Rightarrow> string \<Rightarrow> string" where
  "pause_summary st frames vars hint =
     (let l = ps_Location st;
          loc = (if (pl_File l = [] \<or> pl_Line l = 0) \<and> frames \<noteq> [] then hd frames else l);
          reason = (if ps_Reason st = [] then ''stopped'' else ps_Reason st)
      in ''Paused ('' @ reason @ '') at '' @ pl_File loc @ '':'' @ itoa (pl_Line loc) @ '' in '' @ pl_Function loc @ ''.'' @
         (if 1 < length frames then '' Top callers: '' @ framesToString (tl frames) else []) @
         (if vars \<noteq> [] then '' Locals: '' @ varsToString vars @ ''.'' else []) @
         (if hint \<noteq> [] then '' Hint: '' @ hint else []))"

definition summary_only :: "string \<Rightarrow> pause_state \<Rightarrow> composite_result" where
  "summary_only txt st = Inr (Some (JObj [(''state'', pause_state_json st), (''summary'', JStr txt)]))"

definition explain_answer :: "nat \<Rightarrow> nat \<Rightarrow> json option \<Rightarrow> json option \<Rightarrow> json option \<Rightarrow> json option \<Rightarrow> composite_result" where
  "explain_answer maxVars maxFrames stateRaw stackRaw localsRaw watchRaw =
     (let st = fst (unmarshal_opt pause_state_fields pause_state_zero stateRaw);
          frames = take maxFrames (fst (unmarshal_opt places_fields [] stackRaw));
          lc = fst (unmarshal_opt locals_result_fields locals_result_zero localsRaw);
          vars = filterDunders (take maxVars (lr_Vars lc))
      in if ps_State st = ''exited'' then
           summary_only (''Program exited'' @
             (case fst (unmarshal_opt exit_code_fields None stateRaw) of None \<Rightarrow> [] | Some c \<Rightarrow> '' with code '' @ itoa c) @
             ''; no active stack frame.'') st
         else if ps_State st = ''terminated'' then summary_only ''Session terminated; no active stack frame.'' st
         else if ps_State st = ''running'' then
           summary_only ''Program is running; call debug_pause or wait for a breakpoint to inspect state.'' st
         else Inr (Some (JObj [(''localsSample'', JArr (map var_json vars)), (''state'', pause_state_json st),
                (''summary'', JStr (pause_summary st frames vars (lr_Hint lc))),
                (''topFrames'', JArr (map place_json frames)),
                (''watches'', case watchRaw of None \<Rightarrow> JNull | Some j \<Rightarrow> j)])))"

definition handleExplainPause :: "'w mcp \<Rightarrow> string \<Rightarrow> json option \<Rightarrow> ('w, composite_result) state" where
  "handleExplainPause m sess raw = do {
     let (maxVars, maxFrames) = explain_limits 12 5 raw;
     stateRaw \<leftarrow> m_call m ''state'' sess NoArgs;
     stackRaw \<leftarrow> m_call m ''stack'' sess (AStack stack_args_zero);
     localsRaw \<leftarrow> m_call m ''locals'' sess (ALocals locals_args_zero);
     watchRaw \<leftarrow> m_call m ''watch'' sess (AWatch (watch_args_zero\<lparr>wa_Action := ''list''\<rparr>));
     State_Monad.return (explain_answer maxVars maxFrames (ok_raw stateRaw) (ok_raw stackRaw) (ok_raw localsRaw) (ok_raw watchRaw)) }"

text \<open>The trimming of \<open>handleSnapshotCompact\<close>, on the snapshot as a map.\<close>

definition trim_key :: "nat \<Rightarrow> string \<Rightarrow> (string \<times> json) list \<Rightarrow> (string \<times> json) list" where
  "trim_key n key m =
     (case map_of m key of
        Some (JArr js) \<Rightarrow>
          if n < length js
          then map_put (key @ ''Truncated'') (JInt (int (length js - n))) (map_put key (JArr (take n js)) m)
          else m
      | _ \<Rightarrow> m)"

definition compact :: "nat \<Rightarrow> nat \<Rightarrow> json \<Rightarrow> json" where
  "compact maxVars maxFrames j =
     (case j of
        JObj kvs \<Rightarrow> JObj (sort_members (trim_key maxVars ''globals'' (trim_key maxVars ''locals''
                       (trim_key maxFrames ''frames'' (go_map kvs)))))
      | _ \<Rightarrow> j)"

definition handleSnapshotCompact :: "'w mcp \<Rightarrow> string \<Rightarrow> json option \<Rightarrow> ('w, composite_result) state" where
  "handleSnapshotCompact m sess raw = do {
     let (maxVars, maxFrames) = explain_limits 20 8 raw;
     snap \<leftarrow> m_call m ''snapshot'' sess NoArgs;
     State_Monad.return (case snap of Inl e \<Rightarrow> Inl e | Inr j \<Rightarrow> Inr (Some (compact maxVars maxFrames j))) }"

fun run_composite :: "'w mcp \<Rightarrow> composite \<Rightarrow> string \<Rightarrow> json option \<Rightarrow> ('w, composite_result) state" where
  "run_composite m RunUntilBreak sess raw = handleRunUntilBreak m sess raw"
| "run_composite m InspectAt sess raw = handleInspectAt m sess raw"
| "run_composite m ExplainPause sess raw = handleExplainPause m sess raw"
| "run_composite m SnapshotCompact sess raw = handleSnapshotCompact m sess raw"

section \<open>JSON-RPC\<close>

record rpc_req =
  q_ID :: "json option"
  q_Method :: string
  q_Params :: "json option"

record resource_desc =
  rd_URI :: string
  rd_Name :: string

record prompt_desc =
  pd_Name :: string
  pd_Arguments :: "(string \<times> bool) list"

text \<open>
  The text of a tool answer is marshalled JSON, a message, or the report of the schema check; the flag
  is \<open>isError\<close>.
\<close>

datatype answer_text = TJson json | TText string | TInvalid invalid

datatype rpc_result =
    RInitialize | RTools "tool list" | RContent answer_text bool | RResources "resource_desc list"
  | RResourceText string json | RPrompts "prompt_desc list" | RMessage string | REmpty

datatype rpc_resp = Result "json option" rpc_result | Error "json option" int string

definition textContent :: "answer_text \<Rightarrow> rpc_result" where
  "textContent t = RContent t False"

definition errorContent :: "answer_text \<Rightarrow> rpc_result" where
  "errorContent t = RContent t True"

definition visibleTools :: "options \<Rightarrow> tool list" where
  "visibleTools opts = (if o_ReadOnly opts then filter (\<lambda>t. \<not> t_Mutating t) toolRegistry else toolRegistry)"

record call_params =
  cp_Name :: string
  cp_Arguments :: "json option"

definition call_params_zero :: call_params where
  "call_params_zero = \<lparr>cp_Name = [], cp_Arguments = None\<rparr>"

definition call_params_fields :: "call_params fields" where
  "call_params_fields =
     [(''name'', dec_str (\<lambda>v r. r\<lparr>cp_Name := v\<rparr>)), (''arguments'', \<lambda>j r. (r\<lparr>cp_Arguments := Some j\<rparr>, None))]"

text \<open>A call of a known, visible tool whose arguments pass the schema.\<close>

definition run_handler :: "'w mcp \<Rightarrow> composite \<Rightarrow> json option \<Rightarrow> ('w, rpc_result) state" where
  "run_handler m h args =
     (case extractSession args of
        (Some e, _, _) \<Rightarrow> State_Monad.return (errorContent (TText e))
      | (None, sess0, rest) \<Rightarrow> do {
          sess \<leftarrow> resolveSession m sess0;
          r \<leftarrow> run_composite m h sess rest;
          State_Monad.return
            (case r of
               Inl e \<Rightarrow> errorContent (TText e)
             | Inr None \<Rightarrow> textContent (TText [])
             | Inr (Some j) \<Rightarrow> textContent (TJson j)) })"

definition run_translated :: "'w mcp \<Rightarrow> (json option \<Rightarrow> translation) \<Rightarrow> json option \<Rightarrow> ('w, rpc_result) state" where
  "run_translated m tr args =
     (case tr args of
        Inl e \<Rightarrow> State_Monad.return (errorContent (TText e))
      | Inr (cmd, sess0, a) \<Rightarrow>
          (case (if cmd = ''start'' \<or> cmd = ''attach'' then enforceAllowlist (m_opts m) (m_cwd m) a else None) of
             Some e \<Rightarrow> State_Monad.return (errorContent (TText e))
           | None \<Rightarrow> do {
               sess \<leftarrow> resolveSession m sess0;
               r \<leftarrow> m_call m cmd sess a;
               State_Monad.return (case r of Inl e \<Rightarrow> errorContent (TText e) | Inr j \<Rightarrow> textContent (TJson j)) }))"

definition run_tool :: "'w mcp \<Rightarrow> tool \<Rightarrow> json option \<Rightarrow> ('w, rpc_result) state" where
  "run_tool m t args =
     (case validateArgs (m_order m) (t_required t) (t_props t) args of
        Some e \<Rightarrow> State_Monad.return (errorContent (TInvalid e))
      | None \<Rightarrow> (case t_action t of Handler h \<Rightarrow> run_handler m h args | Translate tr \<Rightarrow> run_translated m tr args))"

definition handleToolCall :: "'w mcp \<Rightarrow> rpc_req \<Rightarrow> ('w, rpc_resp) state" where
  "handleToolCall m req =
     (case unmarshal_opt call_params_fields call_params_zero (q_Params req) of
        (_, Some e) \<Rightarrow> State_Monad.return (Error (q_ID req) (-32602) e)
      | (p, None) \<Rightarrow>
          (case toolByName (cp_Name p) of
             None \<Rightarrow> State_Monad.return (Error (q_ID req) (-32601) (''unknown tool: '' @ cp_Name p))
           | Some t \<Rightarrow>
               if o_ReadOnly (m_opts m) \<and> t_Mutating t
               then State_Monad.return (Error (q_ID req) (-32601) (''unknown tool: '' @ cp_Name p))
               else do { r \<leftarrow> run_tool m t (cp_Arguments p); State_Monad.return (Result (q_ID req) r) }))"

subsection \<open>Resources and prompts\<close>

definition listResources :: "resource_desc list" where
  "listResources =
     [\<lparr>rd_URI = ''sl-dbg://sessions'', rd_Name = ''sessions''\<rparr>,
      \<lparr>rd_URI = ''sl-dbg://events'', rd_Name = ''events''\<rparr>,
      \<lparr>rd_URI = ''sl-dbg://adapters'', rd_Name = ''adapters''\<rparr>]"

definition uri_fields :: "string fields" where
  "uri_fields = [(''uri'', dec_str (\<lambda>v _. v))]"

definition read_resource :: "'w mcp \<Rightarrow> rpc_req \<Rightarrow> string \<Rightarrow> string \<Rightarrow> string \<Rightarrow> ('w, rpc_resp) state" where
  "read_resource m req uri cmd sess = do {
     r \<leftarrow> m_call m cmd sess NoArgs;
     State_Monad.return
       (case r of Inl e \<Rightarrow> Error (q_ID req) (-32000) e | Inr j \<Rightarrow> Result (q_ID req) (RResourceText uri j)) }"

definition handleResourceRead :: "'w mcp \<Rightarrow> rpc_req \<Rightarrow> ('w, rpc_resp) state" where
  "handleResourceRead m req =
     (case unmarshal_opt uri_fields [] (q_Params req) of
        (_, Some e) \<Rightarrow> State_Monad.return (Error (q_ID req) (-32602) e)
      | (uri, None) \<Rightarrow>
          if uri = ''sl-dbg://sessions'' then read_resource m req uri ''sessions'' []
          else if uri = ''sl-dbg://events'' then do { sess \<leftarrow> resolveSession m []; read_resource m req uri ''events'' sess }
          else if uri = ''sl-dbg://adapters'' then read_resource m req uri ''adapters'' []
          else State_Monad.return (Error (q_ID req) (-32602) (''unknown resource uri: '' @ uri)))"

definition listPrompts :: "prompt_desc list" where
  "listPrompts =
     [\<lparr>pd_Name = ''diagnose_loop_bug'', pd_Arguments = [(''file'', True), (''line'', True)]\<rparr>,
      \<lparr>pd_Name = ''trace_call_path'', pd_Arguments = [(''function'', True)]\<rparr>,
      \<lparr>pd_Name = ''watch_then_continue'', pd_Arguments = [(''expr'', True), (''until'', False)]\<rparr>]"

definition arg_of :: "(string \<times> string) list \<Rightarrow> string \<Rightarrow> string" where
  "arg_of args k = (case map_of args k of None \<Rightarrow> [] | Some v \<Rightarrow> v)"

definition nl :: string where
  "nl = [CHR 0x0A]"

definition promptBody :: "string \<Rightarrow> (string \<times> string) list \<Rightarrow> string option" where
  "promptBody name args =
     (if name = ''diagnose_loop_bug'' then
        (let at = arg_of args ''file'' @ '':'' @ arg_of args ''line'' in
         Some (''Use the sl-dbg tools to diagnose a loop bug at '' @ at @ ''.'' @ nl @
           ''1. debug_break '' @ at @ nl @
           ''2. debug_continue and capture the stop reason.'' @ nl @
           ''3. debug_locals '' @ long_dash @ '' record loop counter + accumulator values.'' @ nl @
           ''4. debug_continue, repeat steps 3'' @ en_dash @ ''4 for ~5 iterations.'' @ nl @
           ''5. Report which variable diverges from the expected progression.''))
      else if name = ''trace_call_path'' then
        (let fn = arg_of args ''function'' in
         Some (''Trace the call path into '' @ fn @ '':'' @ nl @
           ''1. debug_break_fn '' @ fn @ nl @
           ''2. debug_run (or debug_continue if already paused).'' @ nl @
           ''3. On stop, debug_stack with depth=20.'' @ nl @
           ''4. Summarize the call chain and what arguments led here.''))
      else if name = ''watch_then_continue'' then
        (let ex = arg_of args ''expr''; un = arg_of args ''until'' in
         Some (''Watch '' @ quote ex @ '' and continue until interesting.'' @ nl @
           ''1. debug_watch action=add expr='' @ quote ex @ nl @
           ''2. debug_continue'' @ nl @
           ''3. debug_watch action=eval '' @ long_dash @ '' record value.'' @ nl @
           (if un \<noteq> [] then ''4. Repeat continue+eval until value == '' @ un @ ''.'' else [])))
      else None)"

record prompt_params =
  pp_Name :: string
  pp_Arguments :: "(string \<times> string) list"

definition dec_str_map :: "((string \<times> string) list \<Rightarrow> 'r \<Rightarrow> 'r) \<Rightarrow> 'r field_dec" where
  "dec_str_map upd j r =
     (case j of
        JObj kvs \<Rightarrow>
          (upd (foldl (\<lambda>m (k, v). map_put k (fst (elem_str v)) m) [] kvs) r,
           foldl first_error None (map (\<lambda>(k, v). snd (elem_str v)) kvs))
      | JNull \<Rightarrow> (upd [] r, None)
      | _ \<Rightarrow> (r, type_error ''map[string]string''))"

definition prompt_params_zero :: prompt_params where
  "prompt_params_zero = \<lparr>pp_Name = [], pp_Arguments = []\<rparr>"

definition prompt_params_fields :: "prompt_params fields" where
  "prompt_params_fields =
     [(''name'', dec_str (\<lambda>v r. r\<lparr>pp_Name := v\<rparr>)), (''arguments'', dec_str_map (\<lambda>v r. r\<lparr>pp_Arguments := v\<rparr>))]"

definition handlePromptGet :: "rpc_req \<Rightarrow> rpc_resp" where
  "handlePromptGet req =
     (case unmarshal_opt prompt_params_fields prompt_params_zero (q_Params req) of
        (_, Some e) \<Rightarrow> Error (q_ID req) (-32602) e
      | (p, None) \<Rightarrow>
          (case promptBody (pp_Name p) (pp_Arguments p) of
             None \<Rightarrow> Error (q_ID req) (-32602) (''unknown prompt: '' @ pp_Name p)
           | Some body \<Rightarrow> Result (q_ID req) (RMessage body)))"

subsection \<open>Methods\<close>

text \<open>
  \<open>handle\<close>: what is written, and whether the process goes on (\<open>shutdown\<close> and \<open>exit\<close> end it).
\<close>

definition notification :: "rpc_req \<Rightarrow> bool" where
  "notification req \<longleftrightarrow> q_ID req = None \<or> q_ID req = Some JNull"

definition answered :: "rpc_req \<Rightarrow> ('w, rpc_resp) state \<Rightarrow> ('w, rpc_resp option \<times> bool) state" where
  "answered req act =
     (if notification req then State_Monad.return (None, True)
      else do { r \<leftarrow> act; State_Monad.return (Some r, True) })"

definition handle_rpc :: "'w mcp \<Rightarrow> rpc_req \<Rightarrow> ('w, rpc_resp option \<times> bool) state" where
  "handle_rpc m req =
     (let me = q_Method req; result = (\<lambda>r. State_Monad.return (Result (q_ID req) r)) in
      if me = ''initialize'' then State_Monad.return (Some (Result (q_ID req) RInitialize), True)
      else if me = ''notifications/initialized'' \<or> me = ''initialized'' then State_Monad.return (None, True)
      else if me = ''tools/list'' then answered req (result (RTools (visibleTools (m_opts m))))
      else if me = ''tools/call'' then answered req (handleToolCall m req)
      else if me = ''resources/list'' then answered req (result (RResources listResources))
      else if me = ''resources/read'' then answered req (handleResourceRead m req)
      else if me = ''prompts/list'' then answered req (result (RPrompts listPrompts))
      else if me = ''prompts/get'' then answered req (State_Monad.return (handlePromptGet req))
      else if me = ''shutdown'' then
        State_Monad.return (if notification req then None else Some (Result (q_ID req) REmpty), False)
      else if me = ''exit'' then State_Monad.return (None, False)
      else answered req (State_Monad.return (Error (q_ID req) (-32601) (''method not found: '' @ me))))"

text \<open>\<open>Run\<close>, on the requests the decoder delivers.\<close>

fun run_mcp :: "'w mcp \<Rightarrow> rpc_req list \<Rightarrow> ('w, rpc_resp list) state" where
  "run_mcp m [] = State_Monad.return []"
| "run_mcp m (req # reqs) = do {
     (out, go_on) \<leftarrow> handle_rpc m req;
     let written = (case out of None \<Rightarrow> [] | Some r \<Rightarrow> [r]);
     if go_on then do { rest \<leftarrow> run_mcp m reqs; State_Monad.return (written @ rest) }
     else State_Monad.return written }"

end
