(* ===== verification/Mcp_Props.thy ===== *)
theory Mcp_Props
  imports Mcp_Server Daemon_Props
begin

text \<open>
  Properties of the MCP server, for every daemon behind it and for the modelled daemon: what a
  read-only server can send, what the schema check and the program allowlist establish, what the
  composite tools may do. \<open>daemon_call\<close> is the caller of the production wiring.
\<close>

section \<open>What a read-only server sends\<close>

definition observe_cmds :: "string list" where
  "observe_cmds = [''stack'', ''threads'', ''breaks'', ''locals'', ''globals'', ''fields'', ''source'', ''output'', ''events'',
     ''listen'', ''snapshot'', ''state'', ''sessions'', ''adapters'']"

definition observes :: "string \<Rightarrow> dargs \<Rightarrow> bool" where
  "observes cmd a \<longleftrightarrow> cmd \<in> set observe_cmds \<or> cmd = ''watch'' \<and> a = AWatch (watch_args_zero\<lparr>wa_Action := ''list''\<rparr>)"

lemma toolByName_registered: "toolByName n = Some t \<Longrightarrow> t \<in> set toolRegistry \<and> t_Name t = n"
  by (auto simp: toolByName_def find_Some_iff)

lemmas shape_defs = strict_tool_def decode_tool_def lax_tool_def bare_tool_def

text \<open>Every tool that is not marked as mutating translates to an observing command.\<close>

lemma observing_tools:
  "\<forall>t \<in> set toolRegistry. \<not> t_Mutating t \<longrightarrow>
     (case t_action t of
        Translate tr \<Rightarrow> (\<forall>raw cmd sid a. tr raw = Inr (cmd, sid, a) \<longrightarrow> cmd \<in> set observe_cmds)
      | Handler h \<Rightarrow> h = ExplainPause \<or> h = SnapshotCompact)"
  by (simp add: toolRegistry_def tool_defs mk_tool_def shape_defs observe_cmds_def split: prod.splits option.splits)

locale observing_server = io_relation R
  for R :: "'w \<Rightarrow> 'w \<Rightarrow> bool" +
  fixes m :: "'w mcp"
  assumes read_only: "o_ReadOnly (m_opts m)"
    and calls: "observes cmd a \<Longrightarrow> state_io_rel R (m_call m cmd sid a)"
begin

lemma io_resolve: "state_io_rel R (resolveSession m sid)"
  unfolding resolveSession_def by (intro io_if io_return io_bind calls) (simp add: observes_def observe_cmds_def)

lemma io_explain: "state_io_rel R (handleExplainPause m sid raw)"
  unfolding handleExplainPause_def Let_def
  by (intro io_prod io_return io_bind calls) (simp_all add: observes_def observe_cmds_def)

lemma io_compact: "state_io_rel R (handleSnapshotCompact m sid raw)"
  unfolding handleSnapshotCompact_def Let_def
  by (intro io_prod io_return io_bind calls) (simp_all add: observes_def observe_cmds_def)

lemma io_run_handler:
  assumes "h = ExplainPause \<or> h = SnapshotCompact"
  shows "state_io_rel R (run_handler m h args)"
proof -
  have "state_io_rel R (run_composite m h sid rest)" for sid rest
    using assms by (auto intro: io_explain io_compact)
  then show ?thesis
    unfolding run_handler_def by (intro io_prod io_option io_return io_bind io_resolve)
qed

lemma io_run_translated:
  assumes "\<And>raw cmd sid a. tr raw = Inr (cmd, sid, a) \<Longrightarrow> cmd \<in> set observe_cmds"
  shows "state_io_rel R (run_translated m tr args)"
proof (cases "tr args")
  case (Inl e)
  then show ?thesis by (simp add: run_translated_def io_return)
next
  case (Inr x)
  obtain cmd sid a where x: "x = (cmd, sid, a)" by (cases x)
  have "observes cmd a" using assms [of args cmd sid a] Inr x by (simp add: observes_def)
  then show ?thesis
    unfolding run_translated_def Inr x sum.case prod.case by (intro io_option io_return io_bind io_resolve calls)
qed

lemma io_tool_call: "state_io_rel R (handleToolCall m req)"
proof -
  have "state_io_rel R (run_tool m t args)" if t: "toolByName n = Some t" and nm: "\<not> t_Mutating t" for n t args
  proof (cases "t_action t")
    case (Translate tr)
    then have "tr raw = Inr (cmd, sid, a) \<Longrightarrow> cmd \<in> set observe_cmds" for raw cmd sid a
      using observing_tools toolByName_registered [OF t] nm by fastforce
    then show ?thesis
      unfolding run_tool_def Translate action.case by (intro io_option io_return io_run_translated)
  next
    case (Handler h)
    then have "h = ExplainPause \<or> h = SnapshotCompact"
      using observing_tools toolByName_registered [OF t] nm by fastforce
    then show ?thesis
      unfolding run_tool_def Handler action.case by (intro io_option io_return io_run_handler)
  qed
  then show ?thesis
    unfolding handleToolCall_def by (intro io_prod io_option io_return io_if io_bind) (auto simp: read_only)
qed

lemma io_resource: "state_io_rel R (handleResourceRead m req)"
  unfolding handleResourceRead_def read_resource_def
  by (intro io_prod io_option io_return io_if io_bind io_resolve calls) (simp_all add: observes_def observe_cmds_def)

lemma io_answered: "state_io_rel R act \<Longrightarrow> state_io_rel R (answered req act)"
  unfolding answered_def by (intro io_if io_return io_bind)

lemma io_handle_rpc: "state_io_rel R (handle_rpc m req)"
  unfolding handle_rpc_def Let_def
  by (intro io_if io_return io_answered io_tool_call io_resource)

lemma io_run_mcp: "state_io_rel R (run_mcp m reqs)"
proof (induction reqs)
  case (Cons req reqs)
  then show ?case unfolding run_mcp.simps Let_def by (intro io_bind io_prod io_if io_return io_handle_rpc)
qed (simp add: io_return)

end

section \<open>Recording the calls\<close>

text \<open>Any caller, with every call written down.\<close>

type_synonym sent_call = "string \<times> string \<times> dargs"

definition recording :: "'w caller \<Rightarrow> ('w \<times> sent_call list) caller" where
  "recording call cmd sid a =
     State (\<lambda>(w, log). let (r, w') = run_state (call cmd sid a) w in (r, (w', log @ [(cmd, sid, a)])))"

definition recorded :: "(string \<Rightarrow> dargs \<Rightarrow> bool) \<Rightarrow> 'w \<times> sent_call list \<Rightarrow> 'w \<times> sent_call list \<Rightarrow> bool" where
  "recorded Q st st' \<longleftrightarrow> (\<exists>log. snd st' = snd st @ log \<and> list_all (\<lambda>(cmd, _, a). Q cmd a) log)"

lemma recorded_io_relation: "io_relation (recorded Q)"
  by unfold_locales (fastforce simp: recorded_def)+

lemma recording_io: "Q cmd a \<Longrightarrow> state_io_rel (recorded Q) (recording call cmd sid a)"
  by (auto simp: state_io_rel_def recording_def recorded_def split: prod.splits)

definition recorded_server :: "options \<Rightarrow> 'w caller \<Rightarrow> string option \<Rightarrow> range_order \<Rightarrow> ('w \<times> sent_call list) mcp" where
  "recorded_server opts call cwd ord = \<lparr>m_opts = opts, m_call = recording call, m_cwd = cwd, m_order = ord\<rparr>"

interpretation any_daemon: observing_server "recorded observes" "recorded_server (opts\<lparr>o_ReadOnly := True\<rparr>) call cwd ord"
  for opts :: options and call :: "'w caller" and cwd ord
  by (intro observing_server.intro recorded_io_relation observing_server_axioms.intro)
    (simp_all add: recorded_server_def recording_io)

section \<open>The modelled daemon behind the server\<close>

text \<open>
  \<open>mcpDaemonCaller.Call\<close>: one request with id 0. A crash closes the connection; the state of a daemon
  after its crash plays no further role.
\<close>

definition daemon_call :: "'w env \<Rightarrow> (timestamp \<Rightarrow> string) \<Rightarrow> 'w dstate caller" where
  "daemon_call env fmt cmd sid a =
     State (\<lambda>st.
       let (r, st') = handle env \<lparr>rq_ID = 0, rq_Cmd = cmd, rq_Sess = sid, rq_Args = rawJSON a\<rparr> st in
       (case r of
          OkResp d \<Rightarrow> Inr (resp_data_json fmt d)
        | ErrResp code msg hint \<Rightarrow> Inl (code @ '': '' @ msg)
        | PanicResp p \<Rightarrow> Inl ''EOF'', st'))"

definition daemon_server :: "options \<Rightarrow> 'w env \<Rightarrow> (timestamp \<Rightarrow> string) \<Rightarrow> string option \<Rightarrow> range_order \<Rightarrow> 'w dstate mcp" where
  "daemon_server opts env fmt cwd ord = \<lparr>m_opts = opts, m_call = daemon_call env fmt, m_cwd = cwd, m_order = ord\<rparr>"

text \<open>Requests that look, and evaluations, which \<open>globals\<close> and \<open>watch\<close> make.\<close>

definition peeks :: "dap_request \<Rightarrow> bool" where
  "peeks r \<longleftrightarrow> only_inspects r \<or> (\<exists>e f x. r = ReqEvaluate e f x)"

interpretation peek: inspecting_relation "log_rel peeks" "\<lambda>_. True" peeks
  by (intro inspecting_relation.intro log_daemon_relation inspecting_relation_axioms.intro) (simp add: peeks_def)

lemma peek_dispatch:
  assumes "observes (rq_Cmd req) a"
  shows "state_io_rel (log_rel peeks) (dispatch env req)"
proof -
  have ev: "peeks (ReqEvaluate e f x)" for e f x by (simp add: peeks_def)
  have w: "state_io_rel (log_rel peeks) (handleWatch env req)"
    by (rule peek.io_handleWatch) (auto intro: peek.io_evaluateWatches ev)
  show ?thesis
    using assms w unfolding observes_def observe_cmds_def dispatch_def commands_def
    by (auto intro: ev peek.io_handleAdapters peek.io_handleSessions peek.io_handleState peek.io_handleBreaks
        peek.io_handleStack peek.io_handleThreads peek.io_handleLocals peek.io_handleSnapshot peek.io_handleFields
        peek.io_handleSource peek.io_handleOutput peek.io_handleEvents peek.io_handleListen peek.io_handleGlobals)
qed

lemma peek_daemon_call: "observes cmd a \<Longrightarrow> state_io_rel (log_rel peeks) (daemon_call env fmt cmd sid a)"
  using peek_dispatch [of "\<lparr>rq_ID = 0, rq_Cmd = cmd, rq_Sess = sid, rq_Args = rawJSON a\<rparr>" a env]
  by (simp add: state_io_rel_def daemon_call_def handle_def split_beta Let_def)

interpretation sl_dbg: observing_server "log_rel peeks" "daemon_server (opts\<lparr>o_ReadOnly := True\<rparr>) env fmt cwd ord"
  for opts :: options and env :: "'w env" and fmt cwd ord
  by (intro observing_server.intro observing_server_axioms.intro peek.io_relation_axioms)
    (simp_all add: daemon_server_def peek_daemon_call)

text \<open>
  C23. A read-only MCP server, whatever a client sends it and whatever daemon it talks to, issues only
  the observing commands, and of the watch commands only the listing.
\<close>

theorem read_only_mcp_observes:
  "list_all (\<lambda>(cmd, sid, a). observes cmd a)
     (snd (snd (run_state (run_mcp (recorded_server (opts\<lparr>o_ReadOnly := True\<rparr>) call cwd ord) reqs) (w, []))))"
proof -
  let ?run = "run_mcp (recorded_server (opts\<lparr>o_ReadOnly := True\<rparr>) call cwd ord) reqs"
  have "recorded observes (w, []) (snd (run_state ?run (w, [])))"
    using any_daemon.io_run_mcp [of opts call cwd ord reqs] by (simp add: state_io_rel_def split_beta)
  then show ?thesis by (auto simp: recorded_def)
qed


section \<open>Arguments on the wire\<close>

text \<open>The integers of a struct are Go ints, and its decimals are written in one way.\<close>

fun go_ints :: "dargs \<Rightarrow> bool" where
  "go_ints (AAttach a) \<longleftrightarrow> in_int64 (aa_Port a) \<and> in_int64 (aa_PID a)"
| "go_ints (ABreak a) \<longleftrightarrow> in_int64 (ba_Hit a)"
| "go_ints (ABreakFn a) \<longleftrightarrow> in_int64 (bfa_Hit a)"
| "go_ints (AUnbreak a) \<longleftrightarrow> list_all in_int64 (uba_IDs a)"
| "go_ints (AContinue a) \<longleftrightarrow> in_int64 (ca_Thread a) \<and> plain_dec (ca_TimeoutSec a)"
| "go_ints (AStep a) \<longleftrightarrow> in_int64 (ca_Thread a) \<and> plain_dec (ca_TimeoutSec a)"
| "go_ints (AUntil a) \<longleftrightarrow> in_int64 (ua_Line a) \<and> in_int64 (ua_Thread a) \<and> plain_dec (ua_TimeoutSec a)"
| "go_ints (AStack a) \<longleftrightarrow> in_int64 (ska_Thread a) \<and> in_int64 (ska_Limit a)"
| "go_ints (ALocals a) \<longleftrightarrow> in_int64 (lca_Frame a)"
| "go_ints (AGlobals a) \<longleftrightarrow> in_int64 (ga_Frame a)"
| "go_ints (AFields a) \<longleftrightarrow> in_int64 (fa_Ref a)"
| "go_ints (AEval a) \<longleftrightarrow> in_int64 (eva_Frame a) \<and> plain_dec (eva_TimeoutSec a)"
| "go_ints (ASet a) \<longleftrightarrow> in_int64 (sva_Frame a)"
| "go_ints (AWatch a) \<longleftrightarrow> in_int64 (wa_ID a) \<and> in_int64 (wa_Frame a)"
| "go_ints (ASource a) \<longleftrightarrow> in_int64 (sra_Line a) \<and> in_int64 (sra_Around a) \<and> in_int64 (sra_Ref a)"
| "go_ints (AOutput a) \<longleftrightarrow> in_int64 (oa_Tail a)"
| "go_ints (AEvents a) \<longleftrightarrow> in_int64 (ea_Tail a)"
| "go_ints (AListen a) \<longleftrightarrow> plain_dec (la_TimeoutSec a)"
| "go_ints (APrint a) \<longleftrightarrow> in_int64 (pa_Ref a) \<and> in_int64 (pa_Frame a) \<and> in_int64 (pa_Depth a) \<and> in_int64 (pa_MaxItems a) \<and> plain_dec (pa_TimeoutSec a)"
| "go_ints _ \<longleftrightarrow> True"

text \<open>What the handler of the command decodes from the marshalled arguments.\<close>

fun read_back :: "dargs \<Rightarrow> (dargs \<times> string option) option" where
  "read_back (AStart a) =
     Some (map_prod AStart id (unmarshalArgs start_args_fields start_args_zero (rawJSON (AStart a))))"
| "read_back (AAttach a) =
     Some (map_prod AAttach id (unmarshalArgs attach_args_fields attach_args_zero (rawJSON (AAttach a))))"
| "read_back (AUse a) =
     Some (map_prod AUse id (unmarshalArgs use_args_fields use_args_zero (rawJSON (AUse a))))"
| "read_back (ABreak a) =
     Some (map_prod ABreak id (unmarshalArgs break_args_fields break_args_zero (rawJSON (ABreak a))))"
| "read_back (ABreakFn a) =
     Some (map_prod ABreakFn id (unmarshalArgs break_fn_args_fields break_fn_args_zero (rawJSON (ABreakFn a))))"
| "read_back (ABreakEx a) =
     Some (map_prod ABreakEx id (unmarshalArgs break_ex_args_fields break_ex_args_zero (rawJSON (ABreakEx a))))"
| "read_back (AUnbreak a) =
     Some (map_prod AUnbreak id (unmarshalArgs unbreak_args_fields unbreak_args_zero (rawJSON (AUnbreak a))))"
| "read_back (AContinue a) =
     Some (map_prod AContinue id (unmarshalArgs continue_args_fields continue_args_zero (rawJSON (AContinue a))))"
| "read_back (AStep a) =
     Some (map_prod AStep id (unmarshalArgs continue_args_fields continue_args_zero (rawJSON (AStep a))))"
| "read_back (AUntil a) =
     Some (map_prod AUntil id (unmarshalArgs until_args_fields until_args_zero (rawJSON (AUntil a))))"
| "read_back (AStack a) =
     Some (map_prod AStack id (unmarshalArgs stack_args_fields stack_args_zero (rawJSON (AStack a))))"
| "read_back (ALocals a) =
     Some (map_prod ALocals id (unmarshalArgs locals_args_fields locals_args_zero (rawJSON (ALocals a))))"
| "read_back (AGlobals a) =
     Some (map_prod AGlobals id (unmarshalArgs globals_args_fields globals_args_zero (rawJSON (AGlobals a))))"
| "read_back (AFields a) =
     Some (map_prod AFields id (unmarshalArgs fields_args_fields fields_args_zero (rawJSON (AFields a))))"
| "read_back (AEval a) =
     Some (map_prod AEval id (unmarshalArgs eval_args_fields eval_args_zero (rawJSON (AEval a))))"
| "read_back (ASet a) =
     Some (map_prod ASet id (unmarshalArgs set_var_args_fields set_var_args_zero (rawJSON (ASet a))))"
| "read_back (AWatch a) =
     Some (map_prod AWatch id (unmarshalArgs watch_args_fields watch_args_zero (rawJSON (AWatch a))))"
| "read_back (ASource a) =
     Some (map_prod ASource id (unmarshalArgs source_args_fields source_args_zero (rawJSON (ASource a))))"
| "read_back (AOutput a) =
     Some (map_prod AOutput id (unmarshalArgs output_args_fields output_args_zero (rawJSON (AOutput a))))"
| "read_back (AEvents a) =
     Some (map_prod AEvents id (unmarshalArgs events_args_fields events_args_zero (rawJSON (AEvents a))))"
| "read_back (AListen a) =
     Some (map_prod AListen id (unmarshalArgs listen_args_fields listen_args_zero (rawJSON (AListen a))))"
| "read_back (APrint a) =
     Some (map_prod APrint id (unmarshalArgs print_args_fields print_args_zero (rawJSON (APrint a))))"
| "read_back _ = None"

lemmas codec_wires = attach_codec.wire break_codec.wire break_ex_codec.wire break_fn_codec.wire continue_codec.wire eval_codec.wire events_codec.wire fields_codec.wire globals_codec.wire listen_codec.wire locals_codec.wire output_codec.wire print_codec.wire set_var_codec.wire source_codec.wire stack_codec.wire start_codec.wire unbreak_codec.wire until_codec.wire use_codec.wire watch_codec.wire



section \<open>The program allowlist\<close>

lemma clean_relative: "\<not> is_abs p \<Longrightarrow> \<not> is_abs (clean p)"
proof -
  assume "\<not> is_abs p"
  moreover have "\<not> is_abs (join_with ''/'' (c # cs))" if "good_comp c" for c cs
    using that by (cases c; cases cs) (auto simp: good_comp_def is_abs_def has_prefix_def)
  ultimately show ?thesis
    using clean_comps_good [of False p]
    by (auto simp: clean_def is_abs_def has_prefix_def split: list.split)
qed

lemma relative_not_under: "\<not> is_abs a \<Longrightarrow> is_abs b \<Longrightarrow> \<not> under_root a b"
  by (cases a; cases b) (auto simp: under_root_def is_abs_def has_prefix_def)

text \<open>The third path guard: on a path that can be made absolute it is the test of the session roots.\<close>

lemma cwd_allowed_eq:
  assumes ok: "cwd_ok cwd"
  shows "cwd_allowed cwd roots p \<longleftrightarrow> pathUnderRoots cwd p roots"
proof (cases "abs_path cwd p")
  case None
  then have rel: "\<not> is_abs (clean p)" by (intro clean_relative) (auto simp: abs_path_def)
  have "\<not> under_root (clean p) (clean ra)" if "abs_path cwd r = Some ra" for r ra
  proof -
    have "is_abs ra" using that ok by (auto simp: abs_path_comps)
    then show ?thesis using relative_not_under [OF rel] clean_abs_path [OF ok that] by simp
  qed
  with None show ?thesis by (auto simp: cwd_allowed_def pathUnderRoots_def list_ex_iff split: option.splits)
qed (simp add: cwd_allowed_def pathUnderRoots_def)

interpretation mcp_roots: path_guard cwd_allowed
  by unfold_locales (simp add: cwd_allowed_eq session_roots.accepts_iff)

text \<open>
  The MCP allowlist of working directories is exact on what it looks at: the working directory if
  one is given, else the program. A start that names neither passes.
\<close>

theorem mcp_allowlist:
  assumes "cwd_ok cwd" "o_AllowCwd opts \<noteq> []" "o_DenyProgram opts = []"
  shows "enforceAllowlist opts cwd (AStart a) = None \<longleftrightarrow>
    (let target = (if sa_Cwd a = [] then sa_Program a else sa_Cwd a) in
     target = [] \<or> (\<exists>cs. abs_comps cwd target = Some cs \<and>
       (\<exists>r \<in> set (o_AllowCwd opts). \<exists>rs. abs_comps cwd r = Some rs \<and> within cs rs)))"
  using assms mcp_roots.accepts_iff [OF assms(1)] by (simp add: enforceAllowlist_def Let_def)

text \<open>With a working directory inside a root, a program outside every root passes.\<close>

theorem mcp_allowlist_witness:
  "enforceAllowlist \<lparr>o_ReadOnly = False, o_AllowCwd = [''/repo''], o_DenyProgram = []\<rparr> (Some ''/'')
     (AStart (start_args_zero\<lparr>sa_Program := ''/bin/sh'', sa_Cwd := ''/repo/a''\<rparr>)) = None \<and>
   \<not> cwd_allowed (Some ''/'') [''/repo''] ''/bin/sh''"
proof -
  let ?o = "\<lparr>o_ReadOnly = False, o_AllowCwd = [''/repo''], o_DenyProgram = []\<rparr>"
  let ?a = "start_args_zero\<lparr>sa_Program := ''/bin/sh'', sa_Cwd := ''/repo/a''\<rparr>"
  have "cwd_ok (Some ''/'')" by (simp add: cwd_ok_def is_abs_def has_prefix_def)
  moreover have "cwd_allowed (Some ''/'') [''/repo''] ''/repo/a''" "\<not> cwd_allowed (Some ''/'') [''/repo''] ''/bin/sh''"
    by code_simp+
  ultimately show ?thesis
    using mcp_allowlist [of "Some ''/''" ?o ?a] mcp_roots.accepts_iff [of "Some ''/''" "[''/repo'']"]
    by (simp add: Let_def)
qed

section \<open>The schema check\<close>

definition member_ok :: "(string \<times> schema_prop) list \<Rightarrow> string \<times> json \<Rightarrow> bool" where
  "member_ok props kv \<longleftrightarrow>
     (case map_of props (fst kv) of
        None \<Rightarrow> True
      | Some (ty, en) \<Rightarrow> checkJSONType ty (snd kv) \<and> (case en of None \<Rightarrow> True | Some xs \<Rightarrow> snd kv \<in> JStr ` set xs))"

lemma check_member_ok: "check_member props kv = [] \<longleftrightarrow> member_ok props kv"
  by (auto simp: check_member_def member_ok_def containsStr_def list_ex_iff split: option.splits json.splits if_splits)

lemma map_of_None_key: "map_of m k = None \<longleftrightarrow> k \<notin> fst ` set m"
  by (simp add: map_of_eq_None_iff)

lemma keys_fold_put: "fst ` set (foldl (\<lambda>m (k, v). map_put k v m) acc kvs) = fst ` set acc \<union> fst ` set kvs"
  by (induction kvs arbitrary: acc) (simp_all add: split_beta)

lemma keys_go_map [simp]: "fst ` set (go_map kvs) = fst ` set kvs"
  by (simp add: go_map_def keys_fold_put)

lemma distinct_fold_put: "distinct (map fst acc) \<Longrightarrow> distinct (map fst (foldl (\<lambda>m (k, v). map_put k v m) acc kvs))"
  by (induction kvs arbitrary: acc) (auto simp del: map_map)

lemma distinct_go_map [simp]: "distinct (map fst (go_map kvs))"
  by (simp add: go_map_def distinct_fold_put)


section \<open>Composite tools\<close>

lemma map_of_insert_member: "fst kv \<notin> fst ` set kvs \<Longrightarrow> map_of (insert_member kv kvs) = (map_of kvs)(fst kv \<mapsto> snd kv)"
  by (induction kvs) (auto simp: fun_eq_iff)

lemma keys_insert_member: "fst ` set (insert_member kv kvs) = insert (fst kv) (fst ` set kvs)"
  by (induction kvs) auto

lemma keys_sort_members: "fst ` set (sort_members kvs) = fst ` set kvs"
  by (induction kvs) (simp_all add: sort_members_def keys_insert_member)

lemma map_of_sort_members: "distinct (map fst kvs) \<Longrightarrow> map_of (sort_members kvs) = map_of kvs"
proof (induction kvs)
  case (Cons kv kvs)
  have "fst kv \<notin> fst ` set (sort_members kvs)" using Cons.prems by (simp add: keys_sort_members)
  then show ?case
    using Cons by (simp add: sort_members_def map_of_insert_member)
qed (simp add: sort_members_def)

lemma distinct_trim_key: "distinct (map fst m) \<Longrightarrow> distinct (map fst (trim_key n key m))"
  by (auto simp: trim_key_def split: option.splits json.splits simp del: map_map)

lemma trim_key_other: "k \<noteq> key \<Longrightarrow> k \<noteq> key @ ''Truncated'' \<Longrightarrow> map_of (trim_key n key m) k = map_of m k"
  by (auto simp: trim_key_def split: option.splits json.splits)

lemma trim_key_bound: "map_of (trim_key n key m) key = Some (JArr js) \<Longrightarrow> length js \<le> n"
  by (auto simp: trim_key_def split: option.splits json.splits if_splits)

text \<open>
  What snapshot-compact returns has at most the configured number of frames and of variables in
  each scope, whatever the daemon's snapshot holds.
\<close>

theorem compact_bounded:
  assumes "compact maxVars maxFrames j = JObj kvs"
    and "(key, n) \<in> set [(''frames'', maxFrames), (''locals'', maxVars), (''globals'', maxVars)]"
    and "map_of kvs key = Some (JArr js)"
  shows "length js \<le> n"
proof -
  obtain ms where ms: "j = JObj ms" using assms(1) by (cases j) (simp_all add: compact_def)
  let ?f = "trim_key maxFrames ''frames'' (go_map ms)"
  let ?l = "trim_key maxVars ''locals'' ?f"
  let ?g = "trim_key maxVars ''globals'' ?l"
  have "distinct (map fst ?g)" by (intro distinct_trim_key distinct_go_map)
  then have "map_of ?g key = Some (JArr js)"
    using assms(1,3) ms by (auto simp: compact_def map_of_sort_members)
  moreover have "map_of ?g ''locals'' = map_of ?l ''locals''" "map_of ?g ''frames'' = map_of ?f ''frames''"
    by (simp_all add: trim_key_other)
  ultimately show ?thesis using assms(2) by (auto dest: trim_key_bound)
qed

theorem compact_bounded_witness:
  "\<exists>js. map_of [(''frames'', JArr [JInt 1]), (''framesTruncated'', JInt 1)] ''frames'' = Some (JArr js) \<and> length js \<le> 1"
proof -
  have "compact 20 1 (JObj [(''frames'', JArr [JInt 1, JInt 2])]) = JObj [(''frames'', JArr [JInt 1]), (''framesTruncated'', JInt 1)]"
    by code_simp
  from compact_bounded [OF this, of "''frames''" 1] show ?thesis by simp
qed

definition inspect_break :: "inspect_at_args \<Rightarrow> dargs" where
  "inspect_break a = ABreak (break_args_zero\<lparr>ba_Location := ia_Location a, ba_Condition := ia_Condition a, ba_Once := True\<rparr>)"

text \<open>
  inspect-at never resumes the program on a breakpoint the adapter did not verify: the answer to
  break is then the last thing it asked for.
\<close>

theorem inspect_at_unverified:
  assumes "unmarshal_opt inspect_at_fields inspect_at_zero raw = (a, None)" "ia_Location a \<noteq> []"
    and "run_state (call ''break'' sid (inspect_break a)) w = (Inr j, w')"
    and "\<not> br_Verified (fst (unmarshal_struct break_result_fields break_result_zero j))"
  shows "snd (run_state (handleInspectAt (recorded_server opts call cwd ord) sid raw) (w, [])) =
           (w', [(''break'', sid, inspect_break a)])"
  using assms
  by (simp add: handleInspectAt_def recorded_server_def recording_def inspect_break_def Let_def split_beta)

theorem inspect_at_unverified_witness:
  "snd (run_state (handleInspectAt (recorded_server \<lparr>o_ReadOnly = False, o_AllowCwd = [], o_DenyProgram = []\<rparr>
            (\<lambda>cmd sid a. State_Monad.return (Inr (JObj [(''verified'', JBool False)]))) None (\<lambda>n. [0..<n])) ''s''
            (Some (JObj [(''location'', JStr ''a.py:1'')]))) ((), [])) =
     ((), [(''break'', ''s'', inspect_break (inspect_at_zero\<lparr>ia_Location := ''a.py:1''\<rparr>))])"
proof -
  have "unmarshal_opt inspect_at_fields inspect_at_zero (Some (JObj [(''location'', JStr ''a.py:1'')])) =
          (inspect_at_zero\<lparr>ia_Location := ''a.py:1''\<rparr>, None)"
    by code_simp
  then show ?thesis
    by (rule inspect_at_unverified [where j = "JObj [(''verified'', JBool False)]"])
      (simp_all add: inspect_at_zero_def, code_simp)
qed

section \<open>JSON-RPC\<close>

fun resp_id :: "rpc_resp \<Rightarrow> json option" where
  "resp_id (Result i _) = i"
| "resp_id (Error i _ _) = i"

lemma tool_call_id: "resp_id (fst (run_state (handleToolCall m req) w)) = q_ID req"
  by (simp add: handleToolCall_def split_beta split: prod.split option.split)

lemma resource_read_id: "resp_id (fst (run_state (handleResourceRead m req) w)) = q_ID req"
  by (simp add: handleResourceRead_def read_resource_def split_beta split: prod.split option.split sum.split)

lemma prompt_get_id: "resp_id (handlePromptGet req) = q_ID req"
  by (simp add: handlePromptGet_def split: prod.split option.split)

definition quiet_methods :: "string list" where
  "quiet_methods = [''notifications/initialized'', ''initialized'', ''exit'']"

definition expects_answer :: "rpc_req \<Rightarrow> bool" where
  "expects_answer req \<longleftrightarrow>
     q_Method req \<notin> set quiet_methods \<and> (q_Method req = ''initialize'' \<or> \<not> notification req)"

text \<open>
  Every JSON-RPC request gets one response and the response carries its id; a notification gets
  none, \<open>initialize\<close> excepted, which is answered either way.
\<close>

theorem rpc_answers:
  "case fst (fst (run_state (handle_rpc m req) w)) of
     None \<Rightarrow> \<not> expects_answer req
   | Some r \<Rightarrow> expects_answer req \<and> resp_id r = q_ID req"
proof -
  note ids = tool_call_id [of m req] resource_read_id [of m req] prompt_get_id [of req]
  show ?thesis
    by (auto simp: handle_rpc_def Let_def answered_def expects_answer_def quiet_methods_def ids split_beta)
qed

end
