(* ===== verification/Mcp_Safe.thy ===== *)
theory Mcp_Safe
  imports Policy
begin

text \<open>
  The secure-by-default start of \<open>sl-dbg mcp\<close> (\<open>internal/cli/mcp_safe.go\<close>): flags and environment are
  resolved to a policy, the policy is exported as \<open>SL_DBG_\<close> variables and written to the policy file,
  from which a daemon spawned later reads it (\<open>Policy\<close>). The file system is the map \<open>files\<close>; looking
  up programs and resolving links are parameters, and so is whether the file can be written.
\<close>

section \<open>Definitions\<close>

record safe_flags =
  sf_Safe :: bool
  sf_AllowProgram :: "string list"
  sf_AllowSourceRoot :: "string list"
  sf_MaxSessions :: go_int
  sf_AuditLog :: string
  sf_AllowEval :: bool

record safe_policy =
  sp_EnvUpdates :: environ
  sp_Warnings :: "string list"
  sp_Refuse :: "string option"

definition insecure_env :: "environ \<Rightarrow> bool" where
  "insecure_env env \<longleftrightarrow> to_lower (trim_space (getenv env ''SL_DBG_INSECURE'')) \<in> set [''1'', ''true'', ''yes'', ''on'']"

definition discover_step :: "(string \<Rightarrow> string option) \<Rightarrow> (string \<Rightarrow> string option) \<Rightarrow> string list \<Rightarrow> string \<Rightarrow> string list" where
  "discover_step lookpath evalSymlinks found name =
     (case lookpath name of
        None \<Rightarrow> found
      | Some path \<Rightarrow>
          if path = [] then found
          else let p = clean (case evalSymlinks path of None \<Rightarrow> path | Some r \<Rightarrow> if r \<noteq> [] then r else path) in
               if p \<in> set found then found else found @ [p])"

definition autoDiscoverPrograms :: "(string \<Rightarrow> string option) \<Rightarrow> (string \<Rightarrow> string option) \<Rightarrow> string list" where
  "autoDiscoverPrograms lookpath evalSymlinks =
     foldl (discover_step lookpath evalSymlinks) [] [''java'', ''python3'', ''python'', ''node'', ''dlv'']"

definition defaultAuditLogPath :: "environ \<Rightarrow> string" where
  "defaultAuditLogPath env =
     (let v = trim_space (getenv env ''XDG_STATE_HOME'') in
      if v \<noteq> [] then path_join v ''sl-dbg/audit.log''
      else case user_home_dir env of
             Some home \<Rightarrow> path_join home ''.local/state/sl-dbg/audit.log''
           | None \<Rightarrow> path_join (temp_dir env) ''sl-dbg-audit.log'')"

definition nothing_found_error :: string where
  "nothing_found_error =
     ''sl-dbg mcp: no DAP-launchable interpreter (java, python3, node, dlv) found on PATH for the auto-safe allowlist.'' @ [CHR 0x0A] @
     ''Either install one of those, or pass --allow-program <path-or-glob> explicitly.'' @ [CHR 0x0A] @
     ''To opt out of safe mode entirely, set SL_DBG_INSECURE=1 (NOT recommended for LLM clients).''"

definition no_cwd_error :: string where
  "no_cwd_error =
     ''sl-dbg mcp --safe: cannot determine cwd for default --allow-source-root; pass --allow-source-root <dir> explicitly''"

definition insecure_warnings :: "string list" where
  "insecure_warnings =
     (let bar = replicate 64 (CHR ''='') in
      [bar,
       ''sl-dbg mcp: SL_DBG_INSECURE=1 '' @ [CHR 0xE2, CHR 0x80, CHR 0x94] @ '' running with permissive defaults.'',
       ''  * eval        : ALLOWED   (model can run arbitrary code)'',
       ''  * source read : ALLOWED   (model can read any file you can)'',
       ''  * start --program: ALLOWED (model can launch any binary)'',
       ''  * session cap : NONE'',
       ''  * audit log   : DISABLED'',
       ''This mode is intended for local CLI / single-developer use only.'',
       ''For LLM-driven clients, re-run without SL_DBG_INSECURE (safe is the default).'',
       bar])"

text \<open>The variables of safe mode, once the program and source lists are settled.\<close>

definition safe_updates :: "safe_flags \<Rightarrow> environ \<Rightarrow> string option \<Rightarrow> string list \<Rightarrow> string list \<Rightarrow> environ" where
  "safe_updates f env wd progs roots =
     [(''SL_DBG_ALLOW_PROGRAM'', join_with '':'' progs),
      (''SL_DBG_ALLOW_SOURCE_ROOT'',
         join_with '':'' (map (\<lambda>r. case abs_path wd r of Some a \<Rightarrow> clean a | None \<Rightarrow> r) roots)),
      (''SL_DBG_MAX_SESSIONS'', itoa (if sf_MaxSessions f \<le> 0 then 8 else sf_MaxSessions f)),
      (''SL_DBG_AUDIT_LOG'', if sf_AuditLog f = [] then defaultAuditLogPath env else sf_AuditLog f),
      (''SL_DBG_ALLOW_EVAL'', if sf_AllowEval f then ''1'' else ''0'')]"

definition safe_mode :: "safe_flags \<Rightarrow> environ \<Rightarrow> bool" where
  "safe_mode f env \<longleftrightarrow> sf_Safe f \<or> \<not> insecure_env env"

definition chosen_programs :: "(string \<Rightarrow> string option) \<Rightarrow> (string \<Rightarrow> string option) \<Rightarrow> safe_flags \<Rightarrow> string list" where
  "chosen_programs lookpath evalSymlinks f =
     (if sf_AllowProgram f = [] then autoDiscoverPrograms lookpath evalSymlinks else sf_AllowProgram f)"

definition chosen_roots :: "string \<Rightarrow> safe_flags \<Rightarrow> string list" where
  "chosen_roots cwd f = (if sf_AllowSourceRoot f = [] then [cwd] else sf_AllowSourceRoot f)"

definition resolveMCPSafePolicy ::
  "safe_flags \<Rightarrow> environ \<Rightarrow> (string \<Rightarrow> string option) \<Rightarrow> (string \<Rightarrow> string option) \<Rightarrow> string option \<Rightarrow> safe_policy" where
  "resolveMCPSafePolicy f env lookpath evalSymlinks wd =
     (let cwd = (case wd of None \<Rightarrow> [] | Some d \<Rightarrow> d);
          autoSafe = (\<not> sf_Safe f \<and> \<not> insecure_env env) in
      if \<not> safe_mode f env then \<lparr>sp_EnvUpdates = [], sp_Warnings = insecure_warnings, sp_Refuse = None\<rparr>
      else let progs = chosen_programs lookpath evalSymlinks f in
        if progs = [] then \<lparr>sp_EnvUpdates = [], sp_Warnings = [], sp_Refuse = Some nothing_found_error\<rparr>
        else let w1 = (if sf_AllowProgram f = []
                       then [''sl-dbg mcp --safe: --allow-program auto-discovered from PATH: '' @ join_with '', '' progs @
                             ''. Pass --allow-program explicitly to narrow.''] else []) in
          if sf_AllowSourceRoot f = [] \<and> cwd = [] then
            \<lparr>sp_EnvUpdates = [(''SL_DBG_ALLOW_PROGRAM'', join_with '':'' progs)], sp_Warnings = w1, sp_Refuse = Some no_cwd_error\<rparr>
          else let w2 = (if sf_AllowSourceRoot f = []
                         then [''sl-dbg mcp --safe: --allow-source-root defaulted to cwd ('' @ cwd @
                               ''); pass --allow-source-root explicitly to override.''] else []);
                   w3 = (if sf_AllowEval f
                         then [''sl-dbg mcp --safe --allow-eval: `eval` is RE-ENABLED. Any expression the model emits will run in the target process.'']
                         else []);
                   w0 = (if autoSafe
                         then [''sl-dbg mcp: --safe is now the default (issue #70). Pass SL_DBG_INSECURE=1 to opt out (NOT recommended).'']
                         else [])
               in \<lparr>sp_EnvUpdates = safe_updates f env wd progs (chosen_roots cwd f), sp_Warnings = w0 @ w1 @ w2 @ w3,
                   sp_Refuse = None\<rparr>)"

definition SafePolicyFilePath :: "environ \<Rightarrow> string" where
  "SafePolicyFilePath env =
     (let v = trim_space (getenv env ''XDG_STATE_HOME'') in
      if v \<noteq> [] then path_join v ''sl-dbg/safe-policy.env''
      else case user_home_dir env of
             Some home \<Rightarrow> path_join home ''.local/state/sl-dbg/safe-policy.env''
           | None \<Rightarrow> path_join (temp_dir env) ''sl-dbg-safe-policy.env'')"

definition policy_file_text :: "range_order \<Rightarrow> environ \<Rightarrow> string" where
  "policy_file_text ord ups = concat (map (\<lambda>(k, v). k @ ''='' @ v @ [CHR 0x0A]) (go_range ord ups))"

definition writeSafePolicyFile :: "bool \<Rightarrow> range_order \<Rightarrow> environ \<Rightarrow> environ \<Rightarrow> files \<Rightarrow> files" where
  "writeSafePolicyFile writable ord ups env fs =
     (if writable then fs(SafePolicyFilePath env := Some (policy_file_text ord ups)) else fs)"

text \<open>The warnings are printed by the caller of this function. The two loops range over the map anew.\<close>

definition applyMCPSafePolicy ::
  "bool \<Rightarrow> range_order \<Rightarrow> range_order \<Rightarrow> safe_policy \<Rightarrow> environ \<Rightarrow> files \<Rightarrow> string option \<times> environ \<times> files" where
  "applyMCPSafePolicy writable ord ord' p env fs =
     (case sp_Refuse p of
        Some e \<Rightarrow> (Some e, env, fs)
      | None \<Rightarrow>
          let env' = foldl (\<lambda>e (k, v). setenv k v e) env (go_range ord (sp_EnvUpdates p)) in
          (None, env', if sp_EnvUpdates p = [] then fs else writeSafePolicyFile writable ord' (sp_EnvUpdates p) env' fs))"

section \<open>Exporting variables and reading them back\<close>

lemma SafePolicyFilePath_eq: "SafePolicyFilePath env = safePolicyFilePath env"
  by (simp add: SafePolicyFilePath_def safePolicyFilePath_def)

text \<open>A value that survives a line of the policy file, and the keys that are written.\<close>

definition plain_value :: "string \<Rightarrow> bool" where
  "plain_value v \<longleftrightarrow> CHR 0x0A \<notin> set v \<and> CHR 0x00 \<notin> set v \<and> (v = [] \<or> \<not> go_space (last v))"

definition plain_key :: "string \<Rightarrow> bool" where
  "plain_key k \<longleftrightarrow> has_prefix k ''SL_DBG_'' \<and> list_all (\<lambda>c. \<not> go_space c \<and> c \<noteq> CHR ''='' \<and> c \<noteq> CHR 0x00 \<and> c \<noteq> CHR 0x0A) k"

lemma index_byte_append: "c \<notin> set k \<Longrightarrow> index_byte c (k @ c # v) = Some (length k)"
  by (induction k) auto

definition policy_line :: "string \<times> string \<Rightarrow> string" where
  "policy_line kv = fst kv @ ''='' @ snd kv"

lemma plain_key_start: "plain_key k \<Longrightarrow> \<exists>k'. k = CHR ''S'' # k'"
  by (auto simp: plain_key_def has_prefix_def prefix_def)

lemma plain_keyD: "plain_key k \<Longrightarrow> k \<noteq> [] \<and> CHR ''='' \<notin> set k \<and> CHR 0x00 \<notin> set k"
proof -
  assume k: "plain_key k"
  then have "\<forall>c \<in> set k. c \<noteq> CHR ''='' \<and> c \<noteq> CHR 0x00"
    by (simp add: plain_key_def list_all_iff)
  then show ?thesis using plain_key_start [OF k] by blast
qed

lemma load_policy_line_plain:
  assumes "plain_key (fst kv)" "plain_value (snd kv)"
  shows "load_policy_line env (policy_line kv) = (if map_of env (fst kv) = None then map_put (fst kv) (snd kv) env else env)"
proof -
  obtain k v where kv: "kv = (k, v)" by (cases kv)
  obtain k' where k': "k = CHR ''S'' # k'" using plain_key_start assms(1) kv by auto
  have k: "has_prefix k ''SL_DBG_''" "CHR ''='' \<notin> set k" "CHR 0x00 \<notin> set k" "\<forall>c \<in> set k. \<not> go_space c" "k \<noteq> []"
    using assms(1) kv k' by (auto simp: plain_key_def list_all_iff)
  have "\<not> go_space CHR ''S''" "\<not> go_space CHR ''=''" by (simp_all add: go_space_def)
  then have "trim_space (k @ ''='' @ v) = k @ ''='' @ v"
    using assms(2) kv by (intro trim_space_ends) (auto simp: k' plain_value_def)
  moreover have "\<not> has_prefix (k @ ''='' @ v) ''#''" by (simp add: k' has_prefix_def)
  moreover have "index_byte CHR ''='' (k @ ''='' @ v) = Some (length k)" using index_byte_append [OF k(2)] by simp
  ultimately show ?thesis
    using k assms(2) kv
    by (simp add: policy_line_def load_policy_line_def trim_space_id setenv_def plain_value_def)
qed

definition plain_updates :: "environ \<Rightarrow> bool" where
  "plain_updates ups \<longleftrightarrow> distinct (map fst ups) \<and> list_all (\<lambda>(k, v). plain_key k \<and> plain_value v) ups"

lemma plain_updates_Cons [simp]:
  "plain_updates (kv # kvs) \<longleftrightarrow> plain_updates kvs \<and> fst kv \<notin> fst ` set kvs \<and> plain_key (fst kv) \<and> plain_value (snd kv)"
  by (cases kv) (auto simp: plain_updates_def)

lemma plain_updates_range: "plain_updates ups \<Longrightarrow> plain_updates (go_range ord ups) \<and> map_of (go_range ord ups) = map_of ups"
proof -
  assume ups: "plain_updates ups"
  have "mset (map fst (go_range ord ups)) = mset (map fst ups)" by simp
  then have d: "distinct (map fst (go_range ord ups))"
    using ups mset_eq_imp_distinct_iff by (metis plain_updates_def)
  moreover have "map_of (go_range ord ups) = map_of ups"
    using map_of_inject_set [OF d, of ups] ups by (simp add: plain_updates_def)
  ultimately show ?thesis using ups by (simp add: plain_updates_def list_all_iff)
qed

text \<open>\<open>os.Setenv\<close> of every update, and the policy file read line by line, define the same variables.\<close>

lemma map_add_Cons: "fst kv \<notin> fst ` set ups \<Longrightarrow> m(fst kv \<mapsto> snd kv) ++ map_of ups = m ++ map_of (kv # ups)"
  by (simp add: map_add_upd_left dom_map_of_conv_image_fst)

lemma setenv_updates:
  "plain_updates ups \<Longrightarrow> map_of (foldl (\<lambda>e (k, v). setenv k v e) env ups) = map_of env ++ map_of ups"
proof (induction ups arbitrary: env)
  case (Cons kv ups)
  have "fst kv \<noteq> []" "CHR ''='' \<notin> set (fst kv)" "CHR 0x00 \<notin> set (fst kv)" "CHR 0x00 \<notin> set (snd kv)"
    using Cons.prems plain_keyD [of "fst kv"] by (simp_all add: plain_value_def)
  then have "setenv (fst kv) (snd kv) env = map_put (fst kv) (snd kv) env" by (simp add: setenv_def)
  then have "foldl (\<lambda>e (k, v). setenv k v e) env (kv # ups) = foldl (\<lambda>e (k, v). setenv k v e) (map_put (fst kv) (snd kv) env) ups"
    by (simp add: split_beta)
  moreover have "plain_updates ups" "fst kv \<notin> fst ` set ups" using Cons.prems by simp_all
  ultimately show ?case
    by (simp only: Cons.IH map_of_put map_add_Cons [OF \<open>fst kv \<notin> fst ` set ups\<close>])
qed simp

lemma load_updates:
  assumes "plain_updates ups" "\<forall>k \<in> fst ` set ups. map_of env k = None"
  shows "map_of (foldl load_policy_line env (map policy_line ups)) = map_of env ++ map_of ups"
  using assms
proof (induction ups arbitrary: env)
  case (Cons kv ups)
  have step: "load_policy_line env (policy_line kv) = map_put (fst kv) (snd kv) env"
    using Cons.prems load_policy_line_plain [of kv env] by simp
  have "map_of (map_put (fst kv) (snd kv) env) k = None" if "k \<in> fst ` set ups" for k
  proof -
    have "k \<noteq> fst kv" using Cons.prems(1) that by (metis plain_updates_Cons)
    then show ?thesis using bspec [OF Cons.prems(2), of k] that by simp
  qed
  then have "map_of (foldl load_policy_line (map_put (fst kv) (snd kv) env) (map policy_line ups)) =
      map_of (map_put (fst kv) (snd kv) env) ++ map_of ups"
    using Cons.prems(1) by (intro Cons.IH) simp_all
  moreover have new: "fst kv \<notin> fst ` set ups" using Cons.prems by simp
  ultimately show ?case by (simp only: step foldl_Cons list.map map_of_put map_add_Cons [OF new])
qed simp

lemma split_policy_text:
  assumes "plain_updates ups"
  shows "split_on CHR 0x0A (concat (map (\<lambda>(k, v). k @ ''='' @ v @ [CHR 0x0A]) ups)) = map policy_line ups @ [[]]"
  using assms
proof (induction ups)
  case (Cons kv ups)
  have "CHR 0x0A \<notin> set (policy_line kv)"
    using Cons.prems by (auto simp: policy_line_def plain_key_def plain_value_def list_all_iff)
  from split_on_sep [OF this] Cons show ?case by (cases kv) (simp add: policy_line_def)
qed simp

lemma load_policy_file:
  assumes ups: "plain_updates ups" and none: "\<forall>k \<in> fst ` set ups. map_of env k = None"
    and fl: "fs (safePolicyFilePath env) = Some (policy_file_text ord ups)"
  shows "map_of (loadSafePolicyFile fs env) = map_of env ++ map_of ups"
proof -
  let ?r = "go_range ord ups"
  have r: "plain_updates ?r" "map_of ?r = map_of ups" using plain_updates_range [OF ups] by simp_all
  have "load_policy_line e [] = e" for e
    by (simp add: load_policy_line_def trim_space_def trim_left_f_def trim_right_f_def)
  moreover have "split_on CHR 0x0A (policy_file_text ord ups) = map policy_line ?r @ [[]]"
    unfolding policy_file_text_def by (rule split_policy_text [OF r(1)])
  ultimately show ?thesis
    using load_updates [OF r(1), of env] none r(2) fl by (simp add: loadSafePolicyFile_def)
qed

section \<open>The lists of safe mode\<close>

definition good_entry :: "string \<Rightarrow> bool" where
  "good_entry x \<longleftrightarrow>
     x \<noteq> [] \<and> CHR '':'' \<notin> set x \<and> CHR 0x0A \<notin> set x \<and> CHR 0x00 \<notin> set x \<and> \<not> go_space (hd x) \<and> \<not> go_space (last x)"

lemma join_entries_ends:
  "xs \<noteq> [] \<Longrightarrow> list_all good_entry xs \<Longrightarrow>
   join_with '':'' xs \<noteq> [] \<and> \<not> go_space (hd (join_with '':'' xs)) \<and> \<not> go_space (last (join_with '':'' xs))"
proof (induction xs)
  case (Cons x xs)
  then show ?case
    by (cases "xs = []") (auto simp: good_entry_def join_with_Cons)
qed simp

lemma set_join_with: "set (join_with sep xs) \<subseteq> set sep \<union> \<Union> (set ` set xs)"
  by (induction sep xs rule: join_with.induct) auto

lemma split_join_entries:
  assumes "xs \<noteq> []" "list_all good_entry xs"
  shows "splitColonList (join_with '':'' xs) = xs"
proof -
  have "trim_space (join_with '':'' xs) = join_with '':'' xs"
    by (rule trim_space_ends) (use join_entries_ends [OF assms] in blast)
  moreover have "split_on CHR '':'' (join_with '':'' xs) = xs"
    by (rule split_join) (use assms in \<open>auto simp: good_entry_def list_all_iff\<close>)
  moreover have "map trim_space xs = xs"
    by (rule map_idI) (use assms(2) trim_space_ends in \<open>auto simp: good_entry_def list_all_iff\<close>)
  moreover have "filter (\<lambda>p. p \<noteq> []) xs = xs"
    by (rule filter_True) (use assms(2) in \<open>auto simp: good_entry_def list_all_iff\<close>)
  ultimately show ?thesis using join_entries_ends [OF assms] by (simp add: splitColonList_def Let_def)
qed

lemma plain_join_entries:
  assumes "xs \<noteq> []" "list_all good_entry xs"
  shows "plain_value (join_with '':'' xs)"
proof -
  have "c \<notin> set (join_with '':'' xs)" if "c \<in> {CHR 0x0A, CHR 0x00}" for c
    using set_join_with [of "'':''" xs] assms(2) that by (fastforce simp: good_entry_def list_all_iff)
  then show ?thesis using join_entries_ends [OF assms] by (simp add: plain_value_def)
qed

lemma itoa_chars: "c \<in> set (itoa i) \<Longrightarrow> \<not> go_space c \<and> c \<noteq> CHR 0x0A \<and> c \<noteq> CHR 0x00"
proof -
  assume "c \<in> set (itoa i)"
  then have "is_digit c \<or> c = CHR ''-''"
    using nat_digits_digits by (auto simp: itoa_def list_all_iff split: if_splits)
  then show ?thesis by (auto simp: is_digit_def go_space_def char_code_def)
qed

lemma plain_itoa: "plain_value (itoa i)"
  using itoa_chars [of _ i] last_in_set [OF itoa_not_Nil [of i]] unfolding plain_value_def by blast

lemma plain_safe_updates:
  assumes "progs \<noteq> []" "list_all good_entry progs"
    and "roots \<noteq> []" "list_all good_entry (map (\<lambda>r. case abs_path wd r of Some a \<Rightarrow> clean a | None \<Rightarrow> r) roots)"
    and "plain_value (if sf_AuditLog f = [] then defaultAuditLogPath env else sf_AuditLog f)"
  shows "plain_updates (safe_updates f env wd progs roots)"
proof -
  have "plain_key ''SL_DBG_ALLOW_PROGRAM''" "plain_key ''SL_DBG_ALLOW_SOURCE_ROOT''" "plain_key ''SL_DBG_MAX_SESSIONS''"
    "plain_key ''SL_DBG_AUDIT_LOG''" "plain_key ''SL_DBG_ALLOW_EVAL''" "plain_value ''1''" "plain_value ''0''"
    by code_simp+
  then show ?thesis
    using assms plain_join_entries [OF assms(1,2)] plain_join_entries [OF _ assms(4)]
    by (simp add: plain_updates_def safe_updates_def plain_itoa)
qed

text \<open>Both ways in which the variables reach a daemon: inherited, or read from the policy file.\<close>

lemma updates_reach:
  assumes ups: "plain_updates ups" "ups \<noteq> []" "map_of ups k = Some v"
    and app: "applyMCPSafePolicy True ord ord' p env fs = (None, env', fs')" "sp_EnvUpdates p = ups" "sp_Refuse p = None"
    and e: "e = env' \<or> list_all (\<lambda>(k, v). \<not> has_prefix k ''SL_DBG_'') e \<and> safePolicyFilePath e = safePolicyFilePath env'"
  shows "getenv (loadSafePolicyFile fs' e) k = v"
proof -
  have env': "env' = foldl (\<lambda>e (k, v). setenv k v e) env (go_range ord ups)"
    and fs': "fs' = fs(SafePolicyFilePath env' := Some (policy_file_text ord' ups))"
    using app ups(2) by (auto simp: applyMCPSafePolicy_def writeSafePolicyFile_def Let_def)
  from e have "map_of (loadSafePolicyFile fs' e) k = Some v"
  proof
    assume "e = env'"
    moreover have "map_of env' k = Some v"
      using setenv_updates [of "go_range ord ups" env] plain_updates_range [OF ups(1), of ord] ups(3)
      by (simp add: env' map_add_Some_iff)
    ultimately show ?thesis
      by (auto simp: loadSafePolicyFile_def load_policy_lines_keep split: option.split)
  next
    assume e: "list_all (\<lambda>(k, v). \<not> has_prefix k ''SL_DBG_'') e \<and> safePolicyFilePath e = safePolicyFilePath env'"
    have "map_of e k' = None" if "k' \<in> fst ` set ups" for k'
    proof -
      from that obtain v' where "(k', v') \<in> set ups" by auto
      then have "plain_key k'" using ups(1) by (auto simp: plain_updates_def list_all_iff)
      then have sl: "has_prefix k' ''SL_DBG_''" by (simp add: plain_key_def)
      have "\<not> has_prefix a ''SL_DBG_''" if "(a, b) \<in> set e" for a b
        using e that by (auto simp: list_all_iff)
      with sl show ?thesis by (metis map_of_SomeD not_None_eq)
    qed
    moreover have "fs' (safePolicyFilePath e) = Some (policy_file_text ord' ups)"
      using e by (simp add: fs' SafePolicyFilePath_eq)
    ultimately show ?thesis
      using load_policy_file [OF ups(1), of e fs' ord'] ups(3) by (simp add: map_add_Some_iff)
  qed
  then show ?thesis by (simp add: getenv_def)
qed

section \<open>Safe mode, from the flags to the daemon\<close>

definition audit_path :: "safe_flags \<Rightarrow> environ \<Rightarrow> string" where
  "audit_path f env = (if sf_AuditLog f = [] then defaultAuditLogPath env else sf_AuditLog f)"

definition exported_roots :: "safe_flags \<Rightarrow> string option \<Rightarrow> string list" where
  "exported_roots f wd =
     map (\<lambda>r. case abs_path wd r of Some a \<Rightarrow> clean a | None \<Rightarrow> r)
       (chosen_roots (case wd of None \<Rightarrow> [] | Some d \<Rightarrow> d) f)"

text \<open>Entries that a colon-separated list and a line of the policy file can carry.\<close>

definition portable :: "safe_flags \<Rightarrow> environ \<Rightarrow> string list \<Rightarrow> string option \<Rightarrow> bool" where
  "portable f env progs wd \<longleftrightarrow>
     list_all good_entry progs \<and> list_all good_entry (exported_roots f wd) \<and> plain_value (audit_path f env) \<and>
     in_int64 (sf_MaxSessions f)"

lemma resolve_safe:
  assumes "safe_mode f env" "sp_Refuse (resolveMCPSafePolicy f env look lnk wd) = None"
  shows "chosen_programs look lnk f \<noteq> []"
    and "sp_EnvUpdates (resolveMCPSafePolicy f env look lnk wd) =
      safe_updates f env wd (chosen_programs look lnk f) (chosen_roots (case wd of None \<Rightarrow> [] | Some d \<Rightarrow> d) f)"
  using assms by (auto simp: resolveMCPSafePolicy_def Let_def split: if_splits)

lemma trim_space_digits: "trim_space (itoa i) = itoa i"
  by (rule trim_space_id) (use itoa_chars in blast)


definition demo_flags :: safe_flags where
  "demo_flags = \<lparr>sf_Safe = False, sf_AllowProgram = [''python3''], sf_AllowSourceRoot = [], sf_MaxSessions = 0,
     sf_AuditLog = [], sf_AllowEval = False\<rparr>"

definition demo_safe :: "string option \<times> environ \<times> files" where
  "demo_safe =
     applyMCPSafePolicy True (\<lambda>n. [0..<n]) (\<lambda>n. rev [0..<n])
       (resolveMCPSafePolicy demo_flags [(''HOME'', ''/h'')] (\<lambda>_. None) (\<lambda>_. None) (Some ''/w'')) [(''HOME'', ''/h'')] (\<lambda>_. None)"


text \<open>
  With \<open>SL_DBG_INSECURE\<close> and no \<open>--safe\<close> nothing is exported and nothing written. The warning
  printed says that evaluation is allowed; a daemon that inherits this environment denies it, unless
  it is enabled separately.
\<close>

theorem insecure_mode_denies_eval:
  assumes "insecure_env env" "\<not> sf_Safe f" "map_of env ''SL_DBG_ALLOW_EVAL'' = None" "fs (safePolicyFilePath env) = None"
  shows "applyMCPSafePolicy writable ord ord' (resolveMCPSafePolicy f env look lnk wd) env fs = (None, env, fs) \<and>
    insecure_warnings ! 2 = ''  * eval        : ALLOWED   (model can run arbitrary code)'' \<and>
    EvalEnabled (LoadPolicyFromEnv fs wd env) \<noteq> None"
proof -
  have "loadSafePolicyFile fs env = env" "getenv env ''SL_DBG_ALLOW_EVAL'' = []" "\<not> parseBoolEnv []"
    using assms(3,4) by (simp_all add: loadSafePolicyFile_def getenv_def parseBoolEnv_def trim_space_def trim_left_f_def
        trim_right_f_def to_lower_def)
  then show ?thesis
    using assms(1,2)
    by (simp add: resolveMCPSafePolicy_def safe_mode_def applyMCPSafePolicy_def insecure_warnings_def Let_def
        LoadPolicyFromEnv_def EvalEnabled_def)
qed

theorem insecure_mode_denies_eval_witness:
  "EvalEnabled (LoadPolicyFromEnv (\<lambda>_. None) (Some ''/w'') [(''SL_DBG_INSECURE'', ''1'')]) \<noteq> None"
proof -
  have "insecure_env [(''SL_DBG_INSECURE'', ''1'')]" by code_simp
  then show ?thesis
    using insecure_mode_denies_eval [of "[(''SL_DBG_INSECURE'', ''1'')]" demo_flags "\<lambda>_. None"]
    by (simp add: demo_flags_def)
qed

end
