(* ===== verification/Redact.thy ===== *)
theory Redact
  imports Json
begin

text \<open>
  The redaction of request arguments for the daemon's log (\<open>internal/daemon/redact.go\<close>). The three
  regular expressions are written out as matchers on bytes; of the non-ASCII letters Go folds to
  ASCII ones (long s, Kelvin sign) the model knows nothing. Members of an object that Go's map drops
  because a later one has the same name are scrubbed like the others.
\<close>

section \<open>Definitions\<close>

definition redactKeySubstrings :: "string list" where
  "redactKeySubstrings =
     [''password'', ''passwd'', ''secret'', ''token'', ''api_key'', ''apikey'', ''auth'', ''credential'', ''private'',
      ''cookie'', ''envfile'']"

definition matchesRedactKey :: "string \<Rightarrow> bool" where
  "matchesRedactKey k \<longleftrightarrow> list_ex (\<lambda>sub. contains (to_lower k) sub) redactKeySubstrings"

definition word_char :: "char \<Rightarrow> bool" where
  "word_char c \<longleftrightarrow> is_letter c \<or> is_digit c \<or> c = CHR ''_''"

text \<open>The class \<open>[a-z0-9_\-]\<close> and the class \<open>\s\<close> of Go's regexp.\<close>

definition key_char :: "char \<Rightarrow> bool" where
  "key_char c \<longleftrightarrow> word_char c \<or> c = CHR ''-''"

definition re_space :: "char \<Rightarrow> bool" where
  "re_space c \<longleftrightarrow> c \<in> set [CHR 0x09, CHR 0x0A, CHR 0x0C, CHR 0x0D, CHR '' '']"

text \<open>The first pattern, anchored: a prefix, an underscore, at least sixteen characters.\<close>

definition key_prefixes :: "string list" where
  "key_prefixes = [''sk'', ''pk'', ''ghp'', ''github_pat'', ''xoxa'', ''xoxb'', ''xoxp'', ''xoxr'', ''xoxs'']"

definition key_at :: "string \<Rightarrow> bool" where
  "key_at s \<longleftrightarrow>
     list_ex (\<lambda>p. has_prefix (to_lower s) (p @ ''_'') \<and>
       (let rest = drop (length p + 1) s in 16 \<le> length rest \<and> list_all key_char (take 16 rest))) key_prefixes"

fun api_key :: "bool \<Rightarrow> string \<Rightarrow> bool" where
  "api_key after_word [] = False"
| "api_key after_word (c # cs) = (\<not> after_word \<and> key_at (c # cs) \<or> api_key (word_char c) cs)"

definition aws_key :: "string \<Rightarrow> bool" where
  "aws_key s \<longleftrightarrow> contains (to_lower s) ''aws_access_key_id'' \<or> contains (to_lower s) ''aws_secret_key_id''"

text \<open>The third pattern, anchored: a name, \<open>=\<close> or \<open>:\<close> among spaces, and one more character.\<close>

definition secret_names :: "string list" where
  "secret_names = [''password'', ''secret'', ''token'', ''apikey'', ''api_key'', ''api-key'']"

definition assigned :: "string \<Rightarrow> bool" where
  "assigned s \<longleftrightarrow>
     (case dropWhile re_space s of
        [] \<Rightarrow> False
      | c # cs \<Rightarrow>
          (c = CHR ''='' \<or> c = CHR '':'') \<and>
          (case dropWhile re_space cs of [] \<Rightarrow> False | d # _ \<Rightarrow> d \<noteq> CHR '',''))"

fun secret_assigned :: "string \<Rightarrow> bool" where
  "secret_assigned [] = False"
| "secret_assigned (c # cs) =
     (list_ex (\<lambda>n. has_prefix (to_lower (c # cs)) n \<and> assigned (drop (length n) (c # cs))) secret_names \<or> secret_assigned cs)"

definition hasSensitiveValue :: "string \<Rightarrow> bool" where
  "hasSensitiveValue s \<longleftrightarrow> api_key False s \<or> aws_key s \<or> secret_assigned s"

definition redacted :: string where
  "redacted = ''<redacted>''"

definition looksLikeEnvList :: "json list \<Rightarrow> bool" where
  "looksLikeEnvList js \<longleftrightarrow>
     js \<noteq> [] \<and> list_all (\<lambda>j. case j of JStr s \<Rightarrow> contains s ''='' | _ \<Rightarrow> False) js"

definition scrub_entry :: "json \<Rightarrow> json" where
  "scrub_entry j =
     (case j of
        JStr s \<Rightarrow>
          (case index_byte CHR ''='' s of
             None \<Rightarrow> j
           | Some idx \<Rightarrow>
               if idx = 0 then j
               else if matchesRedactKey (take idx s) \<or> hasSensitiveValue s then JStr (take idx s @ ''='' @ redacted)
               else j)
      | _ \<Rightarrow> j)"

definition scrubEnvList :: "json list \<Rightarrow> json list" where
  "scrubEnvList js = map scrub_entry js"

lemma size_member: "(k, v) \<in> set kvs \<Longrightarrow> size v < size (JObj kvs)"
  by (induction kvs) auto

lemma size_element: "v \<in> set vs \<Longrightarrow> size v < size (JArr vs)"
  by (induction vs) auto

text \<open>\<open>scrubValue\<close>; of \<open>scrub\<close> below only the treatment of an array differs.\<close>

function (sequential) scrubValue :: "json \<Rightarrow> json" where
  "scrubValue (JObj kvs) =
     JObj (map (\<lambda>(k, v). (k, case v of
        JArr js \<Rightarrow>
          if looksLikeEnvList js then JArr (scrubEnvList js)
          else if matchesRedactKey k then JStr redacted else scrubValue v
      | _ \<Rightarrow> if matchesRedactKey k then JStr redacted else scrubValue v)) kvs)"
| "scrubValue (JArr js) = (if looksLikeEnvList js then JArr (scrubEnvList js) else JArr (map scrubValue js))"
| "scrubValue (JStr s) = (if hasSensitiveValue s then JStr redacted else JStr s)"
| "scrubValue j = j"
  by pat_completeness auto

termination
  by (relation "measure size") (auto simp del: json.size dest: size_member size_element)

definition scrub :: "json \<Rightarrow> json" where
  "scrub j = (case j of JObj _ \<Rightarrow> scrubValue j | JArr js \<Rightarrow> JArr (map scrubValue js) | _ \<Rightarrow> j)"

datatype log_text = LogText string | LogJson json

definition redactArgs :: "raw \<Rightarrow> log_text" where
  "redactArgs r =
     (case r of RawEmpty \<Rightarrow> LogText [] | RawBad _ \<Rightarrow> LogText ''<unparseable>'' | RawJson j \<Rightarrow> LogJson (scrub j))"

section \<open>What is left after scrubbing\<close>

inductive leaf :: "json \<Rightarrow> string \<Rightarrow> bool" where
  leaf_str: "leaf (JStr s) s"
| leaf_arr: "j \<in> set js \<Longrightarrow> leaf j s \<Longrightarrow> leaf (JArr js) s"
| leaf_obj: "(k, j) \<in> set kvs \<Longrightarrow> leaf j s \<Longrightarrow> leaf (JObj kvs) s"

inductive_simps leaf_simps [simp]:
  "leaf (JStr t) s" "leaf (JArr js) s" "leaf (JObj kvs) s" "leaf JNull s" "leaf (JBool b) s" "leaf (JInt i) s" "leaf (JDec m e) s"

text \<open>Fit for the log: not sensitive, or a redaction; an entry that starts with \<open>=\<close> is let through.\<close>

definition loggable :: "string \<Rightarrow> bool" where
  "loggable s \<longleftrightarrow> \<not> hasSensitiveValue s \<or> s = redacted \<or> has_suffix s (''='' @ redacted) \<or> has_prefix s ''=''"

lemma loggable_redacted [simp]: "loggable redacted"
  by (simp add: loggable_def)

lemma index_byte_zero: "index_byte c s = Some 0 \<Longrightarrow> has_prefix s [c]"
  by (cases s) (auto simp: has_prefix_def split: if_splits)

lemma loggable_entry:
  assumes "looksLikeEnvList js" "j \<in> set js" "leaf (scrub_entry j) s"
  shows "loggable s"
proof -
  have "case j of JStr s \<Rightarrow> contains s ''='' | _ \<Rightarrow> False"
    using assms(1,2) by (simp add: looksLikeEnvList_def list_all_iff)
  then obtain t where t: "j = JStr t" "contains t ''=''" by (cases j) simp_all
  show ?thesis
  proof (cases "index_byte CHR ''='' t")
    case None
    then have "CHR ''='' \<notin> set t" by (simp add: index_byte_None)
    then show ?thesis using t(2) by (auto simp: contains_sublist dest: set_mono_sublist)
  next
    case (Some idx)
    then show ?thesis
      using assms(3) t(1) index_byte_zero [of "CHR ''=''" t]
      by (auto simp: scrub_entry_def loggable_def has_suffix_def suffix_def split: if_splits)
  qed
qed

lemma loggable_env_list: "looksLikeEnvList js \<Longrightarrow> leaf (JArr (scrubEnvList js)) s \<Longrightarrow> loggable s"
  by (auto simp: scrubEnvList_def loggable_entry)

lemma loggable_scrubValue: "leaf (scrubValue j) s \<Longrightarrow> loggable s"
proof (induction j arbitrary: s rule: scrubValue.induct)
  case (1 kvs)
  then obtain k v where kv: "(k, v) \<in> set kvs" and lf: "leaf (case v of
        JArr js \<Rightarrow> if looksLikeEnvList js then JArr (scrubEnvList js)
          else if matchesRedactKey k then JStr redacted else scrubValue v
      | _ \<Rightarrow> if matchesRedactKey k then JStr redacted else scrubValue v) s"
    by auto
  show ?case
  proof (cases "\<exists>js. v = JArr js \<and> looksLikeEnvList js")
    case True
    then show ?thesis using lf loggable_env_list by auto
  next
    case False
    then have "s = redacted \<or> leaf (scrubValue v) s \<and> \<not> matchesRedactKey k"
      using lf by (auto split: json.splits if_splits)
    then show ?thesis using 1(1-7) kv False by (cases v) (auto simp del: scrubValue.simps)
  qed
next
  case (2 js)
  then show ?case using loggable_env_list [of js s] by (cases "looksLikeEnvList js") auto
next
  case (3 t)
  then show ?case by (auto simp: loggable_def split: if_splits)
qed simp_all



end
