(* ===== verification/Cli.thy ===== *)
theory Cli
  imports Proto_Encode Go_Path
begin

text \<open>
  The command-line client (\<open>internal/cli/commands.go\<close>, \<open>repl.go\<close>, \<open>root.go\<close>): what each command sends
  to the daemon for given flags and arguments, and the line splitter of the shell. Flags come parsed,
  as cobra delivers them; a timeout flag is the result of \<open>parseTimeoutFlag\<close>, a message or seconds. A
  usage error is \<open>Inl\<close>. Sending, printing and the start of a daemon are operating-system I/O.
\<close>

section \<open>Paths and numbers\<close>

text \<open>The working directory is \<open>None\<close> where \<open>os.Getwd\<close> fails.\<close>

definition cli_abs :: "string option \<Rightarrow> string \<Rightarrow> string" where
  "cli_abs wd p =
     (if p = [] then [] else if is_abs p then p else case abs_path wd p of Some a \<Rightarrow> a | None \<Rightarrow> p)"

definition absAll :: "string option \<Rightarrow> string list \<Rightarrow> string list" where
  "absAll wd ps = map (cli_abs wd) ps"

definition hasSourceExt :: "string \<Rightarrow> bool" where
  "hasSourceExt p \<longleftrightarrow>
     list_ex (has_suffix p)
       [''.py'', ''.java'', ''.go'', ''.js'', ''.ts'', ''.rb'', ''.rs'', ''.c'', ''.cc'', ''.cpp'', ''.h'', ''.hpp'', ''.cs'']"

definition absLocation :: "string option \<Rightarrow> string \<Rightarrow> string" where
  "absLocation wd loc =
     (case last_index_byte CHR '':'' loc of
        None \<Rightarrow> loc
      | Some i \<Rightarrow>
          if i = 0 then loc
          else let file_part = take i loc; rest = drop i loc in
               if contains_any file_part [CHR ''/'', CHR 0x5C] \<or> hasSourceExt file_part
               then cli_abs wd file_part @ rest else loc)"

text \<open>\<open>atoi\<close> computes in Go's \<open>int\<close>, without an overflow check.\<close>

fun atoi_digits :: "int \<Rightarrow> string \<Rightarrow> string + int" where
  "atoi_digits n [] = Inr n"
| "atoi_digits n (c # cs) =
     (if is_digit c then atoi_digits (wrap64 (n * 10 + int (char_code c - 48))) cs else Inl ''non-digit'')"

definition cli_atoi :: "string \<Rightarrow> string + int" where
  "cli_atoi s = (if s = [] then Inl ''empty number'' else atoi_digits 0 s)"

section \<open>Commands\<close>

text \<open>What \<open>callRaw\<close> gets: command, session, arguments.\<close>

type_synonym sending = "string + string \<times> string \<times> dargs"

record globals =
  g_Session :: string
  g_Timeout :: "string + decimal"
  g_wd :: "string option"

definition timeoutSec :: "globals \<Rightarrow> decimal" where
  "timeoutSec g = (case g_Timeout g of Inl _ \<Rightarrow> Dec 30 0 | Inr d \<Rightarrow> d)"

definition with_timeout :: "string + decimal \<Rightarrow> (decimal \<Rightarrow> sending) \<Rightarrow> sending" where
  "with_timeout t k = (case t of Inl e \<Rightarrow> Inl (''invalid --timeout: '' @ e) | Inr secs \<Rightarrow> k secs)"

definition session_arg :: "globals \<Rightarrow> string option \<Rightarrow> string" where
  "session_arg g a = (case a of None \<Rightarrow> g_Session g | Some sid \<Rightarrow> sid)"

definition newStartCmd :: "globals \<Rightarrow> start_args \<Rightarrow> sending" where
  "newStartCmd g f =
     (if sa_Lang f = [] then Inl ''--lang is required''
      else if sa_Lang f = ''java'' \<and> sa_MainClass f = [] then Inl ''--main is required for java''
      else if sa_Lang f \<noteq> ''java'' \<and> sa_Program f = [] then Inl ''--program is required''
      else Inr (''start'', [], AStart (f\<lparr>sa_Program := cli_abs (g_wd g) (sa_Program f), sa_Cwd := cli_abs (g_wd g) (sa_Cwd f),
             sa_Classpath := cli_abs (g_wd g) (sa_Classpath f), sa_SourceRoots := absAll (g_wd g) (sa_SourceRoots f)\<rparr>)))"

definition newAttachCmd :: "globals \<Rightarrow> attach_args \<Rightarrow> sending" where
  "newAttachCmd g f =
     (if aa_Lang f = [] then Inl ''--lang is required''
      else if aa_Port f = 0 \<and> aa_PID f = 0 then Inl ''either --port or --pid is required''
      else Inr (''attach'', [], AAttach (f\<lparr>aa_SourceRoots := absAll (g_wd g) (aa_SourceRoots f)\<rparr>)))"

definition newListenCmd :: "globals \<Rightarrow> string + decimal \<Rightarrow> sending" where
  "newListenCmd g t = with_timeout t (\<lambda>secs. Inr (''listen'', g_Session g, AListen \<lparr>la_TimeoutSec = secs\<rparr>))"

definition newSessionsCmd :: sending where
  "newSessionsCmd = Inr (''sessions'', [], NoArgs)"

definition newUseCmd :: "string \<Rightarrow> sending" where
  "newUseCmd a = Inr (''use'', [], AUse \<lparr>usa_ID = a\<rparr>)"

definition newStopCmd :: "globals \<Rightarrow> string option \<Rightarrow> sending" where
  "newStopCmd g a = Inr (''stop'', session_arg g a, NoArgs)"

definition newRestartCmd :: "globals \<Rightarrow> string option \<Rightarrow> sending" where
  "newRestartCmd g a = Inr (''restart'', session_arg g a, ARestart)"

definition newStateCmd :: "globals \<Rightarrow> string option \<Rightarrow> sending" where
  "newStateCmd g a = Inr (''state'', session_arg g a, NoArgs)"

definition newBreakCmd :: "globals \<Rightarrow> break_args \<Rightarrow> sending" where
  "newBreakCmd g f = Inr (''break'', g_Session g, ABreak (f\<lparr>ba_Location := absLocation (g_wd g) (ba_Location f)\<rparr>))"

definition newBreakFnCmd :: "globals \<Rightarrow> break_fn_args \<Rightarrow> sending" where
  "newBreakFnCmd g f = Inr (''break-fn'', g_Session g, ABreakFn f)"

definition newBreakExCmd :: "globals \<Rightarrow> string list \<Rightarrow> sending" where
  "newBreakExCmd g a = Inr (''break-ex'', g_Session g, ABreakEx \<lparr>bxa_Filters = a\<rparr>)"

record watch_flags =
  wf_Add :: string
  wf_Action :: string
  wf_Remove :: go_int
  wf_RemoveAll :: bool
  wf_Frame :: go_int

definition newWatchCmd :: "globals \<Rightarrow> watch_flags \<Rightarrow> string list \<Rightarrow> sending" where
  "newWatchCmd g f pos =
     (if pos \<noteq> [] then
        Inl ''watch takes no positional args; use --add <expr>, --remove <id>, --remove-all, or no flags to list''
      else let a0 = watch_args_zero\<lparr>wa_Frame := wf_Frame f\<rparr>;
               a1 = (if wf_Add f \<noteq> [] then a0\<lparr>wa_Action := ''add'', wa_Expression := wf_Add f\<rparr>
                     else if wf_RemoveAll f then a0\<lparr>wa_Action := ''remove'', wa_All := True\<rparr>
                     else if 0 < wf_Remove f then a0\<lparr>wa_Action := ''remove'', wa_ID := wf_Remove f\<rparr>
                     else a0\<lparr>wa_Action := ''list''\<rparr>);
               a2 = (if wf_Action f \<noteq> [] then a1\<lparr>wa_Action := wf_Action f\<rparr> else a1)
           in Inr (''watch'', g_Session g, AWatch a2))"

definition newBreaksCmd :: "globals \<Rightarrow> sending" where
  "newBreaksCmd g = Inr (''breaks'', g_Session g, NoArgs)"

fun parse_ids :: "string list \<Rightarrow> string + int list" where
  "parse_ids [] = Inr []"
| "parse_ids (a # as) =
     (case cli_atoi a of
        Inl _ \<Rightarrow> Inl (''invalid id: '' @ a)
      | Inr n \<Rightarrow> (case parse_ids as of Inl e \<Rightarrow> Inl e | Inr ns \<Rightarrow> Inr (n # ns)))"

definition newUnbreakCmd :: "globals \<Rightarrow> bool \<Rightarrow> string list \<Rightarrow> sending" where
  "newUnbreakCmd g everything a =
     (case parse_ids a of
        Inl e \<Rightarrow> Inl e
      | Inr ids \<Rightarrow> Inr (''unbreak'', g_Session g, AUnbreak \<lparr>uba_IDs = ids, uba_All = everything\<rparr>))"

definition newRunCmd :: "globals \<Rightarrow> sending" where
  "newRunCmd g = Inr (''continue'', g_Session g, AContinue continue_args_zero)"

definition exec_args :: "globals \<Rightarrow> bool \<Rightarrow> continue_args" where
  "exec_args g single = \<lparr>ca_Thread = 0, ca_TimeoutSec = timeoutSec g, ca_SingleThread = single\<rparr>"

definition newContinueCmd :: "globals \<Rightarrow> bool \<Rightarrow> sending" where
  "newContinueCmd g single = Inr (''continue'', g_Session g, AContinue (exec_args g single))"

definition newStepCmd :: "globals \<Rightarrow> bool \<Rightarrow> sending" where
  "newStepCmd g single = Inr (''step'', g_Session g, AStep (exec_args g single))"

definition newNextCmd :: "globals \<Rightarrow> bool \<Rightarrow> sending" where
  "newNextCmd g single = Inr (''next'', g_Session g, AStep (exec_args g single))"

definition newFinishCmd :: "globals \<Rightarrow> bool \<Rightarrow> sending" where
  "newFinishCmd g single = Inr (''finish'', g_Session g, AStep (exec_args g single))"

definition newPauseCmd :: "globals \<Rightarrow> sending" where
  "newPauseCmd g = Inr (''pause'', g_Session g, NoArgs)"

text \<open>A positive number, for \<open>until\<close> and \<open>fields\<close>.\<close>

definition positive_arg :: "string \<Rightarrow> string \<Rightarrow> string + int" where
  "positive_arg what a =
     (case cli_atoi a of Inr n \<Rightarrow> if 0 < n then Inr n else Inl (what @ a) | Inl _ \<Rightarrow> Inl (what @ a))"

definition newUntilCmd :: "globals \<Rightarrow> string \<Rightarrow> go_int \<Rightarrow> string + decimal \<Rightarrow> sending" where
  "newUntilCmd g a thread t =
     (case positive_arg ''invalid line: '' a of
        Inl e \<Rightarrow> Inl e
      | Inr n \<Rightarrow>
          with_timeout t (\<lambda>secs. Inr (''until'', g_Session g, AUntil \<lparr>ua_Line = n, ua_Thread = thread, ua_TimeoutSec = secs\<rparr>)))"

definition newStackCmd :: "globals \<Rightarrow> stack_args \<Rightarrow> sending" where
  "newStackCmd g f = Inr (''stack'', g_Session g, AStack f)"

definition newThreadsCmd :: "globals \<Rightarrow> sending" where
  "newThreadsCmd g = Inr (''threads'', g_Session g, NoArgs)"

definition newLocalsCmd :: "globals \<Rightarrow> go_int \<Rightarrow> sending" where
  "newLocalsCmd g frm = Inr (''locals'', g_Session g, ALocals \<lparr>lca_Frame = frm\<rparr>)"

definition newGlobalsCmd :: "globals \<Rightarrow> go_int \<Rightarrow> sending" where
  "newGlobalsCmd g frm = Inr (''globals'', g_Session g, AGlobals \<lparr>ga_Frame = frm\<rparr>)"

definition newFieldsCmd :: "globals \<Rightarrow> string \<Rightarrow> sending" where
  "newFieldsCmd g a =
     (case positive_arg ''invalid ref: '' a of
        Inl e \<Rightarrow> Inl e
      | Inr n \<Rightarrow> Inr (''fields'', g_Session g, AFields (fields_args_zero\<lparr>fa_Ref := n\<rparr>)))"

text \<open>The positional expression replaces that of the flag; the timeout of \<open>f\<close> is overwritten.\<close>

definition newPrintCmd :: "globals \<Rightarrow> print_args \<Rightarrow> string option \<Rightarrow> string + decimal \<Rightarrow> sending" where
  "newPrintCmd g f a t =
     (let expr = (case a of None \<Rightarrow> pa_Expression f | Some e \<Rightarrow> e) in
      if expr = [] \<and> pa_Ref f \<le> 0 then Inl ''print requires an <expr> argument or --ref N''
      else with_timeout t (\<lambda>secs. Inr (''print'', g_Session g,
             APrint (f\<lparr>pa_Expression := expr, pa_TimeoutSec := secs, pa_ShowSpecial := False\<rparr>))))"

definition newEvalCmd :: "globals \<Rightarrow> string \<Rightarrow> go_int \<Rightarrow> string + decimal \<Rightarrow> sending" where
  "newEvalCmd g a frm t =
     with_timeout t (\<lambda>secs. Inr (''eval'', g_Session g, AEval \<lparr>eva_Expression = a, eva_Frame = frm, eva_TimeoutSec = secs\<rparr>))"

definition newSetVarCmd :: "globals \<Rightarrow> string \<Rightarrow> string \<Rightarrow> go_int \<Rightarrow> sending" where
  "newSetVarCmd g name val frm = Inr (''set'', g_Session g, ASet \<lparr>sva_Name = name, sva_Value = val, sva_Frame = frm\<rparr>)"

definition newSnapshotCmd :: "globals \<Rightarrow> sending" where
  "newSnapshotCmd g = Inr (''snapshot'', g_Session g, NoArgs)"

definition newSourceCmd :: "globals \<Rightarrow> string \<Rightarrow> go_int \<Rightarrow> go_int \<Rightarrow> sending" where
  "newSourceCmd g fl line around =
     (let af = (if fl \<noteq> [] \<and> \<not> has_prefix fl ''/'' then cli_abs (g_wd g) fl else fl) in
      Inr (''source'', g_Session g, ASource (source_args_zero\<lparr>sra_File := af, sra_Line := line, sra_Around := around\<rparr>)))"

definition newOutputCmd :: "globals \<Rightarrow> output_args \<Rightarrow> sending" where
  "newOutputCmd g f = Inr (''output'', g_Session g, AOutput f)"

definition newEventsCmd :: "globals \<Rightarrow> events_args \<Rightarrow> sending" where
  "newEventsCmd g f = Inr (''events'', g_Session g, AEvents f)"

definition newAdaptersCmd :: sending where
  "newAdaptersCmd = Inr (''adapters'', [], NoArgs)"

text \<open>The command tree of \<open>NewRootCommand\<close>, as far as it talks to the daemon.\<close>

datatype invocation =
    IStart start_args | IAttach attach_args | IListen "string + decimal" | ISessions | IUse string
    | IStop "string option" | IRestart "string option" | IState "string option" | IBreak break_args
    | IBreakFn break_fn_args | IBreakEx "string list" | IWatch watch_flags "string list" | IBreaks
    | IUnbreak bool "string list" | IRun | IContinue bool | IStep bool | INext bool | IFinish bool | IPause
    | IUntil string go_int "string + decimal" | IStack stack_args | IThreads | ILocals go_int | IGlobals go_int
    | IFields string | IPrint print_args "string option" "string + decimal" | IEval string go_int "string + decimal"
    | ISet string string go_int | ISnapshot | ISource string go_int go_int | IOutput output_args | IEvents events_args
    | IAdapters

fun run_cli :: "globals \<Rightarrow> invocation \<Rightarrow> sending" where
  "run_cli g (IStart f) = newStartCmd g f"
| "run_cli g (IAttach f) = newAttachCmd g f"
| "run_cli g (IListen t) = newListenCmd g t"
| "run_cli g ISessions = newSessionsCmd"
| "run_cli g (IUse a) = newUseCmd a"
| "run_cli g (IStop a) = newStopCmd g a"
| "run_cli g (IRestart a) = newRestartCmd g a"
| "run_cli g (IState a) = newStateCmd g a"
| "run_cli g (IBreak f) = newBreakCmd g f"
| "run_cli g (IBreakFn f) = newBreakFnCmd g f"
| "run_cli g (IBreakEx a) = newBreakExCmd g a"
| "run_cli g (IWatch f a) = newWatchCmd g f a"
| "run_cli g IBreaks = newBreaksCmd g"
| "run_cli g (IUnbreak b a) = newUnbreakCmd g b a"
| "run_cli g IRun = newRunCmd g"
| "run_cli g (IContinue b) = newContinueCmd g b"
| "run_cli g (IStep b) = newStepCmd g b"
| "run_cli g (INext b) = newNextCmd g b"
| "run_cli g (IFinish b) = newFinishCmd g b"
| "run_cli g IPause = newPauseCmd g"
| "run_cli g (IUntil a n t) = newUntilCmd g a n t"
| "run_cli g (IStack f) = newStackCmd g f"
| "run_cli g IThreads = newThreadsCmd g"
| "run_cli g (ILocals n) = newLocalsCmd g n"
| "run_cli g (IGlobals n) = newGlobalsCmd g n"
| "run_cli g (IFields a) = newFieldsCmd g a"
| "run_cli g (IPrint f a t) = newPrintCmd g f a t"
| "run_cli g (IEval a n t) = newEvalCmd g a n t"
| "run_cli g (ISet a v n) = newSetVarCmd g a v n"
| "run_cli g ISnapshot = newSnapshotCmd g"
| "run_cli g (ISource a n k) = newSourceCmd g a n k"
| "run_cli g (IOutput f) = newOutputCmd g f"
| "run_cli g (IEvents f) = newEventsCmd g f"
| "run_cli g IAdapters = newAdaptersCmd"

lemmas cli_defs =
  newStartCmd_def newAttachCmd_def newListenCmd_def newSessionsCmd_def newUseCmd_def newStopCmd_def
  newRestartCmd_def newStateCmd_def newBreakCmd_def newBreakFnCmd_def newBreakExCmd_def newWatchCmd_def
  newBreaksCmd_def newUnbreakCmd_def newRunCmd_def newContinueCmd_def newStepCmd_def newNextCmd_def
  newFinishCmd_def newPauseCmd_def newUntilCmd_def newStackCmd_def newThreadsCmd_def newLocalsCmd_def
  newGlobalsCmd_def newFieldsCmd_def newPrintCmd_def newEvalCmd_def newSetVarCmd_def newSnapshotCmd_def
  newSourceCmd_def newOutputCmd_def newEventsCmd_def newAdaptersCmd_def

section \<open>The shell\<close>

text \<open>The loop of \<open>splitShell\<close>: words so far, the current word, in single and double quotes, anything seen.\<close>

fun split_loop :: "string list \<Rightarrow> string \<Rightarrow> bool \<Rightarrow> bool \<Rightarrow> bool \<Rightarrow> string \<Rightarrow> string list option" where
  "split_loop out cur inS inD seen [] = (if inS \<or> inD then None else Some (if seen then out @ [cur] else out))"
| "split_loop out cur inS inD seen (c # cs) =
     (if \<not> inS \<and> \<not> inD \<and> (c = CHR '' '' \<or> c = CHR 0x09) then
        (if seen then split_loop (out @ [cur]) [] inS inD False cs else split_loop out cur inS inD seen cs)
      else if \<not> inS \<and> c = CHR 0x5C \<and> cs \<noteq> [] then split_loop out (cur @ [hd cs]) inS inD True (tl cs)
      else if \<not> inD \<and> c = CHR 0x27 then split_loop out cur (\<not> inS) inD True cs
      else if \<not> inS \<and> c = CHR 0x22 then split_loop out cur inS (\<not> inD) True cs
      else split_loop out (cur @ [c]) inS inD True cs)"

definition splitShell :: "string \<Rightarrow> string list option" where
  "splitShell s = split_loop [] [] False False False s"

text \<open>What \<open>runRepl\<close> does with one line: skip it, leave, complain, or run a command.\<close>

datatype repl_action = ReplSkip | ReplExit | ReplParseError | ReplNested | ReplRun "string list"

definition repl_line :: "string \<Rightarrow> repl_action" where
  "repl_line raw =
     (let l = trim_space raw in
      if l = [] \<or> has_prefix l ''#'' then ReplSkip
      else if l = ''exit'' \<or> l = ''quit'' then ReplExit
      else (case splitShell (if has_prefix l ''!'' then trim_space (tl l) else l) of
              None \<Rightarrow> ReplParseError
            | Some [] \<Rightarrow> ReplSkip
            | Some (w # ws) \<Rightarrow> if w = ''repl'' then ReplNested else ReplRun (w # ws)))"

datatype cli_error = UsageError string | OtherError string

definition ExitCodeFor :: "cli_error option \<Rightarrow> nat" where
  "ExitCodeFor e = (case e of None \<Rightarrow> 0 | Some (UsageError _) \<Rightarrow> 2 | Some (OtherError _) \<Rightarrow> 1)"

end
