(* ===== verification/Cli_Props.thy ===== *)
theory Cli_Props
  imports Cli Mcp_Tools Server
begin

text \<open>
  Properties of the command-line client: its numbers wrap around, its words split as they were quoted,
  its paths are absolute, and every command it sends is one the daemon knows.
\<close>

section \<open>Numbers\<close>

lemma wrap64_mod_eq: "a mod 2 ^ 64 = b mod 2 ^ 64 \<Longrightarrow> wrap64 a = wrap64 b"
  by (simp add: wrap64_def mod_add_cong)

lemma wrap64_mod: "wrap64 a mod 2 ^ 64 = a mod 2 ^ 64"
  by (simp add: wrap64_def mod_diff_left_eq)

lemma wrap64_step: "wrap64 (wrap64 a * 10 + d) = wrap64 (a * 10 + d)"
  by (intro wrap64_mod_eq mod_add_cong mod_mult_cong wrap64_mod refl)

text \<open>
  \<open>atoi\<close> of the client accepts every non-empty string of digits and gives its value modulo 2^64,
  as a signed number: it never reports an overflow.
\<close>

theorem cli_atoi_wraps:
  assumes "s \<noteq> []" "list_all is_digit s"
  shows "cli_atoi s = Inr (wrap64 (int (digits_value s)))"
proof -
  have step: "atoi_digits (wrap64 (int m)) ds = Inr (wrap64 (int (foldl (\<lambda>n c. 10 * n + (char_code c - 48)) m ds)))"
    if "list_all is_digit ds" for m ds
    using that
  proof (induction ds arbitrary: m)
    case (Cons d ds)
    have "wrap64 (wrap64 (int m) * 10 + int (char_code d - 48)) = wrap64 (int (10 * m + (char_code d - 48)))"
      by (simp add: wrap64_step mult.commute)
    with Cons.prems Cons.IH [of "10 * m + (char_code d - 48)"] show ?case by simp
  qed simp
  have "wrap64 0 = 0" by (simp add: wrap64_def)
  then show ?thesis using assms step [of s 0] by (simp add: cli_atoi_def digits_value_def)
qed

theorem cli_atoi_wraps_witness: "cli_atoi ''18446744073709551617'' = Inr 1"
proof -
  have "digits_value ''18446744073709551617'' = 18446744073709551617"
    by (simp add: digits_value_def char_code_def)
  moreover have "list_all is_digit ''18446744073709551617''" by (simp add: is_digit_def char_code_def)
  ultimately show ?thesis
    using cli_atoi_wraps [of "''18446744073709551617''"] by (simp add: wrap64_def)
qed

section \<open>Words of the shell\<close>

text \<open>The usual quoting of a word: single quotes around it, and each single quote in it as \<open>'\''\<close>.\<close>

definition quote_char :: "char \<Rightarrow> string" where
  "quote_char c = (if c = CHR 0x27 then [CHR 0x27, CHR 0x5C, CHR 0x27, CHR 0x27] else [c])"

definition shell_quote :: "string \<Rightarrow> string" where
  "shell_quote w = CHR 0x27 # concat (map quote_char w) @ [CHR 0x27]"

lemma split_quoted_chars:
  "split_loop out cur True False seen (concat (map quote_char w) @ CHR 0x27 # rest) =
     split_loop out (cur @ w) False False True rest"
  by (induction w arbitrary: cur seen) (simp_all add: quote_char_def)

lemma split_quoted_word:
  "split_loop out [] False False False (shell_quote w @ rest) = split_loop out w False False True rest"
  by (simp add: shell_quote_def split_quoted_chars)

text \<open>
  Words that are quoted the usual way and joined with spaces split into the same words, whatever
  bytes they hold, quotes, backslashes and empty words included.
\<close>

theorem split_shell_round_trip: "splitShell (join_with '' '' (map shell_quote ws)) = Some ws"
proof -
  have loop: "split_loop out w False False True (concat (map (\<lambda>w. CHR '' '' # shell_quote w) ws)) = Some (out @ w # ws)" for out w ws
    by (induction ws arbitrary: out w) (simp_all add: split_quoted_word)
  have "join_with '' '' (map shell_quote (w # ws)) = shell_quote w @ concat (map (\<lambda>w. CHR '' '' # shell_quote w) ws)" for w ws
    by (induction ws arbitrary: w) simp_all
  then show ?thesis
    using loop [where out = "[]"] by (cases ws) (simp_all add: splitShell_def split_quoted_word)
qed

section \<open>Commands\<close>

definition cli_command_names :: "string list" where
  "cli_command_names =
     [''start'', ''attach'', ''listen'', ''sessions'', ''use'', ''stop'', ''restart'', ''state'', ''break'', ''break-fn'',
      ''break-ex'', ''watch'', ''breaks'', ''unbreak'', ''continue'', ''step'', ''next'', ''finish'', ''pause'', ''until'',
      ''stack'', ''threads'', ''locals'', ''globals'', ''fields'', ''print'', ''eval'', ''set'', ''snapshot'', ''source'',
      ''output'', ''events'', ''adapters'']"

text \<open>The command of a request, if there is one.\<close>

fun sent_cmd :: "sending \<Rightarrow> string option" where
  "sent_cmd (Inl e) = None"
| "sent_cmd (Inr (cmd, sid, a)) = Some cmd"

definition sends :: "string \<Rightarrow> sending \<Rightarrow> bool" where
  "sends c r \<longleftrightarrow> sent_cmd r = None \<or> sent_cmd r = Some c"

lemma sends_simps [simp]:
  "sends c (Inl e)"
  "sends c (Inr (c', sid, a)) \<longleftrightarrow> c' = c"
  "sends c (if b then r else r') \<longleftrightarrow> (if b then sends c r else sends c r')"
  "sends c (Let v k) \<longleftrightarrow> sends c (k v)"
  by (simp_all add: sends_def)

lemma sends_with_timeout [simp]: "(\<And>d. sends c (k d)) \<Longrightarrow> sends c (with_timeout t k)"
  by (cases t) (simp_all add: with_timeout_def)

lemma sends_case [simp]: "(\<And>d. sends c (k d)) \<Longrightarrow> sends c (case t of Inl e \<Rightarrow> Inl e | Inr d \<Rightarrow> k d)"
  by (cases t) simp_all

lemma run_cli_sends: "\<exists>c \<in> set cli_command_names. sends c (run_cli g i)"
  by (cases i) (simp_all add: cli_command_names_def cli_defs)

lemma cli_names_known: "list_all (\<lambda>c. map_of commands c \<noteq> None) cli_command_names"
  by (simp add: cli_command_names_def commands_def)

lemma cli_commands_known: "run_cli g i = Inr (cmd, sid, a) \<Longrightarrow> map_of commands cmd \<noteq> None"
  using run_cli_sends [of g i] cli_names_known by (auto simp: list_all_iff)

lemma sends_tool [simp]:
  "sends cmd (strict_tool cmd fs z con raw)" "sends cmd (decode_tool cmd fs z con raw)"
  "sends cmd (lax_tool cmd fs z con raw)" "sends cmd (bare_tool cmd a raw)"
  "sends ''start'' (translate_start raw)" "sends ''attach'' (translate_attach raw)"
  by (auto simp: strict_tool_def decode_tool_def lax_tool_def bare_tool_def translate_start_def translate_attach_def
      split: prod.split option.split)

definition mcp_command_names :: "string list" where
  "mcp_command_names =
     [''start'', ''attach'', ''break'', ''break-fn'', ''break-ex'', ''continue'', ''step'', ''next'', ''finish'',
      ''pause'', ''until'', ''stack'', ''threads'', ''breaks'', ''unbreak'', ''set'', ''locals'', ''globals'',
      ''fields'', ''eval'', ''watch'', ''source'', ''output'', ''events'', ''listen'', ''snapshot'', ''state'',
      ''restart'', ''stop'', ''sessions'', ''adapters'', ''print'']"

definition tool_sends :: "string list \<Rightarrow> tool \<Rightarrow> bool" where
  "tool_sends cs t \<longleftrightarrow> (case t_action t of Translate tr \<Rightarrow> (\<exists>c \<in> set cs. \<forall>raw. sends c (tr raw)) | Handler h \<Rightarrow> True)"

lemma tools_send: "list_all (tool_sends mcp_command_names) toolRegistry"
  by (simp add: toolRegistry_def tool_sends_def tool_defs mk_tool_def mcp_command_names_def)

lemma mcp_names_known: "list_all (\<lambda>c. map_of commands c \<noteq> None) mcp_command_names"
  by (simp add: mcp_command_names_def commands_def)

lemma mcp_commands_known:
  assumes "t \<in> set toolRegistry" "t_action t = Translate tr" "tr raw = Inr (cmd, sid, a)"
  shows "map_of commands cmd \<noteq> None"
proof -
  have "tool_sends mcp_command_names t"
    using tools_send assms(1) by (simp add: list_all_iff)
  then obtain c where "c \<in> set mcp_command_names" "sends c (tr raw)"
    using assms(2) by (auto simp: tool_sends_def)
  with assms(3) mcp_names_known show ?thesis by (auto simp: list_all_iff)
qed

text \<open>
  Every command a client sends, from the command line or for an MCP tool, is one the daemon
  dispatches: no client request is answered with \<open>UNKNOWN_COMMAND\<close>.
\<close>

theorem clients_send_known_commands:
  assumes "run_cli g i = Inr (cmd, sid, a) \<or>
    (\<exists>t tr raw. t \<in> set toolRegistry \<and> t_action t = Translate tr \<and> tr raw = Inr (cmd, sid, a))"
  shows "\<exists>c. map_of commands cmd = Some c \<and>
    dispatch env \<lparr>rq_ID = n, rq_Cmd = cmd, rq_Sess = sid, rq_Args = rawJSON a\<rparr> =
      run_cmd env c \<lparr>rq_ID = n, rq_Cmd = cmd, rq_Sess = sid, rq_Args = rawJSON a\<rparr>"
proof -
  have "map_of commands cmd \<noteq> None"
    using assms cli_commands_known mcp_commands_known by metis
  then show ?thesis by (auto simp: dispatch_def)
qed

theorem clients_send_known_commands_witness:
  "\<exists>c. map_of commands ''stop'' = Some c"
  using clients_send_known_commands [of "\<lparr>g_Session = ''s'', g_Timeout = Inr (Dec 30 0), g_wd = None\<rparr>" "IStop None" "''stop''" "''s''" NoArgs]
  by (auto simp: newStopCmd_def session_arg_def)

text \<open>
  The client resolves the paths of a launch before it sends them: program, working directory and
  source roots arrive absolute, or empty. The class path is treated as one path, so of a relative
  colon-separated list only the first entry becomes absolute.
\<close>

theorem cli_start_paths:
  assumes "newStartCmd g f = Inr (cmd, sid, AStart a)" "g_wd g = Some wd" "is_abs wd"
  shows "list_all (\<lambda>p. p = [] \<or> is_abs p) (sa_Program a # sa_Cwd a # sa_SourceRoots a)"
proof -
  have ok: "cwd_ok (g_wd g)" using assms(2,3) by (simp add: cwd_ok_def)
  have abs: "cli_abs (g_wd g) p = [] \<or> is_abs (cli_abs (g_wd g) p)" for p
    using abs_path_comps [OF ok, of p] assms(2)
    by (auto simp: cli_abs_def abs_comps_def split: option.split)
  have a: "sa_Program a = cli_abs (g_wd g) (sa_Program f)" "sa_Cwd a = cli_abs (g_wd g) (sa_Cwd f)"
    "sa_SourceRoots a = absAll (g_wd g) (sa_SourceRoots f)"
    using assms(1) by (auto simp: newStartCmd_def split: if_split_asm)
  show ?thesis unfolding a using abs by (simp add: absAll_def list_all_iff)
qed

theorem cli_start_paths_witness:
  "case newStartCmd \<lparr>g_Session = [], g_Timeout = Inr (Dec 30 0), g_wd = Some ''/w''\<rparr>
      (start_args_zero\<lparr>sa_Lang := ''java'', sa_MainClass := ''M'', sa_Program := ''app'', sa_Classpath := ''a.jar:b.jar''\<rparr>) of
     Inr (cmd, sid, AStart a) \<Rightarrow> is_abs (sa_Program a) \<and> sa_Classpath a = ''/w/a.jar:b.jar''
   | _ \<Rightarrow> False"
proof -
  let ?g = "\<lparr>g_Session = [], g_Timeout = Inr (Dec 30 0), g_wd = Some ''/w''\<rparr>"
  let ?f = "start_args_zero\<lparr>sa_Lang := ''java'', sa_MainClass := ''M'', sa_Program := ''app'', sa_Classpath := ''a.jar:b.jar''\<rparr>"
  let ?a = "?f\<lparr>sa_Program := ''/w/app'', sa_Classpath := ''/w/a.jar:b.jar''\<rparr>"
  have "newStartCmd ?g ?f = Inr (''start'', [], AStart ?a)" "is_abs ''/w''" by code_simp+
  with cli_start_paths [of ?g ?f "''start''" "[]" ?a "''/w''"] show ?thesis by simp
qed

end
