(* ===== verification/Waiting.thy ===== *)
theory Waiting
  imports Main
begin

text \<open>
  Loops that poll until a deadline: the client's waits for the daemon and the daemon's wait for an adapter. Time is in
  nanoseconds. A round takes the time of its probe and then sleeps, so the number of rounds is bounded
  however fast the probes are; the locale states this once for every loop.
\<close>

definition millis :: "int \<Rightarrow> int" where
  "millis n = n * 10 ^ 6"

text \<open>The clock after \<open>time.Sleep\<close>, which returns at once when it is given nothing to wait for.\<close>

definition after_sleep :: "int \<Rightarrow> int \<Rightarrow> int" where
  "after_sleep d clock = clock + max 0 d"

text \<open>One attempt to connect: whether it succeeds, and how long it takes.\<close>

record dial_round =
  dr_connects :: bool
  dr_took :: nat

text \<open>
  The rounds \<open>i\<close> up to \<open>n\<close>, of which the last starts before the deadline and every other one takes as long as the
  pause, fit into the time that is left.
\<close>

definition rounds_fit :: "int \<Rightarrow> int \<Rightarrow> nat \<Rightarrow> nat \<Rightarrow> bool" where
  "rounds_fit pause time_left i n \<longleftrightarrow> n \<le> i \<or> (int n - int i - 1) * pause < time_left"

lemma rounds_fit_step:
  assumes "0 < pause" "0 < t" "rounds_fit pause t' (Suc i) n" "t' \<le> t - pause \<or> t' \<le> 0"
  shows "rounds_fit pause t i n"
proof (cases "n \<le> Suc i")
  case True
  then have "(int n - int i - 1) * pause \<le> 0" using assms(1) by (simp add: mult_nonpos_nonneg)
  then show ?thesis using assms(2) by (simp add: rounds_fit_def)
next
  case False
  then have r: "(int n - int i - 2) * pause < t'" using assms(3) by (simp add: rounds_fit_def algebra_simps)
  have "0 \<le> (int n - int i - 2) * pause" using False assms(1) by (intro mult_nonneg_nonneg) auto
  then have "t' \<le> t - pause" using r assms(4) by linarith
  then show ?thesis using r by (simp add: rounds_fit_def algebra_simps)
qed

text \<open>
  A loop is given by the number of rounds it has made when it ends, from round \<open>i\<close> at some time on. It
  makes no round after the deadline; before it, a round is the last one or is followed by another, later by
  the pause or past the deadline.
\<close>

locale polling =
  fixes count :: "nat \<Rightarrow> int \<Rightarrow> nat" and pause deadline :: int
  assumes pause: "0 < pause"
    and over: "deadline \<le> t \<Longrightarrow> count i t = i"
    and round: "t < deadline \<Longrightarrow>
      count i t = Suc i \<or> (\<exists>t'. (t + pause \<le> t' \<or> deadline \<le> t') \<and> count i t = count (Suc i) t')"
begin

lemma fits: "rounds_fit pause (deadline - t) i (count i t)"
proof (induction "nat (deadline - t)" arbitrary: i t rule: less_induct)
  case less
  show ?case
  proof (cases "t < deadline")
    case True
    consider "count i t = Suc i" | t' where "t + pause \<le> t' \<or> deadline \<le> t'" "count i t = count (Suc i) t'"
      using round [OF True] by blast
    then show ?thesis
    proof cases
      case 1
      then show ?thesis using True by (simp add: rounds_fit_def)
    next
      case 2
      have "rounds_fit pause (deadline - t') (Suc i) (count (Suc i) t')"
        using less 2(1) True pause by auto
      then show ?thesis using rounds_fit_step [OF pause] 2 True by (simp add: 2(2)) (smt (verit))
    qed
  qed (simp add: over rounds_fit_def)
qed

text \<open>With \<open>n\<close> pauses up to the deadline there are at most \<open>n\<close> rounds.\<close>

lemma bounded:
  assumes "deadline - t \<le> int n * pause"
  shows "count 0 t \<le> n"
proof (rule ccontr)
  assume "\<not> count 0 t \<le> n"
  then have "int n * pause \<le> (int (count 0 t) - 1) * pause" using pause by (intro mult_right_mono) auto
  moreover have "(int (count 0 t) - 1) * pause < deadline - t"
    using fits [of t 0] \<open>\<not> count 0 t \<le> n\<close> by (auto simp: rounds_fit_def)
  ultimately show False using assms by linarith
qed

end

end
