(* ===== verification/Go_Text.thy ===== *)
theory Go_Text
  imports Go_Strings
begin

text \<open>
  Text as Go's standard library treats it: the runes of a byte string (\<open>unicode/utf8\<close>), the string
  literals of \<open>json.Marshal\<close> and the reading of a double-quoted literal by \<open>strconv.Unquote\<close>. The
  lemma \<open>unquote_json_quote\<close> says that the second undoes the first on valid UTF-8.
\<close>

section \<open>UTF-8\<close>

definition byte_in :: "nat \<Rightarrow> nat \<Rightarrow> char \<Rightarrow> bool" where
  "byte_in lo hi c \<longleftrightarrow> lo \<le> char_code c \<and> char_code c \<le> hi"

abbreviation cont_byte :: "char \<Rightarrow> bool" where
  "cont_byte \<equiv> byte_in 0x80 0xBF"

text \<open>The tails a first byte allows: the ranges of the following bytes.\<close>

definition tail_ranges :: "char \<Rightarrow> (char \<Rightarrow> bool) list option" where
  "tail_ranges c =
     (if byte_in 0 0x7F c then Some []
      else if byte_in 0xC2 0xDF c then Some [cont_byte]
      else if byte_in 0xE0 0xE0 c then Some [byte_in 0xA0 0xBF, cont_byte]
      else if byte_in 0xED 0xED c then Some [byte_in 0x80 0x9F, cont_byte]
      else if byte_in 0xE1 0xEF c then Some [cont_byte, cont_byte]
      else if byte_in 0xF0 0xF0 c then Some [byte_in 0x90 0xBF, cont_byte, cont_byte]
      else if byte_in 0xF1 0xF3 c then Some [cont_byte, cont_byte, cont_byte]
      else if byte_in 0xF4 0xF4 c then Some [byte_in 0x80 0x8F, cont_byte, cont_byte]
      else None)"

text \<open>\<open>DecodeRuneInString\<close>: how many bytes follow the first one in its rune, if they form one.\<close>

definition rune_tail :: "char \<Rightarrow> string \<Rightarrow> nat option" where
  "rune_tail c cs =
     (case tail_ranges c of
        None \<Rightarrow> None
      | Some ps \<Rightarrow>
          if length ps \<le> length cs \<and> list_all (\<lambda>(p, d). p d) (zip ps cs) then Some (length ps) else None)"

text \<open>A byte string as \<open>range\<close> sees it: runes, and bytes that begin none.\<close>

datatype rune = Rune string | BadByte char

function runes :: "string \<Rightarrow> rune list" where
  "runes [] = []"
| "runes (c # cs) =
     (case rune_tail c cs of
        None \<Rightarrow> BadByte c # runes cs
      | Some n \<Rightarrow> Rune (c # take n cs) # runes (drop n cs))"
  by pat_completeness auto

termination
  by (relation "measure length") auto

definition utf8_valid :: "string \<Rightarrow> bool" where
  "utf8_valid s \<longleftrightarrow> list_all (\<lambda>r. case r of Rune _ \<Rightarrow> True | BadByte _ \<Rightarrow> False) (runes s)"

text \<open>\<open>utf8.AppendRune\<close>, for a code point that \<open>utf8.ValidRune\<close> accepts.\<close>

definition valid_rune :: "nat \<Rightarrow> bool" where
  "valid_rune v \<longleftrightarrow> v < 0xD800 \<or> 0xDFFF < v \<and> v \<le> 0x10FFFF"

definition encode_rune :: "nat \<Rightarrow> string" where
  "encode_rune v =
     (if v < 0x80 then [char_of v]
      else if v < 0x800 then [char_of (0xC0 + v div 0x40), char_of (0x80 + v mod 0x40)]
      else if v < 0x10000 then
        [char_of (0xE0 + v div 0x1000), char_of (0x80 + v div 0x40 mod 0x40), char_of (0x80 + v mod 0x40)]
      else [char_of (0xF0 + v div 0x40000), char_of (0x80 + v div 0x1000 mod 0x40), char_of (0x80 + v div 0x40 mod 0x40),
            char_of (0x80 + v mod 0x40)])"

section \<open>String literals of \<open>json.Marshal\<close>\<close>

definition hex4 :: "nat \<Rightarrow> string" where
  "hex4 v = [hex_digit (v div 0x1000), hex_digit (v div 0x100 mod 16), hex_digit (v div 16 mod 16), hex_digit (v mod 16)]"

definition u_escape :: "nat \<Rightarrow> string" where
  "u_escape v = CHR 0x5C # CHR ''u'' # hex4 v"

definition json_ascii :: "char \<Rightarrow> string" where
  "json_ascii c =
     (let n = char_code c in
      if c = CHR 0x22 \<or> c = CHR 0x5C then [CHR 0x5C, c]
      else if n = 8 then [CHR 0x5C, CHR ''b'']
      else if n = 12 then [CHR 0x5C, CHR ''f'']
      else if n = 10 then [CHR 0x5C, CHR ''n'']
      else if n = 13 then [CHR 0x5C, CHR ''r'']
      else if n = 9 then [CHR 0x5C, CHR ''t'']
      else if n < 32 \<or> c = CHR ''<'' \<or> c = CHR ''>'' \<or> c = CHR ''&'' then u_escape n
      else [c])"

definition line_separators :: "string list" where
  "line_separators = [[CHR 0xE2, CHR 0x80, CHR 0xA8], [CHR 0xE2, CHR 0x80, CHR 0xA9]]"

fun json_rune :: "rune \<Rightarrow> string" where
  "json_rune (BadByte c) = u_escape 0xFFFD"
| "json_rune (Rune r) =
     (case r of
        [c] \<Rightarrow> json_ascii c
      | _ \<Rightarrow> if r = line_separators ! 0 then u_escape 0x2028
             else if r = line_separators ! 1 then u_escape 0x2029 else r)"

definition json_quote :: "string \<Rightarrow> string" where
  "json_quote s = CHR 0x22 # concat (map json_rune (runes s)) @ [CHR 0x22]"

section \<open>\<open>strconv.Unquote\<close> on a double-quoted literal\<close>

definition unhex :: "char \<Rightarrow> nat option" where
  "unhex c =
     (let n = char_code c in
      if is_digit c then Some (n - 48)
      else if 97 \<le> n \<and> n \<le> 102 then Some (n - 87)
      else if 65 \<le> n \<and> n \<le> 70 then Some (n - 55)
      else None)"

fun base_value :: "nat \<Rightarrow> (char \<Rightarrow> nat option) \<Rightarrow> nat \<Rightarrow> string \<Rightarrow> nat option" where
  "base_value b dig v [] = Some v"
| "base_value b dig v (c # cs) = (case dig c of None \<Rightarrow> None | Some x \<Rightarrow> base_value b dig (v * b + x) cs)"

definition octal :: "char \<Rightarrow> nat option" where
  "octal c = (if byte_in 48 55 c then Some (char_code c - 48) else None)"

text \<open>One digit group of an escape: so many digits, then what to append.\<close>

definition escape_digits ::
  "nat \<Rightarrow> nat \<Rightarrow> (char \<Rightarrow> nat option) \<Rightarrow> (nat \<Rightarrow> string option) \<Rightarrow> string \<Rightarrow> (string \<times> string) option" where
  "escape_digits n b dig out cs =
     (if length cs < n then None
      else case base_value b dig 0 (take n cs) of
             None \<Rightarrow> None
           | Some v \<Rightarrow> map_option (\<lambda>s. (s, drop n cs)) (out v))"

definition out_rune :: "nat \<Rightarrow> string option" where
  "out_rune v = (if valid_rune v then Some (encode_rune v) else None)"

definition out_byte :: "nat \<Rightarrow> string option" where
  "out_byte v = (if v < 256 then Some [char_of v] else None)"

definition simple_escapes :: "(char \<times> char) list" where
  "simple_escapes =
     [(CHR ''a'', CHR 0x07), (CHR ''b'', CHR 0x08), (CHR ''f'', CHR 0x0C), (CHR ''n'', CHR 0x0A), (CHR ''r'', CHR 0x0D),
      (CHR ''t'', CHR 0x09), (CHR ''v'', CHR 0x0B), (CHR 0x5C, CHR 0x5C), (CHR 0x22, CHR 0x22)]"

text \<open>\<open>UnquoteChar\<close>: the bytes the next character stands for, and what follows it.\<close>

definition unquote_escape :: "char \<Rightarrow> string \<Rightarrow> (string \<times> string) option" where
  "unquote_escape c cs =
     (case map_of simple_escapes c of
        Some d \<Rightarrow> Some ([d], cs)
      | None \<Rightarrow>
          if c = CHR ''x'' then escape_digits 2 16 unhex out_byte cs
          else if c = CHR ''u'' then escape_digits 4 16 unhex out_rune cs
          else if c = CHR ''U'' then escape_digits 8 16 unhex out_rune cs
          else if byte_in 48 55 c then escape_digits 3 8 octal out_byte (c # cs)
          else None)"

fun unquote_char :: "string \<Rightarrow> (string \<times> string) option" where
  "unquote_char [] = None"
| "unquote_char (c # cs) =
     (if c = CHR 0x0A then None
      else if c = CHR 0x5C then (case cs of [] \<Rightarrow> None | d # ds \<Rightarrow> unquote_escape d ds)
      else case rune_tail c cs of
             None \<Rightarrow> Some ([CHR 0xEF, CHR 0xBF, CHR 0xBD], cs)
           | Some n \<Rightarrow> Some (c # take n cs, drop n cs))"

lemma escape_digits_shorter: "escape_digits n b dig out cs = Some (s, rest) \<Longrightarrow> length rest \<le> length cs"
  by (auto simp: escape_digits_def split: if_splits option.splits)

lemma unquote_char_shorter: "unquote_char s = Some (bs, rest) \<Longrightarrow> length rest < length s"
proof (cases s)
  case (Cons c cs)
  assume "unquote_char s = Some (bs, rest)"
  moreover have "length rest \<le> length ds" if "unquote_escape d ds = Some (bs, rest)" for d ds
    using that escape_digits_shorter [of 3 8 octal out_byte "d # ds" bs rest]
    by (auto simp: unquote_escape_def dest: escape_digits_shorter split: option.splits if_splits)
      (auto simp: escape_digits_def split: if_splits option.splits)
  ultimately show ?thesis using Cons by (auto split: if_splits option.splits list.splits) fastforce+
qed simp

text \<open>The loop of \<open>unquote\<close>, after the opening quote: up to a closing quote at the very end.\<close>

function unquote_loop :: "string \<Rightarrow> string option" where
  "unquote_loop s =
     (if s = [] then None
      else if hd s = CHR 0x22 then (if tl s = [] then Some [] else None)
      else case unquote_char s of
             None \<Rightarrow> None
           | Some (bs, rest) \<Rightarrow> map_option (\<lambda>out. bs @ out) (unquote_loop rest))"
  by pat_completeness auto

termination
  by (relation "measure length") (auto dest: unquote_char_shorter)

declare unquote_loop.simps [simp del]

definition unquote :: "string \<Rightarrow> string option" where
  "unquote s = (case s of [] \<Rightarrow> None | c # cs \<Rightarrow> if c = CHR 0x22 then unquote_loop cs else None)"

section \<open>Reading back what was quoted\<close>

lemma char_code_of [simp]: "n < 256 \<Longrightarrow> char_code (char_of n) = n"
  by (simp add: char_code_def)

lemma unhex_hex_digit: "n < 16 \<Longrightarrow> unhex (hex_digit n) = Some n"
  by (simp add: unhex_def hex_digit_def is_digit_def Let_def)

lemma hex4_value: "((v div 0x1000 * 16 + v div 0x100 mod 16) * 16 + v div 16 mod 16) * 16 + v mod 16 = (v :: nat)"
proof -
  have "v div 0x1000 = v div 0x100 div 16" "v div 0x100 = v div 16 div 16" by (simp_all add: div_mult2_eq [symmetric])
  then show ?thesis by (metis div_mult_mod_eq)
qed

lemma base_value_hex4: "v < 0x10000 \<Longrightarrow> base_value 16 unhex 0 (hex4 v) = Some v"
proof -
  assume v: "v < 0x10000"
  have "v div 0x1000 < 16" using v by (simp add: less_mult_imp_div_less)
  then show ?thesis using hex4_value [of v] by (simp add: hex4_def unhex_hex_digit)
qed

lemma unquote_loop_step:
  "s \<noteq> [] \<Longrightarrow> hd s \<noteq> CHR 0x22 \<Longrightarrow> unquote_char s = Some (bs, rest) \<Longrightarrow> unquote_loop s = map_option ((@) bs) (unquote_loop rest)"
  by (subst unquote_loop.simps) simp

lemma unquote_u_escape:
  assumes "v < 0x10000" "valid_rune v"
  shows "unquote_loop (u_escape v @ rest) = map_option ((@) (encode_rune v)) (unquote_loop rest)"
proof -
  have "length (hex4 v) = 4" by (simp add: hex4_def)
  then have "escape_digits 4 16 unhex out_rune (hex4 v @ rest) = Some (encode_rune v, rest)"
    using assms by (simp add: escape_digits_def base_value_hex4 out_rune_def)
  then have "unquote_char (u_escape v @ rest) = Some (encode_rune v, rest)"
    by (simp add: u_escape_def unquote_escape_def simple_escapes_def)
  then show ?thesis by (intro unquote_loop_step) (simp_all add: u_escape_def)
qed

lemma char_of_code [simp]: "char_of (char_code c) = c"
  by (simp add: char_code_def)

lemma char_code_eq: "c = d \<longleftrightarrow> char_code c = char_code d"
  by (metis char_of_code)

lemma rune_tail_ascii: "byte_in 0 0x7F c \<Longrightarrow> rune_tail c cs = Some 0"
  by (simp add: rune_tail_def tail_ranges_def)

lemma zip_take_same: "zip xs (take (length xs) ys) = zip xs ys"
proof (induction xs arbitrary: ys)
  case (Cons x xs)
  then show ?case by (cases ys) simp_all
qed simp

lemma rune_tail_take:
  assumes "rune_tail c cs = Some n"
  shows "rune_tail c (take n cs @ rest) = Some n \<and> n \<le> length cs"
proof -
  obtain ps where ps: "tail_ranges c = Some ps" "length ps \<le> length cs" "list_all (\<lambda>(p, d). p d) (zip ps cs)" "n = length ps"
    using assms by (auto simp: rune_tail_def split: option.splits if_splits)
  then have "zip ps (take n cs @ rest) = zip ps cs" by (simp add: zip_append2 zip_take_same)
  then show ?thesis using ps by (simp add: rune_tail_def)
qed

lemma unquote_plain_rune:
  assumes "rune_tail c cs = Some n" "c \<noteq> CHR 0x22" "c \<noteq> CHR 0x5C" "c \<noteq> CHR 0x0A"
  shows "unquote_loop (c # take n cs @ rest) = map_option ((@) (c # take n cs)) (unquote_loop rest)"
  using assms rune_tail_take [OF assms(1), of rest] by (intro unquote_loop_step) simp_all

lemma unquote_simple:
  assumes "map_of simple_escapes d = Some c"
  shows "unquote_loop (CHR 0x5C # d # rest) = map_option ((@) [c]) (unquote_loop rest)"
  using assms by (intro unquote_loop_step) (simp_all add: unquote_escape_def)

text \<open>How \<open>json.Marshal\<close> writes an ASCII character: a backslash and a letter, four hexadecimal digits, or itself.\<close>

lemma json_ascii_cases [case_names escaped hex plain]:
  obtains d where "json_ascii c = [CHR 0x5C, d]"
      "(c, d) \<in> {(CHR 0x22, CHR 0x22), (CHR 0x5C, CHR 0x5C), (CHR 0x08, CHR ''b''), (CHR 0x09, CHR ''t''), (CHR 0x0A, CHR ''n''),
        (CHR 0x0C, CHR ''f''), (CHR 0x0D, CHR ''r'')}"
    | "json_ascii c = u_escape (char_code c)"
    | "json_ascii c = [c]" "c \<noteq> CHR 0x22" "c \<noteq> CHR 0x5C" "0x20 \<le> char_code c"
proof -
  let ?n = "char_code c"
  consider (lit) "c = CHR 0x22 \<or> c = CHR 0x5C" | (named) "?n \<in> {8, 9, 10, 12, 13}"
    | (hex) "c \<noteq> CHR 0x22" "c \<noteq> CHR 0x5C" "?n \<notin> {8, 9, 10, 12, 13}" "?n < 32 \<or> c = CHR ''<'' \<or> c = CHR ''>'' \<or> c = CHR ''&''"
    | (plain) "c \<noteq> CHR 0x22" "c \<noteq> CHR 0x5C" "\<not> ?n < 32" "c \<noteq> CHR ''<''" "c \<noteq> CHR ''>''" "c \<noteq> CHR ''&''"
    by blast
  then show ?thesis
  proof cases
    case lit
    then show ?thesis using that(1) [of c] by (auto simp: json_ascii_def)
  next
    case named
    then have "c = CHR 0x08 \<or> c = CHR 0x09 \<or> c = CHR 0x0A \<or> c = CHR 0x0C \<or> c = CHR 0x0D"
      by (simp add: char_code_eq char_code_def)
    then show ?thesis using that(1) by (auto simp: json_ascii_def char_code_def)
  next
    case hex
    then show ?thesis using that(2) by (simp add: json_ascii_def Let_def)
  next
    case plain
    then show ?thesis using that(3) by (simp add: json_ascii_def Let_def)
  qed
qed

lemma unquote_ascii:
  assumes "byte_in 0 0x7F c"
  shows "unquote_loop (json_ascii c @ rest) = map_option ((@) [c]) (unquote_loop rest)"
proof (cases c rule: json_ascii_cases)
  case (escaped d)
  then have "map_of simple_escapes d = Some c" by (auto simp: simple_escapes_def)
  then show ?thesis using unquote_simple escaped by simp
next
  case hex
  have "char_code c < 0x80" using assms by (simp add: byte_in_def)
  then have "char_code c < 0x10000" "valid_rune (char_code c)" "encode_rune (char_code c) = [c]"
    by (simp_all add: valid_rune_def encode_rune_def)
  then show ?thesis using unquote_u_escape [of "char_code c" rest] hex by simp
next
  case plain
  have "c \<noteq> CHR 0x0A" using plain(4) by (auto simp: char_code_def)
  then show ?thesis using unquote_plain_rune [OF rune_tail_ascii [OF assms, of "[]"] plain(2,3), of rest] plain(1) by simp
qed

lemma rune_tail_zero: "rune_tail c cs = Some 0 \<Longrightarrow> byte_in 0 0x7F c"
  by (auto simp: rune_tail_def tail_ranges_def split: option.splits if_splits)

lemma rune_tail_high: "rune_tail c cs = Some (Suc n) \<Longrightarrow> 0x80 \<le> char_code c \<and> Suc n \<le> length cs"
  by (auto simp: rune_tail_def tail_ranges_def byte_in_def split: option.splits if_splits)

lemma encode_separators: "encode_rune 0x2028 = line_separators ! 0" "encode_rune 0x2029 = line_separators ! 1"
  by (simp_all add: encode_rune_def line_separators_def char_code_eq) (simp_all add: char_code_def)

lemma unquote_rune:
  assumes "rune_tail c cs = Some n"
  shows "unquote_loop (json_rune (Rune (c # take n cs)) @ rest) = map_option ((@) (c # take n cs)) (unquote_loop rest)"
proof (cases n)
  case 0
  then show ?thesis using unquote_ascii rune_tail_zero assms by simp
next
  case (Suc m)
  then have hi: "0x80 \<le> char_code c" "Suc m \<le> length cs" using rune_tail_high assms by auto
  then obtain d ds where r: "take n cs = d # ds" using Suc by (cases cs) auto
  have c: "c \<noteq> CHR 0x22" "c \<noteq> CHR 0x5C" "c \<noteq> CHR 0x0A" using hi(1) by (auto simp: char_code_def)
  have v: "valid_rune 0x2028" "valid_rune 0x2029" by (simp_all add: valid_rune_def)
  show ?thesis
    using unquote_plain_rune [OF assms c, of rest] unquote_u_escape [OF _ v(1), of rest] unquote_u_escape [OF _ v(2), of rest]
      encode_separators r
    by simp
qed

lemma utf8_valid_Cons:
  "utf8_valid (c # cs) \<longleftrightarrow> (case rune_tail c cs of None \<Rightarrow> False | Some n \<Rightarrow> utf8_valid (drop n cs))"
  by (simp add: utf8_valid_def split: option.split)

lemma unquote_runes:
  "utf8_valid s \<Longrightarrow> unquote_loop (concat (map json_rune (runes s)) @ rest) = map_option ((@) s) (unquote_loop rest)"
proof (induction s rule: runes.induct)
  case (2 c cs)
  then obtain n where n: "rune_tail c cs = Some n" "utf8_valid (drop n cs)"
    by (auto simp: utf8_valid_Cons split: option.splits)
  let ?more = "concat (map json_rune (runes (drop n cs)))"
  have "unquote_loop (?more @ rest) = map_option ((@) (drop n cs)) (unquote_loop rest)" using 2(2) n by blast
  moreover have cat: "take n cs @ drop n cs @ x = cs @ x" for x by (simp flip: append_assoc)
  ultimately show ?case
    using unquote_rune [OF n(1), of "?more @ rest"] n(1) by (simp add: option.map_comp comp_def cat del: json_rune.simps)
qed (cases "unquote_loop rest"; simp)

lemma unquote_json_quote: "utf8_valid s \<Longrightarrow> unquote (json_quote s) = Some s"
proof -
  assume "utf8_valid s"
  moreover have "unquote_loop [CHR 0x22] = Some []" by (subst unquote_loop.simps) simp
  ultimately show ?thesis by (simp add: unquote_def json_quote_def unquote_runes)
qed

section \<open>The shape of a literal\<close>

text \<open>Between the quotes: no bare quote, no newline, every backslash followed by something.\<close>

fun lit_body :: "string \<Rightarrow> bool" where
  "lit_body [] \<longleftrightarrow> True"
| "lit_body (c # cs) \<longleftrightarrow>
     (if c = CHR 0x5C then (case cs of [] \<Rightarrow> False | d # ds \<Rightarrow> d \<noteq> CHR 0x0A \<and> lit_body ds)
      else c \<noteq> CHR 0x22 \<and> c \<noteq> CHR 0x0A \<and> lit_body cs)"

lemma lit_body_append: "lit_body a \<Longrightarrow> lit_body b \<Longrightarrow> lit_body (a @ b)"
  by (induction a rule: lit_body.induct) (auto split: list.splits if_splits)

lemma lit_body_concat: "list_all lit_body xs \<Longrightarrow> lit_body (concat xs)"
  by (induction xs) (simp_all add: lit_body_append)

lemma lit_body_no_newline: "lit_body s \<Longrightarrow> CHR 0x0A \<notin> set s"
proof (induction s rule: lit_body.induct)
  case (2 c cs)
  then show ?case by (cases "c = CHR 0x5C"; cases cs) auto
qed simp

lemma lit_body_plain: "list_all (\<lambda>c. c \<notin> {CHR 0x22, CHR 0x5C, CHR 0x0A}) s \<Longrightarrow> lit_body s"
  by (induction s) auto

lemma hex_digit_plain: "n < 16 \<Longrightarrow> hex_digit n \<notin> {CHR 0x22, CHR 0x5C, CHR 0x0A}"
proof -
  have "unhex CHR 0x22 = None" "unhex CHR 0x5C = None" "unhex CHR 0x0A = None"
    by (simp_all add: unhex_def is_digit_def char_code_def)
  then show "n < 16 \<Longrightarrow> hex_digit n \<notin> {CHR 0x22, CHR 0x5C, CHR 0x0A}"
    using unhex_hex_digit [of n] by auto
qed

lemma lit_body_u_escape: "v < 0x10000 \<Longrightarrow> lit_body (u_escape v)"
proof -
  assume v: "v < 0x10000"
  have "v div 0x1000 < 16" using v by (simp add: less_mult_imp_div_less)
  then have "list_all (\<lambda>c. c \<notin> {CHR 0x22, CHR 0x5C, CHR 0x0A}) (hex4 v)"
    using hex_digit_plain by (simp add: hex4_def)
  then show ?thesis using lit_body_plain by (simp add: u_escape_def)
qed

lemma lit_body_ascii: "byte_in 0 0x7F c \<Longrightarrow> lit_body (json_ascii c)"
  using lit_body_u_escape [of "char_code c"] by (auto simp: json_ascii_def Let_def byte_in_def char_code_def)

lemma rune_tail_bytes:
  assumes "rune_tail c cs = Some (Suc n)"
  shows "list_all (\<lambda>d. 0x80 \<le> char_code d) (c # take (Suc n) cs)"
proof -
  obtain ps where ps: "tail_ranges c = Some ps" "length ps \<le> length cs" "list_all (\<lambda>(p, d). p d) (zip ps cs)" "Suc n = length ps"
    using assms by (auto simp: rune_tail_def split: option.splits if_splits)
  have "list_all (\<lambda>p. \<forall>d. p d \<longrightarrow> 0x80 \<le> char_code d) ps"
    using ps(1,4) by (auto simp: tail_ranges_def byte_in_def split: if_splits)
  then have "list_all (\<lambda>d. 0x80 \<le> char_code d) (take (length ps) cs)"
    using ps(2,3)
  proof (induction ps arbitrary: cs)
    case (Cons p ps)
    then show ?case by (cases cs) auto
  qed simp
  then show ?thesis using rune_tail_high [OF assms] ps(4) by simp
qed

lemma high_plain: "0x80 \<le> char_code c \<Longrightarrow> c \<notin> {CHR 0x22, CHR 0x5C, CHR 0x0A}"
  by (auto simp: char_code_def)

lemma lit_body_rune: "rune_tail c cs = Some n \<Longrightarrow> lit_body (json_rune (Rune (c # take n cs)))"
proof (cases n)
  case (Suc m)
  assume r: "rune_tail c cs = Some n"
  then have "list_all (\<lambda>d. 0x80 \<le> char_code d) (c # take n cs)" using rune_tail_bytes Suc by simp
  then have "list_all (\<lambda>d. d \<notin> {CHR 0x22, CHR 0x5C, CHR 0x0A}) (c # take n cs)"
    using high_plain by (auto simp: list_all_iff)
  then have "lit_body (c # take n cs)" by (rule lit_body_plain)
  moreover obtain d ds where "take n cs = d # ds" using rune_tail_high [OF r [unfolded Suc]] Suc by (cases cs) auto
  moreover have "lit_body (u_escape 0x2028)" "lit_body (u_escape 0x2029)" by (rule lit_body_u_escape; simp)+
  ultimately show ?thesis by (simp del: lit_body.simps)
qed (auto dest: rune_tail_zero lit_body_ascii)

definition json_body :: "string \<Rightarrow> string" where
  "json_body s = concat (map json_rune (runes s))"

lemma json_quote_body: "json_quote s = CHR 0x22 # json_body s @ [CHR 0x22]"
  by (simp add: json_quote_def json_body_def)

lemma lit_body_json: "lit_body (json_body s)"
proof -
  have "list_all lit_body (map json_rune (runes s))"
  proof (induction s rule: runes.induct)
    case (2 c cs)
    show ?case
    proof (cases "rune_tail c cs")
      case None
      then show ?thesis using 2(1) lit_body_u_escape by simp
    next
      case (Some n)
      then show ?thesis using 2(2) [OF Some] lit_body_rune [OF Some] by (simp del: json_rune.simps)
    qed
  qed simp
  then show ?thesis by (simp add: json_body_def lit_body_concat)
qed

lemma json_quote_no_newline: "CHR 0x0A \<notin> set (json_quote t)"
  using lit_body_no_newline [OF lit_body_json [of t]] by (simp add: json_quote_body)

end
