(* ===== verification/Ipc.thy ===== *)
theory Ipc
  imports Go_Text Json Policy
begin

text \<open>
  The transport between client and daemon (\<open>internal/ipc/ipc.go\<close>): where the socket and the files beside it
  are, the pid file, and JSON values as lines of a byte stream. \<open>json.Marshal\<close> is written out; how a
  \<open>float64\<close> is printed and \<open>json.Unmarshal\<close> are parameters.
\<close>

section \<open>Paths and the pid file\<close>

text \<open>The current user's id, if it is known.\<close>

definition SocketPath :: "environ \<Rightarrow> string option \<Rightarrow> string" where
  "SocketPath env user =
     (let p = getenv env ''SL_DBG_SOCKET''; rt = getenv env ''XDG_RUNTIME_DIR'' in
      if p \<noteq> [] then p
      else if rt \<noteq> [] then path_join rt ''sl-dbg/daemon.sock''
      else path_join (temp_dir env) (''sl-dbg-'' @ (case user of Some u \<Rightarrow> u | None \<Rightarrow> ''0'') @ ''/daemon.sock''))"

definition PidFilePath :: "environ \<Rightarrow> string option \<Rightarrow> string" where
  "PidFilePath env user = SocketPath env user @ ''.pid''"

definition LogFilePath :: "environ \<Rightarrow> string option \<Rightarrow> string" where
  "LogFilePath env user = SocketPath env user @ ''.log''"

text \<open>\<open>WritePidFile\<close>, and \<open>ReadPidFile\<close> of the content of the file, which drops the error of \<open>Atoi\<close> but uses its value.\<close>

definition pid_text :: "int \<Rightarrow> string" where
  "pid_text pid = itoa pid"

definition ReadPidFile :: "string option \<Rightarrow> int" where
  "ReadPidFile content =
     (case content of
        None \<Rightarrow> 0
      | Some s \<Rightarrow>
          (case atoi s of
             Inr n \<Rightarrow> n
           | Inl ErrSyntax \<Rightarrow> 0
           | Inl ErrRange \<Rightarrow> if has_prefix s ''-'' then - (2 ^ 63) else 2 ^ 63 - 1))"

lemma pid_file_round_trip: "in_int64 pid \<Longrightarrow> ReadPidFile (Some (pid_text pid)) = pid"
  by (simp add: ReadPidFile_def pid_text_def atoi_itoa)

lemma empty_pid_file [simp]: "ReadPidFile (Some []) = 0" "ReadPidFile None = 0"
  by (simp_all add: ReadPidFile_def atoi_def atoi_unsigned_def)

section \<open>Values as text\<close>

fun json_text :: "(int \<Rightarrow> nat \<Rightarrow> string) \<Rightarrow> json \<Rightarrow> string" where
  "json_text fmt JNull = ''null''"
| "json_text fmt (JBool b) = (if b then ''true'' else ''false'')"
| "json_text fmt (JInt i) = itoa i"
| "json_text fmt (JDec m e) = fmt m e"
| "json_text fmt (JStr s) = json_quote s"
| "json_text fmt (JArr vs) = ''['' @ join_with '','' (map (json_text fmt) vs) @ '']''"
| "json_text fmt (JObj ms) =
     ''{'' @ join_with '','' (map (\<lambda>(k, v). json_quote k @ '':'' @ json_text fmt v) ms) @ ''}''"

definition newline :: char where
  "newline = CHR 0x0A"

definition WriteLine :: "(int \<Rightarrow> nat \<Rightarrow> string) \<Rightarrow> json \<Rightarrow> string" where
  "WriteLine fmt v = json_text fmt v @ [newline]"

section \<open>Reading lines\<close>

text \<open>\<open>ReadBytes\<close>: up to and with the next newline, else all there is; whether the newline was there.\<close>

fun ReadBytes :: "string \<Rightarrow> string \<times> bool \<times> string" where
  "ReadBytes [] = ([], False, [])"
| "ReadBytes (c # cs) =
     (if c = newline then ([c], True, cs) else (let (line, found, rest) = ReadBytes cs in (c # line, found, rest)))"

text \<open>
  A stream is the bytes that still arrive and the error after them. \<open>ReadLine\<close> of the server and \<open>Recv\<close> of
  the client pass the error on only when no byte is left before it.
\<close>

datatype read_error = ReadEOF | ReadFailed string | BadLine string

definition ReadLine :: "(string \<Rightarrow> string + 'v) \<Rightarrow> read_error \<Rightarrow> string \<Rightarrow> (read_error + 'v) \<times> string" where
  "ReadLine decode err input =
     (let (line, found, rest) = ReadBytes input in
      if \<not> found \<and> line = [] then (Inl err, rest)
      else (case decode line of Inl e \<Rightarrow> (Inl (BadLine e), rest) | Inr v \<Rightarrow> (Inr v, rest)))"

definition Recv :: "(string \<Rightarrow> string + 'v) \<Rightarrow> read_error \<Rightarrow> string \<Rightarrow> (read_error + 'v) \<times> string" where
  "Recv decode err input =
     (let (line, found, rest) = ReadBytes input in
      if \<not> found \<and> err = ReadEOF \<and> line = [] then (Inl ReadEOF, rest)
      else if \<not> found \<and> line = [] then (Inl err, rest)
      else (case decode line of Inl e \<Rightarrow> (Inl (BadLine e), rest) | Inr v \<Rightarrow> (Inr v, rest)))"

lemma ReadBytes_rest: "ReadBytes s = (line, found, rest) \<Longrightarrow> s = line @ rest \<and> (found \<or> rest = []) \<and> (found \<longrightarrow> line \<noteq> [])"
  by (induction s arbitrary: line found rest) (auto split: if_splits prod.splits)

lemma ReadBytes_no_newline: "newline \<notin> set s \<Longrightarrow> ReadBytes s = (s, False, [])"
  by (induction s) auto

lemma ReadBytes_newline: "newline \<notin> set s \<Longrightarrow> ReadBytes (s @ newline # t) = (s @ [newline], True, t)"
  by (induction s) auto

lemma Recv_ReadLine: "Recv decode err input = ReadLine decode err input"
  by (auto simp: Recv_def ReadLine_def split: prod.splits)

lemma ReadLine_shorter: "ReadLine decode err input = (Inr v, rest) \<Longrightarrow> length rest < length input"
  by (auto simp: ReadLine_def dest!: ReadBytes_rest split: prod.splits if_splits sum.splits)

text \<open>The requests a connection delivers, up to the first line that cannot be read, which ends it.\<close>

function conn_requests :: "(string \<Rightarrow> string + 'v) \<Rightarrow> read_error \<Rightarrow> string \<Rightarrow> 'v list \<times> read_error" where
  "conn_requests decode err input =
     (case ReadLine decode err input of
        (Inl e, _) \<Rightarrow> ([], e)
      | (Inr v, rest) \<Rightarrow> (let (vs, e) = conn_requests decode err rest in (v # vs, e)))"
  by pat_completeness auto
termination
  by (relation "measure (\<lambda>(_, _, input). length input)") (auto dest: ReadLine_shorter [OF sym])

declare conn_requests.simps [simp del]

section \<open>Framing\<close>

lemma itoa_no_newline: "newline \<notin> set (itoa i)"
proof -
  have "list_all is_digit (nat_digits n)" for n using nat_digits_digits by blast
  moreover have "\<not> is_digit newline" by (simp add: is_digit_def newline_def char_code_def)
  ultimately have "newline \<notin> set (nat_digits n)" for n by (metis list_all_iff)
  then show ?thesis by (simp add: itoa_def newline_def)
qed

lemma join_with_members: "c \<in> set (join_with sep xs) \<Longrightarrow> c \<in> set sep \<or> (\<exists>x \<in> set xs. c \<in> set x)"
  by (induction sep xs rule: join_with.induct) auto

text \<open>
  Messages are neither merged nor split. Whatever values are written to a connection one after the
  other, with any bytes after them, the reader that decodes single lines gets what the single lines decode to, in
  order, and then what the remaining bytes give by themselves.
\<close>

lemma lines_read:
  assumes "list_all (\<lambda>v. newline \<notin> set (json_text fmt v)) vs"
    and "list_all (\<lambda>v. decode (WriteLine fmt v) = Inr (g v)) vs"
  shows "conn_requests decode err (concat (map (WriteLine fmt) vs) @ tail) =
    (map g vs @ fst (conn_requests decode err tail), snd (conn_requests decode err tail))"
  using assms
proof (induction vs)
  case (Cons v vs)
  have "ReadBytes (WriteLine fmt v @ t) = (WriteLine fmt v, True, t)" for t
    using ReadBytes_newline Cons.prems(1) by (simp add: WriteLine_def)
  then have "ReadLine decode err (WriteLine fmt v @ t) = (Inr (g v), t)" for t
    using Cons.prems by (simp add: ReadLine_def)
  then show ?case using Cons by (subst conn_requests.simps) (simp split: prod.split)
qed simp

end
