(* ===== verification/Daemon_Life.thy ===== *)
theory Daemon_Life
  imports Ipc
begin

text \<open>
  How daemons start, share the socket and the pid file, and end: \<open>Run\<close> and \<open>isPidAlive\<close> of
  \<open>internal/daemon/server.go\<close>, \<open>Listen\<close> and \<open>WritePidFile\<close> of \<open>internal/ipc/ipc.go\<close>. Every client that finds no
  daemon spawns one, so several may start at once: the model is a step relation over one machine, one
  step per system call that touches what daemons share.
\<close>

section \<open>State\<close>

text \<open>
  Where a daemon process is in \<open>Run\<close>: before its look at the pid file; past it; after the removal of the
  old socket; listening; with the pid file truncated by \<open>os.WriteFile\<close>; serving for good.
\<close>

datatype phase = Starting | Passed | Unbound | Listening | Truncated | Serving

text \<open>Phases in the order in which \<open>Run\<close> goes through them.\<close>

fun phase_index :: "phase \<Rightarrow> nat" where
  "phase_index Starting = 0"
| "phase_index Passed = 1"
| "phase_index Unbound = 2"
| "phase_index Listening = 3"
| "phase_index Truncated = 4"
| "phase_index Serving = 5"

lemma phase_index_inj: "phase_index a = phase_index b \<Longrightarrow> a = b"
  by (cases a; cases b) simp_all

instantiation phase :: linorder
begin

definition less_eq_phase :: "phase \<Rightarrow> phase \<Rightarrow> bool" where
  "less_eq_phase a b \<longleftrightarrow> phase_index a \<le> phase_index b"

definition less_phase :: "phase \<Rightarrow> phase \<Rightarrow> bool" where
  "less_phase a b \<longleftrightarrow> phase_index a < phase_index b"

instance
  by standard (auto simp: less_eq_phase_def less_phase_def dest: phase_index_inj)

end

text \<open>
  The socket path names the process that bound it, dead or alive; process ids of the user's other programs are
  taken too.
\<close>

record life =
  l_sock :: "int option"
  l_pidfile :: "string option"
  l_daemons :: "int \<Rightarrow> phase option"
  l_others :: "int set"

definition alive :: "life \<Rightarrow> int \<Rightarrow> bool" where
  "alive w p \<longleftrightarrow> l_daemons w p \<noteq> None \<or> p \<in> l_others w"

definition at_phase :: "int \<Rightarrow> phase option \<Rightarrow> life \<Rightarrow> life" where
  "at_phase p ph w = w\<lparr>l_daemons := (l_daemons w)(p := ph)\<rparr>"

text \<open>\<open>Run\<close> refuses when the pid file names a living process, whatever that process is.\<close>

definition pid_check :: "life \<Rightarrow> bool" where
  "pid_check w \<longleftrightarrow> (let pid = ReadPidFile (l_pidfile w) in \<not> (0 < pid \<and> alive w pid))"

text \<open>What \<open>Dial\<close> finds: no socket, one that nobody listens on, or a daemon.\<close>

datatype dial_result = DialAbsent | DialRefused | DialTo int

definition listens :: "phase option \<Rightarrow> bool" where
  "listens ph \<longleftrightarrow> (case ph of None \<Rightarrow> False | Some a \<Rightarrow> Listening \<le> a)"

lemma listens_phase [simp]: "\<not> listens None" "listens (Some ph) \<longleftrightarrow> ph = Listening \<or> ph = Truncated \<or> ph = Serving"
  by (simp_all add: listens_def less_eq_phase_def) (cases ph; simp)

definition dial :: "life \<Rightarrow> dial_result" where
  "dial w = (case l_sock w of None \<Rightarrow> DialAbsent | Some p \<Rightarrow> if listens (l_daemons w p) then DialTo p else DialRefused)"

section \<open>Steps\<close>

text \<open>
  Closing a Unix listener removes its path, whatever the path is bound to by then. A process may die at any
  moment (shutdown is \<open>os.Exit\<close>, nothing is cleaned up), and so may one that fails before it listens.
\<close>

inductive life_step :: "life \<Rightarrow> life \<Rightarrow> bool" where
  spawn: "0 < p \<Longrightarrow> in_int64 p \<Longrightarrow> \<not> alive w p \<Longrightarrow> life_step w (at_phase p (Some Starting) w)"
| refuse: "l_daemons w p = Some Starting \<Longrightarrow> \<not> pid_check w \<Longrightarrow> life_step w (at_phase p None w)"
| pass: "l_daemons w p = Some Starting \<Longrightarrow> pid_check w \<Longrightarrow> life_step w (at_phase p (Some Passed) w)"
| unbind: "l_daemons w p = Some Passed \<Longrightarrow> life_step w (at_phase p (Some Unbound) (w\<lparr>l_sock := None\<rparr>))"
| bind: "l_daemons w p = Some Unbound \<Longrightarrow> l_sock w = None \<Longrightarrow> life_step w (at_phase p (Some Listening) (w\<lparr>l_sock := Some p\<rparr>))"
| bind_fails: "l_daemons w p = Some Unbound \<Longrightarrow> life_step w (at_phase p None w)"
| gives_up: "l_daemons w p = Some Listening \<or> l_daemons w p = Some Truncated \<Longrightarrow>
    life_step w (at_phase p None (w\<lparr>l_sock := None\<rparr>))"
| truncate: "l_daemons w p = Some Listening \<Longrightarrow> life_step w (at_phase p (Some Truncated) (w\<lparr>l_pidfile := Some []\<rparr>))"
| write_pid: "l_daemons w p = Some Truncated \<Longrightarrow>
    life_step w (at_phase p (Some Serving) (w\<lparr>l_pidfile := Some (pid_text p)\<rparr>))"
| die: "l_daemons w p = Some ph \<Longrightarrow> life_step w (at_phase p None w)"
| other_starts: "0 < p \<Longrightarrow> \<not> alive w p \<Longrightarrow> life_step w (w\<lparr>l_others := insert p (l_others w)\<rparr>)"
| other_ends: "life_step w (w\<lparr>l_others := l_others w - {p}\<rparr>)"

text \<open>Runs during which a set of processes stays alive.\<close>

inductive life_run :: "int set \<Rightarrow> life \<Rightarrow> life \<Rightarrow> bool" for keep w where
  here: "life_run keep w w"
| step: "life_run keep w u \<Longrightarrow> life_step u v \<Longrightarrow> (\<And>p. p \<in> keep \<Longrightarrow> alive v p) \<Longrightarrow> life_run keep w v"

inductive_cases life_step_cases: "life_step w v"

text \<open>A daemon never goes back: as long as it lives, its phase only grows.\<close>

lemma phases_advance:
  assumes "life_step w v" "l_daemons w p = Some a" "l_daemons v p = Some b"
  shows "a \<le> b"
  using assms
  by (cases rule: life_step.cases) (auto simp: at_phase_def alive_def less_eq_phase_def split: if_splits)

section \<open>One daemon at a time\<close>

text \<open>
  A daemon is settled when it serves, owns socket and pid file, and no other one is between its look at
  the pid file and its own pid file.
\<close>

definition settled :: "int \<Rightarrow> life \<Rightarrow> bool" where
  "settled d w \<longleftrightarrow> l_sock w = Some d \<and> l_pidfile w = Some (pid_text d) \<and> l_daemons w d = Some Serving \<and>
     0 < d \<and> in_int64 d \<and> d \<notin> l_others w \<and>
     (\<forall>p ph. p \<noteq> d \<longrightarrow> l_daemons w p = Some ph \<longrightarrow> ph = Starting)"

lemma settled_refuses: "settled d w \<Longrightarrow> \<not> pid_check w"
  by (simp add: settled_def pid_check_def pid_file_round_trip alive_def)

lemma settled_phase: "settled d w \<Longrightarrow> l_daemons w p = Some ph \<Longrightarrow> p = d \<and> ph = Serving \<or> p \<noteq> d \<and> ph = Starting"
  by (cases "p = d") (auto simp: settled_def)

lemma settled_step:
  assumes "settled d w" "life_step w v" "alive v d"
  shows "settled d v"
  using assms(2)
proof cases
  case (pass p)
  then show ?thesis using settled_refuses assms(1) by simp
next
  case (die p ph)
  then show ?thesis using assms by (auto simp: settled_def at_phase_def alive_def)
qed (use assms settled_phase [OF assms(1)] in \<open>auto simp: settled_def at_phase_def alive_def\<close>)


section \<open>Starting\<close>

text \<open>No daemon is on its way: the others wait before the check.\<close>

definition none_past_check :: "int set \<Rightarrow> life \<Rightarrow> bool" where
  "none_past_check ps w \<longleftrightarrow> (\<forall>p ph. p \<notin> ps \<longrightarrow> l_daemons w p = Some ph \<longrightarrow> ph = Starting)"

definition settle :: "int \<Rightarrow> life \<Rightarrow> life" where
  "settle p w = at_phase p (Some Serving) (w\<lparr>l_sock := Some p, l_pidfile := Some (pid_text p)\<rparr>)"

lemma run_step:
  "life_run keep w u \<Longrightarrow> life_step u v \<Longrightarrow> keep \<subseteq> {p. alive v p} \<Longrightarrow> life_run keep w v"
  by (rule life_run.step) auto

lemma at_phase_simps [simp]:
  "l_daemons (at_phase p ph w) = (l_daemons w)(p := ph)" "l_sock (at_phase p ph w) = l_sock w"
  "l_pidfile (at_phase p ph w) = l_pidfile w" "l_others (at_phase p ph w) = l_others w"
  by (simp_all add: at_phase_def)

lemma passed_settles:
  assumes "l_daemons w p = Some Passed" "life_run {} u w"
  shows "life_run {} u (settle p w)"
proof -
  let ?a = "at_phase p (Some Unbound) (w\<lparr>l_sock := None\<rparr>)"
  let ?b = "at_phase p (Some Listening) (?a\<lparr>l_sock := Some p\<rparr>)"
  let ?c = "at_phase p (Some Truncated) (?b\<lparr>l_pidfile := Some []\<rparr>)"
  let ?d = "at_phase p (Some Serving) (?c\<lparr>l_pidfile := Some (pid_text p)\<rparr>)"
  have "life_run {} u ?a" using unbind [OF assms(1)] by (rule run_step [OF assms(2)]) simp
  then have "life_run {} u ?b" by (rule run_step) (auto intro: bind)
  then have "life_run {} u ?c" by (rule run_step) (auto intro: truncate)
  then have "life_run {} u ?d" by (rule run_step) (auto intro: write_pid)
  moreover have "?d = settle p w" by (simp add: settle_def at_phase_def)
  ultimately show ?thesis by simp
qed

text \<open>
  A daemon that starts alone comes up: if the pid file names no living process and no other
  daemon is past its check, the process can go through \<open>Run\<close> to the settled state, whatever a daemon that
  died before left behind (its socket, its pid file, a truncated pid file).
\<close>

theorem lone_daemon_settles:
  assumes "l_daemons w p = Some Starting" "pid_check w" "none_past_check {p} w" "0 < p" "in_int64 p" "p \<notin> l_others w"
  shows "\<exists>v. life_run {} w v \<and> settled p v"
proof -
  let ?u = "at_phase p (Some Passed) w"
  have "life_run {} w ?u" using assms(1,2) by (auto intro!: run_step [OF life_run.here] pass)
  then have "life_run {} w (settle p ?u)" by (rule passed_settles [rotated]) simp
  moreover have "settled p (settle p ?u)"
    using assms(3-) by (auto simp: settled_def settle_def none_past_check_def)
  ultimately show ?thesis by auto
qed

lemma unpassed_phase: "none_past_check ps w \<Longrightarrow> l_daemons w p = Some ph \<Longrightarrow> p \<notin> ps \<Longrightarrow> ph = Starting"
  by (simp add: none_past_check_def)

definition blocked :: "int \<Rightarrow> life \<Rightarrow> bool" where
  "blocked n w \<longleftrightarrow> l_pidfile w = Some (pid_text n) \<and> n \<in> l_others w \<and> l_daemons w n = None \<and> 0 < n \<and> in_int64 n \<and> none_past_check {} w"

lemma blocked_step:
  assumes "blocked n w" "life_step w v" "alive v n"
  shows "blocked n v"
proof -
  have check: "\<not> pid_check w"
    using assms(1) by (auto simp: blocked_def pid_check_def pid_file_round_trip alive_def)
  have ph: "ph = Starting" if "l_daemons w p = Some ph" for p ph
    using unpassed_phase [OF _ that] assms(1) by (auto simp: blocked_def)
  from assms(2) show ?thesis
  proof (cases rule: life_step.cases)
    case (pass p)
    then show ?thesis using check by simp
  qed (use assms(1,3) in \<open>auto simp: blocked_def none_past_check_def alive_def split: if_splits dest: ph\<close>)
qed

text \<open>
  A recycled process id keeps every daemon from starting. Nothing removes the pid file, not even an orderly
  shutdown; once its number belongs to another program, every daemon that clients spawn is
  refused for as long as that program runs, and the clients find no daemon.
\<close>

theorem recycled_pid_blocks_start:
  assumes "l_pidfile w = Some (pid_text n)" "n \<in> l_others w" "l_daemons w n = None" "0 < n" "in_int64 n" "none_past_check {} w"
    and "life_run {n} w v"
  shows "none_past_check {} v \<and> (\<forall>d. dial v \<noteq> DialTo d)"
proof -
  have "blocked n v"
    using assms(7)
  proof (induction rule: life_run.induct)
    case here
    then show ?case using assms(1-6) by (simp add: blocked_def)
  next
    case (step u v)
    then show ?case by (auto intro: blocked_step)
  qed
  then have q: "none_past_check {} v" by (simp add: blocked_def)
  have "\<not> listens (l_daemons v p)" for p
    using unpassed_phase [OF q] by (cases "l_daemons v p") auto
  then show ?thesis using q by (auto simp: dial_def split: option.splits)
qed

text \<open>
  The check and the pid file are far apart: two daemons that both start before either has written the pid
  file can both end up serving. The one that listens last takes the socket; the sessions of the
  other are out of reach, though it runs on.
\<close>

theorem racing_starts_leave_two:
  assumes "l_daemons w p = Some Starting" "l_daemons w q = Some Starting" "p \<noteq> q" "pid_check w"
  shows "\<exists>v. life_run {} w v \<and> l_daemons v p = Some Serving \<and> l_daemons v q = Some Serving \<and> dial v = DialTo q"
proof -
  let ?a = "at_phase p (Some Passed) w"
  let ?b = "at_phase q (Some Passed) ?a"
  have a: "life_run {} w ?a" using run_step [OF life_run.here pass [OF assms(1,4)]] by simp
  have "alive ?a r = alive w r" for r using assms(1) by (auto simp: alive_def)
  then have c: "pid_check ?a" using assms(4) by (simp add: pid_check_def)
  have "l_daemons ?a q = Some Starting" using assms(2,3) by simp
  from run_step [OF a pass [OF this c]] have "life_run {} w ?b" by simp
  then have "life_run {} w (settle p ?b)" using assms(3) by (auto intro: passed_settles)
  then have "life_run {} w (settle q (settle p ?b))" by (rule passed_settles [rotated]) (use assms(3) in \<open>simp add: settle_def\<close>)
  then show ?thesis
    using assms(3) by (intro exI [of _ "settle q (settle p ?b)"]) (simp add: settle_def dial_def)
qed

section \<open>Examples\<close>

text \<open>A daemon about to start on a machine where another one once ran as process 7.\<close>

definition demo_life :: "int set \<Rightarrow> life" where
  "demo_life others =
     \<lparr>l_sock = Some 7, l_pidfile = Some ''7'', l_daemons = (\<lambda>p. if p = 9 then Some Starting else None), l_others = others\<rparr>"

lemma demo_pid: "ReadPidFile (Some ''7'') = 7" "pid_text 7 = ''7''"
  by code_simp+

lemma demo_not_alive: "\<not> alive (demo_life {}) 7"
  by (simp add: demo_life_def alive_def)

theorem lone_daemon_settles_witness: "\<exists>v. life_run {} (demo_life {}) v \<and> settled 9 v"
proof (rule lone_daemon_settles)
  show "pid_check (demo_life {})" using demo_not_alive by (simp add: pid_check_def demo_life_def demo_pid)
qed (simp_all add: demo_life_def none_past_check_def in_int64_def)

theorem recycled_pid_blocks_start_witness:
  "life_run {7} (demo_life {7}) (at_phase 9 None (demo_life {7})) \<and> dial (at_phase 9 None (demo_life {7})) = DialRefused"
proof -
  let ?v = "at_phase 9 None (demo_life {7})"
  have "life_step (demo_life {7}) ?v"
    by (rule refuse) (simp_all add: pid_check_def demo_life_def demo_pid alive_def)
  then have r: "life_run {7} (demo_life {7}) ?v"
    by (rule run_step [OF life_run.here]) (simp add: alive_def demo_life_def)
  have "none_past_check {} ?v \<and> (\<forall>d. dial ?v \<noteq> DialTo d)"
    by (rule recycled_pid_blocks_start [OF _ _ _ _ _ _ r]) (auto simp: demo_life_def demo_pid in_int64_def none_past_check_def)
  then show ?thesis using r by (simp add: dial_def demo_life_def split: if_splits)
qed


end
