(* ===== verification/Config_Write.thy ===== *)
theory Config_Write
  imports Go_Path
begin

text \<open>
  \<open>atomicWrite\<close> of \<open>internal/cli/mcp_install.go\<close>: back up the file, write a temporary one, rename it. The
  result is an error, if any, and the states of the disk after each system call, so that statements
  about interruptions are statements about every state of that list. What the operating system
  does is an argument: which calls fail, what a failed write leaves behind, the random parts of
  temporary names.
\<close>

section \<open>Disk and faults\<close>

record 'c disk =
  d_files :: "string \<Rightarrow> 'c option"
  d_dirs :: "string \<Rightarrow> bool"
  d_links :: "string \<Rightarrow> string option option"

text \<open>
  A link is \<open>Some\<close> of what \<open>EvalSymlinks\<close> makes of it. A fault of a write is the content it leaves; the
  other faults are flags. The names \<open>CreateTemp\<close> tries are those with the given random parts; it
  takes the first that does not exist.
\<close>

record 'c faults =
  f_lstat :: bool
  f_mkdir :: bool
  f_read :: bool
  f_bak_rand :: "string list"
  f_bak_write :: "'c option"
  f_bak_close :: bool
  f_tmp_rand :: "string list"
  f_tmp_write :: "'c option"
  f_tmp_close :: bool
  f_chmod :: bool
  f_rename :: bool
  f_remove :: bool

definition put_file :: "string \<Rightarrow> 'c \<Rightarrow> 'c disk \<Rightarrow> 'c disk" where
  "put_file f c d = d\<lparr>d_files := (d_files d)(f := Some c)\<rparr>"

definition remove_file :: "'c faults \<Rightarrow> string \<Rightarrow> 'c disk \<Rightarrow> 'c disk" where
  "remove_file F f d = (if f_remove F then d else d\<lparr>d_files := (d_files d)(f := None)\<rparr>)"

definition createTemp :: "(string \<Rightarrow> string) \<Rightarrow> string list \<Rightarrow> 'c disk \<Rightarrow> string option" where
  "createTemp name rands d = find (\<lambda>f. d_files d f = None) (map name rands)"

definition backup_name :: "string \<Rightarrow> string \<Rightarrow> string \<Rightarrow> string" where
  "backup_name path stamp r = path_join (dir_of path) (base_of path @ ''.bak.'' @ stamp @ ''.'' @ r)"

definition temp_name :: "string \<Rightarrow> string \<Rightarrow> string" where
  "temp_name path r = path_join (dir_of path) (''.sl-dbg-mcp-'' @ r @ ''.tmp'')"

text \<open>The file that is written: where the path is a link, what it resolves to.\<close>

definition write_target :: "'c disk \<Rightarrow> string \<Rightarrow> string" where
  "write_target d path = (case d_links d path of Some (Some r) \<Rightarrow> r | _ \<Rightarrow> path)"

section \<open>The writing\<close>

type_synonym 'c run = "string option \<times> 'c disk list"

text \<open>Continue from the last state of a run that has not failed.\<close>

definition and_run :: "'c run \<Rightarrow> ('c disk \<Rightarrow> 'c run) \<Rightarrow> 'c run" where
  "and_run r k =
     (case r of
        (Some e, ds) \<Rightarrow> (Some e, ds)
      | (None, ds) \<Rightarrow> (let (e, ds') = k (last ds) in (e, ds @ ds')))"

definition make_parent :: "'c faults \<Rightarrow> bool \<Rightarrow> string \<Rightarrow> 'c disk \<Rightarrow> 'c run" where
  "make_parent F createIfMissing dir d =
     (if d_dirs d dir then (None, [d])
      else if \<not> createIfMissing then (Some (''parent dir '' @ dir @ '' does not exist''), [d])
      else if f_mkdir F then (Some ''mkdir'', [d])
      else (None, [d\<lparr>d_dirs := (d_dirs d)(dir := True)\<rparr>]))"

definition write_backup :: "'c \<Rightarrow> 'c faults \<Rightarrow> string \<Rightarrow> string \<Rightarrow> 'c disk \<Rightarrow> 'c run" where
  "write_backup blank F stamp path d =
     (if f_read F then (Some ''read'', [d])
      else case d_files d path of
        None \<Rightarrow> (None, [d])
      | Some cur \<Rightarrow>
          (case createTemp (backup_name path stamp) (f_bak_rand F) d of
             None \<Rightarrow> (Some ''create config backup'', [d])
           | Some b \<Rightarrow>
               let d1 = put_file b blank d in
               case f_bak_write F of
                 Some junk \<Rightarrow> let d2 = put_file b junk d1 in (Some ''write config backup'', [d1, d2, remove_file F b d2])
               | None \<Rightarrow>
                   let d2 = put_file b cur d1 in
                   if f_bak_close F then (Some ''write config backup'', [d1, d2, remove_file F b d2])
                   else (None, [d1, d2])))"

definition replace_file :: "'c \<Rightarrow> 'c faults \<Rightarrow> string \<Rightarrow> 'c \<Rightarrow> 'c disk \<Rightarrow> 'c run" where
  "replace_file blank F path data d =
     (case createTemp (temp_name path) (f_tmp_rand F) d of
        None \<Rightarrow> (Some ''create temporary file'', [d])
      | Some t \<Rightarrow>
          let d1 = put_file t blank d in
          case f_tmp_write F of
            Some junk \<Rightarrow> let d2 = put_file t junk d1 in (Some ''write'', [d1, d2, remove_file F t d2])
          | None \<Rightarrow>
              let d2 = put_file t data d1 in
              if f_tmp_close F then (Some ''close'', [d1, d2, remove_file F t d2])
              else if f_chmod F then (Some ''chmod'', [d1, d2, remove_file F t d2])
              else if f_rename F then (Some ''rename'', [d1, d2, remove_file F t d2])
              else (None, [d1, d2, d2\<lparr>d_files := (d_files d2)(path := Some data, t := None)\<rparr>]))"

definition atomicWrite :: "'c \<Rightarrow> 'c faults \<Rightarrow> string \<Rightarrow> string \<Rightarrow> 'c \<Rightarrow> bool \<Rightarrow> 'c disk \<Rightarrow> 'c run" where
  "atomicWrite blank F stamp path data createIfMissing d =
     (case d_links d path of
        Some None \<Rightarrow> (Some ''resolve config symlink'', [d])
      | lk \<Rightarrow>
          if lk = None \<and> f_lstat F then (Some ''lstat'', [d])
          else let target = write_target d path in
            and_run (make_parent F createIfMissing (dir_of target) d) (\<lambda>d1.
            and_run (write_backup blank F stamp target d1) (\<lambda>d2.
            replace_file blank F target data d2)))"

section \<open>Every state of a run\<close>

text \<open>
  What a run may do to the disk: files that exist stay as they are, the target apart, and the target
  holds what it held or the new content; in the second case a new file holds what it held.
\<close>

definition undisturbed :: "string \<Rightarrow> 'c disk \<Rightarrow> 'c disk \<Rightarrow> bool" where
  "undisturbed target d s \<longleftrightarrow> (\<forall>f. f \<noteq> target \<longrightarrow> d_files d f \<noteq> None \<longrightarrow> d_files s f = d_files d f)"

definition backed_up :: "string \<Rightarrow> 'c disk \<Rightarrow> 'c disk \<Rightarrow> bool" where
  "backed_up target d s \<longleftrightarrow>
     (case d_files d target of None \<Rightarrow> True | Some old \<Rightarrow> \<exists>b. d_files d b = None \<and> d_files s b = Some old)"

lemma createTemp_fresh: "createTemp name rands d = Some f \<Longrightarrow> d_files d f = None \<and> f \<in> set (map name rands)"
  by (auto simp: createTemp_def find_Some_iff)

lemma undisturbed_refl: "undisturbed t d d"
  by (simp add: undisturbed_def)

lemma backup_run:
  assumes "write_backup blank F stamp t d = (e, ds)"
  shows "ds \<noteq> [] \<and> list_all (\<lambda>s. undisturbed t d s \<and> d_files s t = d_files d t) ds \<and> (e = None \<longrightarrow> backed_up t d (last ds))"
  using assms
  by (auto simp: write_backup_def undisturbed_def backed_up_def put_file_def remove_file_def Let_def
      dest!: createTemp_fresh split: if_splits option.splits)

lemma replace_run:
  assumes "replace_file blank F t data d = (e, ds)" "t \<notin> set (map (temp_name t) (f_tmp_rand F))"
  obtains n m where "map (\<lambda>s. d_files s t) ds = replicate n (d_files d t) @ replicate m (Some data)" "n + m \<noteq> 0"
    "e = None \<longleftrightarrow> 0 < m" "list_all (undisturbed t d) ds"
proof (cases "createTemp (temp_name t) (f_tmp_rand F) d")
  case None
  then show ?thesis using assms(1) that [of 1 0] by (auto simp: replace_file_def undisturbed_refl)
next
  case (Some f)
  then have f: "d_files d f = None" "f \<noteq> t" using assms(2) createTemp_fresh [OF Some] by metis+
  show ?thesis
  proof (cases "e = None")
    case True
    then show ?thesis
      using assms(1) Some f that [of 2 1]
      by (auto simp: replace_file_def undisturbed_def put_file_def remove_file_def Let_def numeral_2_eq_2
          split: if_splits option.splits)
  next
    case False
    then show ?thesis
      using assms(1) Some f that [of 3 0]
      by (auto simp: replace_file_def undisturbed_def put_file_def remove_file_def Let_def numeral_3_eq_3
          split: if_splits option.splits)
  qed
qed

lemma undisturbed_trans: "undisturbed t d s \<Longrightarrow> undisturbed t s u \<Longrightarrow> undisturbed t d u"
  by (auto simp: undisturbed_def)

lemma backed_up_kept:
  assumes b: "backed_up t d s" and u: "undisturbed t s u"
  shows "backed_up t d u"
proof -
  show ?thesis
  proof (cases "d_files d t")
    case (Some old)
    then obtain b where b: "d_files d b = None" "d_files s b = Some old" using b by (auto simp: backed_up_def)
    then have "b \<noteq> t" using Some by auto
    then have "d_files u b = Some old" using u b(2) by (simp add: undisturbed_def)
    then show ?thesis using b(1) Some by (auto simp: backed_up_def)
  qed (simp add: backed_up_def)
qed

lemma parent_run: "make_parent F create dir d = (e, ds) \<Longrightarrow> \<exists>s. ds = [s] \<and> d_files s = d_files d"
  by (auto simp: make_parent_def split: if_splits)

text \<open>
  The run seen from the target is that of the specification "leave it, or replace it at once": the old
  content up to some call, the new one after it, and the new one only if the run succeeds.
\<close>

definition old_then_new :: "'c option \<Rightarrow> 'c \<Rightarrow> bool \<Rightarrow> 'c option list \<Rightarrow> bool" where
  "old_then_new old new ok cs \<longleftrightarrow> (\<exists>n m. cs = replicate n old @ replicate m (Some new) \<and> (ok \<longleftrightarrow> 0 < m))"

lemma old_then_new_Cons: "old_then_new old new ok cs \<Longrightarrow> old_then_new old new ok (old # cs)"
  unfolding old_then_new_def by (metis append_Cons replicate_Suc)

lemma old_then_new_append:
  "list_all (\<lambda>c. c = old) cs \<Longrightarrow> old_then_new old new ok cs' \<Longrightarrow> old_then_new old new ok (cs @ cs')"
  by (induction cs) (auto intro: old_then_new_Cons)

lemma old_then_new_old: "list_all (\<lambda>c. c = old) cs \<Longrightarrow> old_then_new old new False cs"
proof (induction cs)
  case Nil
  show ?case by (simp add: old_then_new_def)
qed (simp add: old_then_new_Cons)

lemma atomic_write_run:
  assumes "atomicWrite blank F stamp path data create d = (e, ds)" "t = write_target d path"
    "t \<notin> set (map (temp_name t) (f_tmp_rand F))"
  shows "old_then_new (d_files d t) data (e = None) (map (\<lambda>s. d_files s t) ds) \<and>
    list_all (\<lambda>s. undisturbed t d s \<and> (d_files s t = d_files d t \<or> backed_up t d s)) ds"
proof -
  let ?ok = "\<lambda>s. undisturbed t d s \<and> d_files s t = d_files d t"
  have stop: ?thesis if "e \<noteq> None" "list_all ?ok ds"
    using that by (auto simp: list_all_iff comp_def intro!: old_then_new_old [where new = data, simplified])
  show ?thesis
  proof (cases "d_links d path = Some None \<or> d_links d path = None \<and> f_lstat F")
    case True
    then show ?thesis
      using stop assms(1) by (auto simp: atomicWrite_def undisturbed_refl)
  next
    case False
    then have run: "and_run (make_parent F create (dir_of t) d) (\<lambda>d1.
        and_run (write_backup blank F stamp t d1) (\<lambda>d2. replace_file blank F t data d2)) = (e, ds)"
      using assms(1,2) by (auto simp: atomicWrite_def Let_def split: option.splits)
    obtain e1 s where p: "make_parent F create (dir_of t) d = (e1, [s])" "d_files s = d_files d"
      using parent_run by (metis surj_pair)
    obtain e2 bs where b: "write_backup blank F stamp t s = (e2, bs)" by (cases "write_backup blank F stamp t s")
    note bk = backup_run [OF b]
    obtain e3 rs where r: "replace_file blank F t data (last bs) = (e3, rs)" by (cases "replace_file blank F t data (last bs)")
    have us: "undisturbed t d s" "?ok s" using p(2) by (simp_all add: undisturbed_def)
    have ubs: "list_all ?ok bs" using bk p(2) undisturbed_trans [OF us(1)] by (auto simp: list_all_iff)
    consider "e1 \<noteq> None" "e = e1" "ds = [s]" | "e1 = None" "e2 \<noteq> None" "e = e2" "ds = s # bs"
      | "e1 = None" "e2 = None" "e = e3" "ds = s # bs @ rs"
      using run p b r by (cases e1; cases e2) (auto simp: and_run_def)
    then show ?thesis
    proof cases
      case 1
      then show ?thesis using stop us by simp
    next
      case 2
      then show ?thesis using stop us ubs by simp
    next
      case 3
      let ?l = "last bs"
      have same: "backed_up t s = backed_up t d" unfolding backed_up_def p(2) ..
      have l: "?ok ?l" "backed_up t d ?l"
        using ubs bk 3(2) unfolding same by (simp_all add: list_all_iff p(2))
      obtain n m where nm: "map (\<lambda>s. d_files s t) rs = replicate n (d_files ?l t) @ replicate m (Some data)"
        "e3 = None \<longleftrightarrow> 0 < m" "list_all (undisturbed t ?l) rs"
        using replace_run [OF r assms(3)] by metis
      have "old_then_new (d_files d t) data (e = None) (map (\<lambda>s. d_files s t) rs)"
        using nm(1,2) l(1) 3(3) unfolding old_then_new_def by metis
      then have "old_then_new (d_files d t) data (e = None) (map (\<lambda>s. d_files s t) ds)"
        using ubs us(2) 3(4) by (simp add: old_then_new_Cons old_then_new_append list_all_iff)
      moreover have "list_all (\<lambda>s. undisturbed t d s \<and> backed_up t d s) rs"
        using nm(3) undisturbed_trans [OF conjunct1 [OF l(1)]] backed_up_kept [OF l(2)] by (auto simp: list_all_iff)
      ultimately show ?thesis using us(2) ubs 3(4) by (auto simp: list_all_iff)
    qed
  qed
qed

text \<open>
  C37. Whichever call fails and wherever the write is interrupted, the configuration file holds its
  old content or the complete new one, changes once, and changes only if the write reports success; no
  other file that existed is touched, and once the content has changed a file that did not exist
  before holds the old content.
\<close>

theorem atomic_write_refines:
  assumes "atomicWrite blank F stamp path data create d = (e, ds)" "t = write_target d path"
    "t \<notin> set (map (temp_name t) (f_tmp_rand F))"
  shows "old_then_new (d_files d t) data (e = None) (map (\<lambda>s. d_files s t) ds) \<and>
    list_all (\<lambda>s. undisturbed t d s \<and> (d_files s t = d_files d t \<or> backed_up t d s)) ds"
  using assms by (rule atomic_write_run)

text \<open>A registration over an existing file: the old text is in the backup.\<close>

definition demo_disk :: "string disk" where
  "demo_disk = \<lparr>d_files = (\<lambda>f. if f = ''/h/.codex/config.toml'' then Some ''old'' else None), d_dirs = (\<lambda>_. True),
     d_links = (\<lambda>_. None)\<rparr>"

definition no_faults :: "'c faults" where
  "no_faults = \<lparr>f_lstat = False, f_mkdir = False, f_read = False, f_bak_rand = [''1''], f_bak_write = None, f_bak_close = False,
     f_tmp_rand = [''2''], f_tmp_write = None, f_tmp_close = False, f_chmod = False, f_rename = False, f_remove = False\<rparr>"

theorem atomic_write_refines_witness:
  "\<exists>ds. atomicWrite [] no_faults ''T'' ''/h/.codex/config.toml'' ''new'' True demo_disk = (None, ds) \<and>
     d_files (last ds) ''/h/.codex/config.toml'' = Some ''new'' \<and> backed_up ''/h/.codex/config.toml'' demo_disk (last ds)"
proof -
  let ?p = "''/h/.codex/config.toml''"
  obtain e ds where r: "atomicWrite [] no_faults ''T'' ?p ''new'' True demo_disk = (e, ds)" by fastforce
  have e: "fst (atomicWrite [] no_faults ''T'' ?p ''new'' True demo_disk) = None"
    "d_files (last (snd (atomicWrite [] no_faults ''T'' ?p ''new'' True demo_disk))) ?p = Some ''new''" by code_simp+
  have t: "?p = write_target demo_disk ?p" "?p \<notin> set (map (temp_name ?p) (f_tmp_rand no_faults))"
    "d_files demo_disk ?p = Some ''old''" by code_simp+
  have "ds \<noteq> []"
    using r e by (auto simp: atomicWrite_def and_run_def replace_file_def Let_def split: prod.splits option.splits if_splits)
  then have "last ds \<in> set ds" by simp
  then have "backed_up ?p demo_disk (last ds)"
    using atomic_write_refines [OF r t(1,2)] r e(2) t(3) by (auto simp: list_all_iff)
  then show ?thesis using r e by auto
qed

end
