(* ===== verification/Daemon_Ctl.thy ===== *)
theory Daemon_Ctl
  imports Waiting Daemon_Life Config_Write Proto_Encode Cli Handlers_Source
begin

text \<open>
  The client's dealings with the daemon process: \<open>internal/cli/daemon_client.go\<close> (one call, starting a daemon),
  \<open>daemon_cmd.go\<close> (\<open>daemon stop\<close> and \<open>daemon status\<close>), \<open>logs.go\<close>, \<open>output.go\<close>, and the log rotation of the
  daemon. Time is in nanoseconds. What is observed in each round of a waiting loop, and how long that
  took, is a sequence that the loop reads; the loops themselves are total functions.
\<close>

section \<open>Starting the daemon\<close>

text \<open>Whether a connection was made, the number of attempts, the clock.\<close>

function spawn_wait :: "(nat \<Rightarrow> dial_round) \<Rightarrow> int \<Rightarrow> nat \<Rightarrow> int \<Rightarrow> bool \<times> nat \<times> int" where
  "spawn_wait rounds deadline i clock =
     (if clock < deadline
      then let clock1 = clock + int (dr_took (rounds i)) in
        if dr_connects (rounds i) then (True, Suc i, clock1)
        else spawn_wait rounds deadline (Suc i) (after_sleep (millis 100) clock1)
      else (False, i, clock))"
  by pat_completeness auto
termination
  by (relation "measure (\<lambda>(_, deadline, _, clock). nat (deadline - clock))") (auto simp: after_sleep_def millis_def)

declare spawn_wait.simps [simp del]

definition dialOrSpawn :: "bool \<Rightarrow> string option \<Rightarrow> (nat \<Rightarrow> dial_round) \<Rightarrow> int \<Rightarrow> string + unit" where
  "dialOrSpawn connects spawnError rounds clock =
     (if connects then Inr ()
      else case spawnError of
        Some e \<Rightarrow> Inl e
      | None \<Rightarrow> if fst (spawn_wait rounds (clock + millis 3000) 0 clock) then Inr () else Inl ''daemon failed to start within 3s'')"

section \<open>Stopping the daemon\<close>

text \<open>
  What \<open>os.Stat\<close> of the socket path says (a file has an identity), what \<open>Dial\<close> says (an error other than "nobody
  there" may be a timeout), and whether \<open>kill\<close> finds no process.
\<close>

datatype stat = StatFails | StatNone | StatFile nat

datatype dialled = Dialled | NobodyThere | DialFails bool

record stop_round =
  sr_stat :: stat
  sr_dial :: dialled
  sr_dead :: bool
  sr_took :: nat

text \<open>A failure, and whether it is a \<open>context.DeadlineExceeded\<close>.\<close>

type_synonym failure = "string \<times> bool"

definition replaced :: "stat \<Rightarrow> stat \<Rightarrow> bool" where
  "replaced orig cur \<longleftrightarrow> (case (orig, cur) of (StatFile i, StatFile j) \<Rightarrow> i \<noteq> j | _ \<Rightarrow> False)"

text \<open>Whether the loop fails or succeeds, and the number of rounds.\<close>

function stop_wait :: "(nat \<Rightarrow> stop_round) \<Rightarrow> stat \<Rightarrow> int \<Rightarrow> int \<Rightarrow> nat \<Rightarrow> int \<Rightarrow> failure option \<times> nat" where
  "stop_wait rounds orig pid deadline i clock =
     (if clock < deadline
      then let r = rounds i; clock1 = clock + int (sr_took r);
               again = stop_wait rounds orig pid deadline (Suc i) (after_sleep (min (deadline - clock1) (millis 10)) clock1) in
        if sr_stat r = StatFails then (Some (''check shutdown socket'', False), Suc i)
        else if replaced orig (sr_stat r) then (None, Suc i)
        else (case sr_dial r of
                Dialled \<Rightarrow> again
              | NobodyThere \<Rightarrow> if pid \<le> 0 \<or> sr_dead r then (None, Suc i) else again
              | DialFails t \<Rightarrow> (Some (''verify daemon shutdown'', t), Suc i))
      else (Some (''daemon acknowledged shutdown but did not release its endpoint'', True), i))"
  by pat_completeness auto
termination
  by (relation "measure (\<lambda>(_, _, _, deadline, _, clock). nat (deadline - clock))") (auto simp: after_sleep_def millis_def)

declare stop_wait.simps [simp del]

text \<open>A response as it crosses the wire.\<close>

record wire_error =
  we_Code :: string
  we_Message :: string
  we_Hint :: string

record wire_response =
  wr_OK :: bool
  wr_Data :: raw
  wr_Error :: "wire_error option"

text \<open>What happens to one shutdown request: the exchange fails, or a response arrives at some time.\<close>

record stop_world =
  sw_stat :: stat
  sw_is_socket :: bool
  sw_pid :: int
  sw_dial :: dialled
  sw_exchange :: "string + wire_response"
  sw_rounds :: "nat \<Rightarrow> stop_round"
  sw_took :: nat

definition not_running :: wire_response where
  "not_running = \<lparr>wr_OK = True, wr_Data = RawJson (JObj [(''shutdown'', JStr ''not running'')]), wr_Error = None\<rparr>"

definition stopRunningDaemon :: "stop_world \<Rightarrow> int \<Rightarrow> int \<Rightarrow> failure + wire_response" where
  "stopRunningDaemon W timeout clock =
     (let deadline = clock + timeout in
      if sw_stat W = StatFails then Inl (''inspect daemon socket'', False)
      else if sw_stat W \<noteq> StatNone \<and> \<not> sw_is_socket W then Inl (''daemon endpoint is not a Unix socket'', False)
      else case sw_dial W of
        NobodyThere \<Rightarrow> Inr not_running
      | DialFails t \<Rightarrow> Inl (''connect to daemon'', t)
      | Dialled \<Rightarrow>
          (case sw_exchange W of
             Inl e \<Rightarrow> Inl (e, False)
           | Inr resp \<Rightarrow>
               if \<not> wr_OK resp then Inr resp
               else (case fst (stop_wait (sw_rounds W) (sw_stat W) (sw_pid W) deadline 0 (clock + int (sw_took W))) of
                       None \<Rightarrow> Inr resp
                     | Some f \<Rightarrow> Inl f)))"

section \<open>One call, and what the command prints\<close>

definition daemonCall :: "string + unit \<Rightarrow> string + wire_response \<Rightarrow> string + wire_response" where
  "daemonCall connection exchange =
     (case connection of Inl e \<Rightarrow> Inl (''daemon unreachable: '' @ e) | Inr _ \<Rightarrow> exchange)"

text \<open>
  The envelope of \<open>pkg/api\<close> without its time stamp. Absent data is left out. Printing is a list of envelopes.
\<close>

datatype envelope = Success "json option" | Failure string string string

definition emit :: "bool \<Rightarrow> json option \<Rightarrow> envelope list" where
  "emit quiet data = (if quiet then [] else [Success data])"

definition emitErr :: "string \<Rightarrow> string \<Rightarrow> string \<Rightarrow> envelope list" where
  "emitErr code msg hint = [Failure code msg hint]"

text \<open>Data that is not JSON is printed as a string.\<close>

definition response_data :: "raw \<Rightarrow> json option" where
  "response_data d = (case d of RawEmpty \<Rightarrow> None | RawBad s \<Rightarrow> Some (JStr s) | RawJson JNull \<Rightarrow> None | RawJson v \<Rightarrow> Some v)"

definition daemonError :: "string \<Rightarrow> string" where
  "daemonError code = (if code = [] then ''daemon returned error'' else ''daemon: '' @ code)"

definition emitResp :: "bool \<Rightarrow> wire_response \<Rightarrow> envelope list \<times> cli_error option" where
  "emitResp quiet resp =
     (if wr_OK resp then (emit quiet (response_data (wr_Data resp)), None)
      else case wr_Error resp of
        None \<Rightarrow> (emitErr ''INTERNAL_ERROR'' ''unknown daemon error'' [], Some (OtherError (daemonError [])))
      | Some e \<Rightarrow> (emitErr (we_Code e) (we_Message e) (we_Hint e), Some (OtherError (daemonError (we_Code e)))))"

definition callRaw :: "bool \<Rightarrow> string + wire_response \<Rightarrow> envelope list \<times> cli_error option" where
  "callRaw quiet answer =
     (case answer of
        Inl e \<Rightarrow> (emitErr ''DAEMON_UNREACHABLE'' e [], Some (OtherError e))
      | Inr resp \<Rightarrow> emitResp quiet resp)"

text \<open>The same call made for the MCP server: \<open>mcpDaemonCaller\<close>.\<close>

definition mcp_Call :: "string + wire_response \<Rightarrow> string + json" where
  "mcp_Call answer =
     (case answer of
        Inl e \<Rightarrow> Inl e
      | Inr resp \<Rightarrow>
          if \<not> wr_OK resp then
            Inl (case wr_Error resp of Some e \<Rightarrow> we_Code e @ '': '' @ we_Message e | None \<Rightarrow> ''daemon error'')
          else (case wr_Data resp of RawJson v \<Rightarrow> Inr v | RawEmpty \<Rightarrow> Inr JNull | RawBad s \<Rightarrow> Inl s))"

section \<open>Commands\<close>

definition daemon_stop_cmd :: "bool \<Rightarrow> stop_world \<Rightarrow> int \<Rightarrow> envelope list \<times> cli_error option" where
  "daemon_stop_cmd quiet W clock =
     (case stopRunningDaemon W (millis 5000) clock of
        Inl (msg, late) \<Rightarrow>
          (emitErr (if late then ''TIMEOUT'' else ''DAEMON_UNREACHABLE'') msg
             ''check `sl-dbg daemon status` and `sl-dbg daemon logs` before retrying'',
           Some (OtherError msg))
      | Inr resp \<Rightarrow> emitResp quiet resp)"

definition daemon_status_cmd :: "bool \<Rightarrow> environ \<Rightarrow> string option \<Rightarrow> string option \<Rightarrow> bool \<Rightarrow> envelope list" where
  "daemon_status_cmd quiet env user pidfile connects =
     emit quiet (Some (JObj [(''alive'', JBool connects), (''log'', JStr (LogFilePath env user)),
       (''pid'', JInt (ReadPidFile pidfile)), (''socket'', JStr (SocketPath env user))]))"

section \<open>The log\<close>

definition rotateIfTooLarge :: "string faults \<Rightarrow> string \<Rightarrow> nat \<Rightarrow> string disk \<Rightarrow> string disk" where
  "rotateIfTooLarge F path maxBytes d =
     (case d_files d path of
        None \<Rightarrow> d
      | Some content \<Rightarrow>
          if length content < maxBytes then d
          else let d1 = remove_file F (path @ ''.1'') d in
            if f_rename F then d1
            else d1\<lparr>d_files := (d_files d1)(path @ ''.1'' := Some content, path := None)\<rparr>)"

text \<open>\<open>bufio.Scanner\<close> with a buffer of 1 MiB: lines without their end; a longer one is an error.\<close>

definition log_lines :: "nat \<Rightarrow> string \<Rightarrow> string list \<times> bool" where
  "log_lines limit content =
     (let ls = scan_lines content in
      (map strip_cr (takeWhile (\<lambda>l. length l < limit) ls), list_ex (\<lambda>l. limit \<le> length l) ls))"

definition scan_limit :: nat where
  "scan_limit = 2 ^ 20"

definition tailFile :: "string option \<Rightarrow> int \<Rightarrow> (string \<times> string list) + string list" where
  "tailFile content n =
     (case content of
        None \<Rightarrow> Inl (''open'', [])
      | Some s \<Rightarrow>
          (case log_lines scan_limit s of
             (ls, True) \<Rightarrow> Inl (''bufio.Scanner: token too long'', ls)
           | (ls, False) \<Rightarrow> Inr (if 0 < n \<and> n < int (length ls) then drop (length ls - nat n) ls else ls)))"

definition newLogsCmd :: "bool \<Rightarrow> string \<Rightarrow> string option \<Rightarrow> bool \<Rightarrow> int \<Rightarrow> envelope list \<times> cli_error option" where
  "newLogsCmd quiet p content pathOnly n =
     (if pathOnly then (emit quiet (Some (JObj [(''path'', JStr p)])), None)
      else case tailFile content n of
        Inl (e, _) \<Rightarrow> (emitErr ''INTERNAL_ERROR'' e [], None)
      | Inr ls \<Rightarrow>
          (emit quiet (Some (JObj [(''lines'', if ls = [] then JNull else JArr (map JStr ls)), (''path'', JStr p)])), None))"

section \<open>The loops end\<close>

interpretation spawn: polling "\<lambda>i t. fst (snd (spawn_wait rounds deadline i t))" "millis 100" deadline for rounds deadline
proof
  fix i t assume "t < deadline"
  let ?next = "after_sleep (millis 100) (t + int (dr_took (rounds i)))"
  have "t + millis 100 \<le> ?next" by (simp add: after_sleep_def millis_def)
  then show "fst (snd (spawn_wait rounds deadline i t)) = Suc i \<or>
      (\<exists>t'. (t + millis 100 \<le> t' \<or> deadline \<le> t') \<and>
        fst (snd (spawn_wait rounds deadline i t)) = fst (snd (spawn_wait rounds deadline (Suc i) t')))"
    using \<open>t < deadline\<close> by (auto simp: spawn_wait.simps [of rounds deadline i t] Let_def)
qed (simp_all add: millis_def spawn_wait.simps)

interpretation stop: polling "\<lambda>i t. snd (stop_wait rounds orig pid deadline i t)" "millis 10" deadline
  for rounds orig pid deadline
proof
  fix i t assume "t < deadline"
  let ?t1 = "t + int (sr_took (rounds i))"
  let ?next = "after_sleep (min (deadline - ?t1) (millis 10)) ?t1"
  have "t + millis 10 \<le> ?next \<or> deadline \<le> ?next" by (auto simp: after_sleep_def min_def)
  then show "snd (stop_wait rounds orig pid deadline i t) = Suc i \<or>
      (\<exists>t'. (t + millis 10 \<le> t' \<or> deadline \<le> t') \<and>
        snd (stop_wait rounds orig pid deadline i t) = snd (stop_wait rounds orig pid deadline (Suc i) t'))"
    using \<open>t < deadline\<close> by (auto simp: stop_wait.simps [of rounds orig pid deadline i t] Let_def split: dialled.splits)
qed (simp_all add: millis_def stop_wait.simps)

text \<open>
  C32. No client waits for ever. Whatever the daemon and the system do, \<open>daemon stop\<close> probes at most 500
  times after the daemon has acknowledged, and a command that has spawned a daemon tries to
  connect at most 30 times, however fast the probes are answered; both loops are total functions.
\<close>

theorem waits_are_bounded:
  "snd (stop_wait rounds orig pid (clock + millis 5000) 0 (clock + int took)) \<le> 500 \<and>
   fst (snd (spawn_wait attempts (clock + millis 3000) 0 clock)) \<le> 30"
proof
  show "snd (stop_wait rounds orig pid (clock + millis 5000) 0 (clock + int took)) \<le> 500"
    by (rule stop.bounded) (simp add: millis_def)
  show "fst (snd (spawn_wait attempts (clock + millis 3000) 0 clock)) \<le> 30"
    by (rule spawn.bounded) (simp add: millis_def)
qed

section \<open>A reported stop is one\<close>

lemma stop_wait_success:
  "stop_wait rounds orig pid deadline i clock = (None, n) \<Longrightarrow>
     \<exists>j. replaced orig (sr_stat (rounds j)) \<or> sr_dial (rounds j) = NobodyThere \<and> (pid \<le> 0 \<or> sr_dead (rounds j))"
proof (induction rounds orig pid deadline i clock arbitrary: n rule: stop_wait.induct)
  case (1 rounds orig pid deadline i clock)
  let ?clock1 = "clock + int (sr_took (rounds i))"
  let ?next = "after_sleep (min (deadline - ?clock1) (millis 10)) ?clock1"
  consider "replaced orig (sr_stat (rounds i))" | "sr_dial (rounds i) = NobodyThere" "pid \<le> 0 \<or> sr_dead (rounds i)"
    | "clock < deadline" "stop_wait rounds orig pid deadline (Suc i) ?next = (None, n)"
    using 1(2) by (subst (asm) stop_wait.simps) (auto simp: Let_def split: if_splits dialled.splits)
  then show ?case
  proof cases
    case 3
    show ?thesis by (rule 1(1) [OF 3(1) refl refl 3(2)])
  qed auto
qed


text \<open>
  The exit status of a daemon command is 0 exactly when the daemon answered with success, and 1 in every
  other case, whether the daemon cannot be reached or reports an error of the adapter: the codes 3 and
  4 of the documentation do not occur. One envelope is printed, a failure exactly in the cases of
  status 1; only a success is silenced by \<open>--quiet\<close>.
\<close>

theorem call_exit_status:
  "case callRaw quiet answer of (out, e) \<Rightarrow>
     ExitCodeFor e = (case answer of Inr resp \<Rightarrow> if wr_OK resp then 0 else 1 | Inl _ \<Rightarrow> 1) \<and>
     (if ExitCodeFor e = 0 then out = (if quiet then [] else [Success (response_data (case answer of Inr resp \<Rightarrow> wr_Data resp | _ \<Rightarrow> RawEmpty))])
      else \<exists>code msg hint. out = [Failure code msg hint])"
  by (auto simp: callRaw_def emitResp_def emit_def emitErr_def ExitCodeFor_def split: sum.splits option.splits)

section \<open>The end of the log\<close>

definition log_line :: "string \<Rightarrow> bool" where
  "log_line l \<longleftrightarrow> newline \<notin> set l \<and> length l < scan_limit \<and> \<not> has_suffix l [CHR 0x0D]"

lemma scan_written:
  assumes "list_all (\<lambda>l. newline \<notin> set l) ls"
  shows "scan_lines (concat (map (\<lambda>l. l @ [newline]) ls)) = ls"
proof -
  have "split_on newline (concat (map (\<lambda>l. l @ [newline]) ls)) = ls @ [[]]"
    using assms by (induction ls) (auto simp: split_on_sep)
  then show ?thesis by (simp add: scan_lines_def newline_def)
qed

lemma log_lines_written:
  assumes "list_all log_line ls"
  shows "log_lines scan_limit (concat (map (\<lambda>l. l @ [newline]) ls)) = (ls, False)"
proof -
  have "scan_lines (concat (map (\<lambda>l. l @ [newline]) ls)) = ls"
    using assms by (intro scan_written) (auto simp: list_all_iff log_line_def)
  moreover have "takeWhile (\<lambda>l. length l < scan_limit) ls = ls"
    using assms by (subst takeWhile_eq_all_conv) (auto simp: list_all_iff log_line_def)
  moreover have "map strip_cr ls = ls"
    using assms by (induction ls) (auto simp: strip_cr_def log_line_def)
  moreover have "\<not> list_ex (\<lambda>l. scan_limit \<le> length l) ls"
    using assms by (auto simp: list_all_iff list_ex_iff log_line_def)
  ultimately show ?thesis unfolding log_lines_def Let_def by (simp only: simp_thms)
qed

text \<open>A single line of a MiB or more anywhere makes the command fail, and yet end with status 0.\<close>

lemma long_line_hides_log:
  assumes "list_all (\<lambda>l. newline \<notin> set l) ls" "l \<in> set ls" "scan_limit \<le> length l"
  shows "newLogsCmd quiet p (Some (concat (map (\<lambda>l. l @ [newline]) ls))) False n =
    (emitErr ''INTERNAL_ERROR'' ''bufio.Scanner: token too long'' [], None)"
proof -
  have "list_ex (\<lambda>l. scan_limit \<le> length l) ls" using assms(2,3) by (auto simp: list_ex_iff)
  then show ?thesis
    by (simp add: newLogsCmd_def tailFile_def log_lines_def scan_written [OF assms(1)])
qed

text \<open>
  \<open>logs\<close> shows the last lines of the log: of a file of complete lines, each shorter than a MiB, exactly
  the last \<open>n\<close> ones in order, and all of them for \<open>n\<close> = 0, for a negative \<open>n\<close> and if there are fewer.
\<close>

theorem log_tail:
  assumes "list_all log_line ls"
  shows "tailFile (Some (concat (map (\<lambda>l. l @ [newline]) ls))) n = Inr (if 0 < n then last_n (nat n) ls else ls)"
  using log_lines_written [OF assms] by (auto simp: tailFile_def last_n_def)

section \<open>Examples\<close>

lemma log_tail_witness:
  "tailFile (Some (concat (map (\<lambda>l. l @ [newline]) [''a'', [], ''b'']))) 2 = Inr [[], ''b'']"
proof -
  have "list_all log_line [''a'', [], ''b'']" by (simp add: log_line_def newline_def scan_limit_def has_suffix_def suffix_to_prefix)
  then show ?thesis using log_tail [of "[''a'', [], ''b'']" 2] by (simp add: last_n_def)
qed

definition demo_round :: "dialled \<Rightarrow> bool \<Rightarrow> stop_round" where
  "demo_round d dead = \<lparr>sr_stat = StatFile 1, sr_dial = d, sr_dead = dead, sr_took = 0\<rparr>"

definition demo_stop :: stop_world where
  "demo_stop = \<lparr>sw_stat = StatFile 1, sw_is_socket = True, sw_pid = 9, sw_dial = Dialled, sw_exchange = Inr not_running,
     sw_rounds = (\<lambda>i. if i = 0 then demo_round Dialled False else demo_round NobodyThere True), sw_took = 0\<rparr>"


end
