(* ===== verification/Json_Text.thy ===== *)
theory Json_Text
  imports Ipc
begin

text \<open>
  The reading of JSON text by \<open>encoding/json\<close>: white space, string escapes with their surrogate pairs, the
  replacement of bytes that are not UTF-8, numbers, the limit on nesting. \<open>json.Unmarshal\<close> of a line is
  \<open>json_parse\<close> followed by the decoding of the value in \<open>Json\<close>.
\<close>

section \<open>Strings\<close>

definition replacement :: string where
  "replacement = encode_rune 0xFFFD"

definition json_escapes :: "(char \<times> char) list" where
  "json_escapes =
     [(CHR 0x22, CHR 0x22), (CHR 0x5C, CHR 0x5C), (CHR ''/'', CHR ''/''), (CHR ''b'', CHR 0x08), (CHR ''f'', CHR 0x0C),
      (CHR ''n'', CHR 0x0A), (CHR ''r'', CHR 0x0D), (CHR ''t'', CHR 0x09)]"

definition read_u4 :: "string \<Rightarrow> nat option" where
  "read_u4 s = (if length s < 4 then None else base_value 16 unhex 0 (take 4 s))"

definition high_surrogate :: "nat \<Rightarrow> bool" where
  "high_surrogate v \<longleftrightarrow> 0xD800 \<le> v \<and> v < 0xDC00"

definition low_surrogate :: "nat \<Rightarrow> bool" where
  "low_surrogate v \<longleftrightarrow> 0xDC00 \<le> v \<and> v < 0xE000"

text \<open>The low half of a pair that starts with \<open>v\<close>, if the text goes on with one.\<close>

definition second_half :: "nat \<Rightarrow> string \<Rightarrow> (nat \<times> string) option" where
  "second_half v s =
     (if high_surrogate v \<and> prefix [CHR 0x5C, CHR ''u''] s
      then (case read_u4 (drop 2 s) of
              Some w \<Rightarrow> if low_surrogate w then Some ((v - 0xD800) * 0x400 + (w - 0xDC00) + 0x10000, drop 6 s) else None
            | None \<Rightarrow> None)
      else None)"

definition unicode_escape :: "string \<Rightarrow> (string \<times> string) option" where
  "unicode_escape s =
     (case read_u4 s of
        None \<Rightarrow> None
      | Some v \<Rightarrow>
          let rest = drop 4 s in
          if high_surrogate v \<or> low_surrogate v
          then (case second_half v rest of
                  Some (r, rest') \<Rightarrow> Some (encode_rune r, rest')
                | None \<Rightarrow> Some (replacement, rest))
          else Some (encode_rune v, rest))"

text \<open>One character of a string, and what follows it.\<close>

fun json_char :: "string \<Rightarrow> (string \<times> string) option" where
  "json_char [] = None"
| "json_char (c # cs) =
     (if char_code c < 0x20 then None
      else if c = CHR 0x5C then
        (case cs of
           [] \<Rightarrow> None
         | d # ds \<Rightarrow>
             (case map_of json_escapes d of
                Some e \<Rightarrow> Some ([e], ds)
              | None \<Rightarrow> if d = CHR ''u'' then unicode_escape ds else None))
      else (case rune_tail c cs of
              None \<Rightarrow> Some (replacement, cs)
            | Some n \<Rightarrow> Some (c # take n cs, drop n cs)))"

lemma unicode_escape_shorter: "unicode_escape s = Some (bs, rest) \<Longrightarrow> length rest \<le> length s"
  by (auto simp: unicode_escape_def second_half_def Let_def split: option.splits if_splits)

lemma json_char_shorter: "json_char s = Some (bs, rest) \<Longrightarrow> length rest < length s"
  by (cases s) (auto dest: unicode_escape_shorter split: if_splits option.splits list.splits)

text \<open>After the opening quote: the string, and what follows the closing quote.\<close>

function json_string :: "string \<Rightarrow> (string \<times> string) option" where
  "json_string s =
     (if s = [] then None
      else if hd s = CHR 0x22 then Some ([], tl s)
      else (case json_char s of
              None \<Rightarrow> None
            | Some (bs, rest) \<Rightarrow> map_option (apfst ((@) bs)) (json_string rest)))"
  by pat_completeness auto
termination
  by (relation "measure length") (auto dest: json_char_shorter)

declare json_string.simps [simp del]

section \<open>Numbers\<close>

definition digits_of :: "string \<Rightarrow> string" where
  "digits_of s = takeWhile is_digit s"

definition after_digits :: "string \<Rightarrow> string" where
  "after_digits s = dropWhile is_digit s"

text \<open>The digits after a point; the exponent. Without them, the rest is the text itself.\<close>

definition fraction :: "string \<Rightarrow> (string \<times> string) option" where
  "fraction s =
     (if prefix ''.'' s
      then (if digits_of (tl s) = [] then None else Some (digits_of (tl s), after_digits (tl s)))
      else Some ([], s))"

definition exponent :: "string \<Rightarrow> (int option \<times> string) option" where
  "exponent s =
     (if s \<noteq> [] \<and> (hd s = CHR ''e'' \<or> hd s = CHR ''E'')
      then (let t = tl s; neg = prefix ''-'' t; u = (if neg \<or> prefix ''+'' t then tl t else t) in
            if digits_of u = [] then None
            else Some (Some (if neg then - int (digits_value (digits_of u)) else int (digits_value (digits_of u))), after_digits u))
      else Some (None, s))"

definition number_value :: "bool \<Rightarrow> string \<Rightarrow> string \<Rightarrow> int option \<Rightarrow> json" where
  "number_value neg ds fs x =
     (let m = (if neg then - int (digits_value (ds @ fs)) else int (digits_value (ds @ fs))) in
      case x of
        None \<Rightarrow> if fs = [] then JInt m else JDec m (length fs)
      | Some k \<Rightarrow> if 0 \<le> k then JDec (m * 10 ^ nat k) (length fs) else JDec m (length fs + nat (- k)))"

definition json_number :: "string \<Rightarrow> (json \<times> string) option" where
  "json_number s =
     (let neg = prefix ''-'' s; t = (if neg then tl s else s);
          ds = (if prefix ''0'' t then ''0'' else digits_of t) in
      if ds = [] then None
      else (case fraction (drop (length ds) t) of
              None \<Rightarrow> None
            | Some (fs, u) \<Rightarrow>
                (case exponent u of None \<Rightarrow> None | Some (x, rest) \<Rightarrow> Some (number_value neg ds fs x, rest))))"

section \<open>Values\<close>

definition json_space :: "char \<Rightarrow> bool" where
  "json_space c \<longleftrightarrow> c = CHR '' '' \<or> c = CHR 0x09 \<or> c = CHR 0x0A \<or> c = CHR 0x0D"

definition skip_space :: "string \<Rightarrow> string" where
  "skip_space s = dropWhile json_space s"

definition json_literals :: "(string \<times> json) list" where
  "json_literals = [(''null'', JNull), (''true'', JBool True), (''false'', JBool False)]"

definition json_scalar :: "string \<Rightarrow> (json \<times> string) option" where
  "json_scalar s =
     (case find (\<lambda>(w, v). prefix w s) json_literals of
        Some (w, v) \<Rightarrow> Some (v, drop (length w) s)
      | None \<Rightarrow> json_number s)"

definition maxNestingDepth :: nat where
  "maxNestingDepth = 10000"

text \<open>The fuel bounds the number of nested calls; the length of the text is enough.\<close>

fun json_value :: "nat \<Rightarrow> nat \<Rightarrow> string \<Rightarrow> (json \<times> string) option"
and json_elems :: "nat \<Rightarrow> nat \<Rightarrow> string \<Rightarrow> (json list \<times> string) option"
and json_members :: "nat \<Rightarrow> nat \<Rightarrow> string \<Rightarrow> ((string \<times> json) list \<times> string) option" where
  "json_value 0 d s = None"
| "json_value (Suc f) d s =
     (case skip_space s of
        [] \<Rightarrow> None
      | c # cs \<Rightarrow>
          if c = CHR 0x22 then map_option (apfst JStr) (json_string cs)
          else if c = CHR ''['' \<or> c = CHR ''{'' then
            (if maxNestingDepth \<le> d then None
             else if c = CHR ''['' then
               (if prefix '']'' (skip_space cs) then Some (JArr [], tl (skip_space cs))
                else map_option (apfst JArr) (json_elems f (Suc d) cs))
             else
               (if prefix ''}'' (skip_space cs) then Some (JObj [], tl (skip_space cs))
                else map_option (apfst JObj) (json_members f (Suc d) cs)))
          else json_scalar (c # cs))"
| "json_elems 0 d s = None"
| "json_elems (Suc f) d s =
     (case json_value f d s of
        None \<Rightarrow> None
      | Some (v, r) \<Rightarrow>
          (case skip_space r of
             [] \<Rightarrow> None
           | c # r' \<Rightarrow>
               if c = CHR '']'' then Some ([v], r')
               else if c = CHR '','' then map_option (apfst ((#) v)) (json_elems f d r')
               else None))"
| "json_members 0 d s = None"
| "json_members (Suc f) d s =
     (if \<not> prefix [CHR 0x22] (skip_space s) then None
      else case json_string (tl (skip_space s)) of
        None \<Rightarrow> None
      | Some (k, r) \<Rightarrow>
          if \<not> prefix '':'' (skip_space r) then None
          else case json_value f d (tl (skip_space r)) of
            None \<Rightarrow> None
          | Some (v, r1) \<Rightarrow>
              (case skip_space r1 of
                 [] \<Rightarrow> None
               | c # r2 \<Rightarrow>
                   if c = CHR ''}'' then Some ([(k, v)], r2)
                   else if c = CHR '','' then map_option (apfst ((#) (k, v))) (json_members f d r2)
                   else None))"

definition json_parse :: "string \<Rightarrow> json option" where
  "json_parse s =
     (case json_value (Suc (length s)) 0 s of
        Some (v, rest) \<Rightarrow> if skip_space rest = [] then Some v else None
      | None \<Rightarrow> None)"

section \<open>Strings are read back\<close>

text \<open>What becomes of a byte string on its way through JSON: bytes that are not UTF-8 are replaced.\<close>

definition to_valid :: "string \<Rightarrow> string" where
  "to_valid s = concat (map (\<lambda>r. case r of Rune x \<Rightarrow> x | BadByte c \<Rightarrow> replacement) (runes s))"

lemma to_valid_Cons:
  "to_valid (c # cs) = (case rune_tail c cs of None \<Rightarrow> replacement @ to_valid cs | Some n \<Rightarrow> c # take n cs @ to_valid (drop n cs))"
  by (simp add: to_valid_def split: option.split)

lemma to_valid_id: "utf8_valid s \<Longrightarrow> to_valid s = s"
proof (induction s rule: runes.induct)
  case (2 c cs)
  then show ?case by (auto simp: to_valid_Cons utf8_valid_Cons split: option.splits)
qed (simp add: to_valid_def)

lemma json_string_step:
  "s \<noteq> [] \<Longrightarrow> hd s \<noteq> CHR 0x22 \<Longrightarrow> json_char s = Some (bs, rest) \<Longrightarrow>
     json_string s = map_option (apfst ((@) bs)) (json_string rest)"
  by (subst json_string.simps) simp

lemma read_u4_hex4: "v < 0x10000 \<Longrightarrow> read_u4 (hex4 v @ rest) = Some v"
proof -
  assume v: "v < 0x10000"
  have "length (hex4 v) = 4" by (simp add: hex4_def)
  then show ?thesis using base_value_hex4 [OF v] by (simp add: read_u4_def)
qed

lemma json_string_u_escape:
  assumes "v < 0x10000" "valid_rune v"
  shows "json_string (u_escape v @ rest) = map_option (apfst ((@) (encode_rune v))) (json_string rest)"
proof -
  have "\<not> high_surrogate v \<and> \<not> low_surrogate v"
    using assms(2) by (auto simp: high_surrogate_def low_surrogate_def valid_rune_def)
  moreover have "length (hex4 v) = 4" by (simp add: hex4_def)
  ultimately have "unicode_escape (hex4 v @ rest) = Some (encode_rune v, rest)"
    using read_u4_hex4 [OF assms(1)] by (simp add: unicode_escape_def)
  then have "json_char (u_escape v @ rest) = Some (encode_rune v, rest)"
    by (simp add: u_escape_def json_escapes_def char_code_def)
  then show ?thesis by (intro json_string_step) (simp_all add: u_escape_def)
qed

lemma json_string_plain:
  assumes "rune_tail c cs = Some n" "c \<noteq> CHR 0x22" "c \<noteq> CHR 0x5C" "0x20 \<le> char_code c"
  shows "json_string (c # take n cs @ rest) = map_option (apfst ((@) (c # take n cs))) (json_string rest)"
proof -
  have "rune_tail c (take n cs @ rest) = Some n" "n \<le> length cs" using rune_tail_take [OF assms(1)] by auto
  then show ?thesis using assms by (intro json_string_step) simp_all
qed

lemma json_string_named:
  "map_of json_escapes d = Some c \<Longrightarrow> json_string (CHR 0x5C # d # rest) = map_option (apfst ((@) [c])) (json_string rest)"
  by (intro json_string_step) (simp_all add: char_code_def)

lemma json_string_ascii:
  assumes "byte_in 0 0x7F c"
  shows "json_string (json_ascii c @ rest) = map_option (apfst ((@) [c])) (json_string rest)"
  using assms
proof (cases c rule: json_ascii_cases)
  case (escaped d)
  then have "map_of json_escapes d = Some c" by (auto simp: json_escapes_def char_code_def)
  then show ?thesis using json_string_named escaped by simp
next
  case hex
  have "char_code c < 0x80" using assms by (simp add: byte_in_def)
  then have "char_code c < 0x10000" "valid_rune (char_code c)" "encode_rune (char_code c) = [c]"
    by (simp_all add: valid_rune_def encode_rune_def)
  then show ?thesis using json_string_u_escape [of "char_code c" rest] hex by simp
next
  case plain
  then show ?thesis using json_string_plain [OF rune_tail_ascii [OF assms, of "[]"], of rest] by simp
qed

lemma json_string_rune:
  assumes "rune_tail c cs = Some n"
  shows "json_string (json_rune (Rune (c # take n cs)) @ rest) = map_option (apfst ((@) (c # take n cs))) (json_string rest)"
proof (cases n)
  case 0
  then show ?thesis using json_string_ascii rune_tail_zero assms by simp
next
  case (Suc m)
  then have hi: "0x80 \<le> char_code c" "Suc m \<le> length cs" using rune_tail_high assms by auto
  then obtain d ds where r: "take n cs = d # ds" using Suc by (cases cs) auto
  have c: "c \<noteq> CHR 0x22" "c \<noteq> CHR 0x5C" "0x20 \<le> char_code c" using hi(1) by (auto simp: char_code_def)
  have v: "valid_rune 0x2028" "valid_rune 0x2029" by (simp_all add: valid_rune_def)
  show ?thesis
    using json_string_plain [OF assms c, of rest] json_string_u_escape [OF _ v(1), of rest]
      json_string_u_escape [OF _ v(2), of rest] encode_separators r
    by simp
qed

lemma json_string_runes:
  "json_string (concat (map json_rune (runes s)) @ rest) = map_option (apfst ((@) (to_valid s))) (json_string rest)"
proof (induction s rule: runes.induct)
  case (2 c cs)
  show ?case
  proof (cases "rune_tail c cs")
    case None
    have "valid_rune 0xFFFD" by (simp add: valid_rune_def)
    then show ?thesis
      using json_string_u_escape [of "0xFFFD"] 2(1) [OF None] None
      by (simp add: to_valid_Cons replacement_def option.map_comp comp_def apfst_compose [unfolded comp_def])
  next
    case (Some n)
    then show ?thesis
      using json_string_rune [OF Some, of "concat (map json_rune (runes (drop n cs))) @ rest"] 2(2) [OF Some]
      by (simp add: to_valid_Cons option.map_comp comp_def apfst_compose [unfolded comp_def] del: json_rune.simps)
  qed
next
  case 1
  show ?case by (cases "json_string rest") (auto simp: to_valid_def)
qed

lemma json_string_quoted: "json_string (json_body s @ CHR 0x22 # rest) = Some (to_valid s, rest)"
  using json_string_runes [of s "CHR 0x22 # rest"] by (simp add: json_body_def json_string.simps [of "CHR 0x22 # rest"])

section \<open>Numbers are read back\<close>

text \<open>What may follow a number without being taken for a part of it.\<close>

definition number_end :: "string \<Rightarrow> bool" where
  "number_end s \<longleftrightarrow> s = [] \<or> \<not> is_digit (hd s) \<and> hd s \<notin> {CHR ''.'', CHR ''e'', CHR ''E''}"

lemma digits_before:
  assumes "s = [] \<or> \<not> is_digit (hd s)" "list_all is_digit ds"
  shows "digits_of (ds @ s) = ds" "after_digits (ds @ s) = s"
proof -
  have "takeWhile is_digit s = []" "dropWhile is_digit s = s" using assms(1) by (cases s; simp)+
  then show "digits_of (ds @ s) = ds" "after_digits (ds @ s) = s"
    using assms(2) by (induction ds) (auto simp: digits_of_def after_digits_def)
qed

lemma number_endD:
  assumes "number_end s"
  shows "exponent s = Some (None, s)" "s = [] \<or> \<not> is_digit (hd s)"
  using assms by (cases s; auto simp: number_end_def exponent_def)+

text \<open>Digits as \<open>strconv\<close> writes them: no leading zero but for zero itself.\<close>

lemma nat_digits_zero: "prefix ''0'' (nat_digits n) \<Longrightarrow> n = 0"
proof (induction n rule: nat_digits.induct)
  case (1 n)
  show ?case
  proof (cases "n < 10")
    case True
    then have "char_of (48 + n) = CHR ''0'' \<Longrightarrow> n = 0"
      using char_code_digit [OF True] by (simp add: char_code_def)
    then show ?thesis using 1(2) True by (simp add: nat_digits.simps [of n])
  next
    case False
    have "nat_digits (n div 10) \<noteq> []" using nat_digits_digits by blast
    then have "prefix ''0'' (nat_digits (n div 10))"
      using 1(2) False by (cases "nat_digits (n div 10)") (auto simp: nat_digits.simps [of n])
    then show ?thesis using 1(1) False by simp
  qed
qed

lemma json_number_int:
  assumes "tail = [] \<or> \<not> is_digit (hd tail) \<and> hd tail \<noteq> CHR ''.''"
  shows "json_number (itoa i @ tail) =
    (case exponent tail of
       None \<Rightarrow> None
     | Some (x, rest) \<Rightarrow>
         Some (case x of None \<Rightarrow> JInt i | Some k \<Rightarrow> if 0 \<le> k then JDec (i * 10 ^ nat k) 0 else JDec i (nat (- k)), rest))"
proof -
  define ds where "ds = nat_digits (nat \<bar>i\<bar>)"
  have d: "list_all is_digit ds" "ds \<noteq> []" "hd ds \<noteq> CHR ''-''" "digits_value ds = nat \<bar>i\<bar>"
    using nat_digits_digits nat_digits_hd by (auto simp: ds_def)
  have shape: "itoa i = (if i < 0 then CHR ''-'' # ds else ds)" by (simp add: itoa_def ds_def)
  have sign: "prefix ''-'' (itoa i @ tail) \<longleftrightarrow> i < 0"
    "(if i < 0 then tl (itoa i @ tail) else itoa i @ tail) = ds @ tail"
    using d(2,3) by (cases ds; simp add: shape)+
  have lead: "(if prefix ''0'' (ds @ tail) then ''0'' else digits_of (ds @ tail)) = ds"
  proof (cases "prefix ''0'' (ds @ tail)")
    case True
    then have "prefix ''0'' ds" using d(2) by (cases ds) auto
    then have "nat \<bar>i\<bar> = 0" unfolding ds_def by (rule nat_digits_zero)
    then show ?thesis using True by (simp add: ds_def nat_digits.simps)
  next
    case False
    have "tail = [] \<or> \<not> is_digit (hd tail)" using assms by blast
    then show ?thesis using False digits_before [OF _ d(1)] by simp
  qed
  have "fraction tail = Some ([], tail)" using assms by (cases tail) (auto simp: fraction_def)
  then show ?thesis
    unfolding json_number_def Let_def sign lead
    using d(2,4) by (auto simp: number_value_def Let_def split: option.splits)
qed

lemma json_number_digits: "number_end rest \<Longrightarrow> json_number (itoa i @ rest) = Some (JInt i, rest)"
  using json_number_int [of rest i] number_endD by (auto simp: number_end_def)

section \<open>Values are read back\<close>

fun json_depth :: "json \<Rightarrow> nat" where
  "json_depth (JArr vs) = Suc (foldr max (map json_depth vs) 0)"
| "json_depth (JObj ms) = Suc (foldr max (map (\<lambda>(k, v). json_depth v) ms) 0)"
| "json_depth _ = 0"

fun valid_json :: "json \<Rightarrow> json" where
  "valid_json (JStr s) = JStr (to_valid s)"
| "valid_json (JArr vs) = JArr (map valid_json vs)"
| "valid_json (JObj ms) = JObj (map (\<lambda>(k, v). (to_valid k, valid_json v)) ms)"
| "valid_json v = v"

text \<open>
  What the printing of a \<open>float64\<close> has to satisfy on the decimals of a value: one line, and a number that reads
  back as the same decimal. Go prints the shortest such number, so its \<open>1.5\<close> is \<open>JDec 15 1\<close> and never \<open>JDec 150 2\<close>.
\<close>

fun prints :: "(int \<Rightarrow> nat \<Rightarrow> string) \<Rightarrow> json \<Rightarrow> bool" where
  "prints fmt (JDec m e) \<longleftrightarrow>
     newline \<notin> set (fmt m e) \<and>
     (\<forall>rest. number_end rest \<longrightarrow> json_number (fmt m e @ rest) = Some (JDec m e, rest))"
| "prints fmt (JArr vs) \<longleftrightarrow> list_all (prints fmt) vs"
| "prints fmt (JObj ms) \<longleftrightarrow> list_all (\<lambda>(k, v). prints fmt v) ms"
| "prints fmt _ \<longleftrightarrow> True"

lemma foldr_max_le: "foldr max xs (0 :: nat) \<le> n \<longleftrightarrow> list_all (\<lambda>x. x \<le> n) xs"
  by (induction xs) auto

text \<open>The first character of a value tells what it is.\<close>

definition opens_value :: "char \<Rightarrow> bool" where
  "opens_value c \<longleftrightarrow> c = CHR 0x22 \<or> c = CHR ''['' \<or> c = CHR ''{'' \<or> c = CHR ''n'' \<or> c = CHR ''t'' \<or> c = CHR ''f'' \<or>
     c = CHR ''-'' \<or> is_digit c"

lemma opens_value_plain: "opens_value c \<Longrightarrow> \<not> json_space c \<and> c \<noteq> CHR '']'' \<and> c \<noteq> CHR ''}''"
  by (auto simp: opens_value_def json_space_def is_digit_def char_code_def)

lemma json_number_start: "json_number s = Some x \<Longrightarrow> s \<noteq> [] \<and> (hd s = CHR ''-'' \<or> is_digit (hd s))"
proof -
  assume a: "json_number s = Some x"
  show ?thesis
  proof (cases s)
    case Nil
    then show ?thesis using a by (simp add: json_number_def digits_of_def)
  next
    case (Cons c cs)
    have "is_digit CHR ''0''" by (simp add: is_digit_def char_code_def)
    then show ?thesis
      using a Cons by (cases "is_digit c") (auto simp: json_number_def digits_of_def Let_def split: if_splits)
  qed
qed

lemma json_text_start:
  assumes "prints fmt v"
  shows "\<exists>c cs. json_text fmt v = c # cs \<and> opens_value c"
proof -
  have num: "\<exists>c cs. t = c # cs \<and> opens_value c" if "json_number (t @ []) = Some x" for t x
    using json_number_start [OF that] by (cases t) (auto simp: opens_value_def)
  have e: "number_end []" by (simp add: number_end_def)
  show ?thesis
  proof (cases v)
    case (JInt i)
    then show ?thesis using num [OF json_number_digits [OF e]] by simp
  next
    case (JDec m k)
    then have "json_number (fmt m k @ []) = Some (JDec m k, [])" using assms e by (simp del: append_Nil2)
    then show ?thesis using num JDec by simp
  qed (auto simp: opens_value_def json_quote_body)
qed

lemma json_scalar_number: "json_number s = Some x \<Longrightarrow> json_scalar s = Some x"
proof -
  assume a: "json_number s = Some x"
  obtain c cs where "s = c # cs" "c = CHR ''-'' \<or> is_digit c" using json_number_start [OF a] by (cases s) auto
  then have "c \<noteq> CHR ''n''" "c \<noteq> CHR ''t''" "c \<noteq> CHR ''f''" "s = c # cs" by (auto simp: is_digit_def char_code_def)
  then show ?thesis using a by (simp add: json_scalar_def json_literals_def)
qed

text \<open>A value whose text is a number or a literal.\<close>

lemma json_value_scalar:
  assumes "json_scalar s = Some x" "s = c # cs" "opens_value c" "c \<notin> {CHR 0x22, CHR ''['', CHR ''{''}"
  shows "json_value (Suc f) d s = Some x"
  using assms opens_value_plain [OF assms(3)] by (simp add: skip_space_def)

text \<open>That a value is read back behind any text that ends it, with any fuel that exceeds the length of its text.\<close>

definition reads_back :: "(int \<Rightarrow> nat \<Rightarrow> string) \<Rightarrow> json \<Rightarrow> bool" where
  "reads_back fmt v \<longleftrightarrow>
     (\<forall>f d rest. length (json_text fmt v) < f \<and> d + json_depth v \<le> maxNestingDepth \<and> number_end rest \<longrightarrow>
        json_value f d (json_text fmt v @ rest) = Some (valid_json v, rest))"

lemma number_end_delims [simp]:
  "number_end (CHR '','' # s)" "number_end (CHR '']'' # s)" "number_end (CHR ''}'' # s)" "number_end []"
  by (simp_all add: number_end_def is_digit_def char_code_def)

lemma skip_space_delims [simp]:
  "skip_space (CHR '','' # s) = CHR '','' # s" "skip_space (CHR '']'' # s) = CHR '']'' # s"
  "skip_space (CHR ''}'' # s) = CHR ''}'' # s" "skip_space (CHR '':'' # s) = CHR '':'' # s"
  "skip_space (CHR 0x22 # s) = CHR 0x22 # s"
  by (simp_all add: skip_space_def json_space_def)

lemma elems_read:
  assumes "vs \<noteq> []" "list_all (reads_back fmt) vs" "list_all (\<lambda>v. d + json_depth v \<le> maxNestingDepth) vs"
    and "Suc (length (join_with '','' (map (json_text fmt) vs))) < f" "list_all (prints fmt) vs"
  shows "json_elems f d (join_with '','' (map (json_text fmt) vs) @ CHR '']'' # rest) = Some (map valid_json vs, rest)"
  using assms
proof (induction vs arbitrary: f)
  case (Cons v vs)
  obtain g where f: "f = Suc g" using Cons.prems(4) by (cases f) auto
  obtain c cs where t: "json_text fmt v = c # cs" using json_text_start [of fmt v] Cons.prems(5) by auto
  have v: "json_value g d (json_text fmt v @ tail) = Some (valid_json v, tail)"
    if "length (json_text fmt v) < g" "number_end tail" for tail
    using Cons.prems(2,3) that by (simp add: reads_back_def)
  show ?case
  proof (cases "vs = []")
    case True
    then show ?thesis using v Cons.prems(4) f by simp
  next
    case False
    let ?join = "join_with '','' (map (json_text fmt) vs)"
    have j: "join_with '','' (map (json_text fmt) (v # vs)) = json_text fmt v @ CHR '','' # ?join"
      using False by (simp add: join_with_Cons)
    then have "json_elems g d (?join @ CHR '']'' # rest) = Some (map valid_json vs, rest)"
      using Cons.prems f t False by (intro Cons.IH) simp_all
    then show ?thesis
      using v Cons.prems(4) f t False by (simp add: join_with_Cons)
  qed
qed simp

definition member_text :: "(int \<Rightarrow> nat \<Rightarrow> string) \<Rightarrow> string \<times> json \<Rightarrow> string" where
  "member_text fmt = (\<lambda>(k, v). json_quote k @ '':'' @ json_text fmt v)"

lemma members_read:
  assumes "ms \<noteq> []" "list_all (\<lambda>(k, v). reads_back fmt v) ms" "list_all (\<lambda>(k, v). d + json_depth v \<le> maxNestingDepth) ms"
    and "Suc (length (join_with '','' (map (member_text fmt) ms))) < f"
  shows "json_members f d (join_with '','' (map (member_text fmt) ms) @ CHR ''}'' # rest) =
    Some (map (\<lambda>(k, v). (to_valid k, valid_json v)) ms, rest)"
  using assms
proof (induction ms arbitrary: f)
  case (Cons m ms)
  obtain k v where m: "m = (k, v)" by (cases m)
  obtain g where f: "f = Suc g" using Cons.prems(4) by (cases f) auto
  have t: "member_text fmt m @ tail = CHR 0x22 # json_body k @ CHR 0x22 # CHR '':'' # json_text fmt v @ tail" for tail
    by (simp add: m member_text_def json_quote_body)
  have v: "json_value g d (json_text fmt v @ tail) = Some (valid_json v, tail)"
    if "length (json_text fmt v) < g" "number_end tail" for tail
    using Cons.prems(2,3) that by (simp add: reads_back_def m)
  have l: "length (json_text fmt v) < length (member_text fmt m)" using t [of "[]"] by simp
  show ?case
  proof (cases "ms = []")
    case True
    then show ?thesis using v [of "CHR ''}'' # rest"] Cons.prems(4) f l t m by (simp add: json_string_quoted)
  next
    case False
    let ?join = "join_with '','' (map (member_text fmt) ms)"
    have j: "join_with '','' (map (member_text fmt) (m # ms)) = member_text fmt m @ CHR '','' # ?join"
      using False by (simp add: join_with_Cons)
    have "json_members g d (?join @ CHR ''}'' # rest) = Some (map (\<lambda>(k, v). (to_valid k, valid_json v)) ms, rest)"
      using Cons.prems f l False j by (intro Cons.IH) simp_all
    then show ?thesis
      using v [of "CHR '','' # ?join @ CHR ''}'' # rest"] Cons.prems(4) f l t m False
      by (simp add: join_with_Cons json_string_quoted)
  qed
qed simp

lemma json_text_members: "json_text fmt (JObj ms) = ''{'' @ join_with '','' (map (member_text fmt) ms) @ ''}''"
  by (simp add: member_text_def)

lemma container_value:
  assumes "c = CHR ''['' \<or> c = CHR ''{''" "d < maxNestingDepth" "\<not> prefix '']'' (skip_space cs)" "\<not> prefix ''}'' (skip_space cs)"
  shows "json_value (Suc f) d (c # cs) =
    (if c = CHR ''['' then map_option (apfst JArr) (json_elems f (Suc d) cs)
     else map_option (apfst JObj) (json_members f (Suc d) cs))"
proof -
  have "skip_space (c # cs) = c # cs" using assms(1) by (auto simp: skip_space_def json_space_def)
  then show ?thesis using assms by auto
qed

lemma not_closing: "opens_value c \<Longrightarrow> skip_space (c # cs) = c # cs"
  using opens_value_plain by (simp add: skip_space_def)

lemma scalar_reads_back:
  assumes "prints fmt v" "valid_json v = v" "hd (json_text fmt v) \<notin> {CHR 0x22, CHR ''['', CHR ''{''}"
    and "\<And>rest. number_end rest \<Longrightarrow> json_scalar (json_text fmt v @ rest) = Some (v, rest)"
  shows "reads_back fmt v"
  unfolding reads_back_def
proof (intro allI impI)
  fix f d rest assume a: "length (json_text fmt v) < f \<and> d + json_depth v \<le> maxNestingDepth \<and> number_end rest"
  then obtain g where f: "f = Suc g" by (cases f) auto
  obtain c cs where c: "json_text fmt v = c # cs" "opens_value c" using json_text_start [OF assms(1)] by blast
  have "json_scalar (json_text fmt v @ rest) = Some (v, rest)" using assms(4) a by blast
  then show "json_value f d (json_text fmt v @ rest) = Some (valid_json v, rest)"
    using json_value_scalar [of _ _ c "cs @ rest" g d] c assms(2,3) f by simp
qed

lemma number_reads_back:
  assumes "prints fmt v" "valid_json v = v" "\<And>rest. number_end rest \<Longrightarrow> json_number (json_text fmt v @ rest) = Some (v, rest)"
  shows "reads_back fmt v"
proof (rule scalar_reads_back [OF assms(1,2)])
  have "json_number (json_text fmt v @ []) = Some (v, [])" by (rule assms(3)) simp
  then show "hd (json_text fmt v) \<notin> {CHR 0x22, CHR ''['', CHR ''{''}"
    using json_number_start [of "json_text fmt v @ []"] by (auto simp: is_digit_def char_code_def)
qed (simp add: json_scalar_number assms(3))

lemma value_reads_back: "prints fmt v \<Longrightarrow> reads_back fmt v"
proof (induction v)
  case (JStr s)
  show ?case unfolding reads_back_def
  proof (intro allI impI)
    fix f d rest assume "length (json_text fmt (JStr s)) < f \<and> d + json_depth (JStr s) \<le> maxNestingDepth \<and> number_end rest"
    then obtain g where "f = Suc g" by (cases f) auto
    then show "json_value f d (json_text fmt (JStr s) @ rest) = Some (valid_json (JStr s), rest)"
      by (simp add: json_quote_body json_string_quoted)
  qed
next
  case (JArr vs)
  have ih: "list_all (reads_back fmt) vs" using JArr by (auto simp: list_all_iff)
  show ?case unfolding reads_back_def
  proof (intro allI impI)
    fix f d rest assume a: "length (json_text fmt (JArr vs)) < f \<and> d + json_depth (JArr vs) \<le> maxNestingDepth \<and> number_end rest"
    then obtain g where f: "f = Suc g" by (cases f) auto
    let ?body = "join_with '','' (map (json_text fmt) vs)"
    have depth: "list_all (\<lambda>v. Suc d + json_depth v \<le> maxNestingDepth) vs" "d < maxNestingDepth"
      using a foldr_max_le [of "map json_depth vs" "maxNestingDepth - Suc d"] by (auto simp: list_all_iff)
    show "json_value f d (json_text fmt (JArr vs) @ rest) = Some (valid_json (JArr vs), rest)"
    proof (cases "vs = []")
      case True
      then show ?thesis using f depth(2) by (simp add: skip_space_def json_space_def)
    next
      case False
      then obtain v vs' where "vs = v # vs'" by (cases vs) auto
      then obtain c cs where c: "?body @ CHR '']'' # rest = c # cs" "opens_value c"
        using json_text_start [of fmt v] JArr.prems by (cases vs') auto
      then have "\<not> prefix '']'' (skip_space (?body @ CHR '']'' # rest))" "\<not> prefix ''}'' (skip_space (?body @ CHR '']'' # rest))"
        using opens_value_plain not_closing by auto
      moreover have "json_elems g (Suc d) (?body @ CHR '']'' # rest) = Some (map valid_json vs, rest)"
        using elems_read [OF False ih depth(1)] JArr.prems a f by simp
      ultimately show ?thesis using container_value [of "CHR ''[''" d] depth(2) f by simp
    qed
  qed
next
  case (JObj ms)
  have ih: "list_all (\<lambda>(k, v). reads_back fmt v) ms" using JObj by (fastforce simp: list_all_iff)
  show ?case unfolding reads_back_def
  proof (intro allI impI)
    fix f d rest assume a: "length (json_text fmt (JObj ms)) < f \<and> d + json_depth (JObj ms) \<le> maxNestingDepth \<and> number_end rest"
    then obtain g where f: "f = Suc g" by (cases f) auto
    let ?body = "join_with '','' (map (member_text fmt) ms)"
    have depth: "list_all (\<lambda>(k, v). Suc d + json_depth v \<le> maxNestingDepth) ms" "d < maxNestingDepth"
      using a foldr_max_le [of "map (\<lambda>(k, v). json_depth v) ms" "maxNestingDepth - Suc d"] by (auto simp: list_all_iff)
    show "json_value f d (json_text fmt (JObj ms) @ rest) = Some (valid_json (JObj ms), rest)"
    proof (cases "ms = []")
      case True
      then show ?thesis using f depth(2) by (simp add: skip_space_def json_space_def)
    next
      case False
      then obtain k v ms' where "ms = (k, v) # ms'" by (cases ms) auto
      then obtain cs where "?body @ CHR ''}'' # rest = CHR 0x22 # cs"
        by (cases ms') (auto simp: member_text_def json_quote_body)
      then have "\<not> prefix '']'' (skip_space (?body @ CHR ''}'' # rest))" "\<not> prefix ''}'' (skip_space (?body @ CHR ''}'' # rest))"
        by auto
      moreover have "json_members g (Suc d) (?body @ CHR ''}'' # rest) = Some (map (\<lambda>(k, v). (to_valid k, valid_json v)) ms, rest)"
        using members_read [OF False ih depth(1)] a f unfolding json_text_members by simp
      ultimately show ?thesis
        using container_value [of "CHR ''{''" d] depth(2) f unfolding json_text_members by simp
    qed
  qed
next
  case JNull
  then show ?case by (rule scalar_reads_back) (simp_all add: json_scalar_def json_literals_def)
next
  case (JBool b)
  then show ?case by (rule scalar_reads_back) (simp_all add: json_scalar_def json_literals_def)
next
  case (JInt i)
  then show ?case by (rule number_reads_back) (simp_all add: json_number_digits)
next
  case (JDec m e)
  then show ?case by (intro number_reads_back) simp_all
qed

text \<open>
  JSON text is read back as the value it was written from: whatever value is marshalled, up to a depth of
  10000, parsing gives it back with the bytes of its strings and member names that are not UTF-8 replaced, and
  white space after it, like the newline of a message, does not matter.
\<close>

theorem json_text_round_trip:
  assumes "prints fmt v" "json_depth v \<le> maxNestingDepth" "list_all json_space ws"
  shows "json_parse (json_text fmt v @ ws) = Some (valid_json v)"
proof -
  have "number_end ws"
    using assms(3) by (cases ws) (auto simp: number_end_def json_space_def is_digit_def char_code_def)
  then have "json_value (Suc (length (json_text fmt v @ ws))) 0 (json_text fmt v @ ws) = Some (valid_json v, ws)"
    using value_reads_back [OF assms(1)] assms(2) unfolding reads_back_def by (simp del: json_value.simps)
  moreover have "skip_space ws = []" using assms(3) by (simp add: skip_space_def list_all_iff)
  ultimately show ?thesis by (simp add: json_parse_def)
qed

section \<open>Messages\<close>

text \<open>\<open>json.Unmarshal\<close> of one line into a value.\<close>

definition decode_line :: "string \<Rightarrow> string + json" where
  "decode_line s = (case json_parse s of Some v \<Rightarrow> Inr v | None \<Rightarrow> Inl ''invalid character'')"

text \<open>A value that may be sent.\<close>

definition sendable :: "(int \<Rightarrow> nat \<Rightarrow> string) \<Rightarrow> json \<Rightarrow> bool" where
  "sendable fmt v \<longleftrightarrow> prints fmt v \<and> json_depth v \<le> maxNestingDepth"

lemma decode_written:
  assumes "sendable fmt v"
  shows "decode_line (WriteLine fmt v) = Inr (valid_json v)"
  using json_text_round_trip [of fmt v, where ws = "[newline]"] assms
  by (simp add: decode_line_def WriteLine_def newline_def json_space_def sendable_def)

lemma json_text_no_newline: "prints fmt v \<Longrightarrow> newline \<notin> set (json_text fmt v)"
proof (induction v)
  case (JArr vs)
  then show ?case by (auto simp: newline_def list_all_iff dest!: join_with_members)
next
  case (JObj ms)
  have "newline \<notin> set (json_quote k @ '':'' @ json_text fmt v)" if "(k, v) \<in> set ms" for k v
    using JObj that json_quote_no_newline by (fastforce simp: newline_def list_all_iff)
  then show ?case by (auto simp: newline_def dest!: join_with_members)
qed (auto simp: newline_def itoa_no_newline [unfolded newline_def] json_quote_no_newline)

text \<open>
  C34. Values survive the connection between client and daemon. Whatever values are written to it, one line of JSON
  each, and whatever bytes follow, the reader gets exactly these values in order, but for the bytes in
  strings that are not UTF-8, which are replaced; and then what the remaining bytes give by themselves: a
  message cut off by a lost connection is never glued to another one.
\<close>

theorem messages_round_trip:
  assumes "list_all (sendable fmt) vs"
  shows "conn_requests decode_line err (concat (map (WriteLine fmt) vs) @ tail) =
    (map valid_json vs @ fst (conn_requests decode_line err tail), snd (conn_requests decode_line err tail))"
  using assms
  by (intro lines_read) (auto simp: list_all_iff decode_written sendable_def json_text_no_newline)

text \<open>One way to print decimals that satisfies the requirement.\<close>

definition dec_text :: "int \<Rightarrow> nat \<Rightarrow> string" where
  "dec_text m e = itoa m @ ''e-'' @ nat_digits e"

lemma prints_dec_text: "prints dec_text (JDec m e)"
  unfolding prints.simps
proof (intro allI conjI impI)
  have e: "itoa (int e) = nat_digits e" by (simp add: itoa_def)
  show "newline \<notin> set (dec_text m e)"
    using itoa_no_newline [of m] itoa_no_newline [of "int e"] by (auto simp: dec_text_def e newline_def)
  fix rest assume r: "number_end rest"
  have d: "list_all is_digit (nat_digits e)" "nat_digits e \<noteq> []" using nat_digits_digits by blast+
  have "exponent (''e-'' @ nat_digits e @ rest) = Some (Some (- int e), rest)"
    using digits_before [OF number_endD(2) [OF r] d(1)] d(2) by (simp add: exponent_def Let_def)
  then have "json_number (itoa m @ ''e-'' @ nat_digits e @ rest) = Some (JDec m e, rest)"
    by (subst json_number_int) (auto simp: is_digit_def char_code_def)
  then show "json_number (dec_text m e @ rest) = Some (JDec m e, rest)" by (simp add: dec_text_def)
qed

theorem messages_round_trip_witness:
  "fst (conn_requests decode_line ReadEOF
      (concat (map (WriteLine dec_text) [JObj [(''id'', JInt 7)], JArr [JDec 15 1, JStr [CHR 0xFF]]]) @ ''{'')) =
     [JObj [(''id'', JInt 7)], JArr [JDec 15 1, JStr [CHR 0xEF, CHR 0xBF, CHR 0xBD]]]"
proof -
  let ?vs = "[JObj [(''id'', JInt 7)], JArr [JDec 15 1, JStr [CHR 0xFF]]]"
  have nil: "to_valid [] = []" by (simp add: to_valid_def)
  have id: "to_valid ''id'' = ''id''" by (simp add: to_valid_Cons nil rune_tail_ascii byte_in_def char_code_def)
  have r: "replacement = [CHR 0xEF, CHR 0xBF, CHR 0xBD]"
    by (simp add: replacement_def encode_rune_def char_code_eq) (simp add: char_code_def)
  have "rune_tail (CHR 0xFF) [] = None" by (simp add: rune_tail_def tail_ranges_def byte_in_def char_code_def)
  then have v: "map valid_json ?vs = [JObj [(''id'', JInt 7)], JArr [JDec 15 1, JStr [CHR 0xEF, CHR 0xBF, CHR 0xBD]]]"
    by (simp add: to_valid_Cons [of "CHR 0xFF"] nil id r)
  have "decode_line ''{'' = Inl ''invalid character''"
    by (simp add: decode_line_def json_parse_def skip_space_def json_space_def maxNestingDepth_def)
  then have t: "fst (conn_requests decode_line ReadEOF ''{'') = []"
    by (subst conn_requests.simps) (simp add: ReadLine_def newline_def)
  have "list_all (sendable dec_text) ?vs"
    using prints_dec_text by (simp add: sendable_def maxNestingDepth_def del: prints.simps(1))
  then show ?thesis using messages_round_trip [of dec_text ?vs ReadEOF "''{''"] v t by simp
qed

end
