(* ===== verification/Cli_Shell.thy ===== *)
theory Cli_Shell
  imports Cli_Props Daemon_Ctl Json_Text Mcp_Safe Mcp_Server
begin

text \<open>
  The shell (\<open>runRepl\<close> of \<open>internal/cli/repl.go\<close>), the global flags of the command tree (\<open>root.go\<close>) and the timeout
  flag (\<open>parseTimeoutFlag\<close> of \<open>commands.go\<close>). The run of a command by cobra is a parameter of the shell, and so is
  the parsing of floating-point numbers; Ctrl-C is left out.
\<close>

section \<open>Global flags\<close>

record global_flags =
  gf_JSON :: bool
  gf_Pretty :: bool
  gf_Quiet :: bool
  gf_Session :: string
  gf_Timeout :: string

text \<open>The values \<open>NewRootCommand\<close> gives them when it declares them.\<close>

definition flag_defaults :: global_flags where
  "flag_defaults = \<lparr>gf_JSON = True, gf_Pretty = False, gf_Quiet = False, gf_Session = [], gf_Timeout = ''30s''\<rparr>"

text \<open>\<open>PersistentPreRunE\<close>; \<open>changed\<close> says which persistent flags of the command that runs were given.\<close>

definition persistent_pre_run :: "(string \<Rightarrow> bool) \<Rightarrow> bool \<Rightarrow> global_flags \<Rightarrow> global_flags" where
  "persistent_pre_run changed terminal f =
     (if \<not> changed ''pretty'' \<and> \<not> changed ''json'' \<and> terminal then f\<lparr>gf_Pretty := True\<rparr> else f)"

section \<open>The shell\<close>

lemma repl_shorter:
  assumes "ReadBytes input = (line, found, rest)" "found \<or> trim_space line \<noteq> []"
  shows "length rest < length input"
proof -
  have "line \<noteq> []"
    using ReadBytes_rest [OF assms(1)] assms(2) by (auto simp: trim_space_def trim_left_f_def trim_right_f_def)
  then show ?thesis using ReadBytes_rest [OF assms(1)] by simp
qed

text \<open>
  A command gets a command tree of its own, so its flags start from the defaults, and may fail. The result is what
  is written on standard error, and the world afterwards.
\<close>

function runRepl :: "(global_flags \<Rightarrow> string list \<Rightarrow> 'w \<Rightarrow> string option \<times> 'w) \<Rightarrow> string \<Rightarrow> 'w \<Rightarrow> string list \<times> 'w" where
  "runRepl execute input w =
     (case ReadBytes input of
        (line, found, rest) \<Rightarrow>
          if \<not> found \<and> trim_space line = [] then ([], w)
          else (case repl_line line of
                  ReplExit \<Rightarrow> ([], w)
                | ReplSkip \<Rightarrow> runRepl execute rest w
                | ReplParseError \<Rightarrow> apfst ((#) ''parse: unterminated quote'') (runRepl execute rest w)
                | ReplNested \<Rightarrow> apfst ((#) ''already in repl'') (runRepl execute rest w)
                | ReplRun argv \<Rightarrow>
                    (case execute flag_defaults argv w of
                       (None, w') \<Rightarrow> runRepl execute rest w'
                     | (Some e, w') \<Rightarrow> apfst ((#) e) (runRepl execute rest w'))))"
  by pat_completeness auto

termination
  by (relation "measure (\<lambda>(_, input, _). length input)") (auto dest: repl_shorter [OF sym])

declare runRepl.simps [simp del]


section \<open>Scripts\<close>

text \<open>A command as a line, its words quoted; and the run of commands one after the other.\<close>

definition script_line :: "string list \<Rightarrow> string" where
  "script_line argv = join_with '' '' (map shell_quote argv) @ [newline]"

fun run_script :: "(global_flags \<Rightarrow> string list \<Rightarrow> 'w \<Rightarrow> string option \<times> 'w) \<Rightarrow> string list list \<Rightarrow> 'w \<Rightarrow> string list \<times> 'w" where
  "run_script execute [] w = ([], w)"
| "run_script execute (argv # cmds) w =
     (let (e, w') = (if argv = [] then (None, w) else if hd argv = ''repl'' then (Some ''already in repl'', w)
                     else execute flag_defaults argv w);
          (es, w'') = run_script execute cmds w'
      in (case e of None \<Rightarrow> es | Some m \<Rightarrow> m # es, w''))"

lemma quote_no_newline: "newline \<notin> set w \<Longrightarrow> newline \<notin> set (shell_quote w)"
  by (auto simp: shell_quote_def quote_char_def newline_def)

text \<open>Such a line starts and ends with a quote, so it is no comment, no built-in, and has no space to trim.\<close>

lemma quoted_line: "\<exists>mid. join_with '' '' (map shell_quote (w # ws)) = CHR 0x27 # mid @ [CHR 0x27]"
proof (induction ws arbitrary: w)
  case Nil
  show ?case by (simp add: shell_quote_def)
next
  case (Cons v ws)
  obtain mid where mid: "join_with '' '' (map shell_quote (v # ws)) = CHR 0x27 # mid @ [CHR 0x27]" using Cons by blast
  have "join_with '' '' (map shell_quote (w # v # ws)) = shell_quote w @ '' '' @ join_with '' '' (map shell_quote (v # ws))"
    by (simp add: join_with_Cons)
  then have "join_with '' '' (map shell_quote (w # v # ws)) =
      CHR 0x27 # (concat (map quote_char w) @ CHR 0x27 # '' '' @ CHR 0x27 # mid) @ [CHR 0x27]"
    unfolding mid by (simp add: shell_quote_def)
  then show ?case by blast
qed

lemma trim_line:
  assumes "s = c # mid @ [c]" "\<not> go_space c"
  shows "trim_space (s @ [newline]) = s"
proof -
  have "go_space newline" by (simp add: go_space_def newline_def)
  then show ?thesis using assms by (simp add: trim_space_def trim_left_f_def trim_right_f_def)
qed

lemma line_read:
  assumes "list_all (\<lambda>w. newline \<notin> set w) argv"
  shows "ReadBytes (script_line argv @ rest) = (script_line argv, True, rest)"
proof -
  have "newline \<notin> set (join_with '' '' (map shell_quote argv))"
    using assms quote_no_newline by (auto simp: list_all_iff newline_def dest!: join_with_members)
  then show ?thesis by (simp add: script_line_def ReadBytes_newline)
qed

lemma line_action:
  "repl_line (script_line argv) =
    (if argv = [] then ReplSkip else if hd argv = ''repl'' then ReplNested else ReplRun argv)"
proof (cases argv)
  case Nil
  have "trim_space [newline] = []" by (simp add: trim_space_def trim_left_f_def trim_right_f_def go_space_def newline_def)
  then show ?thesis using Nil by (simp add: script_line_def repl_line_def)
next
  case (Cons w ws)
  let ?l = "join_with '' '' (map shell_quote argv)"
  obtain mid where q: "?l = CHR 0x27 # mid @ [CHR 0x27]" using quoted_line Cons by blast
  have "trim_space (script_line argv) = ?l"
    unfolding script_line_def by (rule trim_line [OF q]) (simp add: go_space_def)
  moreover have "\<not> has_prefix ?l ''#'' \<and> \<not> has_prefix ?l ''!'' \<and> ?l \<noteq> ''exit'' \<and> ?l \<noteq> ''quit'' \<and> ?l \<noteq> []"
    unfolding q by (simp add: has_prefix_def)
  ultimately show ?thesis
    using split_shell_round_trip [of argv] Cons by (simp add: repl_line_def)
qed

text \<open>
  C28. The shell runs scripts. Any commands, written one to a line with their words quoted, are run by the shell in
  their order, each with exactly its words and with the default flags; only a nested shell is refused, and a
  failed command does not stop the ones after it.
\<close>

theorem shell_runs_script:
  assumes "list_all (list_all (\<lambda>w. newline \<notin> set w)) cmds"
  shows "runRepl execute (concat (map script_line cmds)) w = run_script execute cmds w"
  using assms
proof (induction cmds arbitrary: w)
  case Nil
  have "trim_space [] = []" by (simp add: trim_space_def trim_left_f_def trim_right_f_def)
  then show ?case by (simp add: runRepl.simps [of execute "[]"])
next
  case (Cons argv cmds)
  show ?case
    using Cons line_read [of argv "concat (map script_line cmds)"] line_action [of argv]
    by (subst runRepl.simps) (auto simp: Let_def apfst_def map_prod_def split: prod.splits option.splits)
qed

theorem shell_runs_script_witness:
  "runRepl (\<lambda>f argv w. (if hd argv = ''stop'' then Some ''daemon returned error'' else None, w @ [argv]))
      (concat (map script_line [[''stop''], [''repl''], [], [''eval'', ''a b'']])) [] =
    ([''daemon returned error'', ''already in repl''], [[''stop''], [''eval'', ''a b'']])"
  by (subst shell_runs_script) (simp_all add: newline_def)


section \<open>The timeout flag\<close>

text \<open>
  \<open>time.ParseDuration\<close>: a sign and a sequence of numbers with units, added up in 64 bits, in nanoseconds. Fractions are
  cut off exactly, where Go computes with a \<open>float64\<close>.
\<close>

definition duration_units :: "(string \<times> nat) list" where
  "duration_units =
     [(''ns'', 1), (''us'', 1000), ([CHR 0xC2, CHR 0xB5, CHR ''s''], 1000), ([CHR 0xCE, CHR 0xBC, CHR ''s''], 1000),
      (''ms'', 1000000), (''s'', 1000000000), (''m'', 60000000000), (''h'', 3600000000000)]"

definition unit_char :: "char \<Rightarrow> bool" where
  "unit_char c \<longleftrightarrow> \<not> (c = CHR ''.'' \<or> is_digit c)"

text \<open>One number with its unit: its value, and the rest.\<close>

definition duration_part :: "string \<Rightarrow> (nat \<times> string) option" where
  "duration_part s =
     (let ds = takeWhile is_digit s; r1 = dropWhile is_digit s;
          fs = (if prefix ''.'' r1 then takeWhile is_digit (tl r1) else []);
          r2 = (if prefix ''.'' r1 then dropWhile is_digit (tl r1) else r1);
          u = takeWhile unit_char r2; n = digits_value ds in
      if ds = [] \<and> fs = [] \<or> 2 ^ 63 < n then None
      else case map_of duration_units u of
        None \<Rightarrow> None
      | Some f \<Rightarrow>
          if 2 ^ 63 div f < n then None
          else let v = n * f + digits_value fs * f div 10 ^ length fs in
            if 2 ^ 63 < v then None else Some (v, dropWhile unit_char r2))"

lemma dropWhile_shorter: "takeWhile p s \<noteq> [] \<Longrightarrow> length (dropWhile p s) < length s"
  by (cases s) (auto simp: le_imp_less_Suc length_dropWhile_le split: if_splits)

lemma duration_part_shorter: "duration_part s = Some (v, rest) \<Longrightarrow> length rest < length s"
proof -
  assume a: "duration_part s = Some (v, rest)"
  define r1 where "r1 = dropWhile is_digit s"
  define r2 where "r2 = (if prefix ''.'' r1 then dropWhile is_digit (tl r1) else r1)"
  have u: "map_of duration_units (takeWhile unit_char r2) \<noteq> None" "rest = dropWhile unit_char r2"
    using a by (auto simp: duration_part_def r1_def r2_def Let_def split: if_splits option.splits)
  then have "takeWhile unit_char r2 \<noteq> []" by (auto simp: duration_units_def)
  then have "length rest < length r2" using u(2) dropWhile_shorter by simp
  also have "length r2 \<le> length r1"
    using length_dropWhile_le [of is_digit "tl r1"] by (cases r1) (auto simp: r2_def)
  also have "length r1 \<le> length s" by (simp add: r1_def length_dropWhile_le)
  finally show ?thesis .
qed

text \<open>The sum is kept in 64 bits and compared with \<open>2 ^ 63\<close> after each part.\<close>

function duration_sum :: "nat \<Rightarrow> string \<Rightarrow> nat option" where
  "duration_sum d s =
     (if s = [] then Some d
      else case duration_part s of
        None \<Rightarrow> None
      | Some (v, rest) \<Rightarrow>
          (let d' = (d + v) mod 2 ^ 64 in if 2 ^ 63 < d' then None else duration_sum d' rest))"
  by pat_completeness auto
termination
  by (relation "measure (\<lambda>(_, s). length s)") (auto dest: duration_part_shorter)

declare duration_sum.simps [simp del]

definition ParseDuration :: "string \<Rightarrow> int option" where
  "ParseDuration s =
     (let neg = prefix ''-'' s; t = (if neg \<or> prefix ''+'' s then tl s else s) in
      if t = ''0'' then Some 0
      else if t = [] then None
      else case duration_sum 0 t of
        None \<Rightarrow> None
      | Some d \<Rightarrow> if neg then Some (- int d) else if 2 ^ 63 \<le> d then None else Some (int d))"

text \<open>\<open>Seconds\<close>, as a decimal without trailing zeros.\<close>

fun strip_zeros :: "int \<Rightarrow> nat \<Rightarrow> decimal" where
  "strip_zeros m 0 = Dec m 0"
| "strip_zeros m (Suc e) = (if m mod 10 = 0 then strip_zeros (m div 10) e else Dec m (Suc e))"

definition duration_seconds :: "int \<Rightarrow> decimal" where
  "duration_seconds n = strip_zeros n 9"

definition parseTimeoutFlag :: "(string \<Rightarrow> decimal option) \<Rightarrow> string \<Rightarrow> decimal \<Rightarrow> string + decimal" where
  "parseTimeoutFlag parse_float s dflt =
     (let t = trim_space s in
      if t = [] then Inr dflt
      else case ParseDuration t of
        Some n \<Rightarrow> Inr (duration_seconds n)
      | None \<Rightarrow>
          (case parse_float t of
             Some d \<Rightarrow> Inr d
           | None \<Rightarrow> Inl (''must be a duration like 30s, 1m, or a number of seconds; got '' @ quote t)))"

text \<open>A whole number with a unit means what it says.\<close>

lemma one_part:
  assumes "(u, f) \<in> set duration_units" "k * f < 2 ^ 63"
  shows "duration_part (nat_digits k @ u) = Some (k * f, [])"
proof -
  have f: "0 < f" using assms(1) by (auto simp: duration_units_def)
  have u: "list_all unit_char u" "u \<noteq> []" "\<not> prefix ''.'' u" "map_of duration_units u = Some f"
    using assms(1) by (auto simp: duration_units_def unit_char_def is_digit_def char_code_def)
  then have head: "\<not> is_digit (hd u)" by (cases u) (simp_all add: unit_char_def)
  have d: "list_all is_digit (nat_digits k)" "nat_digits k \<noteq> []" "digits_value (nat_digits k) = k"
    using nat_digits_digits by auto
  have digits: "takeWhile is_digit (nat_digits k @ u) = nat_digits k" "dropWhile is_digit (nat_digits k @ u) = u"
    using d(1) u(2) head by (cases u; simp add: list_all_iff takeWhile_append dropWhile_append3)+
  have rest: "takeWhile unit_char u = u" "dropWhile unit_char u = []" "digits_value [] = 0"
    using u(1) by (simp_all add: list_all_iff digits_value_def)
  have "k \<le> 2 ^ 63 div f" using assms(2) f by (simp add: less_eq_div_iff_mult_less_eq)
  moreover have "k \<le> 2 ^ 63"
  proof -
    have "k \<le> k * f" using f by (cases f) simp_all
    then show ?thesis using assms(2) by (rule order_trans [OF _ less_imp_le])
  qed
  ultimately show ?thesis
    using d u(3,4) assms(2) unfolding duration_part_def Let_def digits by (simp add: rest digits)
qed

lemma strip_zeros_whole: "strip_zeros (m * 10 ^ e) e = Dec m 0"
  by (induction e) (simp_all add: mult.left_commute)

theorem timeout_in_units:
  assumes "(u, f) \<in> set duration_units" "k * f < 2 ^ 63"
  shows "parseTimeoutFlag parse_float (nat_digits k @ u) dflt = Inr (duration_seconds (int (k * f)))"
proof -
  have d: "list_all is_digit (nat_digits k)" "nat_digits k \<noteq> []" using nat_digits_digits by auto
  obtain c cs where c: "nat_digits k = c # cs" "is_digit c" using d by (cases "nat_digits k") auto
  have u: "u \<noteq> []" "\<not> go_space (last u)" using assms(1) by (auto simp: duration_units_def go_space_def)
  have "trim_space (nat_digits k @ u) = nat_digits k @ u"
    using c u by (intro trim_space_ends) (auto simp: go_space_def is_digit_def char_code_def)
  moreover have "duration_sum 0 (nat_digits k @ u) = Some (k * f)"
    using one_part [OF assms] assms(2) d(2)
    by (subst duration_sum.simps) (simp add: duration_sum.simps [of _ "[]"])
  moreover have "nat_digits k @ u \<noteq> ''0''"
    using d(2) u(1) by (cases "nat_digits k"; cases u) auto
  moreover have "\<not> prefix ''-'' (nat_digits k @ u)" "\<not> prefix ''+'' (nat_digits k @ u)"
    using c by (auto simp: is_digit_def char_code_def)
  ultimately show ?thesis
    using assms(2) d(2) by (simp add: parseTimeoutFlag_def ParseDuration_def)
qed

text \<open>The default of the flag is the one \<open>timeoutSec\<close> falls back to.\<close>

theorem default_timeout:
  "parseTimeoutFlag parse_float (gf_Timeout flag_defaults) dflt = Inr (timeoutSec g)" if "g_Timeout g = Inl e"
proof -
  have "nat_digits 30 = ''30''" by code_simp
  moreover have "duration_seconds (int (30 * 1000000000)) = Dec 30 0"
    using strip_zeros_whole [of 30 9] by (simp add: duration_seconds_def)
  ultimately show ?thesis
    using timeout_in_units [of "''s''" 1000000000 30 parse_float dflt] that
    by (simp add: duration_units_def flag_defaults_def timeoutSec_def)
qed



section \<open>What is written\<close>

text \<open>
  The envelope of \<open>pkg/api\<close> with its time stamp, and \<open>writeJSON\<close> without \<open>--pretty\<close>; \<open>session\<close>, \<open>state\<close> and \<open>details\<close> are
  never set and left out.
\<close>

definition SchemaVersion :: string where
  "SchemaVersion = ''1''"

definition envelope_json :: "string \<Rightarrow> envelope \<Rightarrow> json" where
  "envelope_json stamp e =
     JObj (mem_str ''schema'' SchemaVersion @
       (case e of
          Success d \<Rightarrow> mem_bool ''ok'' True @ om_opt ''data'' d
        | Failure code msg hint \<Rightarrow>
            mem_bool ''ok'' False @
            [(''error'', JObj (mem_str ''code'' code @ mem_str ''message'' msg @ om_str ''hint'' hint))]) @
       mem_str ''ts'' stamp)"

definition writeJSON :: "(int \<Rightarrow> nat \<Rightarrow> string) \<Rightarrow> string \<Rightarrow> envelope \<Rightarrow> string" where
  "writeJSON fmt stamp e = json_text fmt (envelope_json stamp e) @ [newline]"

text \<open>\<open>version\<close>; the build fills in its three strings.\<close>

definition newVersionCmd :: "bool \<Rightarrow> string \<Rightarrow> string \<Rightarrow> string \<Rightarrow> envelope list" where
  "newVersionCmd silent version commit date =
     emit silent (Some (JObj (mem_str ''version'' version @ mem_str ''commit'' commit @ mem_str ''date'' date)))"

text \<open>\<open>main\<close>: what is written on standard error, and the exit status.\<close>

definition main_end :: "cli_error option \<Rightarrow> string list \<times> nat" where
  "main_end e =
     (case e of
        None \<Rightarrow> ([], 0)
      | Some (UsageError m) \<Rightarrow> ([m], ExitCodeFor e)
      | Some (OtherError m) \<Rightarrow> ([m], ExitCodeFor e))"

text \<open>What a command writes is one line of JSON that a reader parses back.\<close>

theorem envelope_readable:
  assumes "sendable fmt (envelope_json stamp e)"
  shows "decode_line (writeJSON fmt stamp e) = Inr (valid_json (envelope_json stamp e)) \<and>
    ReadBytes (writeJSON fmt stamp e @ rest) = (writeJSON fmt stamp e, True, rest)"
proof -
  have "newline \<notin> set (json_text fmt (envelope_json stamp e))"
    using assms by (simp add: sendable_def json_text_no_newline)
  then show ?thesis
    using decode_written [OF assms] by (simp add: writeJSON_def WriteLine_def ReadBytes_newline)
qed


section \<open>Starting the MCP server\<close>

text \<open>
  \<open>sl-dbg mcp\<close>: the policy is settled and exported, and the server is started with its options, or the start is refused.
  What decides about the policy is described in \<open>Mcp_Safe\<close>.
\<close>

definition newMCPCmd ::
  "bool \<Rightarrow> range_order \<times> range_order \<Rightarrow> (string \<Rightarrow> string option) \<times> (string \<Rightarrow> string option) \<Rightarrow> string option \<Rightarrow>
     safe_flags \<Rightarrow> options \<Rightarrow> environ \<Rightarrow> files \<Rightarrow> cli_error + options \<times> environ \<times> files" where
  "newMCPCmd writable ords look wd f opts env fs =
     (case applyMCPSafePolicy writable (fst ords) (snd ords) (resolveMCPSafePolicy f env (fst look) (snd look) wd) env fs of
        (Some e, _) \<Rightarrow> Inl (OtherError e)
      | (None, env', fs') \<Rightarrow> Inr (opts, env', fs'))"

text \<open>Without \<open>SL_DBG_INSECURE\<close> the server is never started with nothing exported: it refuses, or a list of programs is set.\<close>

theorem no_open_start:
  assumes "newMCPCmd writable ords look wd f opts env fs = Inr (opts', env', fs')" "\<not> insecure_env env"
  shows "sp_EnvUpdates (resolveMCPSafePolicy f env (fst look) (snd look) wd) \<noteq> [] \<and>
    chosen_programs (fst look) (snd look) f \<noteq> []"
  using assms
  by (auto simp: newMCPCmd_def applyMCPSafePolicy_def resolveMCPSafePolicy_def safe_mode_def safe_updates_def Let_def
      split: if_splits option.splits)

end
