(* ===== verification/Conn_Steps.thy ===== *)
theory Conn_Steps
  imports Manager
begin

text \<open>
  Requests of several connections at once: the daemon serves every connection in its own goroutine, and the
  goroutines share the session manager and the sessions' inspection locks. One rule per critical section of the
  manager (\<open>Reserve\<close>, \<open>validateName\<close>, \<open>register\<close>, \<open>Get\<close>, \<open>SetDefault\<close>, \<open>Remove\<close>) or of the lock (\<open>Inspect\<close>), in any
  order; a connection is the point its handler has reached. The two paths with several such sections are those
  of \<open>handleStart\<close> and \<open>handleAttach\<close>, and of \<open>runInspect\<close>.
\<close>

section \<open>Connections\<close>

text \<open>
  A start: admitted by \<open>Reserve\<close>, the adapter runs, its session has its id and goes through the handshake, it is
  registered and the answer is being prepared. An inspection: asked, waiting for the lock of the session
  that was found (sessions are named by their client), holding it, looking at the session the handler
  found; or, when no session was found, without a lock.
\<close>

datatype job =
    Idle
  | Admitted string | Spawned string session | Ready session | Started session
  | Asked string | Queued string nat | Locked string nat | Bare string | Inspecting "nat option" nat

fun starting :: "job \<Rightarrow> nat" where
  "starting (Admitted _) = 1"
| "starting (Spawned _ _) = 1"
| "starting (Ready _) = 1"
| "starting _ = 0"

fun holds :: "job \<Rightarrow> nat \<Rightarrow> bool" where
  "holds (Locked _ c) d \<longleftrightarrow> c = d"
| "holds (Inspecting (Some c) _) d \<longleftrightarrow> c = d"
| "holds _ d \<longleftrightarrow> False"

text \<open>The adapters that run, by their clients.\<close>

record conns =
  cn_mgr :: manager
  cn_jobs :: "nat \<Rightarrow> job"
  cn_next :: nat
  cn_live :: "nat set"

definition conns_init :: "go_int \<Rightarrow> conns" where
  "conns_init cap = \<lparr>cn_mgr = SetMaxSessions cap NewManager, cn_jobs = (\<lambda>_. Idle), cn_next = 0, cn_live = {}\<rparr>"

definition at :: "nat \<Rightarrow> job \<Rightarrow> conns \<Rightarrow> conns" where
  "at j x st = st\<lparr>cn_jobs := (cn_jobs st)(j := x)\<rparr>"

definition close_adapter :: "nat \<Rightarrow> conns \<Rightarrow> conns" where
  "close_adapter c st = st\<lparr>cn_live := cn_live st - {c}\<rparr>"

text \<open>\<open>Remove\<close> closes whatever session is stored under the id.\<close>

definition drop_stored :: "range_order \<Rightarrow> string \<Rightarrow> conns \<Rightarrow> conns" where
  "drop_stored ord sid st =
     (case map_of (m_sessions (cn_mgr st)) sid of
        None \<Rightarrow> st
      | Some s \<Rightarrow> close_adapter (s_cli s) (st\<lparr>cn_mgr := Remove ord sid (cn_mgr st)\<rparr>))"

definition spawn_session :: "string \<Rightarrow> string \<Rightarrow> conns \<Rightarrow> session" where
  "spawn_session newid lang st = newSession (cn_next st) newid lang"

inductive conn_step :: "nat \<Rightarrow> conns \<Rightarrow> conns \<Rightarrow> bool" for k :: nat where
  admit: "j < k \<Longrightarrow> cn_jobs st j = Idle \<Longrightarrow> Reserve (cn_mgr st) = None \<Longrightarrow> conn_step k st (at j (Admitted name) st)"
| spawn: "cn_jobs st j = Admitted name \<Longrightarrow>
    conn_step k st (at j (Spawned name (spawn_session newid lang st))
      (st\<lparr>cn_next := Suc (cn_next st), cn_live := insert (cn_next st) (cn_live st)\<rparr>))"
| spawn_fails: "cn_jobs st j = Admitted name \<Longrightarrow> conn_step k st (at j Idle st)"
| unnamed: "cn_jobs st j = Spawned [] s \<Longrightarrow> conn_step k st (at j (Ready s) st)"
| named: "cn_jobs st j = Spawned name s \<Longrightarrow> name \<noteq> [] \<Longrightarrow> validateName (cn_mgr st) name = None \<Longrightarrow>
    conn_step k st (at j (Ready (s\<lparr>s_ID := name\<rparr>)) st)"
| name_refused: "cn_jobs st j = Spawned name s \<Longrightarrow> name \<noteq> [] \<Longrightarrow> validateName (cn_mgr st) name = Some e \<Longrightarrow>
    conn_step k st (at j Idle (close_adapter (s_cli s) st))"
| prepares: "cn_jobs st j = Ready s \<Longrightarrow> keeps f \<Longrightarrow> conn_step k st (at j (Ready (f s)) st)"
| aborts: "cn_jobs st j = Ready s \<Longrightarrow> conn_step k st (at j Idle (close_adapter (s_cli s) st))"
| registers: "cn_jobs st j = Ready s \<Longrightarrow> conn_step k st (at j (Started s) (st\<lparr>cn_mgr := register s (cn_mgr st)\<rparr>))"
| runs: "cn_jobs st j = Started s \<Longrightarrow> conn_step k st (at j Idle st)"
| ended_early: "cn_jobs st j = Started s \<Longrightarrow> conn_step k st (at j Idle (drop_stored ord (s_ID s) st))"
| stops: "conn_step k st (drop_stored ord sid st)"
| uses: "conn_step k st (st\<lparr>cn_mgr := snd (SetDefault sid (cn_mgr st))\<rparr>)"
| works: "keeps f \<Longrightarrow> conn_step k st (st\<lparr>cn_mgr := put_obj c f (cn_mgr st)\<rparr>)"
| asks: "j < k \<Longrightarrow> cn_jobs st j = Idle \<Longrightarrow> conn_step k st (at j (Asked sid) st)"
| queues: "cn_jobs st j = Asked sid \<Longrightarrow> Get (cn_mgr st) sid = Inr s \<Longrightarrow> conn_step k st (at j (Queued sid (s_cli s)) st)"
| unknown: "cn_jobs st j = Asked sid \<Longrightarrow> Get (cn_mgr st) sid = Inl e \<Longrightarrow> conn_step k st (at j (Bare sid) st)"
| locks: "cn_jobs st j = Queued sid c \<Longrightarrow> \<forall>i < k. \<not> holds (cn_jobs st i) c \<Longrightarrow> conn_step k st (at j (Locked sid c) st)"
| finds: "cn_jobs st j = Locked sid c \<Longrightarrow> Get (cn_mgr st) sid = Inr s \<Longrightarrow>
    conn_step k st (at j (Inspecting (Some c) (s_cli s)) st)"
| finds_bare: "cn_jobs st j = Bare sid \<Longrightarrow> Get (cn_mgr st) sid = Inr s \<Longrightarrow>
    conn_step k st (at j (Inspecting None (s_cli s)) st)"
| misses: "cn_jobs st j = Locked sid c \<or> cn_jobs st j = Bare sid \<Longrightarrow> Get (cn_mgr st) sid = Inl e \<Longrightarrow>
    conn_step k st (at j Idle st)"
| answers: "cn_jobs st j = Inspecting l c \<Longrightarrow> conn_step k st (at j Idle st)"

text \<open>Runs of \<open>k\<close> connections whose every state satisfies a condition; without one, all runs.\<close>

inductive conn_run :: "nat \<Rightarrow> (conns \<Rightarrow> bool) \<Rightarrow> go_int \<Rightarrow> conns \<Rightarrow> bool" for k P cap where
  run_init: "P (conns_init cap) \<Longrightarrow> conn_run k P cap (conns_init cap)"
| run_step: "conn_run k P cap st \<Longrightarrow> conn_step k st st' \<Longrightarrow> P st' \<Longrightarrow> conn_run k P cap st'"

lemma at_fields [simp]:
  "cn_mgr (at j x st) = cn_mgr st" "cn_next (at j x st) = cn_next st" "cn_live (at j x st) = cn_live st"
  "cn_jobs (at j x st) = (cn_jobs st)(j := x)"
  by (simp_all add: at_def)

lemma close_fields [simp]:
  "cn_mgr (close_adapter c st) = cn_mgr st" "cn_next (close_adapter c st) = cn_next st"
  "cn_live (close_adapter c st) = cn_live st - {c}" "cn_jobs (close_adapter c st) = cn_jobs st"
  by (simp_all add: close_adapter_def)

lemma drop_fields [simp]:
  "cn_next (drop_stored ord sid st) = cn_next st" "cn_jobs (drop_stored ord sid st) = cn_jobs st"
  by (simp_all add: drop_stored_def split: option.split)

lemma drop_mgr [simp]: "cn_mgr (drop_stored ord sid st) = Remove ord sid (cn_mgr st)"
proof (cases "map_of (m_sessions (cn_mgr st)) sid")
  case None
  then have "sid \<notin> fst ` set (m_sessions (cn_mgr st))" by (simp add: map_of_eq_None_iff)
  then show ?thesis using None by (simp add: drop_stored_def Remove_def)
qed (simp add: drop_stored_def)

lemma drop_live: "cn_live (drop_stored ord sid st) =
    (case map_of (m_sessions (cn_mgr st)) sid of None \<Rightarrow> cn_live st | Some s \<Rightarrow> cn_live st - {s_cli s})"
  by (simp add: drop_stored_def split: option.split)

section \<open>The table stays consistent\<close>

fun job_sound :: "job \<Rightarrow> bool" where
  "job_sound (Spawned _ s) \<longleftrightarrow> sess_inv s"
| "job_sound (Ready s) \<longleftrightarrow> sess_inv s"
| "job_sound _ \<longleftrightarrow> True"

definition conns_sound :: "nat \<Rightarrow> conns \<Rightarrow> bool" where
  "conns_sound k st \<longleftrightarrow> mgr_inv (cn_mgr st) \<and> (\<forall>j. job_sound (cn_jobs st j)) \<and> (\<forall>j \<ge> k. cn_jobs st j = Idle)"

lemma sess_inv_named: "sess_inv s \<Longrightarrow> sess_inv (s\<lparr>s_ID := name\<rparr>)"
  by (simp add: sess_inv_defs)

lemma conns_sound_step: "conn_step k st st' \<Longrightarrow> conns_sound k st \<Longrightarrow> conns_sound k st'"
proof (induction rule: conn_step.induct)
  case (registers st j s)
  then have "job_sound (cn_jobs st j)" unfolding conns_sound_def by blast
  then show ?case using registers by (auto simp: conns_sound_def mgr_inv_register)
next
  case (prepares st j s f)
  then have "job_sound (cn_jobs st j)" unfolding conns_sound_def by blast
  then show ?case using prepares by (auto simp: conns_sound_def keeps_def)
next
  case (named st j name s)
  then have "job_sound (cn_jobs st j)" unfolding conns_sound_def by blast
  then show ?case using named by (auto simp: conns_sound_def sess_inv_named)
next
  case (unnamed st j s)
  then have "job_sound (cn_jobs st j)" unfolding conns_sound_def by blast
  then show ?case using unnamed by (auto simp: conns_sound_def)
qed (auto simp: conns_sound_def spawn_session_def sess_inv_new mgr_inv_Remove mgr_inv_SetDefault mgr_inv_put_obj)


lemma conn_run_sound: "conn_run k P cap st \<Longrightarrow> conns_sound k st"
proof (induction rule: conn_run.induct)
  case run_init
  have "mgr_inv (SetMaxSessions cap NewManager)"
    using mgr_inv_new by (simp add: mgr_inv_def SetMaxSessions_def)
  then show ?case by (simp add: conns_sound_def conns_init_def)
qed (simp add: conns_sound_step)

text \<open>
  C4. The session table stays consistent under any interleaving. Whatever the requests of any number of connections
  do, and in whatever order their critical sections run: the ids are unique and are the ids of the sessions
  stored under them, every stored session keeps its invariant, and the default is a stored session, or nothing
  when there is none.
\<close>

theorem table_consistent:
  assumes "conn_run k (\<lambda>_. True) cap st"
  shows "mgr_inv (cn_mgr st)"
  using conn_run_sound [OF assms] by (simp add: conns_sound_def)

section \<open>The session cap under concurrency\<close>

definition under_way :: "nat \<Rightarrow> conns \<Rightarrow> nat" where
  "under_way k st = (\<Sum>j < k. starting (cn_jobs st j))"

lemma starting_le: "starting x \<le> 1"
  by (cases x) simp_all

lemma under_way_le: "under_way k st \<le> k"
proof -
  have "under_way k st \<le> (\<Sum>j < k. 1)" unfolding under_way_def using starting_le by (intro sum_mono)
  then show ?thesis by simp
qed

lemma under_way_at:
  assumes "j < k"
  shows "under_way k (at j x st) + starting (cn_jobs st j) = under_way k st + starting x"
proof -
  have "(\<Sum>i \<in> {..<k} - {j}. starting (((cn_jobs st)(j := x)) i)) = (\<Sum>i \<in> {..<k} - {j}. starting (cn_jobs st i))"
    by (rule sum.cong) simp_all
  then show ?thesis using assms by (simp add: under_way_def sum.remove [of "{..<k}" j])
qed

lemma under_way_at_le:
  "j < k \<Longrightarrow> starting x \<le> starting (cn_jobs st j) \<Longrightarrow> under_way k (at j x st) \<le> under_way k st"
  using under_way_at [of j k x st] by linarith

lemma under_way_same: "cn_jobs st' = cn_jobs st \<Longrightarrow> under_way k st' = under_way k st"
  by (simp add: under_way_def)

lemma Remove_length: "length (m_sessions (Remove ord sid m)) \<le> length (m_sessions m)"
  by (auto simp: Remove_def Let_def map_del_def)

lemma SetDefault_fields [simp]:
  "m_sessions (snd (SetDefault sid m)) = m_sessions m" "m_maxSessions (snd (SetDefault sid m)) = m_maxSessions m"
  by (simp_all add: SetDefault_def)

lemma cap_fields [simp]:
  "m_maxSessions (Remove ord sid m) = m_maxSessions m" "m_maxSessions (register s m) = m_maxSessions m"
  by (simp_all add: Remove_def register_def Let_def)

definition within_cap :: "nat \<Rightarrow> conns \<Rightarrow> bool" where
  "within_cap k st \<longleftrightarrow>
     (0 < m_maxSessions (cn_mgr st) \<longrightarrow>
        int (length (m_sessions (cn_mgr st)) + under_way k st) < m_maxSessions (cn_mgr st) + int k)"

lemma conn_step_cap: "conn_step k st st' \<Longrightarrow> m_maxSessions (cn_mgr st') = m_maxSessions (cn_mgr st)"
  by (induction rule: conn_step.induct) simp_all

text \<open>A step that admits no start adds nothing to the sessions stored and under way.\<close>

lemma conn_step_load:
  assumes "conn_step k st st'" "conns_sound k st"
  shows "length (m_sessions (cn_mgr st')) + under_way k st' \<le> length (m_sessions (cn_mgr st)) + under_way k st \<or>
    Reserve (cn_mgr st) = None \<and> m_sessions (cn_mgr st') = m_sessions (cn_mgr st)"
proof -
  have idle: "j < k" if "cn_jobs st j \<noteq> Idle" for j
    using that assms(2) unfolding conns_sound_def using not_le by blast
  have quiet: ?thesis if "st' = at j x st1" "cn_jobs st1 = cn_jobs st" "cn_jobs st j \<noteq> Idle"
      "starting x \<le> starting (cn_jobs st j)" "length (m_sessions (cn_mgr st1)) \<le> length (m_sessions (cn_mgr st))" for j x st1
  proof -
    have "under_way k st' \<le> under_way k st"
      using under_way_at_le [OF idle [OF that(3)], of x st1] under_way_same [of st1 st k] that by simp
    then show ?thesis using that(1,5) by simp
  qed
  show ?thesis
    using assms(1)
  proof cases
    case (admit j name)
    then show ?thesis by simp
  next
    case (registers j s)
    let ?st = "st\<lparr>cn_mgr := register s (cn_mgr st)\<rparr>"
    have "length (m_sessions (cn_mgr ?st)) \<le> Suc (length (m_sessions (cn_mgr st)))"
      by (simp add: register_def map_put_def)
    moreover have "under_way k (at j (Started s) ?st) + 1 = under_way k st"
      using under_way_at [of j k "Started s" ?st] idle [of j] registers(2) under_way_same [of ?st st k] by simp
    ultimately show ?thesis using registers(1) by simp
  next
    case (ended_early j s ord)
    show ?thesis using quiet [OF ended_early(1)] ended_early(2) Remove_length by simp
  next
    case (stops ord sid)
    show ?thesis using stops Remove_length [of ord sid "cn_mgr st"] under_way_same [of st' st k] by simp
  next
    case (uses sid)
    show ?thesis using uses under_way_same [of st' st k] by simp
  next
    case (works f c)
    show ?thesis using works under_way_same [of st' st k] by simp
  next
    case (asks j sid)
    show ?thesis using under_way_at_le [OF asks(2), of "Asked sid" st] asks by simp
  next
    case (misses j sid c e)
    show ?thesis using quiet [OF misses(1)] misses(2) by auto
  qed (rule quiet, assumption, simp, simp, simp, simp)+
qed

lemma conn_run_within: "conn_run k P cap st \<Longrightarrow> m_maxSessions (cn_mgr st) = cap \<and> within_cap k st"
proof (induction rule: conn_run.induct)
  case run_init
  have "under_way k (conns_init cap) = 0" by (simp add: under_way_def conns_init_def)
  then show ?case by (auto simp: within_cap_def conns_init_def SetMaxSessions_def NewManager_def)
next
  case (run_step st st')
  note cap = conn_step_cap [OF run_step(2)]
  have sound: "conns_sound k st" using conn_run_sound run_step(1) .
  show ?case
    using conn_step_load [OF run_step(2) sound]
  proof
    assume "Reserve (cn_mgr st) = None \<and> m_sessions (cn_mgr st') = m_sessions (cn_mgr st)"
    then show ?thesis
      using run_step cap under_way_le [of k st'] by (auto simp: within_cap_def Reserve_def split: if_splits)
  qed (use run_step cap in \<open>auto simp: within_cap_def\<close>)
qed

text \<open>
  C5. The session cap under concurrency. With \<open>SL_DBG_MAX_SESSIONS\<close> set, at most that many sessions less one, plus the
  number of connections, are ever stored or being started; so the daemon keeps to the cap when it is used
  over one connection at a time, and exceeds it by at most the number of other connections.
\<close>

theorem sessions_bounded:
  assumes "conn_run k (\<lambda>_. True) cap st" "0 < cap"
  shows "int (length (m_sessions (cn_mgr st)) + under_way k st) \<le> cap - 1 + int k"
  using conn_run_within [OF assms(1)] assms(2) by (auto simp: within_cap_def)


section \<open>Adapters and their owners\<close>

definition stored_clients :: "manager \<Rightarrow> nat set" where
  "stored_clients m = (s_cli \<circ> snd) ` set (m_sessions m)"

fun job_clients :: "job \<Rightarrow> nat set" where
  "job_clients (Spawned _ s) = {s_cli s}"
| "job_clients (Ready s) = {s_cli s}"
| "job_clients _ = {}"

text \<open>No session that is about to be registered has the id of a stored one.\<close>

definition ids_apart :: "conns \<Rightarrow> bool" where
  "ids_apart st \<longleftrightarrow> (\<forall>j s. cn_jobs st j = Ready s \<longrightarrow> s_ID s \<notin> fst ` set (m_sessions (cn_mgr st)))"

definition started_clients :: "conns \<Rightarrow> nat set" where
  "started_clients st = (\<Union>j. job_clients (cn_jobs st j))"

text \<open>Every adapter has one owner: an entry of the table or a start that is under way.\<close>

definition owned :: "conns \<Rightarrow> bool" where
  "owned st \<longleftrightarrow>
     distinct (map (s_cli \<circ> snd) (m_sessions (cn_mgr st))) \<and>
     (\<forall>i j. i \<noteq> j \<longrightarrow> job_clients (cn_jobs st i) \<inter> job_clients (cn_jobs st j) = {}) \<and>
     stored_clients (cn_mgr st) \<inter> started_clients st = {} \<and>
     cn_live st = stored_clients (cn_mgr st) \<union> started_clients st \<and>
     (\<forall>c \<in> cn_live st. c < cn_next st)"

lemma started_at:
  "started_clients (at j x st) = job_clients x \<union> (\<Union>i \<in> - {j}. job_clients (cn_jobs st i))"
  by (auto simp: started_clients_def split: if_splits)

lemma started_split: "started_clients st = job_clients (cn_jobs st j) \<union> (\<Union>i \<in> - {j}. job_clients (cn_jobs st i))"
  by (auto simp: started_clients_def)

lemma stored_Remove:
  assumes "distinct (map (s_cli \<circ> snd) (m_sessions m))" "distinct (map fst (m_sessions m))"
  shows "stored_clients (Remove ord sid m) =
      (case map_of (m_sessions m) sid of None \<Rightarrow> stored_clients m | Some s \<Rightarrow> stored_clients m - {s_cli s})"
    and "distinct (map (s_cli \<circ> snd) (m_sessions (Remove ord sid m)))"
proof -
  have table: "m_sessions (Remove ord sid m) = map_del sid (m_sessions m)"
    by (auto simp: Remove_def Let_def map_del_def image_iff intro!: filter_True [symmetric])
  show "distinct (map (s_cli \<circ> snd) (m_sessions (Remove ord sid m)))"
    using assms(1) by (simp add: table map_del_def distinct_map_filter)
  show "stored_clients (Remove ord sid m) =
      (case map_of (m_sessions m) sid of None \<Rightarrow> stored_clients m | Some s \<Rightarrow> stored_clients m - {s_cli s})"
  proof (cases "map_of (m_sessions m) sid")
    case None
    then have "sid \<notin> fst ` set (m_sessions m)" by (simp add: map_of_eq_None_iff)
    then show ?thesis using None by (simp add: Remove_def)
  next
    case (Some s)
    then have s: "(sid, s) \<in> set (m_sessions m)" by (rule map_of_SomeD)
    have "s_cli s' = s_cli s \<longleftrightarrow> k = sid" if "(k, s') \<in> set (m_sessions m)" for k s'
    proof
      assume "s_cli s' = s_cli s"
      moreover have "inj_on (s_cli \<circ> snd) (set (m_sessions m))" using assms(1) distinct_map by blast
      ultimately show "k = sid" using inj_onD [of _ _ "(k, s')" "(sid, s)"] that s by fastforce
    next
      assume "k = sid"
      then show "s_cli s' = s_cli s" using assms(2) that s Some by (metis map_of_is_SomeI option.inject)
    qed
    then show ?thesis using Some by (force simp: stored_clients_def table map_del_def)
  qed
qed

lemma owned_drop:
  assumes "owned st" "mgr_inv (cn_mgr st)"
  shows "owned (drop_stored ord sid st)"
proof (cases "map_of (m_sessions (cn_mgr st)) sid")
  case None
  then show ?thesis using assms(1) by (simp add: drop_stored_def)
next
  case (Some s)
  then have "s_cli s \<in> stored_clients (cn_mgr st)" by (force simp: stored_clients_def dest: map_of_SomeD)
  moreover have "started_clients (drop_stored ord sid st) = started_clients st" by (simp add: started_clients_def)
  ultimately show ?thesis
    using stored_Remove [of "cn_mgr st" ord sid] assms Some
    by (auto simp: owned_def mgr_inv_def drop_live)
qed

text \<open>A job that changes and neither gains nor loses its adapter.\<close>

lemma owned_at:
  assumes "owned st" "job_clients x = job_clients (cn_jobs st j)"
  shows "owned (at j x st)"
proof -
  have "job_clients (((cn_jobs st)(j := x)) i) = job_clients (cn_jobs st i)" for i using assms(2) by simp
  then show ?thesis using assms(1) by (simp add: owned_def started_clients_def)
qed

text \<open>A start that gives up closes its adapter.\<close>

lemma owned_abort:
  assumes "owned st" "job_clients (cn_jobs st j) = {c}" "job_clients x = {}"
  shows "owned (at j x (close_adapter c st))"
proof -
  have "started_clients (at j x (close_adapter c st)) = started_clients st - {c}"
    using assms by (force simp: owned_def started_at started_split [of st j])
  moreover have "c \<in> started_clients st" using assms(2) by (auto simp: started_clients_def)
  ultimately show ?thesis using assms by (auto simp: owned_def)
qed

lemma owned_spawn:
  assumes "owned st" "job_clients (cn_jobs st j) = {}"
  shows "owned (at j (Spawned name (spawn_session newid lang st))
      (st\<lparr>cn_next := Suc (cn_next st), cn_live := insert (cn_next st) (cn_live st)\<rparr>))" (is "owned ?st'")
proof -
  have new: "s_cli (spawn_session newid lang st) = cn_next st" by (simp add: spawn_session_def newSession_def)
  have fresh: "cn_next st \<notin> cn_live st" using assms(1) by (auto simp: owned_def)
  have "started_clients ?st' = insert (cn_next st) (started_clients st)"
    using assms(2) new by (simp add: started_at started_split [of st j])
  moreover have "job_clients (cn_jobs st i) \<subseteq> cn_live st" for i
    using assms(1) by (auto simp: owned_def started_clients_def)
  ultimately show ?thesis using assms(1) new fresh by (auto simp: owned_def less_Suc_eq)
qed

lemma owned_register:
  assumes "owned st" "cn_jobs st j = Ready s" "s_ID s \<notin> fst ` set (m_sessions (cn_mgr st))"
  shows "owned (at j (Started s) (st\<lparr>cn_mgr := register s (cn_mgr st)\<rparr>))" (is "owned ?st'")
proof -
  have table: "m_sessions (register s (cn_mgr st)) = m_sessions (cn_mgr st) @ [(s_ID s, s)]"
    using assms(3) by (simp add: register_def map_put_def)
  have "s_cli s \<in> started_clients st" using assms(2) by (simp add: started_split [of st j])
  then have "s_cli s \<notin> stored_clients (cn_mgr st)" "s_cli s \<in> cn_live st" using assms(1) by (auto simp: owned_def)
  moreover have "started_clients ?st' = started_clients st - {s_cli s}"
    using assms(1,2) by (force simp: owned_def started_at started_split [of st j])
  ultimately show ?thesis
    using assms(1) \<open>s_cli s \<in> started_clients st\<close> by (auto simp: owned_def table stored_clients_def)
qed


lemma owned_works:
  assumes "owned st" "keeps f"
  shows "owned (st\<lparr>cn_mgr := put_obj c f (cn_mgr st)\<rparr>)"
proof -
  note same = clis_put_obj [OF assms(2), of c "cn_mgr st"]
  have "stored_clients (put_obj c f (cn_mgr st)) = stored_clients (cn_mgr st)"
    using arg_cong [OF same, of set] by (simp add: stored_clients_def)
  then show ?thesis using assms(1) same by (simp add: owned_def started_clients_def)
qed

lemma owned_step:
  assumes "conn_step k st st'" "owned st" "mgr_inv (cn_mgr st)" "ids_apart st"
  shows "owned st'"
  using assms(1)
proof cases
  case (spawn j name newid lang)
  then show ?thesis using owned_spawn [OF assms(2)] by simp
next
  case (name_refused j name s e)
  then show ?thesis using owned_abort [OF assms(2)] by simp
next
  case (aborts j s)
  then show ?thesis using owned_abort [OF assms(2)] by simp
next
  case (registers j s)
  then show ?thesis using owned_register [OF assms(2)] assms(4) by (simp add: ids_apart_def)
next
  case (prepares j s f)
  then show ?thesis using owned_at [OF assms(2)] by (simp add: keeps_def)
next
  case (ended_early j s ord)
  have "job_clients Idle = job_clients (cn_jobs (drop_stored ord (s_ID s) st) j)" using ended_early by simp
  then show ?thesis using owned_at [OF owned_drop [OF assms(2,3)]] ended_early(1) by simp
next
  case (stops ord sid)
  then show ?thesis using owned_drop [OF assms(2,3)] by simp
next
  case (uses sid)
  then show ?thesis using assms(2) by (simp add: owned_def started_clients_def stored_clients_def)
next
  case (works f c)
  then show ?thesis using owned_works [OF assms(2)] by simp
qed (use owned_at [OF assms(2)] in \<open>auto simp: owned_at\<close>)



section \<open>The inspection lock\<close>

text \<open>
  What a handler finds behind the lock is what the lock was taken for: a session that is found again is the
  same one, and one that was not found is still missing.
\<close>

definition names_stable :: "conns \<Rightarrow> bool" where
  "names_stable st \<longleftrightarrow>
     (\<forall>j sid c s. cn_jobs st j = Locked sid c \<and> Get (cn_mgr st) sid = Inr s \<longrightarrow> s_cli s = c) \<and>
     (\<forall>j sid s. cn_jobs st j = Bare sid \<longrightarrow> Get (cn_mgr st) sid \<noteq> Inr s)"

definition locks_exclusive :: "conns \<Rightarrow> bool" where
  "locks_exclusive st \<longleftrightarrow>
     (\<forall>i j c. holds (cn_jobs st i) c \<and> holds (cn_jobs st j) c \<longrightarrow> i = j) \<and>
     (\<forall>j l c. cn_jobs st j = Inspecting l c \<longrightarrow> l = Some c)"

lemma locks_at:
  assumes "locks_exclusive st" "\<And>c. holds x c \<Longrightarrow> holds (cn_jobs st j) c"
    and "\<And>l c. x = Inspecting l c \<Longrightarrow> l = Some c"
  shows "locks_exclusive (at j x st)"
proof -
  have "holds (cn_jobs st i) c" if "holds (((cn_jobs st)(j := x)) i) c" for i c
    using that assms(2) by (simp split: if_splits)
  then show ?thesis using assms(1,3) unfolding locks_exclusive_def at_fields by (metis fun_upd_apply)
qed

lemma locks_same: "cn_jobs st' = cn_jobs st \<Longrightarrow> locks_exclusive st \<Longrightarrow> locks_exclusive st'"
  by (simp add: locks_exclusive_def)

lemma locks_step:
  assumes "conn_step k st st'" "locks_exclusive st" "conns_sound k st" "names_stable st"
  shows "locks_exclusive st'"
proof -
  have idle: "locks_exclusive (at j x st1)" if "cn_jobs st1 = cn_jobs st" "\<And>c. \<not> holds x c" "\<And>l c. x \<noteq> Inspecting l c" for j x st1
    using locks_at [OF locks_same [OF that(1) assms(2)], of x j] that(2,3) by blast
  have quiet: ?thesis if "st' = at j x st1" "cn_jobs st1 = cn_jobs st" "\<And>c. \<not> holds x c" "\<And>l c. x \<noteq> Inspecting l c" for j x st1
    unfolding that(1) using idle that(2-4) .
  show ?thesis
    using assms(1)
  proof cases
    case (locks j sid c)
    have "\<not> holds (cn_jobs st i) c" for i
      using locks(3) assms(3) by (cases "i < k") (simp_all add: conns_sound_def)
    moreover have "holds (((cn_jobs st)(j := Locked sid c)) i) d \<longleftrightarrow> (if i = j then c = d else holds (cn_jobs st i) d)" for i d
      by simp
    moreover have "Locked sid c \<noteq> Inspecting l d" for l d by simp
    ultimately show ?thesis using assms(2) unfolding locks_exclusive_def locks(1) at_fields by (metis fun_upd_apply)
  next
    case (finds j sid c s)
    then have "s_cli s = c" using assms(4) unfolding names_stable_def by blast
    moreover have "locks_exclusive (at j (Inspecting (Some c) c) st)"
      by (rule locks_at [OF assms(2)]) (simp_all add: finds(2))
    ultimately show ?thesis unfolding finds(1) by simp
  next
    case (finds_bare j sid s)
    then show ?thesis using assms(4) unfolding names_stable_def by blast
  next
    case (stops ord sid)
    then show ?thesis using locks_same [OF _ assms(2)] by simp
  next
    case (uses sid)
    then show ?thesis using locks_same [OF _ assms(2)] by simp
  next
    case (works f c)
    then show ?thesis using locks_same [OF _ assms(2)] by simp
  qed (rule quiet, assumption, simp, simp, simp)+
qed


section \<open>Runs\<close>

abbreviation any_run :: "nat \<Rightarrow> go_int \<Rightarrow> conns \<Rightarrow> bool" where
  "any_run k cap st \<equiv> conn_run k (\<lambda>_. True) cap st"

lemma any_step: "any_run k cap st \<Longrightarrow> conn_step k st st' \<Longrightarrow> any_run k cap st'"
  by (rule conn_run.run_step) simp_all

lemma finish_ready:
  assumes "any_run k cap st" "cn_jobs st j = Ready s"
  shows "any_run k cap (at j Idle (st\<lparr>cn_mgr := register s (cn_mgr st)\<rparr>))"
proof -
  let ?st = "at j (Started s) (st\<lparr>cn_mgr := register s (cn_mgr st)\<rparr>)"
  have "any_run k cap ?st" by (rule any_step [OF assms(1) registers [OF assms(2)]])
  then have "any_run k cap (at j Idle ?st)" by (rule any_step, intro runs) simp
  then show ?thesis by (simp add: at_def)
qed

text \<open>A start up to the point where its session has its id.\<close>

definition ready_on :: "nat \<Rightarrow> string \<Rightarrow> conns \<Rightarrow> conns" where
  "ready_on j name st =
     at j (Ready ((spawn_session ''ab12cd'' ''go'' st)\<lparr>s_ID := name\<rparr>))
       (st\<lparr>cn_next := Suc (cn_next st), cn_live := insert (cn_next st) (cn_live st)\<rparr>)"

lemma get_ready:
  assumes "any_run k cap st" "cn_jobs st j = Admitted name" "name \<noteq> []" "validateName (cn_mgr st) name = None"
  shows "any_run k cap (ready_on j name st)"
proof -
  let ?s = "spawn_session ''ab12cd'' ''go'' st"
  let ?st = "at j (Spawned name ?s) (st\<lparr>cn_next := Suc (cn_next st), cn_live := insert (cn_next st) (cn_live st)\<rparr>)"
  have "any_run k cap ?st" by (rule any_step [OF assms(1) spawn [OF assms(2)]])
  then have "any_run k cap (at j (Ready (?s\<lparr>s_ID := name\<rparr>)) ?st)"
    using assms(3,4) by (elim any_step) (intro named, simp_all)
  then show ?thesis by (simp add: at_def ready_on_def)
qed

text \<open>A whole start on an idle connection.\<close>

definition start_on :: "nat \<Rightarrow> string \<Rightarrow> conns \<Rightarrow> conns" where
  "start_on j name st =
     at j Idle (st\<lparr>cn_mgr := register ((spawn_session ''ab12cd'' ''go'' st)\<lparr>s_ID := name\<rparr>) (cn_mgr st),
       cn_next := Suc (cn_next st), cn_live := insert (cn_next st) (cn_live st)\<rparr>)"

lemma finish_start:
  assumes "any_run k cap st" "cn_jobs st j = Admitted name" "name \<noteq> []" "validateName (cn_mgr st) name = None"
  shows "any_run k cap (start_on j name st)"
proof -
  let ?r = "ready_on j name st" and ?s = "(spawn_session ''ab12cd'' ''go'' st)\<lparr>s_ID := name\<rparr>"
  have "any_run k cap (at j Idle (?r\<lparr>cn_mgr := register ?s (cn_mgr ?r)\<rparr>))"
    by (rule finish_ready [OF get_ready [OF assms]]) (simp add: ready_on_def)
  moreover have "at j Idle (?r\<lparr>cn_mgr := register ?s (cn_mgr ?r)\<rparr>) = start_on j name st"
    by (rule conns.equality) (simp_all add: ready_on_def start_on_def at_def)
  ultimately show ?thesis by simp
qed

lemma whole_start:
  assumes "any_run k cap st" "cn_jobs st j = Idle" "j < k" "Reserve (cn_mgr st) = None"
    and "name \<noteq> []" "validateName (cn_mgr st) name = None"
  shows "any_run k cap (start_on j name st)"
proof -
  have "any_run k cap (start_on j name (at j (Admitted name) st))"
    using assms(5,6) by (intro finish_start [OF any_step [OF assms(1) admit [OF assms(3,2,4)]]]) simp_all
  moreover have "start_on j name (at j (Admitted name) st) = start_on j name st"
    by (simp add: at_def start_on_def spawn_session_def)
  ultimately show ?thesis by simp
qed

lemma any_init: "any_run k cap (conns_init cap)"
  by (rule conn_run.run_init) simp

lemmas start_simps =
  start_on_def ready_on_def conns_init_def spawn_session_def newSession_def register_def map_put_def NewManager_def
  SetMaxSessions_def validateName_def name_char_def is_letter_def char_code_def Reserve_def

text \<open>Two starts at once pass a cap of one.\<close>

theorem cap_exceeded: "\<exists>st. conn_run 2 (\<lambda>_. True) 1 st \<and> length (m_sessions (cn_mgr st)) = 2"
proof -
  let ?st = "at 1 (Admitted ''b'') (at 0 (Admitted ''a'') (conns_init 1))"
  have "any_run 2 1 (at 0 (Admitted ''a'') (conns_init 1))"
    by (rule any_step [OF any_init admit]) (simp_all add: start_simps)
  then have "any_run 2 1 ?st"
    by (rule any_step) (rule admit, simp_all add: start_simps)
  then have "any_run 2 1 (start_on 0 ''a'' ?st)" by (rule finish_start) (simp_all add: start_simps)
  then have "any_run 2 1 (start_on 1 ''b'' (start_on 0 ''a'' ?st))" by (rule finish_start) (simp_all add: start_simps)
  moreover have "length (m_sessions (cn_mgr (start_on 1 ''b'' (start_on 0 ''a'' ?st)))) = 2" by (simp add: start_simps)
  ultimately show ?thesis by blast
qed

text \<open>
  Two starts with the same name both pass \<open>validateName\<close>; the second displaces the first in the table, whose adapter
  runs on with nobody who could stop it.
\<close>

theorem same_name_loses_adapter:
  "\<exists>st. conn_run 2 (\<lambda>_. True) 0 st \<and> cn_jobs st = (\<lambda>_. Idle) \<and> cn_live st = {0, 1} \<and> stored_clients (cn_mgr st) = {1}"
proof -
  let ?st = "at 1 (Admitted ''a'') (at 0 (Admitted ''a'') (conns_init 0))"
  let ?r = "ready_on 0 ''a'' ?st"
  have "any_run 2 0 (at 0 (Admitted ''a'') (conns_init 0))"
    by (rule any_step [OF any_init admit]) (simp_all add: start_simps)
  then have "any_run 2 0 ?st" by (rule any_step) (rule admit, simp_all add: start_simps)
  then have "any_run 2 0 ?r" by (rule get_ready) (simp_all add: start_simps)
  then have r: "any_run 2 0 (ready_on 1 ''a'' ?r)" by (rule get_ready) (simp_all add: start_simps)
  then have r0: "any_run 2 0 (at 0 Idle ((ready_on 1 ''a'' ?r)\<lparr>cn_mgr := register ((spawn_session ''ab12cd'' ''go'' ?st)\<lparr>s_ID := ''a''\<rparr>) (cn_mgr (ready_on 1 ''a'' ?r))\<rparr>))"
    (is "any_run 2 0 ?mid") by (rule finish_ready) (simp add: start_simps)
  let ?fin = "at 1 Idle (?mid\<lparr>cn_mgr := register ((spawn_session ''ab12cd'' ''go'' ?r)\<lparr>s_ID := ''a''\<rparr>) (cn_mgr ?mid)\<rparr>)"
  have "any_run 2 0 ?fin" by (rule finish_ready [OF r0]) (simp add: start_simps)
  moreover have "cn_jobs ?fin = (\<lambda>_. Idle)" by (auto simp: start_simps)
  moreover have "cn_live ?fin = {0, 1}" "stored_clients (cn_mgr ?fin) = {1}" by (auto simp: start_simps stored_clients_def)
  ultimately show ?thesis by blast
qed


text \<open>A request for an inspection up to the lock, and a whole one that nobody disturbs.\<close>

lemma get_lock:
  assumes "any_run k cap st" "cn_jobs st j = Idle" "j < k" "Get (cn_mgr st) sid = Inr s"
    and "\<forall>i < k. \<not> holds (cn_jobs st i) (s_cli s)"
  shows "any_run k cap (at j (Locked sid (s_cli s)) st)"
proof -
  have "any_run k cap (at j (Asked sid) st)" by (rule any_step [OF assms(1) asks [OF assms(3,2)]])
  then have "any_run k cap (at j (Queued sid (s_cli s)) (at j (Asked sid) st))"
    using assms(4) by (elim any_step) (intro queues, simp_all)
  then have "any_run k cap (at j (Locked sid (s_cli s)) (at j (Queued sid (s_cli s)) (at j (Asked sid) st)))"
    using assms(5) by (elim any_step) (intro locks, simp_all)
  then show ?thesis by (simp add: at_def)
qed

lemma find_locked:
  "any_run k cap st \<Longrightarrow> cn_jobs st j = Locked sid c \<Longrightarrow> Get (cn_mgr st) sid = Inr s \<Longrightarrow>
     any_run k cap (at j (Inspecting (Some c) (s_cli s)) st)"
  by (erule any_step) (rule finds)

definition named_session :: "nat \<Rightarrow> string \<Rightarrow> session" where
  "named_session c name = (newSession c ''ab12cd'' ''go'')\<lparr>s_ID := name\<rparr>"

text \<open>
  The default session may change between the look-up that takes the lock and the handler's own: one connection
  asks for the default session and gets the lock of the session \<open>a\<close>; the default becomes \<open>b\<close>; its handler finds \<open>b\<close>,
  which another connection inspects at the same time under the lock of \<open>b\<close>.
\<close>

theorem default_switch_breaks_lock:
  "\<exists>st. conn_run 2 (\<lambda>_. True) 0 st \<and> cn_jobs st 0 = Inspecting (Some 0) 1 \<and> cn_jobs st 1 = Inspecting (Some 1) 1"
proof -
  let ?a = "start_on 0 ''a'' (conns_init 0)" let ?lock = "at 0 (Locked [] 0) ?a"
  let ?both = "start_on 1 ''b'' ?lock" let ?astray = "at 0 (Inspecting (Some 0) 1) ?both"
  let ?fin = "at 1 (Inspecting (Some 1) 1) (at 1 (Locked ''b'' 1) ?astray)"
  have cli: "s_cli (named_session c n) = c" for c n by (simp add: named_session_def newSession_def)
  have "Get (cn_mgr ?a) [] = Inr (named_session 0 ''a'')" "Get (cn_mgr ?both) [] = Inr (named_session 1 ''b'')"
    "Get (cn_mgr ?both) ''b'' = Inr (named_session 1 ''b'')"
    by (simp_all add: start_simps Get_def Get_key_def named_session_def)
  note found = this
  have "any_run 2 0 ?a" by (rule whole_start [OF any_init]) (simp_all add: start_simps)
  then have "any_run 2 0 ?lock"
    using get_lock [OF _ _ _ found(1), of 2 0 0] by (simp add: cli start_on_def conns_init_def less_2_cases_iff)
  then have "any_run 2 0 ?both" by (rule whole_start) (simp_all add: start_simps)
  then have astray: "any_run 2 0 ?astray"
    using find_locked [OF _ _ found(2), of 2 0 0 0] by (simp add: cli start_on_def)
  then have "any_run 2 0 (at 1 (Locked ''b'' 1) ?astray)"
    using get_lock [OF astray, of 1 "''b''" "named_session 1 ''b''"] found(3)
    by (simp add: cli start_on_def less_2_cases_iff)
  then have "any_run 2 0 ?fin"
    using find_locked [of 2 0 _ 1 "''b''" 1 "named_session 1 ''b''"] found(3) by (simp add: cli)
  moreover have "cn_jobs ?fin 0 = Inspecting (Some 0) 1" "cn_jobs ?fin 1 = Inspecting (Some 1) 1" by simp_all
  ultimately show ?thesis by blast
qed

section \<open>Examples\<close>

theorem table_consistent_witness: "mgr_inv (cn_mgr (start_on 0 ''a'' (conns_init 1)))"
proof -
  have "any_run 2 1 (start_on 0 ''a'' (conns_init 1))" by (rule whole_start [OF any_init]) (simp_all add: start_simps)
  from table_consistent [OF this] show ?thesis .
qed

theorem sessions_bounded_witness:
  "int (length (m_sessions (cn_mgr (start_on 0 ''a'' (conns_init 1)))) + under_way 2 (start_on 0 ''a'' (conns_init 1))) \<le> 2"
proof -
  have "any_run 2 1 (start_on 0 ''a'' (conns_init 1))" by (rule whole_start [OF any_init]) (simp_all add: start_simps)
  from sessions_bounded [OF this] show ?thesis by simp
qed



end
