(* ===== verification/Toml_Round.thy ===== *)
theory Toml_Round
  imports Toml_Props
begin

text \<open>
  Registration and removal in Codex's configuration undo each other: the stanza that \<open>toml_install\<close>
  appends is recognised by \<open>stripMCPTable\<close> as the table of that server, whatever precedes it.
\<close>

section \<open>White space and multi-line state of a line\<close>

lemma trim_space_newline: "trim_space (z @ [CHR 0x0A]) = trim_space z"
proof -
  have sp: "go_space CHR 0x0A" by (simp add: go_space_def)
  show ?thesis
  proof (cases "list_all go_space z")
    case True
    then have "\<forall>c \<in> set (z @ [CHR 0x0A]). go_space c" "\<forall>c \<in> set z. go_space c"
      using sp by (auto simp: list_all_iff)
    then have "dropWhile go_space (z @ [CHR 0x0A]) = []" "dropWhile go_space z = []"
      by (simp_all only: dropWhile_eq_Nil_conv)
    then show ?thesis
      by (simp add: trim_space_def trim_left_f_def trim_right_f_def del: dropWhile_eq_Nil_conv)
  next
    case False
    then obtain c where "c \<in> set z" "\<not> go_space c" by (auto simp: list_all_iff)
    then have "dropWhile go_space (z @ [CHR 0x0A]) = dropWhile go_space z @ [CHR 0x0A]"
      by (rule dropWhile_append1)
    then show ?thesis using sp by (simp add: trim_space_def trim_left_f_def trim_right_f_def)
  qed
qed

lemma skip_string_append:
  "skip_string q (cs @ [c]) = skip_string q cs @ [c] \<or> skip_string q (cs @ [c]) = [] \<and> skip_string q cs = []"
proof (induction q cs rule: skip_string.induct)
  case (2 q d cs)
  then show ?case by (cases cs) auto
qed auto

definition quote_state :: "string \<Rightarrow> bool" where
  "quote_state st \<longleftrightarrow> st = [] \<or> st = replicate 3 CHR 0x22 \<or> st = replicate 3 CHR 0x27"

lemma multi_empty: "tomlMultilineState [CHR 0x0A] [] = []"
  by (simp add: tomlMultilineState.simps)

lemma has_prefix_snoc: "c \<notin> set p \<Longrightarrow> has_prefix (s @ [c]) p \<longleftrightarrow> has_prefix s p"
  by (auto simp: has_prefix_def prefix_append prefix_Cons elim: prefixE)

lemma multi_newline:
  "quote_state st \<Longrightarrow> tomlMultilineState (z @ [CHR 0x0A]) st = tomlMultilineState z st"
proof (induction z st rule: tomlMultilineState.induct)
  case (1 st)
  then show ?case by (auto simp: quote_state_def tomlMultilineState.simps(2) has_prefix_def numeral_3_eq_3)
next
  case (2 c cs st)
  let ?nl = "CHR 0x0A"
  have st: "?nl \<notin> set st" using 2(7) by (auto simp: quote_state_def)
  have pre: "has_prefix ((c # cs) @ [?nl]) st \<longleftrightarrow> has_prefix (c # cs) st" using has_prefix_snoc [OF st] .
  consider (esc) "st \<noteq> []" "st = replicate 3 CHR 0x22" "c = CHR 0x5C"
    | (close) "st \<noteq> []" "\<not> (st = replicate 3 CHR 0x22 \<and> c = CHR 0x5C)" "has_prefix (c # cs) st"
    | (inside) "st \<noteq> []" "\<not> (st = replicate 3 CHR 0x22 \<and> c = CHR 0x5C)" "\<not> has_prefix (c # cs) st"
    | (hash) "st = []" "c = CHR ''#''"
    | (plain) "st = []" "c \<noteq> CHR ''#''" "c \<noteq> CHR 0x22 \<and> c \<noteq> CHR 0x27"
    | (quoted) "st = []" "c = CHR 0x22 \<or> c = CHR 0x27"
    by blast
  then show ?case
  proof cases
    case esc
    then show ?thesis using 2(1) 2(7)
      by (cases cs) (auto simp: tomlMultilineState.simps(2))
  next
    case close
    have "hd st \<noteq> ?nl" using close(1) 2(7) by (auto simp: quote_state_def numeral_3_eq_3)
    then have "dropWhile (\<lambda>d. d = hd st) (cs @ [?nl]) = dropWhile (\<lambda>d. d = hd st) cs @ [?nl]"
      by (cases "list_all (\<lambda>d. d = hd st) cs") (auto simp: dropWhile_append list_all_iff)
    then show ?thesis using 2(2) close pre by (auto simp: tomlMultilineState.simps(2) quote_state_def)
  next
    case inside
    then show ?thesis using 2(3) 2(7) pre by (auto simp: tomlMultilineState.simps(2))
  next
    case hash
    then show ?thesis by (simp add: tomlMultilineState.simps(2))
  next
    case plain
    then show ?thesis using 2(4) by (simp add: tomlMultilineState.simps(2) quote_state_def)
  next
    case quoted
    show ?thesis
    proof (cases "has_prefix (c # cs) (replicate 3 c)")
      case True
      then have "2 \<le> length cs" by (auto simp: has_prefix_def numeral_3_eq_3 prefix_def)
      then have "drop 2 (cs @ [?nl]) = drop 2 cs @ [?nl]" by simp
      moreover have "has_prefix (c # cs @ [?nl]) (replicate 3 c)"
        using True prefix_prefix [of "replicate 3 c" "c # cs" "[?nl]"] by (simp add: has_prefix_def)
      moreover have "quote_state (replicate 3 c)" using quoted(2) by (auto simp: quote_state_def)
      ultimately show ?thesis using 2(5) quoted True by (auto simp: tomlMultilineState.simps(2))
    next
      case False
      have "?nl \<notin> set (replicate 3 c)" using quoted(2) by auto
      then have "\<not> has_prefix (c # cs @ [?nl]) (replicate 3 c)" using has_prefix_snoc [of ?nl "replicate 3 c" "c # cs"] False by simp
      moreover have "tomlMultilineState (skip_string c (cs @ [?nl])) [] = tomlMultilineState (skip_string c cs) []"
        using skip_string_append [of c cs ?nl] 2(6) quoted False by (auto simp: quote_state_def)
      ultimately show ?thesis using quoted False by (auto simp: tomlMultilineState.simps(2))
    qed
  qed
qed

section \<open>The lines of the stanza\<close>

lemma multi_plain:
  "list_all (\<lambda>c. c \<noteq> CHR ''#'' \<and> c \<noteq> CHR 0x22 \<and> c \<noteq> CHR 0x27) p \<Longrightarrow>
    tomlMultilineState (p @ s) [] = tomlMultilineState s []"
  by (induction p) (simp_all add: tomlMultilineState.simps(2))

lemma skip_lit_body: "lit_body t \<Longrightarrow> skip_string CHR 0x22 (t @ CHR 0x22 # s) = s"
proof (induction t rule: lit_body.induct)
  case (2 c cs)
  then show ?case by (cases "c = CHR 0x5C"; cases cs) auto
qed simp

lemma multi_quoted:
  assumes "s = [] \<or> hd s \<noteq> CHR 0x22"
  shows "tomlMultilineState (json_quote t @ s) [] = tomlMultilineState s []"
proof -
  have "\<not> has_prefix (CHR 0x22 # json_body t @ CHR 0x22 # s) (replicate 3 CHR 0x22)"
  proof (cases "json_body t")
    case Nil
    then show ?thesis using assms by (cases s) (auto simp: has_prefix_def numeral_3_eq_3)
  next
    case (Cons c cs)
    then have "c \<noteq> CHR 0x22" using lit_body_json [of t] by (auto split: if_splits)
    then show ?thesis using Cons by (auto simp: has_prefix_def numeral_3_eq_3)
  qed
  then show ?thesis
    using skip_lit_body [OF lit_body_json [of t], of s] by (simp add: json_quote_body tomlMultilineState.simps(2))
qed

lemma multi_list: "tomlMultilineState (join_with '','' (map json_quote ss) @ CHR '']'' # s) [] = tomlMultilineState (CHR '']'' # s) []"
proof (induction "'',''" "map json_quote ss" arbitrary: ss rule: join_with.induct)
  case (3 x y ys)
  then obtain a b r where ss: "ss = a # b # r" by (auto simp: map_eq_Cons_conv)
  let ?more = "join_with '','' (map json_quote (b # r)) @ CHR '']'' # s"
  have "tomlMultilineState (json_quote a @ '','' @ ?more) [] = tomlMultilineState ?more []"
    using multi_quoted [of "'','' @ ?more" a] multi_plain [of "'',''" ?more] by simp
  moreover have "tomlMultilineState ?more [] = tomlMultilineState (CHR '']'' # s) []"
    using 3(1) [of "b # r"] 3(2) ss by simp
  ultimately show ?case by (simp add: ss)
next
  case (2 x)
  then obtain a where "ss = [a]" by auto
  then show ?case using multi_quoted [of "CHR '']'' # s" a] by simp
qed simp

lemma bare_char_plain:
  "bare_char c \<Longrightarrow> c \<noteq> CHR ''#'' \<and> c \<noteq> CHR 0x22 \<and> c \<noteq> CHR 0x27 \<and> c \<noteq> CHR 0x0A \<and> c \<noteq> CHR ''.'' \<and> c \<noteq> CHR '']'' \<and>
    c \<noteq> CHR 0x09 \<and> c \<noteq> CHR '' '' \<and> c \<noteq> CHR ''['' \<and> \<not> go_space c"
  by (auto simp: bare_char_def is_letter_def is_digit_def char_code_def go_space_def)

lemma multi_key: "s = [] \<or> hd s \<noteq> CHR 0x22 \<Longrightarrow> tomlMultilineState (tomlKey k @ s) [] = tomlMultilineState s []"
  using multi_quoted [of s k] multi_plain [of k s] bare_char_plain by (auto simp: tomlKey_def list_all_iff)

section \<open>The header is read back\<close>

lemma quoted_lit_body: "lit_body t \<Longrightarrow> quoted_part CHR 0x22 (t @ CHR 0x22 # s) = Some (t, s)"
proof (induction t rule: lit_body.induct)
  case (2 c cs)
  then show ?case by (cases "c = CHR 0x5C"; cases cs) auto
qed simp

lemma token_quoted: "utf8_valid k \<Longrightarrow> toml_token (json_quote k @ s) = Inr (k, s)"
  using unquote_json_quote [of k] quoted_lit_body [OF lit_body_json, of k s]
  by (simp add: toml_token_def json_quote_body)

lemma token_bare:
  assumes "k \<noteq> []" "list_all bare_char k" "s \<noteq> []" "hd s \<in> {CHR ''.'', CHR '']''}"
  shows "toml_token (k @ s) = Inr (k, s)"
proof -
  obtain c cs where k: "k = c # cs" using assms(1) by (cases k) auto
  have c: "c \<noteq> CHR 0x22" "c \<noteq> CHR 0x27" using assms(2) k bare_char_plain [of c] by auto
  have "takeWhile (\<lambda>d. d \<notin> set ''.] '' \<and> d \<noteq> CHR 0x09) (k @ s) = k"
  proof -
    have stop: "takeWhile (\<lambda>d. d \<notin> set ''.] '' \<and> d \<noteq> CHR 0x09) s = []" using assms(3,4) by (cases s) auto
    have "\<forall>d \<in> set k. d \<notin> set ''.] '' \<and> d \<noteq> CHR 0x09"
      using assms(2) bare_char_plain by (simp add: list_all_iff)
    then have "takeWhile (\<lambda>d. d \<notin> set ''.] '' \<and> d \<noteq> CHR 0x09) (k @ s) =
        k @ takeWhile (\<lambda>d. d \<notin> set ''.] '' \<and> d \<noteq> CHR 0x09) s"
      by (intro takeWhile_append2) blast
    then show ?thesis unfolding stop by simp
  qed
  moreover have "tomlKey k = k" using assms by (simp add: tomlKey_def)
  ultimately show ?thesis using assms(1,3) k c by (simp add: toml_token_def Let_def)
qed

lemma token_key: "utf8_valid k \<Longrightarrow> s \<noteq> [] \<Longrightarrow> hd s \<in> {CHR ''.'', CHR '']''} \<Longrightarrow> toml_token (tomlKey k @ s) = Inr (k, s)"
  using token_quoted [of k s] token_bare [of k s] unfolding tomlKey_def by presburger

lemma tomlKey_start: "\<exists>c cs. tomlKey k = c # cs \<and> \<not> go_space c \<and> c \<noteq> CHR ''[''"
proof -
  have "\<not> go_space CHR 0x22" by (simp add: go_space_def)
  then show ?thesis
    using bare_char_plain [of "hd k"] by (cases k) (auto simp: tomlKey_def json_quote_body)
qed

lemma no_space: "\<not> go_space CHR '']''" "\<not> go_space CHR ''.''" "\<not> go_space CHR ''[''" "\<not> go_space CHR ''m''"
  by (simp_all add: go_space_def)

lemma trim_closed: "s = [] \<or> \<not> go_space (hd s) \<Longrightarrow> trim_space (s @ '']'') = s @ '']''"
  by (rule trim_space_ends) (cases s; auto simp: no_space)

lemma header_keys:
  assumes "utf8_valid k"
  shows "tomlTableKeys (''[mcp_servers.'' @ tomlKey k @ '']'') = Inr [''mcp_servers'', k]"
proof -
  obtain c cs where key: "tomlKey k = c # cs" "\<not> go_space c" using tomlKey_start by blast
  have bare: "list_all bare_char ''mcp_servers''"
    by (simp add: bare_char_def is_letter_def char_code_def)
  have first: "toml_token (''mcp_servers'' @ ''.'' @ tomlKey k @ '']'') = Inr (''mcp_servers'', ''.'' @ tomlKey k @ '']'')"
    by (rule token_bare) (use bare in auto)
  have second: "toml_token (tomlKey k @ '']'') = Inr (k, '']'')" using token_key [OF assms, of "'']''"] by simp
  have t: "trim_space (''mcp_servers.'' @ tomlKey k @ '']'') = ''mcp_servers.'' @ tomlKey k @ '']''"
    "trim_space (''.'' @ tomlKey k @ '']'') = ''.'' @ tomlKey k @ '']''"
    "trim_space (tomlKey k @ '']'') = tomlKey k @ '']''" "trim_space '']'' = '']''"
    using trim_closed [of "''mcp_servers.'' @ tomlKey k"] trim_closed [of "''.'' @ tomlKey k"] trim_closed [of "tomlKey k"]
      trim_closed [of "[]"] key by (simp_all add: no_space)
  have "toml_keys '']'' [''mcp_servers''] (tomlKey k @ '']'') = Inr [''mcp_servers'', k]"
    using second t(4) by (subst toml_keys.simps) (simp add: has_prefix_def)
  then have "toml_keys '']'' [] (''mcp_servers'' @ ''.'' @ tomlKey k @ '']'') = Inr [''mcp_servers'', k]"
    using first t(2,3) by (subst toml_keys.simps) (simp add: has_prefix_def)
  then show ?thesis using t(1) by (simp add: tomlTableKeys_def has_prefix_def)
qed

section \<open>The pass over a padded file and a stanza\<close>

lemma tomlKey_no_newline: "CHR 0x0A \<notin> set (tomlKey k)"
  using json_quote_no_newline [of k] bare_char_plain by (auto simp: tomlKey_def list_all_iff)

lemma json_strings_no_newline: "CHR 0x0A \<notin> set (json_strings ss)"
proof -
  have "set (join_with sep xs) \<subseteq> set sep \<union> (\<Union>x \<in> set xs. set x)" for sep xs
    by (induction sep xs rule: join_with.induct) auto
  from this [of "'',''" "map json_quote ss"] show ?thesis
    using json_quote_no_newline by (auto simp: json_strings_def)
qed

definition stanza_body :: "string \<Rightarrow> string list \<Rightarrow> string list" where
  "stanza_body b args =
     [''command = '' @ json_quote b, ''args = '' @ json_strings args] @
     (if containsString args ''--safe'' then []
      else [''env = { SL_DBG_INSECURE = '' @ [CHR 0x22, CHR ''1'', CHR 0x22] @ '' }''])"

lemma split_stanza:
  "split_after (mcpTOMLStanza b k args) =
     ((''[mcp_servers.'' @ tomlKey k @ '']'') @ [CHR 0x0A]) # map (\<lambda>l. l @ [CHR 0x0A]) (stanza_body b args) @ [[]]"
proof -
  have n: "CHR 0x0A \<notin> set (''[mcp_servers.'' @ tomlKey k @ '']'')" "CHR 0x0A \<notin> set (''command = '' @ json_quote b)"
    "CHR 0x0A \<notin> set (''args = '' @ json_strings args)"
    "CHR 0x0A \<notin> set (''env = { SL_DBG_INSECURE = '' @ [CHR 0x22, CHR ''1'', CHR 0x22] @ '' }'')"
    using tomlKey_no_newline json_quote_no_newline json_strings_no_newline by simp_all
  have "mcpTOMLStanza b k args = (''[mcp_servers.'' @ tomlKey k @ '']'') @ CHR 0x0A # (''command = '' @ json_quote b) @
      CHR 0x0A # (''args = '' @ json_strings args) @ CHR 0x0A #
      (if containsString args ''--safe'' then []
       else (''env = { SL_DBG_INSECURE = '' @ [CHR 0x22, CHR ''1'', CHR 0x22] @ '' }'') @ [CHR 0x0A])"
    by (simp add: mcpTOMLStanza_def)
  then show ?thesis
    using split_after_line [OF n(4), of "[]"]
    by (simp only: split_after_line [OF n(1)] split_after_line [OF n(2)] split_after_line [OF n(3)])
      (simp add: stanza_body_def)
qed

lemma no_header: "\<not> go_space c \<Longrightarrow> c \<noteq> CHR ''['' \<Longrightarrow> \<not> has_prefix (trim_space (c # cs)) ''[''"
proof -
  assume c: "\<not> go_space c" "c \<noteq> CHR ''[''"
  have "trim_space (c # cs) = trim_right_f go_space (c # cs)" using c by (simp add: trim_space_def trim_left_f_def)
  moreover have "trim_right_f go_space (c # cs) = CHR ''['' # t \<Longrightarrow> False" for t
    using hd_trim_right_f [of go_space "c # cs"] c by simp
  ultimately show ?thesis by (auto simp: has_prefix_def prefix_def)
qed

lemma step_body:
  assumes "st_multi st = []" "st_skip st" "length (st_table st) = 2" "\<not> go_space c" "c \<noteq> CHR ''[''"
    "tomlMultilineState (c # cs) [] = []"
  shows "strip_step k st (c # cs) = Inr st"
proof -
  have "\<not> inline_entry k (st_table st) t" for t
    using assms(3) by (auto simp: inline_entry_def split: option.split sum.split list.split)
  then show ?thesis using assms no_header [of c cs] by (simp add: strip_step_def strip_head_def Let_def)
qed

lemma body_multi:
  "tomlMultilineState ((''command = '' @ json_quote b) @ [CHR 0x0A]) [] = []"
  "tomlMultilineState ((''args = '' @ json_strings args) @ [CHR 0x0A]) [] = []"
  "tomlMultilineState ((''env = { SL_DBG_INSECURE = '' @ [CHR 0x22, CHR ''1'', CHR 0x22] @ '' }'') @ [CHR 0x0A]) [] = []"
proof -
  show "tomlMultilineState ((''command = '' @ json_quote b) @ [CHR 0x0A]) [] = []"
    using multi_plain [of "''command = ''" "json_quote b @ [CHR 0x0A]"] multi_quoted [of "[CHR 0x0A]" b] multi_empty by simp
  show "tomlMultilineState ((''args = '' @ json_strings args) @ [CHR 0x0A]) [] = []"
    using multi_plain [of "''args = [''" "join_with '','' (map json_quote args) @ '']'' @ [CHR 0x0A]"]
      multi_list [of args "[CHR 0x0A]"] multi_plain [of "'']''" "[CHR 0x0A]"] multi_empty
    by (simp add: json_strings_def)
qed (simp add: tomlMultilineState.simps(2) has_prefix_def numeral_3_eq_3)

lemma run_body:
  assumes "st_multi st = []" "st_skip st" "length (st_table st) = 2"
  shows "strip_lines k st (map (\<lambda>l. l @ [CHR 0x0A]) (stanza_body b args)) = Inr st"
proof -
  have s: "\<not> go_space CHR ''c''" "\<not> go_space CHR ''a''" "\<not> go_space CHR ''e''" by (simp_all add: go_space_def)
  show ?thesis
    using step_body [OF assms s(1) _ body_multi(1) [of b, simplified]] step_body [OF assms s(2) _ body_multi(2) [of args, simplified]]
      step_body [OF assms s(3) _ body_multi(3) [simplified]]
    by (simp add: stanza_body_def)
qed

lemma header_step:
  assumes "utf8_valid k" "st_multi st = []"
  shows "strip_step k st ((''[mcp_servers.'' @ tomlKey k @ '']'') @ [CHR 0x0A]) =
    Inr (st\<lparr>st_table := [''mcp_servers'', k], st_skip := True, st_found := True\<rparr>)"
proof -
  let ?h = "''[mcp_servers.'' @ tomlKey k @ '']''"
  have t: "trim_space (?h @ [CHR 0x0A]) = ?h"
    using trim_closed [of "''[mcp_servers.'' @ tomlKey k"] by (simp only: trim_space_newline) (simp add: no_space)
  have m: "tomlMultilineState (?h @ [CHR 0x0A]) [] = []"
    using multi_plain [of "''[mcp_servers.''" "tomlKey k @ '']'' @ [CHR 0x0A]"] multi_key [of "'']'' @ [CHR 0x0A]" k]
      multi_plain [of "'']''" "[CHR 0x0A]"] multi_empty by simp
  have "has_prefix ?h ''[''" by (simp add: has_prefix_def)
  with t assms header_keys [OF assms(1)]
  have "strip_head k st (?h @ [CHR 0x0A]) = Inr (st\<lparr>st_table := [''mcp_servers'', k], st_skip := True, st_found := True\<rparr>)"
    by (simp add: strip_head_def server_table_def del: append_assoc)
  then show ?thesis using m assms(2) by (simp add: strip_step_def)
qed

lemma run_stanza:
  assumes "utf8_valid k" "st_multi st = []"
  obtains st' where "strip_lines k st (split_after (mcpTOMLStanza b k args)) = Inr st'" "st_multi st' = []" "st_found st'"
    "st_out st' = st_out st"
proof -
  let ?st = "st\<lparr>st_table := [''mcp_servers'', k], st_skip := True, st_found := True\<rparr>"
  have "strip_lines k ?st (map (\<lambda>l. l @ [CHR 0x0A]) (stanza_body b args) @ [[]]) = Inr ?st"
    using run_body [of ?st k b args] assms(2) by (simp add: strip_lines_append strip_step_blank)
  then have "strip_lines k st (split_after (mcpTOMLStanza b k args)) = Inr ?st"
    unfolding split_stanza using header_step [OF assms] by simp
  then show ?thesis using that [of ?st] assms(2) by simp
qed

lemma multi_quote_state: "quote_state st \<Longrightarrow> quote_state (tomlMultilineState l st)"
proof (induction l st rule: tomlMultilineState.induct)
  case (2 c cs st)
  have triple: "quote_state (replicate 3 c)" if "c = CHR 0x22 \<or> c = CHR 0x27" using that by (auto simp: quote_state_def)
  have empty: "quote_state []" by (simp add: quote_state_def)
  show ?case
  proof (cases "st = []")
    case True
    then show ?thesis using 2(4-6) triple empty by (subst tomlMultilineState.simps(2)) auto
  next
    case False
    then show ?thesis using 2(1-3,7) empty by (subst tomlMultilineState.simps(2)) auto
  qed
qed simp

lemma lines_quote_state: "strip_lines i a ls = Inr a' \<Longrightarrow> quote_state (st_multi a) \<Longrightarrow> quote_state (st_multi a')"
proof (induction ls arbitrary: a)
  case (Cons l ls)
  then obtain a1 where a1: "strip_step i a l = Inr a1" "strip_lines i a1 ls = Inr a'" by (auto split: sum.splits)
  then have "st_multi a1 = tomlMultilineState l (st_multi a)"
    by (auto simp: strip_step_def strip_head_def Let_def split: if_splits sum.splits)
  then show ?case using Cons.IH [OF a1(2)] Cons.prems(2) multi_quote_state by simp
qed simp

lemma step_newline:
  "strip_step i a z = Inr a' \<Longrightarrow> \<not> st_skip a' \<Longrightarrow> quote_state (st_multi a) \<Longrightarrow>
    strip_step i a (z @ [CHR 0x0A]) = Inr (a'\<lparr>st_out := st_out a' @ [CHR 0x0A]\<rparr>)"
  by (auto simp: strip_step_def strip_head_def Let_def trim_space_newline multi_newline split: if_splits sum.splits)

lemma skip_found: "strip_lines i a ls = Inr a' \<Longrightarrow> (st_skip a \<longrightarrow> st_found a) \<Longrightarrow> st_skip a' \<Longrightarrow> st_found a'"
  by (induction ls arbitrary: a) (auto dest: strip_step_found split: sum.splits)

text \<open>The lines of a padded file that does not register the server.\<close>

lemma run_padded:
  assumes "stripMCPTable s k = Inr (s, False)"
  obtains P st where "concat P = pad_toml s" "list_all complete_line P" "strip_lines k strip_start P = Inr st"
    "st_multi st = []" "st_out st = pad_toml s" "\<not> st_found st"
proof -
  obtain bs z where l: "s = concat bs @ z" "list_all complete_line bs" "CHR 0x0A \<notin> set z" "split_after s = bs @ [z]"
    by (rule lines_of)
  obtain a0 a where a: "strip_lines k strip_start bs = Inr a0" "strip_step k a0 z = Inr a" "st_multi a = []" "st_out a = s"
    "\<not> st_found a"
    using assms l(4) by (auto simp: stripMCPTable_def strip_lines_append split: sum.splits if_splits)
  have skip: "\<not> st_skip a"
    using skip_found [of k strip_start "bs @ [z]" a] a by (auto simp: strip_lines_append strip_start_def)
  have blank: "strip_step k a [CHR 0x0A] = Inr (a\<lparr>st_out := s @ [CHR 0x0A]\<rparr>)"
    using strip_step_blank [of a "[CHR 0x0A]" k] trim_space_newline [of "[]"] multi_empty a(3,4) skip by simp
  have nl: "complete_line [CHR 0x0A]" using complete_lineI [of "[]"] by simp
  show ?thesis
  proof (cases "s = []")
    case True
    then show ?thesis by (intro that [of "[]" strip_start]) (simp_all add: pad_toml_def strip_start_def)
  next
    case False
    show ?thesis
    proof (cases "z = []")
      case True
      then have "st_multi a0 = []" "a = a0"
        using a(2,3) strip_step_blank [of a0 "[]" k]
        by (auto simp: strip_step_def strip_head_def Let_def split: if_splits sum.splits)
      moreover have "has_suffix s [CHR 0x0A]"
        using False True l(1,2) by (cases bs rule: rev_cases) (auto simp: complete_line_def has_suffix_def suffix_def)
      ultimately show ?thesis
        using False True a l(1,2) blank nl
        by (intro that [of "bs @ [[CHR 0x0A]]" "a\<lparr>st_out := s @ [CHR 0x0A]\<rparr>"]) (auto simp: pad_toml_def strip_lines_append)
    next
      case ne: False
      let ?a = "a\<lparr>st_out := s @ [CHR 0x0A]\<rparr>"
      have "last s \<noteq> CHR 0x0A" using ne l(1,3) by (metis last_appendR last_in_set)
      then have "\<not> has_suffix s [CHR 0x0A]" by (auto simp: has_suffix_def suffix_def)
      moreover have "strip_step k a0 (z @ [CHR 0x0A]) = Inr ?a"
        using step_newline [OF a(2) skip] lines_quote_state [OF a(1)] a(4) by (simp add: strip_start_def quote_state_def)
      moreover have "strip_step k ?a [CHR 0x0A] = Inr (a\<lparr>st_out := s @ [CHR 0x0A, CHR 0x0A]\<rparr>)"
        using strip_step_blank [of ?a "[CHR 0x0A]" k] trim_space_newline [of "[]"] multi_empty a(3,4) skip by simp
      ultimately show ?thesis
        using False a l nl complete_lineI [OF l(3)]
        by (intro that [of "bs @ [z @ [CHR 0x0A], [CHR 0x0A]]" "a\<lparr>st_out := s @ [CHR 0x0A, CHR 0x0A]\<rparr>"])
          (auto simp: pad_toml_def strip_lines_append)
    qed
  qed
qed



end
