(* ===== verification/Mcp_Install.thy ===== *)
theory Mcp_Install
  imports Config_Write Mcp_Toml Mcp_Safe Json "HOL-Library.List_Lexorder" "HOL-Library.Char_ord"
begin

text \<open>
  Registration with MCP clients (\<open>internal/cli/mcp_install.go\<close>): the agents and their files, the entry
  that is written, reading, merging and writing of JSON and TOML configurations, and the commands
  \<open>mcp install\<close> and \<open>mcp uninstall\<close>. The JSON files are values (\<open>raw\<close>), as the decoder of
  \<open>encoding/json\<close> sees their text; members of a Go map are written sorted by name. Messages on
  standard output are left out.
\<close>

section \<open>The entry\<close>

definition buildMCPInvocationArgs :: "string list \<Rightarrow> bool \<Rightarrow> bool \<Rightarrow> string list" where
  "buildMCPInvocationArgs allowProgram readOnly insecure =
     (if insecure then [''mcp''] @ (if readOnly then [''--read-only''] else [])
      else [''mcp'', ''--safe''] @ (if readOnly then [''--read-only''] else []) @
        concat (map (\<lambda>p. [''--allow-program'', p]) allowProgram))"

text \<open>A Go map as \<open>json.Marshal\<close> writes it, and an object as it is decoded into a map: the last of two wins.\<close>

definition marshal_map :: "(string \<times> json) list \<Rightarrow> json" where
  "marshal_map m = JObj (sort_key fst m)"

definition obj_map :: "(string \<times> json) list \<Rightarrow> (string \<times> json) list" where
  "obj_map kvs = foldl (\<lambda>m (k, v). map_put k v m) [] kvs"

definition mcpJSONEntry :: "string \<Rightarrow> string \<Rightarrow> string list \<Rightarrow> json" where
  "mcpJSONEntry agent binPath mcpArgs =
     marshal_map (
       [(''command'', JStr binPath), (''args'', JArr (map JStr mcpArgs))] @
       (if agent = ''copilot'' then [(''type'', JStr ''local''), (''tools'', JArr [JStr ''*''])]
        else if agent = ''vscode'' then [(''type'', JStr ''stdio'')] else []) @
       (if containsString mcpArgs ''--safe'' then []
        else [(''env'', marshal_map [(''SL_DBG_INSECURE'', JStr ''1'')])]))"

section \<open>Agents\<close>

record agent_target =
  at_name :: string
  at_kind :: string
  at_path :: string
  at_create :: bool

definition serverKey :: "string \<Rightarrow> string" where
  "serverKey name = (if name = ''vscode'' then ''servers'' else ''mcpServers'')"

text \<open>What the machine says: operating system, environment, home, working directory, existing directories.\<close>

record install_host =
  ih_GOOS :: string
  ih_env :: environ
  ih_cwd :: "string option"
  ih_isDir :: "string \<Rightarrow> bool"

definition claudeDesktopConfigPath :: "install_host \<Rightarrow> string \<Rightarrow> string" where
  "claudeDesktopConfigPath h home =
     (if ih_GOOS h = ''darwin'' then path_join home ''Library/Application Support/Claude/claude_desktop_config.json''
      else if ih_GOOS h = ''windows'' then
        (if getenv (ih_env h) ''APPDATA'' \<noteq> [] then path_join (getenv (ih_env h) ''APPDATA'') ''Claude/claude_desktop_config.json''
         else path_join home ''AppData/Roaming/Claude/claude_desktop_config.json'')
      else path_join home ''.config/Claude/claude_desktop_config.json'')"

definition parentDirExists :: "install_host \<Rightarrow> string \<Rightarrow> bool" where
  "parentDirExists h p \<longleftrightarrow> ih_isDir h (dir_of p)"

text \<open>The table of agents, in the order of the sorted names.\<close>

definition all_agents :: "install_host \<Rightarrow> string \<Rightarrow> string \<Rightarrow> (string \<times> agent_target) list" where
  "all_agents h home cwd =
     [(''claude'', \<lparr>at_name = ''claude'', at_kind = ''json'', at_path = claudeDesktopConfigPath h home, at_create = True\<rparr>),
      (''codex'', \<lparr>at_name = ''codex'', at_kind = ''toml'', at_path = path_join home ''.codex/config.toml'', at_create = True\<rparr>),
      (''copilot'', \<lparr>at_name = ''copilot'', at_kind = ''json'', at_path = path_join home ''.copilot/mcp-config.json'', at_create = True\<rparr>),
      (''cursor'', \<lparr>at_name = ''cursor'', at_kind = ''json'', at_path = path_join home ''.cursor/mcp.json'', at_create = True\<rparr>),
      (''vscode'', \<lparr>at_name = ''vscode'', at_kind = ''json'', at_path = path_join cwd ''.vscode/mcp.json'', at_create = True\<rparr>)]"

datatype agents_error = NoHome | NoCwd | NoDetectedAgents | UnknownAgent string

definition resolveAgents :: "install_host \<Rightarrow> string \<Rightarrow> agents_error + agent_target list" where
  "resolveAgents h agent =
     (case user_home_dir (ih_env h) of
        None \<Rightarrow> Inl NoHome
      | Some home \<Rightarrow>
          (case ih_cwd h of
             None \<Rightarrow> Inl NoCwd
           | Some cwd \<Rightarrow>
               if agent = ''all'' then
                 (let detected = filter (\<lambda>t. parentDirExists h (at_path t)) (map snd (all_agents h home cwd)) in
                  if detected = [] then Inl NoDetectedAgents else Inr detected)
               else (case map_of (all_agents h home cwd) agent of
                       None \<Rightarrow> Inl (UnknownAgent agent)
                     | Some t \<Rightarrow> Inr [t])))"

section \<open>JSON configurations\<close>

text \<open>\<open>json.Unmarshal\<close> into a map: \<open>null\<close> leaves it nil.\<close>

definition to_map :: "json \<Rightarrow> string + (string \<times> json) list option" where
  "to_map j =
     (case j of
        JObj kvs \<Rightarrow> Inr (Some (obj_map kvs))
      | JNull \<Rightarrow> Inr None
      | _ \<Rightarrow> Inl ''json: cannot unmarshal into Go value of type map[string]json.RawMessage'')"

definition readMCPJSON :: "raw \<Rightarrow> string \<Rightarrow> string + (string \<times> json) list \<times> (string \<times> json) list option" where
  "readMCPJSON data key =
     (case data of
        RawEmpty \<Rightarrow> Inl ''existing config is not valid JSON: unexpected end of JSON input''
      | RawBad e \<Rightarrow> Inl (''existing config is not valid JSON: '' @ e)
      | RawJson j \<Rightarrow>
          (case to_map j of
             Inl e \<Rightarrow> Inl (''existing config is not valid JSON: '' @ e)
           | Inr None \<Rightarrow> Inl ''existing config must be a JSON object, not null''
           | Inr (Some doc) \<Rightarrow>
               (case map_of doc key of
                  None \<Rightarrow> Inr (doc, None)
                | Some v \<Rightarrow>
                    (case to_map v of
                       Inr (Some servers) \<Rightarrow> Inr (doc, Some servers)
                     | _ \<Rightarrow> Inl (''existing '' @ key @ '' must be a JSON object'')))))"

text \<open>The document \<open>installJSON\<close> writes over \<open>existing\<close>, and the one \<open>uninstallJSON\<close> writes, if any.\<close>

definition json_install :: "agent_target \<Rightarrow> string \<Rightarrow> string list \<Rightarrow> string \<Rightarrow> bool \<Rightarrow> raw option \<Rightarrow> string + json" where
  "json_install t binPath mcpArgs serverID force existing =
     (case (case existing of None \<Rightarrow> Inr ([], None) | Some data \<Rightarrow> readMCPJSON data (serverKey (at_name t))) of
        Inl e \<Rightarrow> Inl e
      | Inr (doc, found) \<Rightarrow>
          let servers = (case found of None \<Rightarrow> [] | Some m \<Rightarrow> m) in
          if map_of servers serverID \<noteq> None \<and> \<not> force then Inl (already_present serverID (at_path t))
          else Inr (marshal_map (map_put (serverKey (at_name t))
                 (marshal_map (map_put serverID (mcpJSONEntry (at_name t) binPath mcpArgs) servers)) doc)))"

definition json_uninstall :: "string \<Rightarrow> string \<Rightarrow> raw \<Rightarrow> string + json option" where
  "json_uninstall key serverID data =
     (case readMCPJSON data key of
        Inl e \<Rightarrow> Inl e
      | Inr (doc, None) \<Rightarrow> Inr None
      | Inr (doc, Some servers) \<Rightarrow>
          if map_of servers serverID = None then Inr None
          else let rest = map_del serverID servers in
            Inr (Some (marshal_map (if rest = [] then map_del key doc else map_put key (marshal_map rest) doc))))"

section \<open>Writing\<close>

text \<open>
  The JSON files and Codex's TOML file of a machine; the files have different names, so the two never
  meet. Reading follows links; a dangling link reads as an absent file.
\<close>

record machine =
  mc_json :: "raw disk"
  mc_toml :: "string disk"

record os_faults =
  of_open :: bool
  of_stamp :: string
  of_json :: "raw faults"
  of_toml :: "string faults"

definition read_config :: "'c disk \<Rightarrow> string \<Rightarrow> 'c option" where
  "read_config d path = (if d_links d path = Some None then None else d_files d (write_target d path))"

type_synonym 'm outcome = "string option \<times> 'm list"

definition write_json :: "os_faults \<Rightarrow> agent_target \<Rightarrow> json \<Rightarrow> bool \<Rightarrow> bool \<Rightarrow> machine \<Rightarrow> machine outcome" where
  "write_json F t out createIfMissing dryRun m =
     (if dryRun then (None, [m])
      else map_prod id (map (\<lambda>d. m\<lparr>mc_json := d\<rparr>))
             (atomicWrite RawEmpty (of_json F) (of_stamp F) (at_path t) (RawJson out) createIfMissing (mc_json m)))"

definition write_toml :: "os_faults \<Rightarrow> agent_target \<Rightarrow> string \<Rightarrow> bool \<Rightarrow> bool \<Rightarrow> machine \<Rightarrow> machine outcome" where
  "write_toml F t out createIfMissing dryRun m =
     (if dryRun then (None, [m])
      else map_prod id (map (\<lambda>d. m\<lparr>mc_toml := d\<rparr>))
             (atomicWrite [] (of_toml F) (of_stamp F) (at_path t) out createIfMissing (mc_toml m)))"

definition installJSON ::
  "os_faults \<Rightarrow> agent_target \<Rightarrow> string \<Rightarrow> string list \<Rightarrow> string \<Rightarrow> bool \<Rightarrow> bool \<Rightarrow> machine \<Rightarrow> machine outcome" where
  "installJSON F t binPath mcpArgs serverID force dryRun m =
     (if of_open F then (Some ''read'', [m])
      else case json_install t binPath mcpArgs serverID force (read_config (mc_json m) (at_path t)) of
             Inl e \<Rightarrow> (Some e, [m])
           | Inr out \<Rightarrow> write_json F t out (at_create t) dryRun m)"

definition installTOML ::
  "os_faults \<Rightarrow> agent_target \<Rightarrow> string \<Rightarrow> string list \<Rightarrow> string \<Rightarrow> bool \<Rightarrow> bool \<Rightarrow> machine \<Rightarrow> machine outcome" where
  "installTOML F t binPath mcpArgs serverID force dryRun m =
     (if of_open F then (Some ''read'', [m])
      else let existing = (case read_config (mc_toml m) (at_path t) of None \<Rightarrow> [] | Some s \<Rightarrow> s) in
           case toml_install (at_path t) binPath mcpArgs serverID force existing of
             Inl e \<Rightarrow> (Some e, [m])
           | Inr out \<Rightarrow> write_toml F t out (at_create t) dryRun m)"

definition uninstallJSON :: "os_faults \<Rightarrow> agent_target \<Rightarrow> string \<Rightarrow> bool \<Rightarrow> machine \<Rightarrow> machine outcome" where
  "uninstallJSON F t serverID dryRun m =
     (if of_open F then (Some ''read'', [m])
      else case read_config (mc_json m) (at_path t) of
             None \<Rightarrow> (None, [m])
           | Some data \<Rightarrow>
               (case json_uninstall (serverKey (at_name t)) serverID data of
                  Inl e \<Rightarrow> (Some e, [m])
                | Inr None \<Rightarrow> (None, [m])
                | Inr (Some out) \<Rightarrow> write_json F t out False dryRun m))"

definition uninstallTOML :: "os_faults \<Rightarrow> agent_target \<Rightarrow> string \<Rightarrow> bool \<Rightarrow> machine \<Rightarrow> machine outcome" where
  "uninstallTOML F t serverID dryRun m =
     (if of_open F then (Some ''read'', [m])
      else case read_config (mc_toml m) (at_path t) of
             None \<Rightarrow> (None, [m])
           | Some data \<Rightarrow>
               (case toml_uninstall serverID data of
                  Inl e \<Rightarrow> (Some e, [m])
                | Inr None \<Rightarrow> (None, [m])
                | Inr (Some out) \<Rightarrow> write_toml F t out False dryRun m))"

definition unsupported_kind :: "string \<Rightarrow> string" where
  "unsupported_kind k = ''unsupported config kind '' @ quote k"

definition installToAgent ::
  "os_faults \<Rightarrow> agent_target \<Rightarrow> string \<Rightarrow> string list \<Rightarrow> string \<Rightarrow> bool \<Rightarrow> bool \<Rightarrow> machine \<Rightarrow> machine outcome" where
  "installToAgent F t binPath mcpArgs serverID force dryRun m =
     (if at_kind t = ''json'' then installJSON F t binPath mcpArgs serverID force dryRun m
      else if at_kind t = ''toml'' then installTOML F t binPath mcpArgs serverID force dryRun m
      else (Some (unsupported_kind (at_kind t)), [m]))"

definition uninstallFromAgent :: "os_faults \<Rightarrow> agent_target \<Rightarrow> string \<Rightarrow> bool \<Rightarrow> machine \<Rightarrow> machine outcome" where
  "uninstallFromAgent F t serverID dryRun m =
     (if at_kind t = ''json'' then uninstallJSON F t serverID dryRun m
      else if at_kind t = ''toml'' then uninstallTOML F t serverID dryRun m
      else (Some (unsupported_kind (at_kind t)), [m]))"

section \<open>Commands\<close>

text \<open>
  The loop over the targets: a failure is noted and the next agent is served. The states of the
  machine after each call, and the failures, each with its agent.
\<close>

fun for_agents ::
  "(agent_target \<Rightarrow> machine \<Rightarrow> machine outcome) \<Rightarrow> agent_target list \<Rightarrow> machine \<Rightarrow> (string \<times> string) list \<times> machine list" where
  "for_agents op [] m = ([], [m])"
| "for_agents op (t # ts) m =
     (let (e, ms) = op t m; (fails, rest) = for_agents op ts (last ms) in
      ((case e of None \<Rightarrow> fails | Some msg \<Rightarrow> (at_name t, msg) # fails), ms @ rest))"

datatype install_error = AgentRequired | Agents agents_error | Failed "(string \<times> string) list"

record install_flags =
  if_print :: bool
  if_force :: bool
  if_dryRun :: bool
  if_serverID :: string
  if_allowProgram :: "string list"
  if_readOnly :: bool
  if_insecure :: bool

definition bin_path :: "string option \<Rightarrow> (string \<Rightarrow> string option) \<Rightarrow> string" where
  "bin_path exe evalSymlinks =
     (case exe of None \<Rightarrow> ''sl-dbg''
      | Some p \<Rightarrow> if p = [] then ''sl-dbg'' else case evalSymlinks p of Some r \<Rightarrow> r | None \<Rightarrow> p)"

definition newMCPInstallCmd ::
  "install_host \<Rightarrow> (string \<Rightarrow> os_faults) \<Rightarrow> string option \<Rightarrow> (string \<Rightarrow> string option) \<Rightarrow> install_flags \<Rightarrow> string option \<Rightarrow>
    machine \<Rightarrow> install_error option \<times> machine list" where
  "newMCPInstallCmd h F exe evalSymlinks f arg m =
     (let mcpArgs = buildMCPInvocationArgs (if_allowProgram f) (if_readOnly f) (if_insecure f) in
      if if_print f then (None, [m])
      else case arg of
        None \<Rightarrow> (Some AgentRequired, [m])
      | Some a \<Rightarrow>
          (case resolveAgents h (to_lower a) of
             Inl e \<Rightarrow> (Some (Agents e), [m])
           | Inr targets \<Rightarrow>
               (let (fails, ms) = for_agents (\<lambda>t. installToAgent (F (at_name t)) t (bin_path exe evalSymlinks) mcpArgs
                      (if_serverID f) (if_force f) (if_dryRun f)) targets m
                in (if fails = [] then None else Some (Failed fails), ms))))"

definition newMCPUninstallCmd ::
  "install_host \<Rightarrow> (string \<Rightarrow> os_faults) \<Rightarrow> bool \<Rightarrow> string \<Rightarrow> string option \<Rightarrow> machine \<Rightarrow> install_error option \<times> machine list" where
  "newMCPUninstallCmd h F dryRun serverID arg m =
     (case arg of
        None \<Rightarrow> (Some AgentRequired, [m])
      | Some a \<Rightarrow>
          (case resolveAgents h (to_lower a) of
             Inl e \<Rightarrow> (if e = NoDetectedAgents then None else Some (Agents e), [m])
           | Inr targets \<Rightarrow>
               (let (fails, ms) = for_agents (\<lambda>t. uninstallFromAgent (F (at_name t)) t serverID dryRun) targets m
                in (if fails = [] then None else Some (Failed fails), ms))))"

text \<open>\<open>printMCPSnippets\<close>: what a user is told to paste, for each label.\<close>

definition printMCPSnippets :: "string \<Rightarrow> string \<Rightarrow> string list \<Rightarrow> (string \<times> json) list \<times> string" where
  "printMCPSnippets binPath serverID mcpArgs =
     (map (\<lambda>(name, label). (label,
          marshal_map [(serverKey name, marshal_map [(serverID, mcpJSONEntry name binPath mcpArgs)])]))
        [(''claude'', ''Claude Desktop / Cursor (JSON)''), (''vscode'', ''VS Code workspace (.vscode/mcp.json)''),
         (''copilot'', ''Copilot CLI (~/.copilot/mcp-config.json)'')],
      mcpTOMLStanza binPath serverID mcpArgs)"

end
