(* ===== verification/Install_Props.thy ===== *)
theory Install_Props
  imports Mcp_Install
begin

text \<open>
  Properties of the registration with MCP clients: the JSON configuration behaves as a map from server
  names to entries, the registered command starts in the mode that was asked for, and no run of the
  commands touches a file that is not a configuration it is to write.
\<close>

section \<open>Maps and objects\<close>

lemma map_of_mset_eq:
  assumes "distinct (map fst xs)" "mset xs = mset ys"
  shows "map_of xs = map_of ys"
proof -
  have "distinct (map fst ys)" using assms by (metis mset_eq_imp_distinct_iff mset_map)
  moreover have "set xs = set ys" using assms(2) by (rule mset_eq_setD)
  ultimately show ?thesis using assms(1) by (simp add: map_of_inject_set)
qed

lemma map_of_sorted: "distinct (map fst m) \<Longrightarrow> map_of (sort_key fst m) = map_of m"
  by (metis map_of_mset_eq mset_sort)

lemma distinct_sorted: "distinct (map fst m) \<Longrightarrow> distinct (map fst (sort_key fst m))"
  by (metis mset_eq_imp_distinct_iff mset_map mset_sort)

lemma distinct_obj_map: "distinct (map fst (obj_map kvs))"
proof -
  have "distinct (map fst m) \<Longrightarrow> distinct (map fst (foldl (\<lambda>m (k, v). map_put k v m) m kvs))" for m
    by (induction kvs arbitrary: m) auto
  then show ?thesis by (simp add: obj_map_def)
qed

lemma obj_map_id:
  assumes "distinct (map fst kvs)"
  shows "obj_map kvs = kvs"
proof -
  have "distinct (map fst (m @ kvs)) \<Longrightarrow> foldl (\<lambda>m (k, v). map_put k v m) m kvs = m @ kvs" for m
  proof (induction kvs arbitrary: m)
    case (Cons kv kvs)
    obtain k v where kv: "kv = (k, v)" by (cases kv)
    with Cons.prems have "k \<notin> fst ` set m" by auto
    then have "map_put k v m = m @ [kv]" by (simp add: map_put_def kv)
    then show ?case using Cons.IH [of "m @ [kv]"] Cons.prems by (simp add: kv)
  qed simp
  from this [of "[]"] show ?thesis using assms by (simp add: obj_map_def)
qed

lemma to_map_marshal: "distinct (map fst m) \<Longrightarrow> to_map (marshal_map m) = Inr (Some (sort_key fst m))"
  by (simp add: to_map_def marshal_map_def obj_map_id distinct_sorted)

section \<open>A configuration is a map\<close>

text \<open>What a file says: its servers, and its other members.\<close>

definition servers_in :: "string \<Rightarrow> raw option \<Rightarrow> string \<Rightarrow> json option" where
  "servers_in key data =
     (case data of None \<Rightarrow> Map.empty
      | Some r \<Rightarrow> (case readMCPJSON r key of Inr (_, Some m) \<Rightarrow> map_of m | _ \<Rightarrow> Map.empty))"

definition others_in :: "string \<Rightarrow> raw option \<Rightarrow> string \<Rightarrow> json option" where
  "others_in key data =
     (case data of None \<Rightarrow> Map.empty
      | Some r \<Rightarrow> (case readMCPJSON r key of Inr (doc, _) \<Rightarrow> (map_of doc)(key := None) | _ \<Rightarrow> Map.empty))"

lemma read_distinct:
  "readMCPJSON r key = Inr (doc, s) \<Longrightarrow> distinct (map fst doc) \<and> (case s of None \<Rightarrow> map_of doc key = None | Some m \<Rightarrow> distinct (map fst m))"
  by (auto simp: readMCPJSON_def to_map_def distinct_obj_map split: raw.splits json.splits option.splits sum.splits)

lemma read_with_servers:
  assumes "distinct (map fst doc)" "distinct (map fst m)"
  shows "readMCPJSON (RawJson (marshal_map (map_put key (marshal_map m) doc))) key =
    Inr (sort_key fst (map_put key (marshal_map m) doc), Some (sort_key fst m))"
  using assms by (simp add: readMCPJSON_def to_map_marshal map_of_sorted)

lemma read_without_servers:
  assumes "distinct (map fst doc)"
  shows "readMCPJSON (RawJson (marshal_map (map_del key doc))) key = Inr (sort_key fst (map_del key doc), None)"
  using assms by (simp add: readMCPJSON_def to_map_marshal map_of_sorted)

lemma views_with_servers:
  assumes "distinct (map fst doc)" "distinct (map fst m)"
  shows "servers_in key (Some (RawJson (marshal_map (map_put key (marshal_map m) doc)))) = map_of m"
    "others_in key (Some (RawJson (marshal_map (map_put key (marshal_map m) doc)))) = (map_of doc)(key := None)"
  using assms by (simp_all add: servers_in_def others_in_def read_with_servers map_of_sorted)

lemma views_without_servers:
  assumes "distinct (map fst doc)"
  shows "servers_in key (Some (RawJson (marshal_map (map_del key doc)))) = Map.empty"
    "others_in key (Some (RawJson (marshal_map (map_del key doc)))) = (map_of doc)(key := None)"
  using assms by (simp_all add: servers_in_def others_in_def read_without_servers map_of_sorted)

lemma json_install_views:
  assumes "json_install t bin args sid force existing = Inr out" "key = serverKey (at_name t)"
  shows "servers_in key (Some (RawJson out)) = (servers_in key existing)(sid \<mapsto> mcpJSONEntry (at_name t) bin args)"
    "others_in key (Some (RawJson out)) = others_in key existing"
proof -
  obtain doc found where r: "(case existing of None \<Rightarrow> Inr ([], None) | Some data \<Rightarrow> readMCPJSON data key) = Inr (doc, found)"
    using assms by (auto simp: json_install_def split: sum.splits)
  let ?m = "case found of None \<Rightarrow> [] | Some m \<Rightarrow> m"
  have out: "out = marshal_map (map_put key (marshal_map (map_put sid (mcpJSONEntry (at_name t) bin args) ?m)) doc)"
    using assms r by (auto simp: json_install_def Let_def split: if_splits)
  have d: "distinct (map fst doc)" "distinct (map fst ?m)"
    using r by (cases existing; auto dest: read_distinct split: option.splits)+
  have v: "servers_in key existing = map_of ?m" "others_in key existing = (map_of doc)(key := None)"
    using r by (auto simp: servers_in_def others_in_def split: option.splits)
  show "servers_in key (Some (RawJson out)) = (servers_in key existing)(sid \<mapsto> mcpJSONEntry (at_name t) bin args)"
    "others_in key (Some (RawJson out)) = others_in key existing"
    unfolding out v using d by (simp_all add: views_with_servers)
qed

lemma json_uninstall_views:
  assumes "json_uninstall key sid data = Inr r"
  shows "case r of
      None \<Rightarrow> servers_in key (Some data) sid = None
    | Some out \<Rightarrow> servers_in key (Some data) sid \<noteq> None \<and>
        servers_in key (Some (RawJson out)) = (servers_in key (Some data))(sid := None) \<and>
        others_in key (Some (RawJson out)) = others_in key (Some data)"
proof -
  obtain doc found where read: "readMCPJSON data key = Inr (doc, found)"
    using assms by (auto simp: json_uninstall_def split: sum.splits)
  note d = read_distinct [OF read]
  show ?thesis
  proof (cases found)
    case None
    then show ?thesis using assms read by (simp add: json_uninstall_def servers_in_def)
  next
    case (Some m)
    have v: "servers_in key (Some data) = map_of m" "others_in key (Some data) = (map_of doc)(key := None)"
      using read Some by (simp_all add: servers_in_def others_in_def)
    have dm: "distinct (map fst doc)" "distinct (map fst (map_del sid m))" using d Some by simp_all
    have "map_del sid m = [] \<Longrightarrow> (map_of m)(sid := None) = Map.empty" by (metis map_of.simps(1) map_of_del)
    then show ?thesis
      using assms read Some views_with_servers [OF dm] views_without_servers [OF dm(1)]
      by (auto simp: json_uninstall_def Let_def v split: if_splits)
  qed
qed

text \<open>
  C38. The JSON configuration of an agent refines a map from server names to entries: an installation
  sets the entry of its server and leaves every other server and every other member as they were,
  and an uninstallation removes that entry again and nothing else.
\<close>

theorem json_registration_refines:
  assumes "json_install t bin args sid force existing = Inr out" "key = serverKey (at_name t)"
  shows "servers_in key (Some (RawJson out)) = (servers_in key existing)(sid \<mapsto> mcpJSONEntry (at_name t) bin args) \<and>
    others_in key (Some (RawJson out)) = others_in key existing \<and>
    (\<exists>undone. json_uninstall key sid (RawJson out) = Inr (Some undone) \<and>
       servers_in key (Some (RawJson undone)) = (servers_in key existing)(sid := None) \<and>
       others_in key (Some (RawJson undone)) = others_in key existing)"
proof -
  note v = json_install_views [OF assms]
  have "servers_in key (Some (RawJson out)) sid \<noteq> None" using v(1) by simp
  then obtain doc m where "readMCPJSON (RawJson out) key = Inr (doc, Some m)" "map_of m sid \<noteq> None"
    by (auto simp: servers_in_def split: sum.splits option.splits)
  then obtain undone where b: "json_uninstall key sid (RawJson out) = Inr (Some undone)"
    by (auto simp: json_uninstall_def Let_def)
  show ?thesis using json_uninstall_views [OF b] b v by simp
qed

definition demo_config :: json where
  "demo_config = JObj [(''theme'', JStr ''dark''), (''mcpServers'', JObj [(''other'', JObj [])])]"

definition demo_agent :: agent_target where
  "demo_agent = \<lparr>at_name = ''cursor'', at_kind = ''json'', at_path = ''/h/.cursor/mcp.json'', at_create = True\<rparr>"

theorem json_registration_refines_witness:
  "\<exists>out. json_install demo_agent ''sl-dbg'' [''mcp'', ''--safe''] ''sl-dbg'' False (Some (RawJson demo_config)) = Inr out \<and>
     servers_in ''mcpServers'' (Some (RawJson out)) ''other'' = Some (JObj []) \<and>
     others_in ''mcpServers'' (Some (RawJson out)) ''theme'' = Some (JStr ''dark'')"
proof -
  have r: "readMCPJSON (RawJson demo_config) ''mcpServers'' =
      Inr ([(''theme'', JStr ''dark''), (''mcpServers'', JObj [(''other'', JObj [])])], Some [(''other'', JObj [])])"
    by (simp add: readMCPJSON_def demo_config_def to_map_def obj_map_def map_put_def)
  have key: "''mcpServers'' = serverKey (at_name demo_agent)" by (simp add: serverKey_def demo_agent_def)
  obtain out where o: "json_install demo_agent ''sl-dbg'' [''mcp'', ''--safe''] ''sl-dbg'' False (Some (RawJson demo_config)) = Inr out"
    using r by (simp add: json_install_def serverKey_def demo_agent_def Let_def)
  show ?thesis using json_registration_refines [OF o key] o r by (simp add: servers_in_def others_in_def)
qed

section \<open>The registered command\<close>

text \<open>
  An agent starts what was asked for: without \<open>--insecure\<close> the registered command line has
  \<open>--safe\<close>, the entry sets no variable, and the server runs in safe mode whatever the environment;
  with it the entry sets \<open>SL_DBG_INSECURE\<close>, and a server started with that variable does not.
\<close>

theorem registered_mode:
  assumes "args = buildMCPInvocationArgs progs readOnly insecure" "sf_Safe f \<longleftrightarrow> containsString args ''--safe''"
  shows "containsString args ''--safe'' = (\<not> insecure) \<and>
    (case mcpJSONEntry agent bin args of
       JObj kvs \<Rightarrow> map_of kvs ''env'' = (if insecure then Some (JObj [(''SL_DBG_INSECURE'', JStr ''1'')]) else None)
     | _ \<Rightarrow> False) \<and>
    safe_mode f (if insecure then setenv ''SL_DBG_INSECURE'' ''1'' env else env) = (\<not> insecure)"
proof -
  have safe: "containsString args ''--safe'' = (\<not> insecure)"
    using assms(1) by (simp add: buildMCPInvocationArgs_def containsString_def)
  have "getenv (setenv ''SL_DBG_INSECURE'' ''1'' env) ''SL_DBG_INSECURE'' = ''1''"
    by (simp add: setenv_def getenv_def)
  moreover have "to_lower (trim_space ''1'') \<in> set [''1'', ''true'', ''yes'', ''on'']" by code_simp
  ultimately have "insecure_env (setenv ''SL_DBG_INSECURE'' ''1'' env)" unfolding insecure_env_def by (simp only:)
  then have mode: "safe_mode f (if insecure then setenv ''SL_DBG_INSECURE'' ''1'' env else env) = (\<not> insecure)"
    using assms(2) safe by (simp add: safe_mode_def)
  let ?m = "[(''command'', JStr bin), (''args'', JArr (map JStr args))] @
       (if agent = ''copilot'' then [(''type'', JStr ''local''), (''tools'', JArr [JStr ''*''])]
        else if agent = ''vscode'' then [(''type'', JStr ''stdio'')] else []) @
       (if containsString args ''--safe'' then [] else [(''env'', marshal_map [(''SL_DBG_INSECURE'', JStr ''1'')])])"
  have "distinct (map fst ?m)" by simp
  then have "map_of (sort_key fst ?m) ''env'' = map_of ?m ''env''" by (simp only: map_of_sorted)
  also have "\<dots> = (if insecure then Some (JObj [(''SL_DBG_INSECURE'', JStr ''1'')]) else None)"
    using safe by (simp add: marshal_map_def)
  finally have env: "map_of (sort_key fst ?m) ''env'' = \<dots>" .
  have "mcpJSONEntry agent bin args = JObj (sort_key fst ?m)" unfolding mcpJSONEntry_def by (rule marshal_map_def)
  then show ?thesis using safe mode env by (simp only: json.case)
qed

theorem registered_mode_witness:
  "safe_mode \<lparr>sf_Safe = True, sf_AllowProgram = [], sf_AllowSourceRoot = [], sf_MaxSessions = 0, sf_AuditLog = [], sf_AllowEval = False\<rparr>
     [(''SL_DBG_INSECURE'', ''1'')]"
  using registered_mode [of "[''mcp'', ''--safe'']" "[]" False False
      "\<lparr>sf_Safe = True, sf_AllowProgram = [], sf_AllowSourceRoot = [], sf_MaxSessions = 0, sf_AuditLog = [], sf_AllowEval = False\<rparr>"
      _ _ "[(''SL_DBG_INSECURE'', ''1'')]"]
  by (simp add: buildMCPInvocationArgs_def containsString_def)

section \<open>What a command touches\<close>

text \<open>The files that are no configuration of one of the agents keep their content, in every state of a run.\<close>

definition protected :: "('t \<Rightarrow> string) \<Rightarrow> 't list \<Rightarrow> 'c disk \<Rightarrow> string \<Rightarrow> bool" where
  "protected path ts d f \<longleftrightarrow> d_files d f \<noteq> None \<and> list_all (\<lambda>t. f \<noteq> write_target d (path t)) ts"

definition spares :: "('t \<Rightarrow> string) \<Rightarrow> 't list \<Rightarrow> 'c disk \<Rightarrow> 'c disk \<Rightarrow> bool" where
  "spares path ts d s \<longleftrightarrow> d_links s = d_links d \<and> (\<forall>f. protected path ts d f \<longrightarrow> d_files s f = d_files d f)"

lemma spares_refl: "spares path ts d d"
  by (simp add: spares_def)

lemma and_run_all:
  assumes "and_run r k = (e, ds)" "list_all P (snd r)" "snd r \<noteq> []"
    "\<And>d. P d \<Longrightarrow> list_all P (snd (k d)) \<and> snd (k d) \<noteq> []"
  shows "list_all P ds \<and> ds \<noteq> []"
proof -
  have "P (last (snd r))" using assms(2,3) by (simp add: list_all_iff)
  then show ?thesis
    using assms by (cases r; cases "k (last (snd r))") (force simp: and_run_def split: option.splits)
qed

lemma fresh_unprotected: "spares path ts d s \<Longrightarrow> d_files s b = None \<Longrightarrow> \<not> protected path ts d b"
  by (auto simp: spares_def protected_def)

lemma spares_put: "spares path ts d s \<Longrightarrow> \<not> protected path ts d b \<Longrightarrow> spares path ts d (put_file b c s)"
  by (auto simp: spares_def put_file_def)

lemma spares_remove: "spares path ts d s \<Longrightarrow> \<not> protected path ts d b \<Longrightarrow> spares path ts d (remove_file F b s)"
  by (auto simp: spares_def remove_file_def)

lemmas spares_intros = spares_put spares_remove

lemma backup_spares:
  assumes "spares path ts d s"
  shows "list_all (spares path ts d) (snd (write_backup blank F stamp f s)) \<and> snd (write_backup blank F stamp f s) \<noteq> []"
  using assms fresh_unprotected [OF assms]
  by (auto simp: write_backup_def Let_def intro!: spares_intros dest!: createTemp_fresh split: option.splits)

lemma spares_rename:
  "spares path ts d s \<Longrightarrow> \<not> protected path ts d b \<Longrightarrow> \<not> protected path ts d f \<Longrightarrow>
    spares path ts d (s\<lparr>d_files := (d_files s)(f := Some c, b := None)\<rparr>)"
  by (auto simp: spares_def)

lemma replace_spares:
  assumes "spares path ts d s" "\<not> protected path ts d f"
  shows "list_all (spares path ts d) (snd (replace_file blank F f c s)) \<and> snd (replace_file blank F f c s) \<noteq> []"
  using assms fresh_unprotected [OF assms(1)]
  by (auto simp: replace_file_def Let_def intro!: spares_intros spares_rename dest!: createTemp_fresh split: option.splits)

lemma atomic_spares:
  assumes "spares path ts d s" "t \<in> set ts"
  shows "list_all (spares path ts d) (snd (atomicWrite blank F stamp (path t) c create s)) \<and>
    snd (atomicWrite blank F stamp (path t) c create s) \<noteq> []"
proof -
  let ?f = "write_target s (path t)"
  have "?f = write_target d (path t)" using assms(1) by (simp add: write_target_def spares_def)
  then have f: "\<not> protected path ts d ?f" using assms(2) by (auto simp: protected_def list_all_iff)
  let ?run = "and_run (make_parent F create (dir_of ?f) s) (\<lambda>d1.
      and_run (write_backup blank F stamp ?f d1) (\<lambda>d2. replace_file blank F ?f c d2))"
  have "list_all (spares path ts d) (snd ?run) \<and> snd ?run \<noteq> []"
  proof (rule and_run_all [OF surjective_pairing])
    show "list_all (spares path ts d) (snd (make_parent F create (dir_of ?f) s))" "snd (make_parent F create (dir_of ?f) s) \<noteq> []"
      using assms(1) by (auto simp: make_parent_def spares_def)
    fix d1 assume d1: "spares path ts d d1"
    show "list_all (spares path ts d) (snd (and_run (write_backup blank F stamp ?f d1) (\<lambda>d2. replace_file blank F ?f c d2))) \<and>
        snd (and_run (write_backup blank F stamp ?f d1) (\<lambda>d2. replace_file blank F ?f c d2)) \<noteq> []"
      using backup_spares [OF d1] replace_spares [OF _ f] by (intro and_run_all [OF surjective_pairing]) blast+
  qed
  then show ?thesis using assms(1) by (auto simp: atomicWrite_def Let_def split: option.split)
qed

text \<open>The same for a machine and for the loop over the agents.\<close>

definition machine_spares :: "agent_target list \<Rightarrow> machine \<Rightarrow> machine \<Rightarrow> bool" where
  "machine_spares ts m s \<longleftrightarrow> spares at_path ts (mc_json m) (mc_json s) \<and> spares at_path ts (mc_toml m) (mc_toml s)"

definition op_spares :: "agent_target list \<Rightarrow> machine \<Rightarrow> (agent_target \<Rightarrow> machine \<Rightarrow> machine outcome) \<Rightarrow> bool" where
  "op_spares ts m op \<longleftrightarrow>
     (\<forall>t s. t \<in> set ts \<longrightarrow> machine_spares ts m s \<longrightarrow> list_all (machine_spares ts m) (snd (op t s)) \<and> snd (op t s) \<noteq> [])"

lemma write_spares:
  assumes "machine_spares ts m s" "t \<in> set ts"
  shows "list_all (machine_spares ts m) (snd (write_json F t j create dry s)) \<and> snd (write_json F t j create dry s) \<noteq> []"
    "list_all (machine_spares ts m) (snd (write_toml F t x create dry s)) \<and> snd (write_toml F t x create dry s) \<noteq> []"
proof -
  have s: "spares at_path ts (mc_json m) (mc_json s)" "spares at_path ts (mc_toml m) (mc_toml s)"
    using assms(1) by (simp_all add: machine_spares_def)
  show "list_all (machine_spares ts m) (snd (write_json F t j create dry s)) \<and> snd (write_json F t j create dry s) \<noteq> []"
    using atomic_spares [OF s(1) assms(2), of RawEmpty "of_json F" "of_stamp F" "RawJson j" create] s assms(1)
    by (auto simp: write_json_def machine_spares_def list_all_iff)
  show "list_all (machine_spares ts m) (snd (write_toml F t x create dry s)) \<and> snd (write_toml F t x create dry s) \<noteq> []"
    using atomic_spares [OF s(2) assms(2), of "[]" "of_toml F" "of_stamp F" x create] s assms(1)
    by (auto simp: write_toml_def machine_spares_def list_all_iff)
qed

lemma install_spares: "op_spares ts m (\<lambda>t. installToAgent (F t) t bin args sid force dry)"
  using write_spares
  by (auto simp: op_spares_def installToAgent_def installJSON_def installTOML_def Let_def split: sum.split)

lemma uninstall_spares: "op_spares ts m (\<lambda>t. uninstallFromAgent (F t) t sid dry)"
  using write_spares
  by (auto simp: op_spares_def uninstallFromAgent_def uninstallJSON_def uninstallTOML_def split: sum.split option.split)

lemma for_agents_spares:
  assumes "op_spares ts m op" "set us \<subseteq> set ts" "machine_spares ts m s"
  shows "list_all (machine_spares ts m) (snd (for_agents op us s))"
  using assms(2,3)
proof (induction us arbitrary: s)
  case (Cons t us)
  obtain e ms where op: "op t s = (e, ms)" by fastforce
  then have ms: "list_all (machine_spares ts m) ms" "ms \<noteq> []"
    using assms(1) Cons.prems unfolding op_spares_def by force+
  then have "machine_spares ts m (last ms)" by (simp add: list_all_iff)
  then show ?case using Cons.IH [of "last ms"] Cons.prems(1) ms(1) op by (simp add: split_beta)
qed simp

lemma for_agents_still: "(\<And>t. snd (op t m) = [m]) \<Longrightarrow> list_all (\<lambda>s. s = m) (snd (for_agents op us m))"
proof (induction us)
  case (Cons t us)
  have "snd (op t m) = [m]" by (rule Cons.prems)
  then show ?case using Cons by (cases "op t m") (simp add: split_beta)
qed simp

lemma dry_install: "snd (installToAgent F t bin args sid force True m) = [m]"
  by (simp add: installToAgent_def installJSON_def installTOML_def write_json_def write_toml_def Let_def split: sum.split)

lemma dry_uninstall: "snd (uninstallFromAgent F t sid True m) = [m]"
  by (simp add: uninstallFromAgent_def uninstallJSON_def uninstallTOML_def write_json_def write_toml_def
      split: sum.split option.split)

text \<open>
  C40. Whatever agents are named and whatever fails, no state of \<open>mcp install\<close> or \<open>mcp uninstall\<close> changes a
  file that existed and is not the configuration of a named agent; with \<open>--dry-run\<close> nothing changes.
\<close>

theorem commands_touch_configs_only:
  assumes "resolveAgents h (to_lower a) = Inr ts"
  shows "list_all (machine_spares ts m) (snd (newMCPInstallCmd h F exe lnk f (Some a) m)) \<and>
    list_all (machine_spares ts m) (snd (newMCPUninstallCmd h F dry sid (Some a) m)) \<and>
    list_all (\<lambda>s. s = m) (snd (newMCPInstallCmd h F exe lnk (f\<lparr>if_dryRun := True\<rparr>) (Some a) m)) \<and>
    list_all (\<lambda>s. s = m) (snd (newMCPUninstallCmd h F True sid (Some a) m))"
proof -
  have m: "machine_spares ts m m" by (simp add: machine_spares_def spares_refl)
  note loops = for_agents_spares [OF install_spares subset_refl m] for_agents_spares [OF uninstall_spares subset_refl m]
  have still: "list_all (\<lambda>s. s = m) (snd (for_agents (\<lambda>t. installToAgent (F (at_name t)) t bin args sid force True) us m))"
    "list_all (\<lambda>s. s = m) (snd (for_agents (\<lambda>t. uninstallFromAgent (F (at_name t)) t sid True) us m))"
    for bin args force us and sid :: string
    by (rule for_agents_still; simp only: dry_install dry_uninstall)+
  show ?thesis
    using assms loops still m by (simp add: newMCPInstallCmd_def newMCPUninstallCmd_def Let_def split_beta)
qed

definition demo_host :: install_host where
  "demo_host = \<lparr>ih_GOOS = ''linux'', ih_env = [(''HOME'', ''/h'')], ih_cwd = Some ''/w'', ih_isDir = (\<lambda>_. False)\<rparr>"

definition demo_install :: install_flags where
  "demo_install = \<lparr>if_print = False, if_force = False, if_dryRun = False, if_serverID = ''sl-dbg'', if_allowProgram = [],
     if_readOnly = False, if_insecure = False\<rparr>"

definition demo_machine :: machine where
  "demo_machine = \<lparr>mc_json = \<lparr>d_files = (\<lambda>_. None), d_dirs = (\<lambda>_. False), d_links = (\<lambda>_. None)\<rparr>, mc_toml = demo_disk\<rparr>"

definition demo_faults :: os_faults where
  "demo_faults = \<lparr>of_open = False, of_stamp = ''T'', of_json = no_faults, of_toml = no_faults\<rparr>"

theorem commands_touch_configs_only_witness:
  "\<exists>t. resolveAgents demo_host ''codex'' = Inr [t] \<and> at_path t = ''/h/.codex/config.toml'' \<and>
     list_all (machine_spares [t] demo_machine)
       (snd (newMCPInstallCmd demo_host (\<lambda>_. demo_faults) None (\<lambda>_. None) demo_install (Some ''CODEX'') demo_machine))"
proof -
  let ?t = "\<lparr>at_name = ''codex'', at_kind = ''toml'', at_path = ''/h/.codex/config.toml'', at_create = True\<rparr>"
  have p: "path_join ''/h'' ''.codex/config.toml'' = ''/h/.codex/config.toml''" by code_simp
  have r: "resolveAgents demo_host ''codex'' = Inr [?t]"
    by (simp add: resolveAgents_def demo_host_def user_home_dir_def getenv_def all_agents_def p)
  have "to_lower ''CODEX'' = ''codex''" by code_simp
  then have "resolveAgents demo_host (to_lower ''CODEX'') = Inr [?t]" using r by simp
  from commands_touch_configs_only [OF this] r show ?thesis by (intro exI [of _ ?t]) simp
qed

end
