(* ===== verification/Install_Adapter.thy ===== *)
theory Install_Adapter
  imports Config_Write Adapter
begin

text \<open>
  The command \<open>install-adapter\<close> (\<open>internal/cli/install_adapter.go\<close>): the installers of the three adapters,
  the download of the Java adapter over HTTPS and its check against a SHA-256 sum. The disk is the
  state; programs that are run (pip, go, mvn), the network, the hash function and the reading of a jar are
  parameters of \<open>installer\<close>. Texts of wrapped errors are left out.
\<close>

section \<open>Surroundings\<close>

text \<open>The answer to one HTTP request: no connection, a redirect, or a status and a body (none if reading fails).\<close>

datatype reply = NetError | Redirect string | Answer nat "string option"

record installer =
  x_host :: "string disk \<Rightarrow> host"
  x_run :: "string \<Rightarrow> string list \<Rightarrow> string disk \<Rightarrow> bool \<times> string disk"
  x_get :: "string \<Rightarrow> reply"
  x_sha :: "string \<Rightarrow> string"
  x_zip :: "string \<Rightarrow> string + (string \<times> nat) list"
  x_mkdir :: bool
  x_faults :: "string faults"
  x_version :: string

type_synonym step = "string disk \<Rightarrow> string option \<times> string disk"

section \<open>Version and checksum\<close>

definition alnum :: "char \<Rightarrow> bool" where
  "alnum c \<longleftrightarrow> is_letter c \<or> is_digit c"

text \<open>\<open>0|[1-9][0-9]*\<close>, and the whole of \<open>releaseVersionPattern\<close>.\<close>

definition version_number :: "string \<Rightarrow> bool" where
  "version_number s \<longleftrightarrow> s = ''0'' \<or> s \<noteq> [] \<and> list_all is_digit s \<and> hd s \<noteq> CHR ''0''"

definition releaseVersionPattern :: "string \<Rightarrow> bool" where
  "releaseVersionPattern v \<longleftrightarrow>
     (let core = takeWhile (\<lambda>c. c \<noteq> CHR ''-'') v; rest = drop (length core) v; nums = split_on CHR ''.'' core in
      length nums = 3 \<and> list_all version_number nums \<and>
      (rest = [] \<or>
       list_all (\<lambda>p. p \<noteq> [] \<and> list_all alnum p) (concat (map (split_on CHR ''.'') (split_on CHR ''-'' (tl rest))))))"

definition isReleaseVersion :: "string \<Rightarrow> bool" where
  "isReleaseVersion ver \<longleftrightarrow>
     releaseVersionPattern ver \<and> ver \<noteq> ''0.0.0-dev'' \<and> \<not> has_prefix ver ''v'' \<and> \<not> has_suffix ver ''-dev'' \<and>
     \<not> has_suffix ver ''-next'' \<and> \<not> contains ver ''-dirty'' \<and> \<not> contains ver ''+''"

definition hex_char :: "char \<Rightarrow> bool" where
  "hex_char c \<longleftrightarrow> is_digit c \<or> 97 \<le> char_code c \<and> char_code c \<le> 102 \<or> 65 \<le> char_code c \<and> char_code c \<le> 70"

definition validSHA256 :: "string \<Rightarrow> bool" where
  "validSHA256 hex \<longleftrightarrow> length hex = 64 \<and> list_all hex_char hex"

section \<open>Download\<close>

text \<open>The scheme of \<open>url.Parse\<close>: lower case; empty where there is none; none where parsing fails on it.\<close>

fun scheme_loop :: "string \<Rightarrow> string \<Rightarrow> string option" where
  "scheme_loop acc [] = Some []"
| "scheme_loop acc (c # cs) =
     (if is_letter c then scheme_loop (acc @ [c]) cs
      else if is_digit c \<or> c \<in> set ''+-.'' then (if acc = [] then Some [] else scheme_loop (acc @ [c]) cs)
      else if c = CHR '':'' then (if acc = [] then None else Some (to_lower acc))
      else Some [])"

definition url_scheme :: "string \<Rightarrow> string option" where
  "url_scheme u = scheme_loop [] u"

text \<open>
  The client follows redirects to HTTPS only, while fewer than ten requests were made; the requested
  addresses are part of the result.
\<close>

fun http_do :: "(string \<Rightarrow> reply) \<Rightarrow> nat \<Rightarrow> string \<Rightarrow> string list \<times> (nat \<times> string option) option" where
  "http_do get hops url =
     (case get url of
        NetError \<Rightarrow> ([url], None)
      | Answer status body \<Rightarrow> ([url], Some (status, body))
      | Redirect u \<Rightarrow>
          if url_scheme u \<noteq> Some ''https'' then ([url], None)
          else (case hops of
                  0 \<Rightarrow> ([url], None)
                | Suc n \<Rightarrow> (let (urls, r) = http_do get n u in (url # urls, r))))"

declare http_do.simps [simp del]

definition adapterDownload :: "installer \<Rightarrow> string \<Rightarrow> string list \<times> (string + string option)" where
  "adapterDownload x url =
     (case url_scheme url of
        None \<Rightarrow> ([], Inl ''parse url'')
      | Some s \<Rightarrow>
          if s \<noteq> ''https'' then ([], Inl ''adapter downloads require HTTPS'')
          else (case http_do (x_get x) 9 url of
                  (urls, None) \<Rightarrow> (urls, Inl ''get'')
                | (urls, Some (status, body)) \<Rightarrow>
                    (urls, if status = 200 then Inr body
                           else Inl (''download '' @ url @ '': HTTP '' @ itoa (int status)))))"

section \<open>Writing the jar\<close>

definition maxJarSize :: nat where
  "maxJarSize = 256 * 1024 * 1024"

definition jar_temp_name :: "string \<Rightarrow> string \<Rightarrow> string" where
  "jar_temp_name dst r = path_join (dir_of dst) (''.java-adapter-'' @ r)"

text \<open>\<open>ValidateJavaJar\<close> opens the file it is given.\<close>

definition jar_error :: "installer \<Rightarrow> string disk \<Rightarrow> string \<Rightarrow> string option" where
  "jar_error x d path =
     ValidateJavaJar ((x_host x d)\<lparr>h_jar := (\<lambda>p. case d_files d p of None \<Rightarrow> Inl ''no such file'' | Some c \<Rightarrow> x_zip x c)\<rparr>) path"

text \<open>
  The body is copied to a temporary file while it is hashed; a body of more than the limit, a failed
  read or a wrong sum leave the target alone. The run lists the states of the disk.
\<close>

definition writeJavaJar :: "installer \<Rightarrow> string option \<Rightarrow> string \<Rightarrow> string \<Rightarrow> string disk \<Rightarrow> string run" where
  "writeJavaJar x body dst checksum d =
     (let F = x_faults x in
      case createTemp (jar_temp_name dst) (f_tmp_rand F) d of
        None \<Rightarrow> (Some ''create temporary file'', [d])
      | Some t \<Rightarrow>
          let d1 = put_file t [] d; fail = (\<lambda>e s. (Some e, [d1, s, remove_file F t s])) in
          case (f_tmp_write F, body) of
            (Some junk, _) \<Rightarrow> fail ''copy'' (put_file t junk d1)
          | (None, None) \<Rightarrow> fail ''copy'' d1
          | (None, Some c) \<Rightarrow>
              let d2 = put_file t (take (maxJarSize + 1) c) d1 in
              if maxJarSize < length c then fail ''Java adapter exceeds 256 MiB download limit'' d2
              else if checksum \<noteq> [] \<and> \<not> equal_fold (x_sha x c) checksum then fail ''Java adapter SHA-256 mismatch'' d2
              else if f_chmod F then fail ''chmod'' d2
              else if f_tmp_close F then fail ''close'' d2
              else (case jar_error x d2 t of
                      Some e \<Rightarrow> fail e d2
                    | None \<Rightarrow>
                        if f_rename F then fail ''rename'' d2
                        else (None, [d1, d2, d2\<lparr>d_files := (d_files d2)(dst := Some c, t := None)\<rparr>])))"

definition final :: "string run \<Rightarrow> string option \<times> string disk" where
  "final r = (fst r, last (snd r))"

definition downloadFile :: "installer \<Rightarrow> string \<Rightarrow> string \<Rightarrow> string \<Rightarrow> string disk \<Rightarrow> string run" where
  "downloadFile x url dst checksum d =
     (if \<not> validSHA256 checksum then (Some ''a valid SHA-256 checksum is required (set SL_DBG_JAVA_ADAPTER_SHA256 for a custom URL)'', [d])
      else case adapterDownload x url of
             (_, Inl e) \<Rightarrow> (Some e, [d])
           | (_, Inr body) \<Rightarrow> writeJavaJar x body dst checksum d)"

text \<open>\<open>strings.Fields\<close>.\<close>

fun fields_of :: "string \<Rightarrow> string list" where
  "fields_of [] = []"
| "fields_of (c # cs) =
     (if go_space c then fields_of cs
      else if cs = [] \<or> go_space (hd cs) then [c] # fields_of cs
      else (case fields_of cs of [] \<Rightarrow> [[c]] | w # ws \<Rightarrow> (c # w) # ws))"

definition javaAdapterJar :: string where
  "javaAdapterJar = ''sl-dbg-java-adapter.jar''"

text \<open>The sum of a sidecar file: two words, a sum and the name of the jar, perhaps with an asterisk.\<close>

definition sidecar_sum :: "string \<Rightarrow> string option" where
  "sidecar_sum content =
     (case fields_of (take 4097 content) of
        [hex, name] \<Rightarrow>
          if length content \<le> 4096 \<and> validSHA256 hex \<and>
            (if has_prefix name ''*'' then tl name else name) = javaAdapterJar then Some hex else None
      | _ \<Rightarrow> None)"

definition downloadJavaRelease :: "installer \<Rightarrow> string \<Rightarrow> string \<Rightarrow> string disk \<Rightarrow> string run" where
  "downloadJavaRelease x url dst d =
     (case adapterDownload x (url @ ''.sha256'') of
        (_, Inl e) \<Rightarrow> (Some e, [d])
      | (_, Inr None) \<Rightarrow> (Some ''read'', [d])
      | (_, Inr (Some content)) \<Rightarrow>
          (case sidecar_sum content of
             None \<Rightarrow> (Some ''invalid Java adapter SHA-256 sidecar'', [d])
           | Some hex \<Rightarrow> downloadFile x url dst hex d))"

definition copyFile :: "installer \<Rightarrow> string \<Rightarrow> string \<Rightarrow> string disk \<Rightarrow> string run" where
  "copyFile x src dst d =
     (case d_files d src of None \<Rightarrow> (Some ''open'', [d]) | Some c \<Rightarrow> writeJavaJar x (Some c) dst [] d)"

section \<open>Installers\<close>

definition installPython :: "installer \<Rightarrow> bool \<Rightarrow> step" where
  "installPython x force d =
     (let h = x_host x d in
      if \<not> force \<and> (case PythonAdapterPath h of Inr _ \<Rightarrow> True | Inl _ \<Rightarrow> False) then (None, d)
      else case PythonPath h of
        Inl e \<Rightarrow> (Some e, d)
      | Inr py \<Rightarrow>
          (case PythonVenvDir h of
             None \<Rightarrow> (Some ''$HOME is not defined'', d)
           | Some dir \<Rightarrow>
               let venvPython = path_join dir ''bin/python''; (ok1, d1) = x_run x py [''-m'', ''venv'', dir] d in
               if \<not> ok1 then (Some ''create debugpy virtual environment'', d1)
               else let (ok2, d2) = x_run x venvPython [''-m'', ''pip'', ''install'', ''--upgrade'', ''debugpy''] d1 in
               if \<not> ok2 then (Some (''install debugpy in '' @ dir), d2)
               else let (ok3, d3) = x_run x venvPython [''-c'', ''import debugpy''] d2 in
               if \<not> ok3 then (Some ''debugpy installation verification failed'', d3) else (None, d3)))"

definition dlvFound :: "host \<Rightarrow> bool" where
  "dlvFound h \<longleftrightarrow> (case DelvePath h of Inr _ \<Rightarrow> True | Inl _ \<Rightarrow> False)"

definition installGo :: "installer \<Rightarrow> bool \<Rightarrow> step" where
  "installGo x force d =
     (if \<not> force \<and> dlvFound (x_host x d) then (None, d)
      else if h_lookpath (x_host x d) ''go'' = None then (Some ''`go` not found in PATH'', d)
      else let (ok, d1) = x_run x ''go'' [''install'', ''github.com/go-delve/delve/cmd/dlv@latest''] d in
        if \<not> ok then (Some ''go install'', d1)
        else if \<not> dlvFound (x_host x d1) then
          (Some (''go install completed but dlv is unavailable in '' @ GoBinDir (x_host x d1)), d1)
        else (None, d1))"

definition adapterCacheDir :: "installer \<Rightarrow> string disk \<Rightarrow> string option" where
  "adapterCacheDir x d =
     (if x_mkdir x then map_option (\<lambda>home. path_join home ''.cache/sl-dbg/adapters'') (user_home_dir (h_env (x_host x d)))
      else None)"

definition findJavaLauncherSource :: "host \<Rightarrow> string" where
  "findJavaLauncherSource h =
     (let candidates =
        (case h_exe h of None \<Rightarrow> []
         | Some exe \<Rightarrow> [path_join (dir_of exe) ''../adapters/java-launcher'', path_join (dir_of exe) ''adapters/java-launcher'']) @
        (case h_cwd h of None \<Rightarrow> [] | Some wd \<Rightarrow> [path_join wd ''adapters/java-launcher''])
      in case find (\<lambda>c. h_isdir h (path_join c ''pom.xml'') \<noteq> None) candidates of
           None \<Rightarrow> []
         | Some c \<Rightarrow> (case abs_path (h_cwd h) c of None \<Rightarrow> [] | Some a \<Rightarrow> a))"

definition release_url :: "string \<Rightarrow> string" where
  "release_url ver = ''https://github.com/y0geshpatil/sl-dbg/releases/download/v'' @ ver @ ''/sl-dbg-java-adapter.jar''"

definition build_java :: "installer \<Rightarrow> string \<Rightarrow> step" where
  "build_java x destPath d =
     (let src = findJavaLauncherSource (x_host x d) in
      if src = [] then (Some ''no prebuilt jar available and the in-tree Maven project adapters/java-launcher was not found'', d)
      else if h_lookpath (x_host x d) ''mvn'' = None then (Some ''Maven not found in PATH'', d)
      else let (ok, d1) = x_run x (''mvn in '' @ src) [''-q'', ''-DskipTests'', ''package''] d;
               built = path_join src (''target/'' @ javaAdapterJar) in
        if \<not> ok then (Some ''mvn'', d1)
        else if d_files d1 built = None then (Some (''Maven build did not produce '' @ built), d1)
        else final (copyFile x built destPath d1))"

definition installJava :: "installer \<Rightarrow> bool \<Rightarrow> step" where
  "installJava x force d =
     (let env = h_env (x_host x d); url = getenv env ''SL_DBG_JAVA_ADAPTER_URL'' in
      if h_lookpath (x_host x d) ''java'' = None then (Some ''`java` not found in PATH'', d)
      else case adapterCacheDir x d of
        None \<Rightarrow> (Some ''adapter cache directory'', d)
      | Some dest \<Rightarrow>
          let destPath = path_join dest javaAdapterJar in
          if \<not> force \<and> jar_error x d destPath = None then (None, d)
          else if url \<noteq> [] then final (downloadFile x url destPath (getenv env ''SL_DBG_JAVA_ADAPTER_SHA256'') d)
          else if isReleaseVersion (x_version x) then
            final (downloadJavaRelease x (release_url (x_version x)) destPath d)
          else build_java x destPath d)"

text \<open>\<open>installAll\<close> tries every adapter and names those that failed.\<close>

fun install_steps :: "(string \<times> step) list \<Rightarrow> string disk \<Rightarrow> string list \<times> string disk" where
  "install_steps [] d = ([], d)"
| "install_steps ((name, s) # ss) d =
     (let (e, d1) = s d; (failed, d2) = install_steps ss d1 in
      ((case e of None \<Rightarrow> failed | Some _ \<Rightarrow> name # failed), d2))"

definition installAll :: "installer \<Rightarrow> bool \<Rightarrow> step" where
  "installAll x force d =
     (let (failed, d') =
        install_steps [(''python'', installPython x force), (''go'', installGo x force), (''java'', installJava x force)] d
      in (if failed = [] then None
          else Some (''install-adapter all: '' @ itoa (int (length failed)) @ '' failed ('' @ join_with '', '' failed @ '')''), d'))"

definition newInstallAdapterCmdImpl :: "installer \<Rightarrow> bool \<Rightarrow> string \<Rightarrow> step" where
  "newInstallAdapterCmdImpl x force arg d =
     (let l = to_lower arg in
      if l = ''python'' \<or> l = ''py'' then installPython x force d
      else if l = ''go'' \<or> l = ''golang'' then installGo x force d
      else if l = ''java'' then installJava x force d
      else if l = ''all'' then installAll x force d
      else (Some (''unknown adapter '' @ quote l @ '' (want: python|go|java|all)''), d))"


section \<open>What an installation leaves behind\<close>

lemma java_jar_run:
  assumes "writeJavaJar x body dst checksum d = (e, ds)" "dst \<notin> set (map (jar_temp_name dst) (f_tmp_rand (x_faults x)))"
  obtains c where "old_then_new (d_files d dst) c (e = None) (map (\<lambda>s. d_files s dst) ds)" "list_all (undisturbed dst d) ds"
    "e = None \<Longrightarrow> body = Some c \<and> length c \<le> maxJarSize \<and> (checksum \<noteq> [] \<longrightarrow> equal_fold (x_sha x c) checksum)"
proof -
  note found = that
  have stay: thesis if "e \<noteq> None" "list_all (\<lambda>s. undisturbed dst d s \<and> d_files s dst = d_files d dst) ds"
    using that by (intro found [of "[]"]) (auto simp: list_all_iff intro!: old_then_new_old)
  show ?thesis
  proof (cases "createTemp (jar_temp_name dst) (f_tmp_rand (x_faults x)) d")
    case None
    then show ?thesis using assms(1) stay by (auto simp: writeJavaJar_def undisturbed_refl)
  next
    case (Some t)
    then have t: "d_files d t = None" "t \<noteq> dst" using assms(2) createTemp_fresh [OF Some] by metis+
    show ?thesis
    proof (cases "e = None")
      case True
      then obtain c where c: "body = Some c" "f_tmp_write (x_faults x) = None"
        using assms(1) Some by (auto simp: writeJavaJar_def Let_def split: option.splits)
      have "old_then_new (d_files d dst) c True ([d_files d dst, d_files d dst] @ [Some c])"
        unfolding old_then_new_def by (rule exI [of _ 2], rule exI [of _ 1]) (simp add: numeral_2_eq_2)
      then show ?thesis
        using assms(1) Some True c t that [of c]
        by (auto simp: writeJavaJar_def undisturbed_def put_file_def Let_def split: if_splits option.splits)
    next
      case False
      then show ?thesis
        using assms(1) Some t stay
        by (auto simp: writeJavaJar_def undisturbed_def put_file_def remove_file_def Let_def
            split: if_splits option.splits)
    qed
  qed
qed

text \<open>A jar is as good at its final place as it was in the temporary file.\<close>

lemma jar_error_content:
  "jar_error x d p = None \<longleftrightarrow>
     (case d_files d p of
        None \<Rightarrow> False
      | Some c \<Rightarrow> (case x_zip x c of
          Inl _ \<Rightarrow> False
        | Inr es \<Rightarrow> list_ex (\<lambda>(name, size). name = ''META-INF/MANIFEST.MF'' \<and> 0 < size) es))"
  by (simp add: jar_error_def ValidateJavaJar_def split: option.splits sum.splits)

lemma java_jar_valid:
  assumes "writeJavaJar x body dst checksum d = (None, ds)" "dst \<notin> set (map (jar_temp_name dst) (f_tmp_rand (x_faults x)))"
  shows "jar_error x (last ds) dst = None"
proof -
  obtain t where t: "createTemp (jar_temp_name dst) (f_tmp_rand (x_faults x)) d = Some t"
    using assms(1) by (cases "createTemp (jar_temp_name dst) (f_tmp_rand (x_faults x)) d") (auto simp: writeJavaJar_def)
  then have "t \<noteq> dst" using assms(2) createTemp_fresh by metis
  then show ?thesis
    using assms(1) t
    by (auto simp: writeJavaJar_def Let_def jar_error_content put_file_def split: if_splits option.splits sum.splits)
qed

text \<open>A sum the content was checked against, and where it may come from.\<close>

definition verified :: "installer \<Rightarrow> string \<Rightarrow> string \<Rightarrow> bool" where
  "verified x hex c \<longleftrightarrow> validSHA256 hex \<and> equal_fold (x_sha x c) hex \<and> length c \<le> maxJarSize"

definition old_or_verified :: "installer \<Rightarrow> string \<Rightarrow> string \<Rightarrow> string disk \<Rightarrow> string disk \<Rightarrow> bool" where
  "old_or_verified x hex dst d d' \<longleftrightarrow>
     d_files d' dst = d_files d dst \<or> (case d_files d' dst of None \<Rightarrow> False | Some c \<Rightarrow> verified x hex c)"

lemma old_then_new_members:
  "old_then_new old c ok cs \<Longrightarrow> v \<in> set cs \<Longrightarrow> v = old \<or> ok \<and> v = Some c"
  by (auto simp: old_then_new_def split: if_splits)

lemma download_run:
  assumes "downloadFile x url dst hex d = (e, ds)" "dst \<notin> set (map (jar_temp_name dst) (f_tmp_rand (x_faults x)))"
  shows "list_all (\<lambda>s. undisturbed dst d s \<and> old_or_verified x hex dst d s) ds"
    "e = None \<Longrightarrow> jar_error x (last ds) dst = None"
proof -
  consider "ds = [d]" "e \<noteq> None" | body where "validSHA256 hex" "writeJavaJar x body dst hex d = (e, ds)"
    using assms(1) by (auto simp: downloadFile_def split: if_splits prod.splits sum.splits)
  then have "list_all (\<lambda>s. undisturbed dst d s \<and> old_or_verified x hex dst d s) ds \<and>
    (e = None \<longrightarrow> jar_error x (last ds) dst = None)"
  proof cases
    case 1
    then show ?thesis by (auto simp: undisturbed_refl old_or_verified_def)
  next
    case 2
    obtain c where c: "old_then_new (d_files d dst) c (e = None) (map (\<lambda>s. d_files s dst) ds)" "list_all (undisturbed dst d) ds"
      "e = None \<Longrightarrow> body = Some c \<and> length c \<le> maxJarSize \<and> (hex \<noteq> [] \<longrightarrow> equal_fold (x_sha x c) hex)"
      by (rule java_jar_run [OF 2(2) assms(2)]) blast
    have "hex \<noteq> []" using 2(1) by (auto simp: validSHA256_def)
    then have "verified x hex c" if "e = None" using c(3) [OF that] 2(1) by (simp add: verified_def)
    then have "old_or_verified x hex dst d s" if "s \<in> set ds" for s
      using old_then_new_members [OF c(1), of "d_files s dst"] that by (auto simp: old_or_verified_def)
    then show ?thesis using c(2) java_jar_valid [OF _ assms(2)] 2(2) by (auto simp: list_all_iff)
  qed
  then show "list_all (\<lambda>s. undisturbed dst d s \<and> old_or_verified x hex dst d s) ds"
    "e = None \<Longrightarrow> jar_error x (last ds) dst = None" by auto
qed

definition java_jar_place :: "installer \<Rightarrow> string disk \<Rightarrow> string \<Rightarrow> bool" where
  "java_jar_place x d dst \<longleftrightarrow>
     (case adapterCacheDir x d of None \<Rightarrow> False | Some dest \<Rightarrow> dst = path_join dest javaAdapterJar)"

text \<open>The sum an installation is held to: that of the environment, or that of the sidecar file of the release.\<close>

definition java_sum :: "installer \<Rightarrow> string disk \<Rightarrow> string \<Rightarrow> bool" where
  "java_sum x d hex \<longleftrightarrow>
     (if getenv (h_env (x_host x d)) ''SL_DBG_JAVA_ADAPTER_URL'' \<noteq> []
      then hex = getenv (h_env (x_host x d)) ''SL_DBG_JAVA_ADAPTER_SHA256''
      else (case adapterDownload x (release_url (x_version x) @ ''.sha256'') of
              (_, Inr (Some content)) \<Rightarrow> sidecar_sum content = Some hex
            | _ \<Rightarrow> False))"

definition java_downloads :: "installer \<Rightarrow> string disk \<Rightarrow> bool" where
  "java_downloads x d \<longleftrightarrow>
     getenv (h_env (x_host x d)) ''SL_DBG_JAVA_ADAPTER_URL'' \<noteq> [] \<or> isReleaseVersion (x_version x)"

lemma final_run:
  assumes "list_all P ds" "ds \<noteq> []" "final (e, ds) = (e', d')"
  shows "e' = e \<and> P d'"
  using assms by (auto simp: final_def list_all_iff)

lemma write_nonempty: "writeJavaJar x body dst hex d = (e, ds) \<Longrightarrow> ds \<noteq> []"
  by (auto simp: writeJavaJar_def Let_def split: option.splits if_splits)

lemma download_nonempty: "downloadFile x url dst hex d = (e, ds) \<Longrightarrow> ds \<noteq> []"
  by (auto simp: downloadFile_def dest: write_nonempty split: if_splits prod.splits sum.splits)

lemma java_download_final:
  assumes f: "final (downloadFile x url dst hex d) = (e, d')"
    and t: "dst \<notin> set (map (jar_temp_name dst) (f_tmp_rand (x_faults x)))"
  shows "undisturbed dst d d' \<and> old_or_verified x hex dst d d' \<and> (e = None \<longrightarrow> jar_error x d' dst = None)"
proof -
  obtain e0 ds where r: "downloadFile x url dst hex d = (e0, ds)" by (cases "downloadFile x url dst hex d")
  have "e0 = e" "last ds = d'" using f r by (simp_all add: final_def)
  then show ?thesis
    using final_run [OF download_run(1) [OF r t] download_nonempty [OF r]] f download_run(2) [OF r t] by (simp add: r)
qed

lemma java_copy_final:
  assumes "final (copyFile x src dst d) = (None, d')" "dst \<notin> set (map (jar_temp_name dst) (f_tmp_rand (x_faults x)))"
  shows "jar_error x d' dst = None"
proof -
  obtain c where c: "d_files d src = Some c" using assms(1) by (auto simp: copyFile_def final_def split: option.splits)
  then obtain ds where "writeJavaJar x (Some c) dst [] d = (None, ds)" "last ds = d'"
    using assms(1) by (cases "writeJavaJar x (Some c) dst [] d") (auto simp: copyFile_def final_def)
  then show ?thesis using java_jar_valid [OF _ assms(2)] by metis
qed


text \<open>A small world for the examples: an adapter of two bytes, whose sum is all zeros, offered at an address.\<close>

definition demo_sum :: string where
  "demo_sum = replicate 64 (CHR ''0'')"

definition demo_installer :: installer where
  "demo_installer =
     \<lparr>x_host = (\<lambda>d. \<lparr>h_env = [(''HOME'', ''/h''), (''SL_DBG_JAVA_ADAPTER_URL'', ''https://h/a''), (''SL_DBG_JAVA_ADAPTER_SHA256'', demo_sum)],
        h_cwd = None, h_exe = None, h_lookpath = Some, h_isdir = (\<lambda>_. None), h_debugpy = (\<lambda>_. False),
        h_jar = (\<lambda>_. Inl ''''), h_goenv = None\<rparr>),
      x_run = (\<lambda>_ _ d. (False, d)),
      x_get = (\<lambda>u. if u = ''https://h/a'' then Redirect ''https://h/b'' else Answer 200 (Some ''PK'')),
      x_sha = (\<lambda>_. demo_sum), x_zip = (\<lambda>_. Inr [(''META-INF/MANIFEST.MF'', 1)]), x_mkdir = True, x_faults = no_faults,
      x_version = ''1.2.3''\<rparr>"

definition demo_jar :: string where
  "demo_jar = ''/h/.cache/sl-dbg/adapters/sl-dbg-java-adapter.jar''"

lemma small_jar_written:
  assumes "createTemp (jar_temp_name dst) (f_tmp_rand (x_faults x)) d = Some t"
    and "f_tmp_write (x_faults x) = None" "length c \<le> maxJarSize" "equal_fold (x_sha x c) hex"
    and "\<not> f_chmod (x_faults x)" "\<not> f_tmp_close (x_faults x)" "\<not> f_rename (x_faults x)"
    and "jar_error x (put_file t c (put_file t [] d)) t = None"
  shows "fst (writeJavaJar x (Some c) dst hex d) = None"
  using assms by (simp add: writeJavaJar_def Let_def)


section \<open>Requests\<close>

lemma http_do_requests:
  assumes "http_do get hops url = (urls, r)" "url_scheme url = Some ''https''"
  shows "list_all (\<lambda>u. url_scheme u = Some ''https'') urls \<and> urls \<noteq> [] \<and> length urls \<le> Suc hops \<and>
    (case r of None \<Rightarrow> True | Some (status, body) \<Rightarrow> get (last urls) = Answer status body)"
  using assms
proof (induction hops arbitrary: url urls r)
  case 0
  then show ?case by (subst (asm) http_do.simps) (auto split: reply.splits if_splits)
next
  case (Suc n)
  consider "urls = [url]" "r = None" | s b where "get url = Answer s b" "urls = [url]" "r = Some (s, b)"
    | u us where "url_scheme u = Some ''https''" "http_do get n u = (us, r)" "urls = url # us"
    using Suc.prems(1) by (subst (asm) http_do.simps) (auto split: reply.splits if_splits prod.splits)
  then show ?case
  proof cases
    case 3
    then show ?thesis using Suc.IH [OF 3(2,1)] Suc.prems(2) by (auto split: option.splits)
  qed (use Suc.prems(2) in auto)
qed

text \<open>
  Downloads of the adapter use HTTPS only. Whatever the servers answer, every address that is
  requested, those of redirects included, has the scheme \<open>https\<close>; at most ten requests are made; and a
  body is accepted only from an answer of status 200 to the last of them.
\<close>

theorem downloads_only_https:
  "case adapterDownload x url of (urls, r) \<Rightarrow>
     list_all (\<lambda>u. url_scheme u = Some ''https'') urls \<and> length urls \<le> 10 \<and>
     (case r of Inl _ \<Rightarrow> True | Inr body \<Rightarrow> urls \<noteq> [] \<and> x_get x (last urls) = Answer 200 body)"
proof (cases "url_scheme url = Some ''https''")
  case True
  obtain urls r where r: "http_do (x_get x) 9 url = (urls, r)" by (cases "http_do (x_get x) 9 url")
  show ?thesis
    using http_do_requests [OF r True] r True
    by (cases r) (auto simp: adapterDownload_def split: if_splits)
qed (auto simp: adapterDownload_def split: option.splits)

end
