(* ===== verification/Daemon_Run.thy ===== *)
theory Daemon_Run
  imports Daemon_Ctl Demo_World
begin

text \<open>
  The start of the daemon (\<open>Run\<close> of \<open>server.go\<close>) as one function on the disk: directory, log rotation, log, policy, audit
  log, the check of the pid file, the listener, the pid file. What \<open>Daemon_Life\<close> shows of several daemons takes their
  steps one by one; here is what one start leaves behind, refused or not. The lines of the log are left out,
  and so is the pprof listener.
\<close>

text \<open>Errors of the calls that may fail; the processes that live; the own pid.\<close>

record run_world =
  rn_environ :: environ
  rn_user :: "string option"
  rn_cwd :: "string option"
  rn_mkdir :: "string option"
  rn_faults :: "string faults"
  rn_openlog :: "string option"
  rn_audit_fails :: bool
  rn_alive :: "int \<Rightarrow> bool"
  rn_listen :: "string option"
  rn_write_pid :: "string option"
  rn_pid :: int

definition log_limit :: nat where
  "log_limit = 10 * 1024 * 1024"

text \<open>Opening a file for appending makes it if it is not there.\<close>

definition open_append :: "string \<Rightarrow> string disk \<Rightarrow> string disk" where
  "open_append f d = (if d_files d f = None then put_file f [] d else d)"

text \<open>\<open>OpenAudit\<close>: whether there is an audit log, and the disk.\<close>

definition OpenAudit :: "bool \<Rightarrow> policy \<Rightarrow> string disk \<Rightarrow> bool \<times> string disk" where
  "OpenAudit fails p d =
     (if AuditLogPath p = [] \<or> fails then (False, d) else (True, open_append (AuditLogPath p) d))"

text \<open>The steps before the pid file is looked at: the disk, the policy, and whether there is an audit log.\<close>

definition run_prepare :: "run_world \<Rightarrow> string disk \<Rightarrow> (string + policy \<times> bool) \<times> string disk" where
  "run_prepare W d =
     (let log = LogFilePath (rn_environ W) (rn_user W) in
      case rn_mkdir W of
        Some e \<Rightarrow> (Inl e, d)
      | None \<Rightarrow>
          let d1 = rotateIfTooLarge (rn_faults W) log log_limit d in
          case rn_openlog W of
            Some e \<Rightarrow> (Inl e, d1)
          | None \<Rightarrow>
              let d2 = open_append log d1;
                  p = LoadPolicyFromEnv (d_files d2) (rn_cwd W) (rn_environ W);
                  (audit, d3) = OpenAudit (rn_audit_fails W) p d2
              in (Inr (p, audit), d3))"

definition Run :: "run_world \<Rightarrow> 'w env \<Rightarrow> watch_store \<Rightarrow> 'w \<Rightarrow> string disk \<Rightarrow> (string + 'w env \<times> 'w dstate) \<times> string disk" where
  "Run W base store w d =
     (case run_prepare W d of
        (Inl e, d1) \<Rightarrow> (Inl e, d1)
      | (Inr (p, audit), d1) \<Rightarrow>
          let pidfile = PidFilePath (rn_environ W) (rn_user W);
              pid = ReadPidFile (d_files d1 pidfile);
              env = base\<lparr>e_policy := p, e_audit := audit\<rparr> in
          if 0 < pid \<and> rn_alive W pid then (Inl (''another daemon is running (pid '' @ itoa pid @ '')''), d1)
          else case rn_listen W of
            Some e \<Rightarrow> (Inl e, d1)
          | None \<Rightarrow>
              (case rn_write_pid W of
                 Some e \<Rightarrow> (Inl e, d1)
               | None \<Rightarrow> (Inr (env, start_daemon env store w), put_file pidfile (pid_text (rn_pid W)) d1)))"

section \<open>What a start leaves alone\<close>

lemma open_append_keeps: "d_files d f = Some c \<Longrightarrow> d_files (open_append g d) f = Some c"
  by (auto simp: open_append_def put_file_def)

lemma rotate_keeps: "f \<noteq> path \<Longrightarrow> f \<noteq> path @ ''.1'' \<Longrightarrow> d_files (rotateIfTooLarge F path n d) f = d_files d f"
  by (auto simp: rotateIfTooLarge_def remove_file_def Let_def split: option.split)

lemma pid_path_apart:
  "PidFilePath env user \<noteq> LogFilePath env user" "PidFilePath env user \<noteq> LogFilePath env user @ ''.1''"
  by (simp_all add: PidFilePath_def LogFilePath_def)

lemma prepare_keeps_pid:
  assumes "run_prepare W d = (r, d')" "d_files d (PidFilePath (rn_environ W) (rn_user W)) = Some c"
  shows "d_files d' (PidFilePath (rn_environ W) (rn_user W)) = Some c"
  using assms rotate_keeps [OF pid_path_apart] open_append_keeps
  by (auto simp: run_prepare_def OpenAudit_def Let_def split: option.splits prod.splits if_splits)

text \<open>
  A started daemon keeps others out. When a daemon has started, every later start with the same socket path fails
  while its process lives, whatever the policy and whatever fails, and leaves its pid file as it is; and
  what has started has no session, runs under the policy of its environment and enforces its session cap.
\<close>

theorem started_daemon_excludes:
  assumes "Run W base store w d = (Inr (env, st), d')" "in_int64 (rn_pid W)" "0 < rn_pid W"
    and "rn_environ W' = rn_environ W" "rn_user W' = rn_user W" "rn_alive W' (rn_pid W)"
  shows "m_sessions (d_mgr st) = [] \<and> m_maxSessions (d_mgr st) = max 0 (MaxSessions (e_policy env)) \<and>
    (\<exists>e d''. Run W' base' store' w' d' = (Inl e, d'') \<and>
       ReadPidFile (d_files d'' (PidFilePath (rn_environ W) (rn_user W))) = rn_pid W)"
proof -
  let ?pf = "PidFilePath (rn_environ W) (rn_user W)"
  have st: "st = start_daemon env store w" and pid: "d_files d' ?pf = Some (pid_text (rn_pid W))"
    using assms(1) by (auto simp: Run_def Let_def put_file_def split: prod.splits sum.splits if_splits option.splits)
  have read: "ReadPidFile (Some (pid_text (rn_pid W))) = rn_pid W" by (rule pid_file_round_trip [OF assms(2)])
  obtain r d1 where prep: "run_prepare W' d' = (r, d1)" by (cases "run_prepare W' d'")
  have "d_files d1 ?pf = Some (pid_text (rn_pid W))"
    using prepare_keeps_pid [OF prep] pid assms(4,5) by simp
  then have "\<exists>e d''. Run W' base' store' w' d' = (Inl e, d'') \<and> ReadPidFile (d_files d'' ?pf) = rn_pid W"
    using prep read assms(3-6) by (cases r) (auto simp: Run_def Let_def)
  then show ?thesis
    by (auto simp: st start_daemon_def NewManager_def SetMaxSessions_def)
qed

section \<open>What a refused start changes\<close>

definition demo_start :: run_world where
  "demo_start =
     \<lparr>rn_environ = [(''SL_DBG_SOCKET'', ''/s'')], rn_user = None, rn_cwd = Some ''/'', rn_mkdir = None, rn_faults = no_faults,
      rn_openlog = None, rn_audit_fails = False, rn_alive = (\<lambda>pid. pid = 7), rn_listen = None, rn_write_pid = None, rn_pid = 7\<rparr>"

text \<open>
  A refused start has already rotated the log of the daemon that runs: the full log is under the old name, where the
  running daemon goes on writing, and the log that \<open>logs\<close> shows is empty.
\<close>

theorem refused_start_moves_log:
  assumes "d_files d (LogFilePath (rn_environ W) (rn_user W)) = Some content" "log_limit \<le> length content"
    and "rn_mkdir W = None" "rn_openlog W = None" "rn_faults W = no_faults"
    and "run_prepare W d = (Inr (p, False), d')"
  shows "d_files d' (LogFilePath (rn_environ W) (rn_user W)) = Some [] \<and>
    d_files d' (LogFilePath (rn_environ W) (rn_user W) @ ''.1'') = Some content"
proof -
  let ?log = "LogFilePath (rn_environ W) (rn_user W)"
  have "d' = open_append ?log (rotateIfTooLarge no_faults ?log log_limit d)"
    using assms(3-6) by (auto simp: run_prepare_def OpenAudit_def Let_def split: if_splits)
  then show ?thesis
    using assms(1,2) by (simp add: rotateIfTooLarge_def no_faults_def remove_file_def open_append_def put_file_def)
qed

lemma Run_starts:
  assumes "rn_mkdir W = None" "rn_openlog W = None" "rn_listen W = None" "rn_write_pid W = None"
    and "d_files d (PidFilePath (rn_environ W) (rn_user W)) = Some []"
  shows "\<exists>env st d'. Run W base store w d = (Inr (env, st), d')"
proof -
  obtain r d1 where r: "run_prepare W d = (r, d1)" by (cases "run_prepare W d")
  then have "\<exists>p a. r = Inr (p, a)" using assms(1,2) by (auto simp: run_prepare_def Let_def split: prod.splits)
  then obtain p a where prep: "run_prepare W d = (Inr (p, a), d1)" using r by blast
  have "d_files d1 (PidFilePath (rn_environ W) (rn_user W)) = Some []" by (rule prepare_keeps_pid [OF prep assms(5)])
  then show ?thesis using prep assms(3,4) by (simp add: Run_def Let_def)
qed

theorem started_daemon_excludes_witness:
  "\<exists>d e d''. Run demo_start (demo_env open_policy) [] () (snd (Run demo_start (demo_env open_policy) [] () d)) = (Inl e, d'') \<and>
    ReadPidFile (d_files d'' ''/s.pid'') = 7"
proof -
  let ?d = "\<lparr>d_files = [''/s.pid'' \<mapsto> []], d_dirs = (\<lambda>_. True), d_links = (\<lambda>_. None)\<rparr> :: string disk"
  have fields: "rn_pid demo_start = 7" "rn_alive demo_start 7" "PidFilePath (rn_environ demo_start) (rn_user demo_start) = ''/s.pid''"
    by (simp_all add: demo_start_def PidFilePath_def SocketPath_def getenv_def)
  have "\<exists>env st d'. Run demo_start (demo_env open_policy) [] () ?d = (Inr (env, st), d')"
    by (rule Run_starts) (simp_all add: fields(3), simp_all add: demo_start_def)
  then obtain env st d' where run: "Run demo_start (demo_env open_policy) [] () ?d = (Inr (env, st), d')" by blast
  have "\<exists>e d''. Run demo_start (demo_env open_policy) [] () d' = (Inl e, d'') \<and> ReadPidFile (d_files d'' ''/s.pid'') = 7"
    using started_daemon_excludes [OF run, of demo_start "demo_env open_policy" "[]" "()"] fields by (simp add: in_int64_def)
  then show ?thesis using run by (intro exI [of _ ?d]) simp
qed

end
