(* ===== verification/Adapter_Spawn.thy ===== *)
theory Adapter_Spawn
  imports Waiting Adapter
begin

text \<open>
  Starting the process of an adapter: \<open>startAdapter\<close>, \<open>startAdapterStdio\<close>, \<open>startAdapterTCP\<close> and \<open>pickFreePort\<close> of
  \<open>internal/session/session.go\<close>. What the system answers is the record \<open>spawn_world\<close>; the processes that are
  started and killed are a list. The daemon model takes the result as its parameter \<open>e_spawn\<close>.
\<close>

record spawn_world =
  sp_port :: "string + nat"
  sp_pipes :: "string option"
  sp_start :: "string option"
  sp_rounds :: "nat \<Rightarrow> dial_round"

datatype proc_event = Started "string list" | Killed

text \<open>\<open>strings.ReplaceAll\<close> of a non-empty text.\<close>

function ReplaceAll :: "string \<Rightarrow> string \<Rightarrow> string \<Rightarrow> string" where
  "ReplaceAll old new [] = []"
| "ReplaceAll old new (c # cs) =
     (if old \<noteq> [] \<and> prefix old (c # cs) then new @ ReplaceAll old new (drop (length old) (c # cs))
      else c # ReplaceAll old new cs)"
  by pat_completeness auto
termination
  by (relation "measure (\<lambda>(_, _, s). length s)") auto

definition with_port :: "nat \<Rightarrow> string list \<Rightarrow> string list" where
  "with_port port = map (ReplaceAll ''{PORT}'' (itoa (int port)))"

definition startAdapterStdio :: "spawn_world \<Rightarrow> string list \<Rightarrow> (string + unit) \<times> proc_event list" where
  "startAdapterStdio W argv =
     (case sp_pipes W of
        Some e \<Rightarrow> (Inl e, [])
      | None \<Rightarrow>
          (case sp_start W of
             Some e \<Rightarrow> (Inl (''start adapter '' @ quote (join_with '' '' argv) @ '': '' @ e), [])
           | None \<Rightarrow> (Inr (), [Started argv])))"

text \<open>The adapter gets five seconds to accept connections: whether it did, and the number of attempts.\<close>

function tcp_wait :: "(nat \<Rightarrow> dial_round) \<Rightarrow> int \<Rightarrow> nat \<Rightarrow> int \<Rightarrow> bool \<times> nat" where
  "tcp_wait rounds deadline i clock =
     (if clock < deadline
      then if dr_connects (rounds i) then (True, Suc i)
           else tcp_wait rounds deadline (Suc i) (after_sleep (millis 50) (clock + int (dr_took (rounds i))))
      else (False, i))"
  by pat_completeness auto
termination
  by (relation "measure (\<lambda>(_, deadline, _, clock). nat (deadline - clock))") (auto simp: after_sleep_def millis_def)

declare tcp_wait.simps [simp del]

definition startAdapterTCP :: "spawn_world \<Rightarrow> string list \<Rightarrow> int \<Rightarrow> (string + unit) \<times> proc_event list" where
  "startAdapterTCP W argvTpl clock =
     (case sp_port W of
        Inl e \<Rightarrow> (Inl (''pick free port: '' @ e), [])
      | Inr port \<Rightarrow>
          let argv = with_port port argvTpl in
          case sp_pipes W of
            Some e \<Rightarrow> (Inl e, [])
          | None \<Rightarrow>
              (case sp_start W of
                 Some e \<Rightarrow> (Inl (''start adapter '' @ quote (join_with '' '' argv) @ '': '' @ e), [])
               | None \<Rightarrow>
                   if fst (tcp_wait (sp_rounds W) (clock + millis 5000) 0 clock) then (Inr (), [Started argv])
                   else (Inl (''adapter '' @ hd argv @ '' did not accept TCP on 127.0.0.1:'' @ itoa (int port) @ '' within 5s''),
                         [Started argv, Killed])))"

definition start_adapter_process :: "spawn_world \<Rightarrow> transport \<Rightarrow> string list \<Rightarrow> int \<Rightarrow> (string + unit) \<times> proc_event list" where
  "start_adapter_process W transport argv clock =
     (case transport of TransportStdio \<Rightarrow> startAdapterStdio W argv | TransportTCPListen \<Rightarrow> startAdapterTCP W argv clock)"

section \<open>Properties\<close>

interpretation tcp: polling "\<lambda>i t. snd (tcp_wait rounds deadline i t)" "millis 50" deadline for rounds deadline
proof
  fix i t assume "t < deadline"
  let ?next = "after_sleep (millis 50) (t + int (dr_took (rounds i)))"
  have "t + millis 50 \<le> ?next" by (simp add: after_sleep_def millis_def)
  then show "snd (tcp_wait rounds deadline i t) = Suc i \<or>
      (\<exists>t'. (t + millis 50 \<le> t' \<or> deadline \<le> t') \<and>
        snd (tcp_wait rounds deadline i t) = snd (tcp_wait rounds deadline (Suc i) t'))"
    using \<open>t < deadline\<close> by (auto simp: tcp_wait.simps [of rounds deadline i t])
qed (simp_all add: millis_def tcp_wait.simps)

text \<open>The adapter's port is tried at most a hundred times.\<close>

lemma adapter_dialled_boundedly: "snd (tcp_wait rounds (clock + millis 5000) 0 clock) \<le> 100"
  by (rule tcp.bounded) (simp add: millis_def)

definition running :: "proc_event list \<Rightarrow> bool" where
  "running es \<longleftrightarrow> es \<noteq> [] \<and> last es \<noteq> Killed"

text \<open>
  No process is left behind: an adapter runs after the call exactly when the call succeeds, at most one
  is started, and the command line it is started with names the port that is then dialled.
\<close>

theorem adapter_start_accounted:
  "case start_adapter_process W tr argv clock of (r, es) \<Rightarrow>
     (running es \<longleftrightarrow> r = Inr ()) \<and> length (filter (\<lambda>e. e \<noteq> Killed) es) \<le> 1 \<and>
     (\<forall>a. Started a \<in> set es \<longrightarrow>
        (case (tr, sp_port W) of (TransportTCPListen, Inr port) \<Rightarrow> a = with_port port argv | _ \<Rightarrow> a = argv))"
  by (auto simp: start_adapter_process_def startAdapterStdio_def startAdapterTCP_def running_def Let_def
      split: transport.splits option.splits sum.splits)

lemma ReplaceAll_absent: "\<not> contains s old \<Longrightarrow> ReplaceAll old new s = s"
proof (induction old new s rule: ReplaceAll.induct)
  case (2 old new c cs)
  then show ?case by (auto simp: contains_def split: if_splits)
qed simp

text \<open>The registered adapters that listen get the port in their last argument.\<close>

lemma adapter_port_argument:
  assumes "LaunchAdapter h l = Inr (argv, TransportTCPListen)"
  shows "last (with_port port argv) =
    (if l = LGo then ''--listen=127.0.0.1:'' else ''--port='') @ itoa (int port)"
  using assms
  by (cases l) (auto simp: with_port_def last_map Let_def split: sum.splits option.splits if_splits)

end
