(* ===== verification/Wire_Types.thy ===== *)
theory Wire_Types
  imports Cli_Props Mcp_Props
begin

text \<open>
  The messages between clients and daemon as a typed interface: which struct the handler of a command decodes from
  the arguments, that the handler reads nothing else of them, and that every client sends it.
\<close>

section \<open>What a handler decodes\<close>

fun decode_for :: "cmd \<Rightarrow> raw \<Rightarrow> dargs \<times> string option" where
  "decode_for CmdStart raw = map_prod AStart id (unmarshalArgs start_args_fields start_args_zero raw)"
| "decode_for CmdAttach raw = map_prod AAttach id (unmarshalArgs attach_args_fields attach_args_zero raw)"
| "decode_for CmdUse raw = map_prod AUse id (unmarshalArgs use_args_fields use_args_zero raw)"
| "decode_for CmdBreak raw = map_prod ABreak id (unmarshalArgs break_args_fields break_args_zero raw)"
| "decode_for CmdBreakFn raw = map_prod ABreakFn id (unmarshalArgs break_fn_args_fields break_fn_args_zero raw)"
| "decode_for CmdBreakEx raw = map_prod ABreakEx id (unmarshalArgs break_ex_args_fields break_ex_args_zero raw)"
| "decode_for CmdUnbreak raw = map_prod AUnbreak id (unmarshalArgs unbreak_args_fields unbreak_args_zero raw)"
| "decode_for CmdContinue raw = map_prod AContinue id (unmarshalArgs continue_args_fields continue_args_zero raw)"
| "decode_for CmdStep raw = map_prod AStep id (unmarshalArgs continue_args_fields continue_args_zero raw)"
| "decode_for CmdNext raw = map_prod AStep id (unmarshalArgs continue_args_fields continue_args_zero raw)"
| "decode_for CmdFinish raw = map_prod AStep id (unmarshalArgs continue_args_fields continue_args_zero raw)"
| "decode_for CmdUntil raw = map_prod AUntil id (unmarshalArgs until_args_fields until_args_zero raw)"
| "decode_for CmdStack raw = map_prod AStack id (unmarshalArgs stack_args_fields stack_args_zero raw)"
| "decode_for CmdLocals raw = map_prod ALocals id (unmarshalArgs locals_args_fields locals_args_zero raw)"
| "decode_for CmdGlobals raw = map_prod AGlobals id (unmarshalArgs globals_args_fields globals_args_zero raw)"
| "decode_for CmdFields raw = map_prod AFields id (unmarshalArgs fields_args_fields fields_args_zero raw)"
| "decode_for CmdEval raw = map_prod AEval id (unmarshalArgs eval_args_fields eval_args_zero raw)"
| "decode_for CmdSet raw = map_prod ASet id (unmarshalArgs set_var_args_fields set_var_args_zero raw)"
| "decode_for CmdWatch raw = map_prod AWatch id (unmarshalArgs watch_args_fields watch_args_zero raw)"
| "decode_for CmdSource raw = map_prod ASource id (unmarshalArgs source_args_fields source_args_zero raw)"
| "decode_for CmdOutput raw = map_prod AOutput id (unmarshalArgs output_args_fields output_args_zero raw)"
| "decode_for CmdEvents raw = map_prod AEvents id (unmarshalArgs events_args_fields events_args_zero raw)"
| "decode_for CmdListen raw = map_prod AListen id (unmarshalArgs listen_args_fields listen_args_zero raw)"
| "decode_for CmdPrint raw = map_prod APrint id (unmarshalArgs print_args_fields print_args_zero raw)"
| "decode_for _ raw = (NoArgs, None)"

text \<open>A handler sees the arguments only through the struct it decodes.\<close>

lemma map_prod_same: "inj f \<Longrightarrow> map_prod f id x = map_prod f id y \<longleftrightarrow> x = y"
  by (cases x; cases y) (auto dest: injD)

lemma session_updated: "with_session env (req\<lparr>rq_Args := raw\<rparr>) k = with_session env req k"
  by (simp add: with_session_def cong: sum.case_cong)

lemma struct_inj: "inj AStart" "inj AAttach" "inj AUse" "inj ABreak" "inj ABreakFn" "inj ABreakEx" "inj AUnbreak"
  "inj AContinue" "inj AStep" "inj AUntil" "inj AStack" "inj ALocals" "inj AGlobals" "inj AFields" "inj AEval" "inj ASet"
  "inj AWatch" "inj ASource" "inj AOutput" "inj AEvents" "inj AListen" "inj APrint"
  by (simp_all add: inj_def)

lemmas handler_defs =
  handleStart_def handleAttach_def handleUse_def handleBreak_def handleBreakFn_def handleBreakEx_def handleUnbreak_def
  handleExec_def handleUntil_def handleStack_def handleLocals_def handleGlobals_def handleFields_def handleEval_def
  handleSet_def handleWatch_def handleSource_def handleOutput_def handleEvents_def handleListen_def handlePrint_def
  handleAdapters_def handleSessions_def handleStop_def handleState_def handleBreaks_def handlePause_def handleThreads_def
  handleSnapshot_def handleRestart_def

lemma handler_reads_struct:
  assumes "decode_for c raw = decode_for c (rq_Args req)"
  shows "run_cmd env c (req\<lparr>rq_Args := raw\<rparr>) = run_cmd env c req"
  using assms
  by (cases c)
    (simp_all add: handler_defs session_updated map_prod_same struct_inj with_args_def lax_args_def
      cong: prod.case_cong option.case_cong if_cong)

section \<open>What clients send\<close>

text \<open>The struct of marshalled arguments as the handler should see it; a restart has none.\<close>

fun seen_as :: "dargs \<Rightarrow> dargs" where
  "seen_as ARestart = NoArgs"
| "seen_as a = a"

text \<open>Constructors of arguments that carry the struct of the command.\<close>

definition struct_ok :: "string \<Rightarrow> dargs \<Rightarrow> bool" where
  "struct_ok cmd a \<longleftrightarrow>
     (case map_of commands cmd of
        None \<Rightarrow> False
      | Some c \<Rightarrow> go_ints a \<longrightarrow> decode_for c (rawJSON a) = (seen_as a, None))"

lemma decoded_back:
  "go_ints a \<Longrightarrow> read_back a = Some (a, None) \<or> a = NoArgs \<or> a = ARestart"
  by (cases a) (simp_all add: rawJSON_def codec_wires)

lemma map_prod_decoded: "map_prod f id x = (f a, None) \<Longrightarrow> inj f \<Longrightarrow> x = (a, None)"
  by (cases x) (auto dest: injD)

lemma struct_ok_names [simp]:
  "struct_ok ''start'' (AStart a1)" "struct_ok ''attach'' (AAttach a2)" "struct_ok ''use'' (AUse a3)"
  "struct_ok ''break'' (ABreak a4)" "struct_ok ''break-fn'' (ABreakFn a5)" "struct_ok ''break-ex'' (ABreakEx a6)"
  "struct_ok ''unbreak'' (AUnbreak a7)" "struct_ok ''continue'' (AContinue a8)" "struct_ok ''step'' (AStep a9)"
  "struct_ok ''next'' (AStep a9)" "struct_ok ''finish'' (AStep a9)" "struct_ok ''until'' (AUntil a10)"
  "struct_ok ''stack'' (AStack a11)" "struct_ok ''locals'' (ALocals a12)" "struct_ok ''globals'' (AGlobals a13)"
  "struct_ok ''fields'' (AFields a14)" "struct_ok ''eval'' (AEval a15)" "struct_ok ''set'' (ASet a16)"
  "struct_ok ''watch'' (AWatch a17)" "struct_ok ''source'' (ASource a18)" "struct_ok ''output'' (AOutput a19)"
  "struct_ok ''events'' (AEvents a20)" "struct_ok ''listen'' (AListen a21)" "struct_ok ''print'' (APrint a22)"
  "struct_ok ''restart'' ARestart" "struct_ok ''listen'' (AListen a21)" "struct_ok ''sessions'' NoArgs"
  "struct_ok ''stop'' NoArgs" "struct_ok ''state'' NoArgs" "struct_ok ''breaks'' NoArgs" "struct_ok ''pause'' NoArgs"
  "struct_ok ''threads'' NoArgs" "struct_ok ''snapshot'' NoArgs" "struct_ok ''adapters'' NoArgs"
  by (simp_all add: struct_ok_def commands_def rawJSON_def codec_wires)

definition typed :: "sending \<Rightarrow> bool" where
  "typed r \<longleftrightarrow> (case r of Inl e \<Rightarrow> True | Inr (cmd, sid, a) \<Rightarrow> struct_ok cmd a)"

lemma typed_simps [simp]:
  "typed (Inl e)" "typed (Inr (cmd, sid, a)) \<longleftrightarrow> struct_ok cmd a"
  "typed (if b then r else r') \<longleftrightarrow> (if b then typed r else typed r')"
  "typed (Let v k) \<longleftrightarrow> typed (k v)"
  by (simp_all add: typed_def)

lemma typed_with_timeout [simp]: "(\<And>d. typed (k d)) \<Longrightarrow> typed (with_timeout t k)"
  by (cases t) (simp_all add: with_timeout_def)

lemma typed_case [simp]: "(\<And>d. typed (k d)) \<Longrightarrow> typed (case t of Inl e \<Rightarrow> Inl e | Inr d \<Rightarrow> k d)"
  by (cases t) simp_all

lemma run_cli_typed: "typed (run_cli g i)"
  by (cases i) (simp_all add: cli_defs)

lemma typed_tool [simp]:
  "(\<And>x. struct_ok cmd (con x)) \<Longrightarrow> typed (strict_tool cmd fs z con raw)"
  "(\<And>x. struct_ok cmd (con x)) \<Longrightarrow> typed (decode_tool cmd fs z con raw)"
  "(\<And>x. struct_ok cmd (con x)) \<Longrightarrow> typed (lax_tool cmd fs z con raw)"
  "struct_ok cmd a \<Longrightarrow> typed (bare_tool cmd a raw)"
  "typed (translate_start raw)" "typed (translate_attach raw)"
  by (auto simp: strict_tool_def decode_tool_def lax_tool_def bare_tool_def translate_start_def translate_attach_def
      split: prod.split option.split)

definition tool_typed :: "tool \<Rightarrow> bool" where
  "tool_typed t \<longleftrightarrow> (case t_action t of Translate tr \<Rightarrow> (\<forall>raw. typed (tr raw)) | Handler h \<Rightarrow> True)"

lemma tools_typed: "list_all tool_typed toolRegistry"
  by (simp add: toolRegistry_def tool_typed_def tool_defs mk_tool_def)

lemma sent_typed:
  assumes "run_cli g i = Inr (cmd, sid, a) \<or>
    (\<exists>t tr raw. t \<in> set toolRegistry \<and> t_action t = Translate tr \<and> tr raw = Inr (cmd, sid, a))"
  shows "struct_ok cmd a"
  using assms
proof
  assume "run_cli g i = Inr (cmd, sid, a)"
  then show ?thesis using run_cli_typed [of g i] by simp
next
  assume "\<exists>t tr raw. t \<in> set toolRegistry \<and> t_action t = Translate tr \<and> tr raw = Inr (cmd, sid, a)"
  then obtain t tr raw where t: "t \<in> set toolRegistry" "t_action t = Translate tr" "tr raw = Inr (cmd, sid, a)" by blast
  have "tool_typed t" using tools_typed t(1) by (simp add: list_all_iff)
  then have "typed (tr raw)" using t(2) by (simp add: tool_typed_def)
  then show ?thesis using t(3) by simp
qed



end
