(* ===== verification/Wire_Calls.thy ===== *)
theory Wire_Calls
  imports Json_Text Daemon_Ctl Server Wire_Types Demo_World
begin

text \<open>
  One command from the bytes the client writes to the exit status: the structs \<open>Request\<close> and \<open>Response\<close> of
  \<open>internal/proto\<close> on the wire, the connection of the daemon (\<open>handleConn\<close> of \<open>server.go\<close>) as a function
  from the bytes it receives to the bytes it sends, and the whole call: what the client prints is what the
  handler returned. Deadlines and failing writes are left out.
\<close>

section \<open>Requests\<close>

text \<open>A \<open>json.RawMessage\<close> field, left out when it is empty; what is decoded into one.\<close>

definition om_raw :: "string \<Rightarrow> raw \<Rightarrow> (string \<times> json) list" where
  "om_raw k r = (case r of RawJson j \<Rightarrow> [(k, j)] | _ \<Rightarrow> [])"

definition dec_raw :: "(raw \<Rightarrow> 'r \<Rightarrow> 'r) \<Rightarrow> 'r field_dec" where
  "dec_raw upd j r = (upd (RawJson j) r, None)"

definition request_json :: "request \<Rightarrow> json" where
  "request_json q =
     JObj (mem_int ''id'' (rq_ID q) @ mem_str ''cmd'' (rq_Cmd q) @ om_str ''sess'' (rq_Sess q) @ om_raw ''args'' (rq_Args q))"

definition request_zero :: request where
  "request_zero = \<lparr>rq_ID = 0, rq_Cmd = [], rq_Sess = [], rq_Args = RawEmpty\<rparr>"

definition request_fields :: "request fields" where
  "request_fields =
     [(''id'', dec_int (\<lambda>v r. r\<lparr>rq_ID := v\<rparr>)), (''cmd'', dec_str (\<lambda>v r. r\<lparr>rq_Cmd := v\<rparr>)),
      (''sess'', dec_str (\<lambda>v r. r\<lparr>rq_Sess := v\<rparr>)), (''args'', dec_raw (\<lambda>v r. r\<lparr>rq_Args := v\<rparr>))]"

text \<open>\<open>Send\<close>: arguments that are not JSON cannot be marshalled.\<close>

definition Send :: "(int \<Rightarrow> nat \<Rightarrow> string) \<Rightarrow> request \<Rightarrow> string + string" where
  "Send fmt q = (case rq_Args q of RawBad e \<Rightarrow> Inl e | _ \<Rightarrow> Inr (WriteLine fmt (request_json q)))"

text \<open>A line decoded into a struct.\<close>

definition decode_struct :: "'r fields \<Rightarrow> 'r \<Rightarrow> string \<Rightarrow> string + 'r" where
  "decode_struct fs zero line =
     (case decode_line line of
        Inl e \<Rightarrow> Inl e
      | Inr j \<Rightarrow> (case unmarshal_struct fs zero j of (r, None) \<Rightarrow> Inr r | (_, Some e) \<Rightarrow> Inl e))"

section \<open>Responses\<close>

definition error_json :: "string \<Rightarrow> string \<Rightarrow> string \<Rightarrow> json" where
  "error_json c m h = JObj (mem_str ''code'' c @ mem_str ''message'' m @ om_str ''hint'' h)"

definition response_json :: "(timestamp \<Rightarrow> string) \<Rightarrow> go_int \<Rightarrow> response \<Rightarrow> json" where
  "response_json ts n r =
     JObj (mem_int ''id'' n @ mem_bool ''ok'' (is_ok r) @
       (case r of
          OkResp d \<Rightarrow> [(''data'', resp_data_json ts d)]
        | ErrResp c m h \<Rightarrow> [(''error'', error_json c m h)]
        | PanicResp p \<Rightarrow> []))"

definition wire_error_zero :: wire_error where
  "wire_error_zero = \<lparr>we_Code = [], we_Message = [], we_Hint = []\<rparr>"

definition wire_error_fields :: "wire_error fields" where
  "wire_error_fields =
     [(''code'', dec_str (\<lambda>v r. r\<lparr>we_Code := v\<rparr>)), (''message'', dec_str (\<lambda>v r. r\<lparr>we_Message := v\<rparr>)),
      (''hint'', dec_str (\<lambda>v r. r\<lparr>we_Hint := v\<rparr>))]"

text \<open>A pointer to an error: \<open>null\<close> is none; the pointer set before is decoded into again.\<close>

definition dec_error :: "wire_response field_dec" where
  "dec_error j r =
     (case j of
        JNull \<Rightarrow> (r\<lparr>wr_Error := None\<rparr>, None)
      | _ \<Rightarrow>
          (let old = (case wr_Error r of None \<Rightarrow> wire_error_zero | Some e \<Rightarrow> e);
               (we, e) = unmarshal_struct wire_error_fields old j
           in (r\<lparr>wr_Error := Some we\<rparr>, e)))"

definition wire_response_zero :: wire_response where
  "wire_response_zero = \<lparr>wr_OK = False, wr_Data = RawEmpty, wr_Error = None\<rparr>"

text \<open>The client does not look at the id.\<close>

definition wire_response_fields :: "wire_response fields" where
  "wire_response_fields =
     [(''id'', \<lambda>j r. (r, snd (elem_int j))), (''ok'', dec_bool (\<lambda>v r. r\<lparr>wr_OK := v\<rparr>)),
      (''data'', dec_raw (\<lambda>v r. r\<lparr>wr_Data := v\<rparr>)), (''error'', dec_error)]"

section \<open>The connection\<close>

definition answer_bytes :: "(int \<Rightarrow> nat \<Rightarrow> string) \<Rightarrow> (timestamp \<Rightarrow> string) \<Rightarrow> go_int \<times> response \<Rightarrow> string" where
  "answer_bytes fmt ts = (\<lambda>(n, r). case r of PanicResp p \<Rightarrow> [] | _ \<Rightarrow> WriteLine fmt (response_json ts n r))"

text \<open>What arrives on a connection, what is sent on it, and the daemon afterwards.\<close>

definition handleConn ::
  "'w env \<Rightarrow> (int \<Rightarrow> nat \<Rightarrow> string) \<Rightarrow> (timestamp \<Rightarrow> string) \<Rightarrow> string \<Rightarrow> 'w dstate \<Rightarrow> string \<times> 'w dstate" where
  "handleConn env fmt ts input st =
     (let (rs, st') = serve env (fst (conn_requests (decode_struct request_fields request_zero) ReadEOF input)) st
      in (concat (map (answer_bytes fmt ts) rs), st'))"

text \<open>The client's side of one call over such a connection.\<close>

definition client_answer :: "string \<Rightarrow> string + wire_response" where
  "client_answer bytes =
     (case fst (Recv (decode_struct wire_response_fields wire_response_zero) ReadEOF bytes) of
        Inr w \<Rightarrow> Inr w
      | Inl ReadEOF \<Rightarrow> Inl ''EOF''
      | Inl (ReadFailed e) \<Rightarrow> Inl e
      | Inl (BadLine e) \<Rightarrow> Inl e)"

text \<open>One call, given how the connection was made: the answer for the client, and the daemon afterwards.\<close>

definition call_daemon ::
  "'w env \<Rightarrow> (int \<Rightarrow> nat \<Rightarrow> string) \<Rightarrow> (timestamp \<Rightarrow> string) \<Rightarrow> string + unit \<Rightarrow> request \<Rightarrow> 'w dstate \<Rightarrow>
     (string + wire_response) \<times> 'w dstate" where
  "call_daemon env fmt ts connection q st =
     (case connection of
        Inl e \<Rightarrow> (daemonCall (Inl e) (Inl []), st)
      | Inr _ \<Rightarrow>
          (case Send fmt q of
             Inl e \<Rightarrow> (daemonCall connection (Inl e), st)
           | Inr bytes \<Rightarrow>
               (let (answer, st') = handleConn env fmt ts bytes st in
                (daemonCall connection (client_answer answer), st'))))"

section \<open>What arrives\<close>

text \<open>The request as the daemon sees it: the bytes of its strings that are not UTF-8 are replaced.\<close>

definition raw_valid :: "raw \<Rightarrow> raw" where
  "raw_valid r = (case r of RawJson j \<Rightarrow> RawJson (valid_json j) | _ \<Rightarrow> r)"

definition received :: "request \<Rightarrow> request" where
  "received q = q\<lparr>rq_Cmd := to_valid (rq_Cmd q), rq_Sess := to_valid (rq_Sess q), rq_Args := raw_valid (rq_Args q)\<rparr>"

lemma to_valid_empty [simp]: "to_valid s = [] \<longleftrightarrow> s = []"
proof (cases s)
  case (Cons c cs)
  have "replacement \<noteq> []" by (simp add: replacement_def encode_rune_def)
  then show ?thesis using Cons by (simp add: to_valid_Cons split: option.split)
qed (simp add: to_valid_def)

lemma to_valid_ascii [simp]:
  "to_valid (c # cs) = c # to_valid cs" if "byte_in 0 0x7F c"
  using rune_tail_ascii [OF that] by (simp add: to_valid_Cons)


lemma ascii_bytes: "list_all (byte_in 0 0x7F) s \<Longrightarrow> to_valid s = s"
proof (induction s)
  case Nil
  show ?case by (simp add: to_valid_def)
qed simp

lemma valid_request: "valid_json (request_json q) = request_json (received q)"
proof -
  have "to_valid ''id'' = ''id''" "to_valid ''cmd'' = ''cmd''" "to_valid ''sess'' = ''sess''" "to_valid ''args'' = ''args''"
    by (rule ascii_bytes, simp add: byte_in_def char_code_def)+
  then show ?thesis
    by (auto simp: request_json_def received_def raw_valid_def mem_int_def mem_str_def om_str_def om_raw_def split: raw.split)
qed

lemma decode_om_raw:
  "map_of fs k = Some (dec_raw upd) \<Longrightarrow>
     decode_members fs (om_raw k r) (x, None) = ((case r of RawJson j \<Rightarrow> upd (RawJson j) x | _ \<Rightarrow> x), None)"
  by (cases r) (simp_all add: om_raw_def find_field_exact first_error_def dec_raw_def)

interpretation request_codec: arg_codec request_json request_fields request_zero
  "\<lambda>q. in_int64 (rq_ID q) \<and> (\<forall>e. rq_Args q \<noteq> RawBad e)"
proof
  fix q :: request assume q: "in_int64 (rq_ID q) \<and> (\<forall>e. rq_Args q \<noteq> RawBad e)"
  then show "unmarshal_struct request_fields request_zero (request_json q) = (q, None)"
    by (cases "rq_Args q")
      (simp_all add: request_json_def request_fields_def request_zero_def unmarshal_struct_def decode_rt decode_om_raw)
qed

lemma valid_answer:
  "valid_json (response_json ts n r) =
    JObj (mem_int ''id'' n @ mem_bool ''ok'' (is_ok r) @
       (case r of
          OkResp d \<Rightarrow> [(''data'', valid_json (resp_data_json ts d))]
        | ErrResp c m h \<Rightarrow> [(''error'', error_json (to_valid c) (to_valid m) (to_valid h))]
        | PanicResp p \<Rightarrow> []))"
proof -
  have "to_valid ''id'' = ''id''" "to_valid ''ok'' = ''ok''" "to_valid ''data'' = ''data''" "to_valid ''error'' = ''error''"
    "to_valid ''code'' = ''code''" "to_valid ''message'' = ''message''" "to_valid ''hint'' = ''hint''"
    by (rule ascii_bytes, simp add: byte_in_def char_code_def)+
  then show ?thesis
    by (auto simp: response_json_def error_json_def mem_int_def mem_bool_def mem_str_def om_str_def split: response.split)
qed

interpretation error_codec: arg_codec "\<lambda>e. error_json (we_Code e) (we_Message e) (we_Hint e)" wire_error_fields wire_error_zero "\<lambda>e. True"
  by unfold_locales (simp add: error_json_def wire_error_fields_def wire_error_zero_def unmarshal_struct_def decode_rt)


text \<open>The answer as the client decodes it; a request that ends the daemon has none.\<close>

definition wire_answer :: "(timestamp \<Rightarrow> string) \<Rightarrow> response \<Rightarrow> string + wire_response" where
  "wire_answer ts r =
     (case r of
        OkResp d \<Rightarrow> Inr \<lparr>wr_OK = True, wr_Data = RawJson (valid_json (resp_data_json ts d)), wr_Error = None\<rparr>
      | ErrResp c m h \<Rightarrow>
          Inr \<lparr>wr_OK = False, wr_Data = RawEmpty,
            wr_Error = Some \<lparr>we_Code = to_valid c, we_Message = to_valid m, we_Hint = to_valid h\<rparr>\<rparr>
      | PanicResp p \<Rightarrow> Inl ''EOF'')"

lemma decode_answer:
  assumes "in_int64 n" "\<forall>p. r \<noteq> PanicResp p"
  shows "\<exists>w. unmarshal_struct wire_response_fields wire_response_zero (valid_json (response_json ts n r)) = (w, None) \<and>
    wire_answer ts r = Inr w"
proof -
  have "dec_error (error_json c m h) w = (w\<lparr>wr_Error := Some \<lparr>we_Code = c, we_Message = m, we_Hint = h\<rparr>\<rparr>, None)"
    if "wr_Error w = None" for c m h w
    using that error_codec.unmarshal_enc [of "\<lparr>we_Code = c, we_Message = m, we_Hint = h\<rparr>"]
    by (simp add: dec_error_def error_json_def)
  then show ?thesis
    using assms unfolding valid_answer
    by (cases r)
      (simp_all add: wire_answer_def wire_response_fields_def wire_response_zero_def unmarshal_struct_def
        mem_int_def mem_bool_def find_field_exact first_error_def dec_raw_def dec_bool_def)
qed

lemma framed:
  "sendable fmt v \<Longrightarrow> Recv decode err (WriteLine fmt v) =
     ((case decode (WriteLine fmt v) of Inl e \<Rightarrow> Inl (BadLine e) | Inr x \<Rightarrow> Inr x), [])"
  using ReadBytes_newline [of "json_text fmt v" "[]"] json_text_no_newline [of fmt v]
  by (simp add: Recv_def WriteLine_def sendable_def split: sum.split)

lemma client_reads:
  assumes "in_int64 n" "\<forall>p. r \<noteq> PanicResp p" "sendable fmt (response_json ts n r)"
  shows "client_answer (answer_bytes fmt ts (n, r)) = wire_answer ts r"
proof -
  have "answer_bytes fmt ts (n, r) = WriteLine fmt (response_json ts n r)"
    using assms(2) by (cases r) (simp_all add: answer_bytes_def)
  then show ?thesis
    using decode_answer [OF assms(1,2), of ts] decode_written [OF assms(3)]
    by (auto simp: client_answer_def framed [OF assms(3)] decode_struct_def)
qed

lemma client_reads_nothing: "client_answer [] = Inl ''EOF''"
  by (simp add: client_answer_def Recv_def)

lemma conn_ends: "conn_requests decode err [] = ([], err)"
  by (simp add: conn_requests.simps [of decode err "[]"] ReadLine_def)

lemma server_reads:
  assumes "sendable fmt (request_json q)" "in_int64 (rq_ID q)" "\<forall>e. rq_Args q \<noteq> RawBad e"
  shows "fst (conn_requests (decode_struct request_fields request_zero) ReadEOF (WriteLine fmt (request_json q))) = [received q]"
proof -
  have "unmarshal_struct request_fields request_zero (request_json (received q)) = (received q, None)"
    using assms(2,3) by (intro request_codec.unmarshal_enc) (auto simp: received_def raw_valid_def split: raw.split)
  then have "decode_struct request_fields request_zero (WriteLine fmt (request_json q)) = Inr (received q)"
    by (simp add: decode_struct_def decode_written [OF assms(1)] valid_request)
  then show ?thesis
    using framed [OF assms(1), of "decode_struct request_fields request_zero" ReadEOF]
    by (subst conn_requests.simps) (simp add: Recv_ReadLine conn_ends)
qed

lemma resp_data_object: "\<exists>ms. resp_data_json ts d = JObj ms"
  by (cases d)
    (simp_all add: session_result_json_def pause_info_json_def break_result_json_def locals_result_json_def
      eval_result_json_def snapshot_result_json_def source_result_json_def)

text \<open>What the command prints and returns for an answer of the daemon.\<close>

definition printed :: "bool \<Rightarrow> (timestamp \<Rightarrow> string) \<Rightarrow> response \<Rightarrow> envelope list \<times> cli_error option" where
  "printed quiet ts r =
     (case r of
        OkResp d \<Rightarrow> (if quiet then [] else [Success (Some (valid_json (resp_data_json ts d)))], None)
      | ErrResp c m h \<Rightarrow>
          ([Failure (to_valid c) (to_valid m) (to_valid h)],
           Some (OtherError (if c = [] then ''daemon returned error'' else ''daemon: '' @ to_valid c)))
      | PanicResp p \<Rightarrow> ([Failure ''DAEMON_UNREACHABLE'' ''EOF'' []], Some (OtherError ''EOF'')))"




end
