(* ===== verification/Spec2Isabelle.thy ===== *)
theory Spec2Isabelle
  imports Component_Props Exec_Props Session_Refines Dap_Client Mcp_Props Mcp_Safe Redact Cli_Props Cli_Shell Conn_Steps Toml_Round Install_Props Install_Adapter Daemon_Run Adapter_Spawn Wire_Types Wire_Calls
begin

text \<open>
  Verification of sl-dbg, a debugger that is driven by single commands: an AI agent or a person calls \<open>sl-dbg\<close> or
  the tools of its MCP server, a daemon keeps the debug sessions between the calls, and each session talks the
  Debug Adapter Protocol (DAP) to the adapter of its language (debugpy, Delve, a Java adapter).

  The program's parts.
  \<^item> A client is the command line (\<open>internal/cli\<close>) or the MCP server (\<open>internal/mcp\<close>, started by \<open>sl-dbg mcp\<close>). It turns an
    invocation or a tool call into a request of \<open>internal/proto\<close>, sends it as a line of JSON over a Unix socket
    (\<open>internal/ipc\<close>), starting the daemon if there is none, and prints or returns the answer.
  \<^item> The daemon (\<open>internal/daemon\<close>) decodes the request, checks it against its policy and lets a handler run it.
  \<^item> A handler works on a session of the manager (\<open>internal/session\<close>) and calls its DAP client (\<open>internal/dap\<close>);
    events of the adapter change the session beside the handlers and wake those that wait.
  \<^item> \<open>internal/adapter\<close> finds the adapters and builds their launch arguments; \<open>install-adapter\<close> and \<open>mcp install\<close> change
    files on the user's disk.

  How a definition corresponds to the code. It has the name of the Go function it translates, or, for a part of
  a function, a name of its own; PROJECT.json gives the lines. Structs are records with a two-letter prefix, Go's \<open>int\<close>
  is \<open>go_int\<close> with its wrap-around written out (\<open>wrap64\<close>), strings are byte strings, and the iteration over a Go map
  is \<open>go_range\<close> with an order that is a parameter and changes at every use. An error is a value of a sum or an
  option; a run-time panic is \<open>Crash\<close> or \<open>PanicResp\<close>, so that it can be excluded, or shown to occur. What the program
  calls and does not contain (adapters, the file system, the clock, processes, the network, SHA-256, zip) is a
  parameter: a field of \<open>env\<close>, \<open>host\<close>, \<open>installer\<close> or \<open>os_faults\<close>, or an argument. Numbers with a fraction are exact
  decimals; letters are folded and spaces recognised in ASCII only.
\<close>

section \<open>The theories\<close>

text \<open>
  Foundations.
  \<^item> \<open>Prelude\<close>: wrap-around, map iteration, slices, and \<open>io_relation\<close>, the locale of relations between states that the
    state monad's operators keep.
  \<^item> \<open>Waiting\<close>: loops that poll until a deadline; its locale \<open>polling\<close> is interpreted for the three loops of the program.
  \<^item> \<open>Go_Strings\<close>, \<open>Go_Path\<close>, \<open>Go_Text\<close>: the functions of \<open>strings\<close>, \<open>strconv\<close>, \<open>path/filepath\<close> and the text side of
    \<open>encoding/json\<close> that the program uses, with the lemmas on them that the components share. \<open>path_guard\<close> in \<open>Go_Path\<close> is
    the contract of every check that a path lies under a root, interpreted for the daemon's two guards and the MCP server's.
  \<^item> \<open>Json\<close>, \<open>Proto\<close>, \<open>Proto_Encode\<close>: JSON values, the structs of \<open>internal/proto\<close> with their decoding and encoding; the locale
    \<open>arg_codec\<close> is the round trip of one argument struct, interpreted for all of them.

  The daemon.
  \<^item> \<open>Policy\<close>: \<open>policy.go\<close>. \<open>Redact\<close>: \<open>redact.go\<close>. \<open>Adapter\<close>: \<open>internal/adapter\<close>. \<open>Dap_Types\<close>: the part of DAP that is used.
  \<^item> \<open>Session\<close>: the state of a session and its critical sections; \<open>Session_Props\<close> its invariant (with the locale
    \<open>bounded_log\<close> for the two logs); \<open>Session_Steps\<close> the same sections as a step relation in any order;
    \<open>Session_Refines\<close> the handlers as runs of these steps.
  \<^item> \<open>Manager\<close>: the table of sessions and the watch files; \<open>Conn_Steps\<close>: requests of several connections at once, as a step
    relation over the critical sections of the manager and the inspection locks. \<open>Launch\<close>: creating and closing sessions. \<open>Adapter_Spawn\<close>: the
    start of an adapter's process.
  \<^item> \<open>Daemon_State\<close>: the state monad of the handlers. Between any two actions of a handler a tick lets the world
    deliver events, so a statement about a handler holds for every behaviour of the goroutines beside it.
    \<open>Handlers_Base\<close>, \<open>Handlers_Break\<close>, \<open>Handlers_Exec\<close>, \<open>Handlers_Inspect\<close>, \<open>Handlers_Source\<close>: the 35 handlers. \<open>Server\<close>: their table.
  \<^item> \<open>Daemon_Rel\<close>, \<open>Handler_Rel\<close>: the locales of relations that handlers keep, in the order of what a handler may do
    (look, run, close, change the table). One proof per handler serves all the properties below.
  \<^item> \<open>Dap_Client\<close>: the concurrent client of \<open>client.go\<close> (sequence numbers, pending calls, subscribers, read loop, close)
    as a step relation with its invariants.
  \<^item> \<open>Daemon_Life\<close>: several daemon processes that start, share socket and pid file, and die, as a step relation;
    \<open>Daemon_Run\<close>: one start, as a function on the disk.

  The clients.
  \<^item> \<open>Cli\<close>: what every command sends; \<open>Cli_Shell\<close>: the shell, the timeout flag, global flags, what is written, \<open>main\<close>;
    \<open>Wire_Types\<close>: which struct each handler reads. \<open>Ipc\<close>: lines on the socket, paths,
    the pid file; \<open>Json_Text\<close>: the parsing of JSON text. \<open>Daemon_Ctl\<close>: starting and stopping the daemon, the log, what a
    command prints. \<open>Wire_Calls\<close>: a whole call, from the client's bytes through a connection of the daemon and back.
  \<^item> \<open>Mcp_Tools\<close>, \<open>Mcp_Server\<close>: the registry of tools, the schema check, JSON-RPC, composite tools. \<open>Mcp_Safe\<close>: safe mode.
  \<^item> \<open>Mcp_Toml\<close>, \<open>Config_Write\<close>, \<open>Mcp_Install\<close>: registration with other programs. \<open>Install_Adapter\<close>: installation of adapters.
\<close>

section \<open>What is shown\<close>

text \<open>
  \<^item> The daemon (\<open>Daemon_Inv\<close>, \<open>Daemon_Safety\<close>, \<open>Daemon_Props\<close>, on the world of \<open>Demo_World\<close> for the examples): an invariant over arbitrary
    requests; what a read-only session and a denied evaluation keep from the adapter; the session cap; inspection.
  \<^item> Refinement (\<open>Session_Refines\<close>): what a request does to a session is a run of session steps, so what holds of every
    reachable session holds of every stored one.
  \<^item> Concurrency (\<open>Conn_Steps\<close>): what stays true of the table, the cap, the adapters and the inspections under every interleaving,
    and the three races that remain.
  \<^item> Waiting (\<open>Session_Steps\<close>, \<open>Exec_Props\<close>): a resume command gets the first stop after its request, however early it comes.
  \<^item> Single requests (\<open>Handler_Props\<close>, \<open>Component_Props\<close>): answers and crashes, the path jail, bounds, round trips.
  \<^item> The DAP client: a response goes to the call it answers; close releases all calls; when it can panic.
  \<^item> The MCP server (\<open>Mcp_Props\<close>, \<open>Mcp_Safe\<close>): what a read-only server can make the daemon send, for any daemon and composed
    with the modelled one; that safe mode reaches the daemon it starts.
  \<^item> Messages (\<open>Wire_Types\<close>, \<open>Json_Text\<close>, \<open>Wire_Calls\<close>, \<open>Mcp_Props\<close>): they are well typed, they survive the wire and its framing, and a
    call over the socket is a call of the handler.
  \<^item> Processes (\<open>Daemon_Life\<close>, \<open>Daemon_Ctl\<close>): a settled daemon stays the only one; stopping is truthful; waiting ends.
  \<^item> Files (\<open>Toml_Props\<close>, \<open>Toml_Round\<close>, \<open>Config_Write\<close>, \<open>Install_Props\<close>, \<open>Install_Adapter\<close>): edits refine the update of a map or undo each
    other, and at every moment, whatever fails, a file holds its old content or the complete new one.

  Bounds and recursion. Loops over data are structural or have a termination proof. Fuel is the code's own
  for the redirects of an HTTP client (ten requests), and in the parser of JSON text (\<open>json_value\<close>), where the length of
  the text is enough: the round trip says so for all text that is written. The loops that wait have a measure, the time left before their
  deadline, because every round sleeps. Handlers that wait for an event ask the world once, with the code's timeout.
\<close>

section \<open>Not modelled\<close>

text \<open>
  \<^item> Requests of different connections are served one after the other, each with ticks of the world in between; two
    handlers at once are covered for the state they share, by \<open>Conn_Steps\<close>, \<open>Session_Steps\<close> and \<open>Dap_Client\<close>, not by \<open>Server\<close>.
  \<^item> DAP messages are values, their framing is that of the library go-dap. The handlers take the result of starting an
    adapter's process as the parameter \<open>e_spawn\<close>; \<open>Adapter_Spawn\<close> stands beside them.
  \<^item> JSON text is printed and parsed on the socket; elsewhere a JSON document is a value. How a number with a
    fraction is printed is a parameter. Cobra's parsing of flags and choice of a command, help texts,
    pretty printing, progress messages on standard error, the pprof listener and time stamps are left out.
  \<^item> The Java launcher (\<open>adapters/java-launcher\<close>) is a small program in another language; scripts and tests are not part of
    the running program.
\<close>

end
